(* ===== verification/Prelude.thy ===== *)
theory Prelude
  imports
    Main
    "HOL-Library.Word"
    "HOL-Library.AList"
    "HOL-Library.Char_ord"
    "HOL-Library.List_Lexorder"
begin

text \<open>
  The shared vocabulary of the development: the types that name the values of the
  C++ code, the operations of the Qt containers and byte arrays that the code calls
  (\<open>QByteArray::split\<close>, \<open>mid\<close>, \<open>indexOf\<close>, \<open>trimmed\<close>, \<open>toInt\<close>, \<open>QMap\<close>, \<open>QHash\<close>), the
  faults a C++ statement can end in, and the generic lemmas the components share.

  A \<open>QByteArray\<close> is a list of bytes, Isabelle's \<open>string\<close>. A \<open>QString\<close> is represented by
  its UTF-8 bytes; every place where the code decodes bytes (\<open>QString::fromUtf8\<close>) applies
  a parameter that stands for Qt's decoder, which is the identity on valid UTF-8.
  A \<open>QHash\<close> is an association list whose order is the (unspecified) iteration order of
  the hash, a \<open>QMap\<close> an association list kept sorted by key.
\<close>

section \<open>Types and collections of facts\<close>

named_theorems world_simps \<open>reading a field of the state after an update\<close>
named_theorems frame_simps \<open>what an operation leaves unchanged\<close>
named_theorems inv_intros \<open>operations that keep an invariant\<close>

type_synonym bytes = string
type_synonym quuid = "128 word"
type_synonym acc_id = nat
type_synonym chan_id = nat
type_synonym conn_id = nat

abbreviation null_uuid :: quuid where
  "null_uuid \<equiv> 0"

abbreviation CR :: char where "CR \<equiv> CHR 0x0D"
abbreviation LF :: char where "LF \<equiv> CHR 0x0A"
abbreviation SP :: char where "SP \<equiv> CHR 0x20"
abbreviation BSL :: char where "BSL \<equiv> CHR 0x5C"
abbreviation crlf :: bytes where "crlf \<equiv> [CR, LF]"

section \<open>Faults\<close>

text \<open>
  What a statement of the code can do other than return: read a \<open>QList\<close> out of range
  (\<open>at\<close>, \<open>first\<close>: an assertion failure, undefined in a release build), take a
  non-recursive lock its own thread already holds, throw an exception nobody catches,
  follow a null pointer, or follow a pointer to an object that was destroyed.
\<close>

datatype fault = OutOfRange | Deadlock | Uncaught | NullDeref | UseAfterFree

type_synonym 'a res = "fault + 'a"

definition bind_res :: "'a res \<Rightarrow> ('a \<Rightarrow> 'b res) \<Rightarrow> 'b res" where
  "bind_res r f = (case r of Inl e \<Rightarrow> Inl e | Inr x \<Rightarrow> f x)"

fun fold_res :: "('a \<Rightarrow> 's \<Rightarrow> 's res) \<Rightarrow> 'a list \<Rightarrow> 's \<Rightarrow> 's res" where
  "fold_res f [] s = Inr s"
| "fold_res f (x # xs) s = bind_res (f x s) (fold_res f xs)"

definition list_at :: "'a list \<Rightarrow> nat \<Rightarrow> 'a res" where
  "list_at xs i = (if i < length xs then Inr (xs ! i) else Inl OutOfRange)"

lemma bind_res_simps [simp]:
  "bind_res (Inl e) f = Inl e"
  "bind_res (Inr x) f = f x"
  by (simp_all add: bind_res_def)

lemma bind_res_Inr_iff: "bind_res r f = Inr y \<longleftrightarrow> (\<exists>x. r = Inr x \<and> f x = Inr y)"
  by (cases r) auto

lemma fold_res_append:
  "fold_res f (xs @ ys) s = bind_res (fold_res f xs s) (fold_res f ys)"
proof (induction xs arbitrary: s)
  case (Cons x xs)
  then show ?case by (cases "f x s") auto
qed simp

lemma fold_res_inv:
  assumes "fold_res f xs s = Inr t" and "P s"
    and "\<And>x s t. x \<in> set xs \<Longrightarrow> P s \<Longrightarrow> f x s = Inr t \<Longrightarrow> P t"
  shows "P t"
  using assms
proof (induction xs arbitrary: s)
  case (Cons x xs)
  then obtain u where u: "f x s = Inr u" "fold_res f xs u = Inr t"
    by (auto simp: bind_res_Inr_iff)
  have "P u"
    by (rule Cons.prems(3) [OF _ Cons.prems(2) u(1)]) simp
  show ?case
    by (rule Cons.IH [OF u(2) \<open>P u\<close>], rule Cons.prems(3)) simp_all
qed simp

lemma fold_res_pure: "fold_res (\<lambda>x s. Inr (f x s)) xs s = Inr (fold f xs s)"
  by (induction xs arbitrary: s) auto

section \<open>Byte arrays\<close>

definition is_space :: "char \<Rightarrow> bool" where
  "is_space c \<longleftrightarrow> c \<in> set [CHR 0x09, LF, CHR 0x0B, CHR 0x0C, CR, SP]"

definition trimmed :: "bytes \<Rightarrow> bytes" where
  "trimmed s = rev (dropWhile is_space (rev (dropWhile is_space s)))"

definition lower_char :: "char \<Rightarrow> char" where
  "lower_char c = (if 65 \<le> (of_char c :: nat) \<and> (of_char c :: nat) \<le> 90
     then char_of ((of_char c :: nat) + 32) else c)"

definition upper_char :: "char \<Rightarrow> char" where
  "upper_char c = (if 97 \<le> (of_char c :: nat) \<and> (of_char c :: nat) \<le> 122
     then char_of ((of_char c :: nat) - 32) else c)"

definition to_lower :: "bytes \<Rightarrow> bytes" where
  "to_lower = map lower_char"

definition to_upper :: "bytes \<Rightarrow> bytes" where
  "to_upper = map upper_char"

fun starts_with :: "bytes \<Rightarrow> bytes \<Rightarrow> bool" where
  "starts_with s [] = True"
| "starts_with [] (p # ps) = False"
| "starts_with (x # xs) (p # ps) = (x = p \<and> starts_with xs ps)"

text \<open>\<open>indexOf\<close> for a byte and for a byte string; \<open>-1\<close> is \<open>None\<close>.\<close>

fun index_of :: "char \<Rightarrow> bytes \<Rightarrow> nat option" where
  "index_of c [] = None"
| "index_of c (x # xs) = (if x = c then Some 0 else map_option Suc (index_of c xs))"

fun index_of_str :: "bytes \<Rightarrow> bytes \<Rightarrow> nat option" where
  "index_of_str p [] = (if p = [] then Some 0 else None)"
| "index_of_str p (x # xs) =
     (if starts_with (x # xs) p then Some 0 else map_option Suc (index_of_str p xs))"

text \<open>\<open>split\<close> keeps empty parts; splitting the empty array gives one empty part.\<close>

fun qsplit :: "char \<Rightarrow> bytes \<Rightarrow> bytes list" where
  "qsplit c [] = [[]]"
| "qsplit c (x # xs) =
     (if x = c then [] # qsplit c xs
      else (case qsplit c xs of [] \<Rightarrow> [[x]] | p # ps \<Rightarrow> (x # p) # ps))"

fun qjoin :: "bytes \<Rightarrow> bytes list \<Rightarrow> bytes" where
  "qjoin sep [] = []"
| "qjoin sep [x] = x"
| "qjoin sep (x # y # xs) = x @ sep @ qjoin sep (y # xs)"

text \<open>\<open>QByteArray::number\<close> of a non-negative value and \<open>rightJustified(3, '0')\<close>.\<close>

definition digit_char :: "nat \<Rightarrow> char" where
  "digit_char d = char_of (48 + d mod 10)"

fun dec :: "nat \<Rightarrow> bytes" where
  "dec n = (if n < 10 then [digit_char n] else dec (n div 10) @ [digit_char (n mod 10)])"

declare dec.simps [simp del]

definition dec_int :: "int \<Rightarrow> bytes" where
  "dec_int i = (if i < 0 then ''-'' @ dec (nat (- i)) else dec (nat i))"

definition pad3 :: "bytes \<Rightarrow> bytes" where
  "pad3 s = replicate (3 - length s) (CHR ''0'') @ s"

text \<open>
  \<open>toInt(&ok)\<close>: leading white space, an optional sign, at least one digit, and then the end
  of the array or a NUL byte; the value has to fit 32 bits.
\<close>

definition is_digit :: "char \<Rightarrow> bool" where
  "is_digit c \<longleftrightarrow> 48 \<le> (of_char c :: nat) \<and> (of_char c :: nat) \<le> 57"

definition digits_val :: "bytes \<Rightarrow> int" where
  "digits_val = foldl (\<lambda>n c. 10 * n + (int (of_char c) - 48)) 0"

definition to_int :: "bytes \<Rightarrow> int option" where
  "to_int s0 =
     (let s1 = dropWhile is_space s0;
          neg = starts_with s1 ''-'';
          s2 = (if neg \<or> starts_with s1 ''+'' then drop 1 s1 else s1);
          ds = takeWhile is_digit s2;
          rest = dropWhile is_digit s2;
          v = (if neg then - digits_val ds else digits_val ds)
      in if ds = [] \<or> \<not> (rest = [] \<or> hd rest = CHR 0x00) then None
         else if - (2 ^ 31) \<le> v \<and> v < 2 ^ 31 then Some v else None)"

subsection \<open>Lemmas on byte arrays\<close>

lemma qsplit_not_Nil [simp]: "qsplit c s \<noteq> []"
  by (induction s) (auto split: list.splits)

lemma qjoin_qsplit: "qjoin [c] (qsplit c s) = s"
proof (induction s)
  case (Cons x s)
  obtain p ps where ps: "qsplit c s = p # ps"
    by (cases "qsplit c s") auto
  with Cons.IH show ?case
    by (cases ps) auto
qed simp

lemma qsplit_no_sep: "p \<in> set (qsplit c s) \<Longrightarrow> c \<notin> set p"
proof (induction s arbitrary: p)
  case (Cons x s)
  obtain q qs where qs: "qsplit c s = q # qs"
    by (cases "qsplit c s") auto
  with Cons show ?case by (auto split: if_splits)
qed auto

lemma qsplit_single: "c \<notin> set s \<Longrightarrow> qsplit c s = [s]"
  by (induction s) auto

lemma qsplit_append:
  "c \<notin> set p \<Longrightarrow> qsplit c (p @ c # s) = p # qsplit c s"
  by (induction p) auto

lemma qsplit_qjoin:
  "xs \<noteq> [] \<Longrightarrow> \<forall>x \<in> set xs. c \<notin> set x \<Longrightarrow> qsplit c (qjoin [c] xs) = xs"
proof (induction "[c]" xs rule: qjoin.induct)
  case (3 x y xs)
  then show ?case by (simp add: qsplit_append)
qed (auto simp: qsplit_single)

lemma set_qjoin: "set (qjoin sep xs) \<subseteq> (\<Union>x \<in> set xs. set x) \<union> set sep"
  by (induction sep xs rule: qjoin.induct) auto

lemma index_of_None: "index_of c s = None \<longleftrightarrow> c \<notin> set s"
  by (induction s) auto

lemma index_of_Some:
  "index_of c s = Some n \<Longrightarrow> n < length s \<and> s ! n = c \<and> c \<notin> set (take n s)"
  by (induction s arbitrary: n) (auto split: if_splits)

lemma index_of_append: "c \<notin> set p \<Longrightarrow> index_of c (p @ c # s) = Some (length p)"
  by (induction p) auto

lemma starts_with_append [simp]: "starts_with (p @ s) p"
  by (induction p) auto

lemma starts_with_iff: "starts_with s p \<longleftrightarrow> (\<exists>r. s = p @ r)"
  by (induction s p rule: starts_with.induct) auto

lemma length_trimmed: "length (trimmed s) \<le> length s"
proof -
  have "length (trimmed s) \<le> length (dropWhile is_space s)"
    using length_dropWhile_le [of is_space "rev (dropWhile is_space s)"]
    by (simp add: trimmed_def)
  also have "\<dots> \<le> length s" by (rule length_dropWhile_le)
  finally show ?thesis .
qed

lemma trimmed_id:
  assumes "s \<noteq> []" and "\<not> is_space (hd s)" and "\<not> is_space (last s)"
  shows "trimmed s = s"
proof -
  have "dropWhile is_space s = s"
    using assms by (cases s) auto
  moreover have "dropWhile is_space (rev s) = rev s"
    using assms by (cases s rule: rev_cases) auto
  ultimately show ?thesis by (simp add: trimmed_def)
qed

section \<open>Association lists as QHash, sorted association lists as QMap\<close>

abbreviation hash_get :: "('k \<times> 'v) list \<Rightarrow> 'k \<Rightarrow> 'v option" where
  "hash_get \<equiv> map_of"

abbreviation hash_put :: "'k \<Rightarrow> 'v \<Rightarrow> ('k \<times> 'v) list \<Rightarrow> ('k \<times> 'v) list" where
  "hash_put \<equiv> AList.update"

abbreviation hash_del :: "'k \<Rightarrow> ('k \<times> 'v) list \<Rightarrow> ('k \<times> 'v) list" where
  "hash_del \<equiv> AList.delete"

fun qmap_put :: "'k::linorder \<Rightarrow> 'v \<Rightarrow> ('k \<times> 'v) list \<Rightarrow> ('k \<times> 'v) list" where
  "qmap_put k v [] = [(k, v)]"
| "qmap_put k v ((k', v') # m) =
     (if k < k' then (k, v) # (k', v') # m
      else if k = k' then (k, v) # m
      else (k', v') # qmap_put k v m)"

lemma map_of_hash_put [simp]: "map_of (hash_put k v m) = (map_of m)(k \<mapsto> v)"
  by (simp add: update_conv')

lemma map_of_hash_del [simp]: "map_of (hash_del k m) = (map_of m)(k := None)"
  by (simp add: delete_conv')

lemma qmap_put_keys: "fst ` set (qmap_put k v m) = insert k (fst ` set m)"
  by (induction k v m rule: qmap_put.induct) auto

lemma qmap_put_sorted:
  "sorted_wrt (<) (map fst m) \<Longrightarrow> sorted_wrt (<) (map fst (qmap_put k v m))"
proof (induction m)
  case (Cons p m)
  obtain k' v' where p: "p = (k', v')" by force
  have "\<forall>x \<in> fst ` set (qmap_put k v m). k' < x" if "k' < k"
    using Cons.prems that by (auto simp: p qmap_put_keys)
  with Cons show ?case by (auto simp: p)
qed simp

lemma map_of_qmap_put:
  "sorted_wrt (<) (map fst m) \<Longrightarrow> map_of (qmap_put k v m) = (map_of m)(k \<mapsto> v)"
proof (induction m)
  case (Cons p m)
  obtain k' v' where p: "p = (k', v')" by force
  with Cons show ?case by (auto simp: fun_eq_iff)
qed simp

lemma qmap_put_last:
  "\<forall>x \<in> fst ` set m. x < k \<Longrightarrow> qmap_put k v m = m @ [(k, v)]"
  by (induction m) auto

end
