(* ===== verification/Bitflags.thy ===== *)
theory Bitflags
  imports Prelude
begin

text \<open>
  \<open>src/lib/bitflags.h\<close>: the bit set \<open>Flags<E>\<close> over an \<open>enum class\<close> whose underlying type
  is \<open>int\<close>, with the enumerations the server instantiates it with: the connection set-up
  tasks (\<open>irc/client_connection.h\<close>), the protocol capabilities (\<open>irc/caps.h\<close>), the user
  and channel modes (\<open>irc/modes.h\<close>), the events of the scripting engine (\<open>core/qtypes.h\<close>)
  and the permissions of a role (\<open>core/permission.h\<close>).

  The template parameter is the function that gives an enumerator its value. The locale
  \<open>flag_enum\<close> states what the operations need of it (each enumerator is one bit of its own);
  its lemmas give the set reading of \<open>set\<close>, \<open>clear\<close>, \<open>has\<close> and \<open>empty\<close>, and it is
  interpreted for every enumeration.
\<close>

unbundle bit_operations_syntax

section \<open>The template\<close>

type_synonym flags = "32 word"

fun flags_set :: "('e \<Rightarrow> 32 word) \<Rightarrow> 'e list \<Rightarrow> flags \<Rightarrow> flags" where
  "flags_set val [] f = f"
| "flags_set val (e # es) f = flags_set val es (f OR val e)"

fun flags_clear :: "('e \<Rightarrow> 32 word) \<Rightarrow> 'e list \<Rightarrow> flags \<Rightarrow> flags" where
  "flags_clear val [] f = f"
| "flags_clear val (e # es) f = flags_clear val es (f AND NOT (val e))"

definition flags_has :: "('e \<Rightarrow> 32 word) \<Rightarrow> 'e \<Rightarrow> flags \<Rightarrow> bool" where
  "flags_has val e f \<longleftrightarrow> f AND val e \<noteq> 0"

definition flags_empty :: "flags \<Rightarrow> bool" where
  "flags_empty f \<longleftrightarrow> f = 0"

section \<open>The enumerations\<close>

datatype setup_task = CAP_EXCHANGE | NICK | USER

fun setup_val :: "setup_task \<Rightarrow> 32 word" where
  "setup_val CAP_EXCHANGE = push_bit 0 1"
| "setup_val NICK = push_bit 1 1"
| "setup_val USER = push_bit 2 1"

datatype protocol_capability =
    MULTI_PREFIX | MESSAGE_TAGS | EXTENDED_JOIN | CHGHOST | ACCOUNT_TAG | ACCOUNT_NOTIFY
  | ECHO_MESSAGE | ZNC_SELF_MESSAGE | FISH | CHANNEL_RENAME_CAP | METADATA_CAP | FILEHOST
  | EXTENDED_ISUPPORT

fun cap_val :: "protocol_capability \<Rightarrow> 32 word" where
  "cap_val MULTI_PREFIX = push_bit 0 1"
| "cap_val MESSAGE_TAGS = push_bit 1 1"
| "cap_val EXTENDED_JOIN = push_bit 2 1"
| "cap_val CHGHOST = push_bit 3 1"
| "cap_val ACCOUNT_TAG = push_bit 4 1"
| "cap_val ACCOUNT_NOTIFY = push_bit 5 1"
| "cap_val ECHO_MESSAGE = push_bit 6 1"
| "cap_val ZNC_SELF_MESSAGE = push_bit 7 1"
| "cap_val FISH = push_bit 8 1"
| "cap_val CHANNEL_RENAME_CAP = push_bit 9 1"
| "cap_val METADATA_CAP = push_bit 10 1"
| "cap_val FILEHOST = push_bit 11 1"
| "cap_val EXTENDED_ISUPPORT = push_bit 12 1"

datatype channel_mode =
    INVITE_ONLY | MODERATED | NO_OUTSIDE_MSGS | QUIET | SECRET | TOPIC_PROTECTED
  | BAN | KEY | LIMIT

fun channel_mode_idx :: "channel_mode \<Rightarrow> nat" where
  "channel_mode_idx INVITE_ONLY = 0"
| "channel_mode_idx MODERATED = 1"
| "channel_mode_idx NO_OUTSIDE_MSGS = 2"
| "channel_mode_idx QUIET = 3"
| "channel_mode_idx SECRET = 4"
| "channel_mode_idx TOPIC_PROTECTED = 5"
| "channel_mode_idx BAN = 6"
| "channel_mode_idx KEY = 7"
| "channel_mode_idx LIMIT = 8"

definition channel_mode_val :: "channel_mode \<Rightarrow> 32 word" where
  "channel_mode_val m = push_bit (channel_mode_idx m) 1"

datatype user_mode =
    INVISIBLE | CLOAK | BLOCK_PM_FROM_UNREGISTERED | BEEP_BOOP_BOT | DEAF | REGISTERED
  | CALLER_ID | HIDE_CHANNELS | BLOCK_CTCP | SECURE | IRC_OPERATOR | LOCAL_OPERATOR
  | WALLOPS | SERVER_NOTICES | PROTECTED | SERVICE_BOT

fun user_mode_idx :: "user_mode \<Rightarrow> nat" where
  "user_mode_idx INVISIBLE = 0"
| "user_mode_idx CLOAK = 1"
| "user_mode_idx BLOCK_PM_FROM_UNREGISTERED = 2"
| "user_mode_idx BEEP_BOOP_BOT = 3"
| "user_mode_idx DEAF = 4"
| "user_mode_idx REGISTERED = 5"
| "user_mode_idx CALLER_ID = 6"
| "user_mode_idx HIDE_CHANNELS = 7"
| "user_mode_idx BLOCK_CTCP = 8"
| "user_mode_idx SECURE = 9"
| "user_mode_idx IRC_OPERATOR = 10"
| "user_mode_idx LOCAL_OPERATOR = 11"
| "user_mode_idx WALLOPS = 12"
| "user_mode_idx SERVER_NOTICES = 13"
| "user_mode_idx PROTECTED = 14"
| "user_mode_idx SERVICE_BOT = 15"

definition user_mode_val :: "user_mode \<Rightarrow> 32 word" where
  "user_mode_val m = push_bit (user_mode_idx m) 1"

datatype qirc_event =
    AUTH_SASL_PLAIN | CHANNEL_MSG | PRIVATE_MSG | CHANNEL_JOIN | CHANNEL_PART | RAW_MSG
  | PEER_MAX_CONNECTIONS | NICK_CHANGE | CHANNEL_RENAME | TAG_MSG | VERIFY_MSG_TAGS

fun event_val :: "qirc_event \<Rightarrow> 32 word" where
  "event_val AUTH_SASL_PLAIN = push_bit 0 1"
| "event_val CHANNEL_MSG = push_bit 1 1"
| "event_val PRIVATE_MSG = push_bit 2 1"
| "event_val CHANNEL_JOIN = push_bit 3 1"
| "event_val CHANNEL_PART = push_bit 4 1"
| "event_val RAW_MSG = push_bit 5 1"
| "event_val PEER_MAX_CONNECTIONS = push_bit 6 1"
| "event_val NICK_CHANGE = push_bit 7 1"
| "event_val CHANNEL_RENAME = push_bit 8 1"
| "event_val TAG_MSG = push_bit 9 1"
| "event_val VERIFY_MSG_TAGS = push_bit 10 1"

datatype permission_flag = CanView | CanSend | CanManage | CanAssign

fun permission_val :: "permission_flag \<Rightarrow> 32 word" where
  "permission_val CanView = push_bit 0 1"
| "permission_val CanSend = push_bit 1 1"
| "permission_val CanManage = push_bit 2 1"
| "permission_val CanAssign = push_bit 3 1"

section \<open>Enumerations of single bits\<close>

locale flag_enum =
  fixes val :: "'e \<Rightarrow> 32 word"
    and idx :: "'e \<Rightarrow> nat"
  assumes val_idx: "val e = push_bit (idx e) 1"
    and idx_less: "idx e < 32"
    and idx_inj: "idx e = idx e' \<Longrightarrow> e = e'"
begin

lemma bit_val: "bit (val e) n \<longleftrightarrow> n = idx e"
  using idx_less [of e] by (auto simp: val_idx bit_exp_iff)

lemma has_iff_bit: "flags_has val e f \<longleftrightarrow> bit f (idx e)"
proof
  assume "flags_has val e f"
  then obtain n where "bit (f AND val e) n"
    unfolding flags_has_def by (auto simp: bit_eq_iff)
  then show "bit f (idx e)" by (auto simp: bit_and_iff bit_val)
next
  assume "bit f (idx e)"
  then have "bit (f AND val e) (idx e)" by (simp add: bit_and_iff bit_val)
  then show "flags_has val e f" by (auto simp: flags_has_def)
qed

lemma has_set: "flags_has val e (flags_set val es f) \<longleftrightarrow> e \<in> set es \<or> flags_has val e f"
proof (induction es arbitrary: f)
  case (Cons d es)
  have "flags_has val e (f OR val d) \<longleftrightarrow> e = d \<or> flags_has val e f"
    by (auto simp: has_iff_bit bit_or_iff bit_val dest: idx_inj)
  with Cons show ?case by auto
qed simp

lemma has_clear: "flags_has val e (flags_clear val es f) \<longleftrightarrow> e \<notin> set es \<and> flags_has val e f"
proof (induction es arbitrary: f)
  case (Cons d es)
  have "flags_has val e (f AND NOT (val d)) \<longleftrightarrow> e \<noteq> d \<and> flags_has val e f"
    using idx_less [of e]
    by (auto simp: has_iff_bit bit_and_iff bit_not_iff bit_val dest: idx_inj)
  with Cons show ?case by auto
qed simp

lemma not_has_empty: "flags_empty f \<Longrightarrow> \<not> flags_has val e f"
  by (simp add: flags_empty_def flags_has_def)

lemma set_not_empty: "\<not> flags_empty (flags_set val (e # es) f)"
  using has_set [of e "e # es" f] not_has_empty by auto

lemma clear_bit: "bit (flags_clear val es f) n \<longleftrightarrow> bit f n \<and> (\<forall>e \<in> set es. idx e \<noteq> n)"
proof (induction es arbitrary: f)
  case (Cons d es)
  have "bit (f AND NOT (val d)) n \<longleftrightarrow> bit f n \<and> idx d \<noteq> n"
    by (auto simp: bit_and_iff bit_not_iff bit_val dest: bit_imp_le_length)
  with Cons show ?case by auto
qed simp

lemma set_bit_iff: "bit (flags_set val es f) n \<longleftrightarrow> bit f n \<or> (\<exists>e \<in> set es. idx e = n)"
  by (induction es arbitrary: f) (auto simp: bit_or_iff bit_val)

text \<open>Clearing exactly what was set empties the flags.\<close>

lemma empty_iff:
  assumes "flags_empty (flags_clear val es f)" and "\<forall>e \<in> set es. \<not> flags_has val e f"
  shows "flags_empty f"
proof -
  have "\<not> bit f n" for n
  proof
    assume n: "bit f n"
    then have "\<forall>e \<in> set es. idx e \<noteq> n"
      using assms(2) by (auto simp: has_iff_bit)
    with n have "bit (flags_clear val es f) n" by (simp add: clear_bit)
    with assms(1) show False by (simp add: flags_empty_def)
  qed
  then have "f = 0" by (intro bit_eqI) simp
  then show ?thesis by (simp add: flags_empty_def)
qed

end

fun setup_idx :: "setup_task \<Rightarrow> nat" where
  "setup_idx CAP_EXCHANGE = 0" | "setup_idx NICK = 1" | "setup_idx USER = 2"

fun cap_idx :: "protocol_capability \<Rightarrow> nat" where
  "cap_idx MULTI_PREFIX = 0" | "cap_idx MESSAGE_TAGS = 1" | "cap_idx EXTENDED_JOIN = 2"
| "cap_idx CHGHOST = 3" | "cap_idx ACCOUNT_TAG = 4" | "cap_idx ACCOUNT_NOTIFY = 5"
| "cap_idx ECHO_MESSAGE = 6" | "cap_idx ZNC_SELF_MESSAGE = 7" | "cap_idx FISH = 8"
| "cap_idx CHANNEL_RENAME_CAP = 9" | "cap_idx METADATA_CAP = 10" | "cap_idx FILEHOST = 11"
| "cap_idx EXTENDED_ISUPPORT = 12"

fun event_idx :: "qirc_event \<Rightarrow> nat" where
  "event_idx AUTH_SASL_PLAIN = 0" | "event_idx CHANNEL_MSG = 1" | "event_idx PRIVATE_MSG = 2"
| "event_idx CHANNEL_JOIN = 3" | "event_idx CHANNEL_PART = 4" | "event_idx RAW_MSG = 5"
| "event_idx PEER_MAX_CONNECTIONS = 6" | "event_idx NICK_CHANGE = 7"
| "event_idx CHANNEL_RENAME = 8" | "event_idx TAG_MSG = 9" | "event_idx VERIFY_MSG_TAGS = 10"

fun permission_idx :: "permission_flag \<Rightarrow> nat" where
  "permission_idx CanView = 0" | "permission_idx CanSend = 1"
| "permission_idx CanManage = 2" | "permission_idx CanAssign = 3"

lemma channel_mode_idx_inj: "channel_mode_idx m = channel_mode_idx m' \<Longrightarrow> m = m'"
  by (cases m; cases m') simp_all

lemma user_mode_idx_inj: "user_mode_idx m = user_mode_idx m' \<Longrightarrow> m = m'"
  by (cases m; cases m') simp_all

interpretation tasks: flag_enum setup_val setup_idx
proof (unfold_locales, goal_cases)
  case (1 e) then show ?case by (cases e) simp_all
next
  case (2 e) then show ?case by (cases e) simp_all
next
  case (3 e e') then show ?case by (cases e; cases e') simp_all
qed

interpretation caps: flag_enum cap_val cap_idx
proof (unfold_locales, goal_cases)
  case (1 e) then show ?case by (cases e) simp_all
next
  case (2 e) then show ?case by (cases e) simp_all
next
  case (3 e e') then show ?case by (cases e; cases e') simp_all
qed

interpretation cmodes: flag_enum channel_mode_val channel_mode_idx
proof (unfold_locales, goal_cases)
  case (1 e) then show ?case by (simp add: channel_mode_val_def)
next
  case (2 e) then show ?case by (cases e) simp_all
next
  case (3 e e') then show ?case by (rule channel_mode_idx_inj)
qed

interpretation umodes: flag_enum user_mode_val user_mode_idx
proof (unfold_locales, goal_cases)
  case (1 e) then show ?case by (simp add: user_mode_val_def)
next
  case (2 e) then show ?case by (cases e) simp_all
next
  case (3 e e') then show ?case by (rule user_mode_idx_inj)
qed

interpretation events: flag_enum event_val event_idx
proof (unfold_locales, goal_cases)
  case (1 e) then show ?case by (cases e) simp_all
next
  case (2 e) then show ?case by (cases e) simp_all
next
  case (3 e e') then show ?case by (cases e; cases e') simp_all
qed

interpretation perms: flag_enum permission_val permission_idx
proof (unfold_locales, goal_cases)
  case (1 e) then show ?case by (cases e) simp_all
next
  case (2 e) then show ?case by (cases e) simp_all
next
  case (3 e e') then show ?case by (cases e; cases e') simp_all
qed

end
