(* ===== verification/Modes.thy ===== *)
theory Modes
  imports Bitflags
begin

text \<open>
  \<open>src/irc/modes.cpp\<close>: the lookup tables of the user and channel modes, by mode and by
  letter. The tables are \<open>QMap\<close>s, iterated in the order of their keys; the enumerators are
  ordered by value, which is the \<open>linorder\<close> instance below.
\<close>

section \<open>Enumerators ordered by value\<close>

instantiation user_mode :: linorder
begin

definition less_eq_user_mode :: "user_mode \<Rightarrow> user_mode \<Rightarrow> bool" where
  "less_eq_user_mode m m' \<longleftrightarrow> user_mode_idx m \<le> user_mode_idx m'"

definition less_user_mode :: "user_mode \<Rightarrow> user_mode \<Rightarrow> bool" where
  "less_user_mode m m' \<longleftrightarrow> user_mode_idx m < user_mode_idx m'"

instance
  by standard
    (auto simp: less_eq_user_mode_def less_user_mode_def intro: user_mode_idx_inj)

end

instantiation channel_mode :: linorder
begin

definition less_eq_channel_mode :: "channel_mode \<Rightarrow> channel_mode \<Rightarrow> bool" where
  "less_eq_channel_mode m m' \<longleftrightarrow> channel_mode_idx m \<le> channel_mode_idx m'"

definition less_channel_mode :: "channel_mode \<Rightarrow> channel_mode \<Rightarrow> bool" where
  "less_channel_mode m m' \<longleftrightarrow> channel_mode_idx m < channel_mode_idx m'"

instance
  by standard
    (auto simp: less_eq_channel_mode_def less_channel_mode_def intro: channel_mode_idx_inj)

end

lemmas mode_order_defs =
  less_eq_user_mode_def less_user_mode_def less_eq_channel_mode_def less_channel_mode_def

section \<open>User modes\<close>

record user_mode_info =
  umi_mode :: user_mode
  umi_letter :: char
  umi_description :: bytes

definition raw_user_modes :: "(user_mode \<times> char \<times> bytes) list" where
  "raw_user_modes =
    [(INVISIBLE, CHR ''i'', ''invisible''),
     (CLOAK, CHR ''x'', ''cloaks your IP/hostname''),
     (BLOCK_PM_FROM_UNREGISTERED, CHR ''R'', ''block private messages from unregistered users''),
     (BEEP_BOOP_BOT, CHR ''b'', ''mark as a bot''),
     (DEAF, CHR ''d'', ''deaf (ignore channel messages)''),
     (REGISTERED, CHR ''r'', ''registered user''),
     (CALLER_ID, CHR ''g'', ''caller ID (only accept PMs from approved users)''),
     (HIDE_CHANNELS, CHR ''p'', ''hide channels in /WHOIS''),
     (BLOCK_CTCP, CHR ''c'', ''block CTCP messages''),
     (SECURE, CHR ''Z'', ''SSL/TLS connection''),
     (IRC_OPERATOR, CHR ''o'', ''IRC operator''),
     (LOCAL_OPERATOR, CHR ''O'', ''local IRC operator''),
     (WALLOPS, CHR ''w'', ''receive wallops''),
     (SERVER_NOTICES, CHR ''s'', ''receive server notices''),
     (PROTECTED, CHR ''q'', ''protected/quiet''),
     (SERVICE_BOT, CHR ''k'', ''service bot'')]"

definition user_modes_lookup :: "(user_mode \<times> user_mode_info) list" where
  "user_modes_lookup =
     fold (\<lambda>(m, l, d). qmap_put m \<lparr>umi_mode = m, umi_letter = l, umi_description = d\<rparr>)
       raw_user_modes []"

definition user_modes_lookup_letter :: "(char \<times> user_mode) list" where
  "user_modes_lookup_letter = fold (\<lambda>(m, l, d). qmap_put l m) raw_user_modes []"

section \<open>Channel modes\<close>

record channel_mode_info =
  cmi_mode :: channel_mode
  cmi_letter :: char
  cmi_description :: bytes

definition raw_channel_modes :: "(channel_mode \<times> char \<times> bytes) list" where
  "raw_channel_modes =
    [(INVITE_ONLY, CHR ''i'', ''invite-only''),
     (MODERATED, CHR ''m'', ''moderated (only voiced/ops may speak)''),
     (NO_OUTSIDE_MSGS, CHR ''n'', ''no messages from outside''),
     (QUIET, CHR ''q'', ''quiet (mute instead of kick)''),
     (SECRET, CHR ''s'', ''secret channel (hidden from /LIST)''),
     (TOPIC_PROTECTED, CHR ''t'', ''topic protected (only ops can set)''),
     (BAN, CHR ''b'', ''ban mask''),
     (KEY, CHR ''k'', ''password required''),
     (LIMIT, CHR ''l'', ''user limit'')]"

definition channel_modes_lookup :: "(channel_mode \<times> channel_mode_info) list" where
  "channel_modes_lookup =
     fold (\<lambda>(m, l, d). qmap_put m \<lparr>cmi_mode = m, cmi_letter = l, cmi_description = d\<rparr>)
       raw_channel_modes []"

definition channel_modes_lookup_letter :: "(char \<times> channel_mode) list" where
  "channel_modes_lookup_letter = fold (\<lambda>(m, l, d). qmap_put l m) raw_channel_modes []"

section \<open>The tables\<close>

lemma user_modes_lookup_eq:
  "user_modes_lookup = map (\<lambda>(m, l, d).
     (m, \<lparr>umi_mode = m, umi_letter = l, umi_description = d\<rparr>)) raw_user_modes"
  by (simp add: user_modes_lookup_def raw_user_modes_def mode_order_defs)

lemma channel_modes_lookup_eq:
  "channel_modes_lookup = map (\<lambda>(m, l, d).
     (m, \<lparr>cmi_mode = m, cmi_letter = l, cmi_description = d\<rparr>)) raw_channel_modes"
  by (simp add: channel_modes_lookup_def raw_channel_modes_def mode_order_defs)

lemma user_letters_distinct: "distinct (map (\<lambda>r. fst (snd r)) raw_user_modes)"
  by (simp add: raw_user_modes_def)

lemma channel_letters_distinct: "distinct (map (\<lambda>r. fst (snd r)) raw_channel_modes)"
  by (simp add: raw_channel_modes_def)

lemma user_letter_lookup:
  "map_of user_modes_lookup_letter l = Some m \<longleftrightarrow> (\<exists>d. (m, l, d) \<in> set raw_user_modes)"
  by (simp add: user_modes_lookup_letter_def raw_user_modes_def) blast

lemma channel_letter_lookup:
  "map_of channel_modes_lookup_letter l = Some m \<longleftrightarrow> (\<exists>d. (m, l, d) \<in> set raw_channel_modes)"
  by (simp add: channel_modes_lookup_letter_def raw_channel_modes_def) blast

end
