(* ===== verification/Irc_Utils.thy ===== *)
theory Irc_Utils
  imports Bitflags
begin

text \<open>
  The pure helpers of the IRC layer: \<open>src/irc/utils.h\<close> and \<open>utils.cpp\<close> (nick validation,
  message-tag escaping, building and parsing) and the two static helpers of
  \<open>src/irc/client_connection.cpp\<close>, \<open>split_irc\<close> and \<open>irc_lower\<close>.

  Qt's UTF-8 decoder and its Unicode tables are the parameters of the record \<open>unicode\<close>:
  \<open>u_decode\<close> gives the code points of a decoded array, \<open>u_norm\<close> its UTF-8 bytes after a
  decode (\<open>fromUtf8\<close> then \<open>toUtf8\<close>: the identity on valid UTF-8), \<open>u_letter\<close> and \<open>u_number\<close>
  the categories L and N.
\<close>

record unicode =
  u_decode :: "bytes \<Rightarrow> nat list"
  u_norm :: "bytes \<Rightarrow> bytes"
  u_letter :: "nat \<Rightarrow> bool"
  u_number :: "nat \<Rightarrow> bool"

section \<open>Nicknames\<close>

text \<open>The punctuation of the character classes: \<open>[ ] \ ` _ ^ { | }\<close>.\<close>

definition nick_punct :: "nat list" where
  "nick_punct = [91, 93, 92, 96, 95, 94, 123, 124, 125]"

definition nick_first :: "unicode \<Rightarrow> nat \<Rightarrow> bool" where
  "nick_first U x \<longleftrightarrow> u_letter U x \<or> x \<in> set nick_punct"

definition nick_rest :: "unicode \<Rightarrow> nat \<Rightarrow> bool" where
  "nick_rest U x \<longleftrightarrow> u_letter U x \<or> u_number U x \<or> x \<in> set nick_punct \<or> x = 45"

definition nick_body :: "unicode \<Rightarrow> nat list \<Rightarrow> bool" where
  "nick_body U s =
     (case s of [] \<Rightarrow> False
      | x # xs \<Rightarrow> nick_first U x \<and> list_all (nick_rest U) xs \<and> length xs \<le> 8)"

text \<open>The \<open>$\<close> of the expression also matches before a final newline.\<close>

definition is_valid_nick :: "unicode \<Rightarrow> bytes \<Rightarrow> bool" where
  "is_valid_nick U nick =
     (let s = u_decode U nick in
      nick_body U s \<or> (s \<noteq> [] \<and> last s = 10 \<and> nick_body U (butlast s)))"

section \<open>Message tags\<close>

type_synonym tag_map = "(bytes \<times> bytes option) list"

fun escape_tag_value :: "bytes \<Rightarrow> bytes" where
  "escape_tag_value [] = []"
| "escape_tag_value (c # cs) =
     (if c = CHR '';'' then [BSL, CHR '':''] @ escape_tag_value cs
      else if c = SP then [BSL, CHR ''s''] @ escape_tag_value cs
      else if c = BSL then (if cs = [] then [] else [BSL, BSL] @ escape_tag_value cs)
      else if c = CR then [BSL, CHR ''r''] @ escape_tag_value cs
      else if c = LF then [BSL, CHR ''n''] @ escape_tag_value cs
      else c # escape_tag_value cs)"

definition unescape_char :: "char \<Rightarrow> char" where
  "unescape_char c =
     (if c = CHR '':'' then CHR '';''
      else if c = CHR ''s'' then SP
      else if c = BSL then BSL
      else if c = CHR ''r'' then CR
      else if c = CHR ''n'' then LF
      else c)"

fun unescape_tag_value :: "bytes \<Rightarrow> bytes" where
  "unescape_tag_value [] = []"
| "unescape_tag_value [c] = (if c = BSL then [] else [c])"
| "unescape_tag_value (c # d # cs) =
     (if c = BSL then unescape_char d # unescape_tag_value cs
      else c # unescape_tag_value (d # cs))"

definition render_tag :: "bytes \<times> bytes option \<Rightarrow> bytes" where
  "render_tag kv =
     (let value = (case snd kv of None \<Rightarrow> [] | Some v \<Rightarrow> v)
      in if value = [] then fst kv else fst kv @ ''='' @ escape_tag_value value)"

definition max_tag_data :: nat where
  "max_tag_data = 4094"

text \<open>The sender is a null pointer (\<open>None\<close>) or an account with that name.\<close>

definition build_message_tags :: "tag_map \<Rightarrow> bytes option \<Rightarrow> flags \<Rightarrow> bytes" where
  "build_message_tags message_tags src capabilities =
     (if \<not> flags_has cap_val MESSAGE_TAGS capabilities then []
      else
        let account_tags =
              (if flags_has cap_val ACCOUNT_TAG capabilities then
                 (case src of None \<Rightarrow> []
                  | Some username \<Rightarrow>
                      if username = [] then [] else [''account='' @ escape_tag_value username])
               else []);
            tags = account_tags @ map render_tag message_tags
        in if tags = [] then []
           else
             let tag_prefix = ''@'' @ qjoin '';'' tags @ '' ''
             in if length tag_prefix > max_tag_data + 2 then take (max_tag_data + 2) tag_prefix
                else tag_prefix)"

definition parse_tag :: "(bytes \<Rightarrow> bytes) \<Rightarrow> bytes \<Rightarrow> tag_map \<Rightarrow> tag_map" where
  "parse_tag norm raw tags =
     (if raw = [] then tags
      else
        let (key, value) =
              (case index_of (CHR ''='') raw of
                 None \<Rightarrow> (norm raw, [])
               | Some i \<Rightarrow> (norm (take i raw), norm (drop (i + 1) raw)));
            unescaped = unescape_tag_value value
        in qmap_put key (if unescaped = [] then None else Some unescaped) tags)"

definition parse_message_tags :: "(bytes \<Rightarrow> bytes) \<Rightarrow> bytes \<Rightarrow> tag_map \<times> nat option" where
  "parse_message_tags norm line =
     (if \<not> starts_with line ''@'' then ([], None)
      else
        (case index_of SP line of
           None \<Rightarrow> ([], None)
         | Some space_idx \<Rightarrow>
             let tag_data = take (space_idx - 1) (drop 1 line)
             in (fold (parse_tag norm) (qsplit (CHR '';'') tag_data) [], Some space_idx)))"

section \<open>Splitting a line\<close>

definition split_irc :: "bytes \<Rightarrow> bytes list" where
  "split_irc line =
     (case index_of SP line of
        None \<Rightarrow> [line]
      | Some sp \<Rightarrow>
          let cmd = take sp line;
              rest0 = drop (sp + 1) line;
              (rest, trailing) =
                (case index_of_str '' :'' rest0 of
                   None \<Rightarrow> (rest0, [])
                 | Some colon \<Rightarrow> (take colon rest0, drop (colon + 2) rest0));
              params = qsplit SP rest
          in cmd # filter (\<lambda>p. p \<noteq> []) params @ (if trailing = [] then [] else [trailing]))"

definition irc_lower :: "bytes \<Rightarrow> bytes" where
  "irc_lower s =
     map (\<lambda>c. if c = CHR ''['' then CHR ''{'' else if c = CHR '']'' then CHR ''}''
              else if c = BSL then CHR ''|'' else c) (to_lower s)"

section \<open>Escaping\<close>

lemma unescape_Cons: "c \<noteq> BSL \<Longrightarrow> unescape_tag_value (c # cs) = c # unescape_tag_value cs"
  by (cases cs) auto

lemma unescape_escape:
  "unescape_tag_value (escape_tag_value v) =
     (if v \<noteq> [] \<and> last v = BSL then butlast v else v)"
proof (induction v)
  case (Cons c cs)
  show ?case
  proof (cases "cs = []")
    case False
    then have "unescape_tag_value (escape_tag_value (c # cs)) =
        c # unescape_tag_value (escape_tag_value cs)"
      by (simp add: unescape_Cons unescape_char_def)
    with Cons False show ?thesis by simp
  qed (auto simp: unescape_char_def)
qed simp

lemma set_escape_tag_value:
  "set (escape_tag_value v) \<inter> {CHR '';'', SP, CR, LF} = {}"
  by (induction v) auto

lemma escape_tag_value_empty: "escape_tag_value v = [] \<longleftrightarrow> v = [] \<or> v = [BSL]"
  by (cases v) auto

lemma length_escape_tag_value: "length (escape_tag_value v) \<le> 2 * length v"
  by (induction v) auto

section \<open>Tags: what is built is parsed back\<close>

definition good_tag :: "(bytes \<Rightarrow> bytes) \<Rightarrow> bytes \<times> bytes option \<Rightarrow> bool" where
  "good_tag norm kv \<longleftrightarrow>
     fst kv \<noteq> [] \<and> set (fst kv) \<inter> {CHR '';'', SP, CHR ''=''} = {} \<and> norm (fst kv) = fst kv \<and>
     (case snd kv of None \<Rightarrow> True
      | Some v \<Rightarrow> v \<noteq> [] \<and> last v \<noteq> BSL \<and> norm (escape_tag_value v) = escape_tag_value v)"

lemma parse_tag_render:
  assumes "good_tag norm (k, v)"
  shows "parse_tag norm (render_tag (k, v)) tags = qmap_put k v tags"
proof (cases v)
  case None
  with assms have "index_of (CHR ''='') k = None"
    by (auto simp: good_tag_def index_of_None)
  with assms None show ?thesis
    by (auto simp: good_tag_def parse_tag_def render_tag_def)
next
  case (Some x)
  with assms have k: "k \<noteq> []" "CHR ''='' \<notin> set k" "norm k = k"
    and x: "x \<noteq> []" "last x \<noteq> BSL" "norm (escape_tag_value x) = escape_tag_value x"
    by (auto simp: good_tag_def)
  from k(2) have "index_of (CHR ''='') (k @ CHR ''='' # escape_tag_value x) = Some (length k)"
    by (rule index_of_append)
  with k x Some show ?thesis
    by (simp add: parse_tag_def render_tag_def unescape_escape)
qed

lemma render_tag_clean:
  "good_tag norm kv \<Longrightarrow> set (render_tag kv) \<inter> {CHR '';'', SP} = {} \<and> render_tag kv \<noteq> []"
  using set_escape_tag_value
  by (cases kv) (fastforce simp: good_tag_def render_tag_def Let_def split: option.splits)

lemma parse_rendered:
  assumes "\<forall>kv \<in> set tags. good_tag norm kv" and "sorted_wrt (<) (map fst (m @ tags))"
  shows "fold (parse_tag norm) (map render_tag tags) m = m @ tags"
  using assms
proof (induction tags arbitrary: m)
  case (Cons kv tags)
  obtain k v where kv: "kv = (k, v)" by force
  have "\<forall>x \<in> fst ` set m. x < k"
    using Cons.prems(2) by (auto simp: kv sorted_wrt_append)
  then have "qmap_put k v m = m @ [(k, v)]" by (rule qmap_put_last)
  with Cons kv show ?case by (simp add: parse_tag_render)
qed simp

lemma build_no_account:
  assumes "flags_has cap_val MESSAGE_TAGS caps" and "\<not> flags_has cap_val ACCOUNT_TAG caps"
    and "tags \<noteq> []" and "length (qjoin '';'' (map render_tag tags)) \<le> max_tag_data"
  shows "build_message_tags tags src caps = ''@'' @ qjoin '';'' (map render_tag tags) @ '' ''"
  using assms by (simp add: build_message_tags_def Let_def)

lemma parse_built_tags:
  fixes src :: "bytes option"
  assumes caps: "flags_has cap_val MESSAGE_TAGS caps" "\<not> flags_has cap_val ACCOUNT_TAG caps"
    and tags: "tags \<noteq> []" "\<forall>kv \<in> set tags. good_tag norm kv" "sorted_wrt (<) (map fst tags)"
    and len: "length (qjoin '';'' (map render_tag tags)) \<le> max_tag_data"
  defines "built \<equiv> build_message_tags tags src caps"
  shows "parse_message_tags norm (built @ rest) = (tags, Some (length built - 1))"
    and "drop (length built) (built @ rest) = rest"
proof -
  let ?data = "qjoin '';'' (map render_tag tags)"
  have built: "built = ''@'' @ ?data @ '' ''"
    unfolding built_def by (rule build_no_account [OF caps tags(1) len])
  have clean: "\<forall>x \<in> set (map render_tag tags). CHR '';'' \<notin> set x \<and> SP \<notin> set x"
    using tags(2) render_tag_clean by fastforce
  then have "SP \<notin> set ?data"
    using set_qjoin [of "'';''" "map render_tag tags"] by auto
  then have "index_of SP ((CHR ''@'' # ?data) @ SP # rest) = Some (length (CHR ''@'' # ?data))"
    by (intro index_of_append) auto
  moreover have "qsplit (CHR '';'') ?data = map render_tag tags"
    using clean tags(1) by (intro qsplit_qjoin) auto
  moreover have "fold (parse_tag norm) (map render_tag tags) [] = tags"
    using parse_rendered [of tags norm "[]"] tags(2,3) by simp
  ultimately show "parse_message_tags norm (built @ rest) = (tags, Some (length built - 1))"
    by (simp add: built parse_message_tags_def)
  show "drop (length built) (built @ rest) = rest" by simp
qed

lemma length_build_message_tags: "length (build_message_tags tags src caps) \<le> max_tag_data + 2"
  by (auto simp: build_message_tags_def Let_def split: option.splits)

section \<open>Split lines\<close>

lemma index_of_str_Some:
  "index_of_str p s = Some n \<Longrightarrow> p \<noteq> [] \<Longrightarrow> n \<le> length s \<and> (\<exists>r. drop n s = p @ r)"
  by (induction p s arbitrary: n rule: index_of_str.induct)
    (auto simp: starts_with_iff split: if_splits)

lemma split_irc_not_Nil [simp]: "split_irc line \<noteq> []"
  by (simp add: split_irc_def Let_def split: option.split prod.split)

lemma split_irc_hd: "SP \<notin> set (hd (split_irc line))"
  by (auto simp: split_irc_def Let_def index_of_None split: option.splits prod.splits
      dest: index_of_Some)

lemma split_irc_params:
  assumes "p \<in> set (butlast (tl (split_irc line)))"
  shows "p \<noteq> [] \<and> SP \<notin> set p"
proof (cases "index_of SP line")
  case None
  with assms show ?thesis by (simp add: split_irc_def)
next
  case (Some sp)
  let ?r = "drop (Suc sp) line"
  obtain rest trailing where
    "(case index_of_str '' :'' ?r of None \<Rightarrow> (?r, [])
      | Some colon \<Rightarrow> (take colon ?r, drop (colon + 2) ?r)) = (rest, trailing)"
    by (meson surj_pair)
  then have "tl (split_irc line) =
      filter (\<lambda>p. p \<noteq> []) (qsplit SP rest) @ (if trailing = [] then [] else [trailing])"
    using Some by (simp add: split_irc_def Let_def)
  with assms have "p \<in> set (filter (\<lambda>p. p \<noteq> []) (qsplit SP rest))"
    by (auto split: if_splits dest: in_set_butlastD)
  then show ?thesis using qsplit_no_sep by auto
qed

lemma split_irc_args_not_empty:
  "p \<in> set (tl (split_irc line)) \<Longrightarrow> p \<noteq> []"
  by (auto simp: split_irc_def Let_def split: option.splits prod.splits if_splits)

lemma index_of_str_no_first:
  "SP \<notin> set s \<Longrightarrow> index_of_str (SP # q) (s @ t) = map_option ((+) (length s)) (index_of_str (SP # q) t)"
proof (induction s)
  case (Cons x s)
  then show ?case by (auto simp: option.map_comp o_def)
qed (cases "index_of_str (SP # q) t"; simp)

lemma index_of_str_params:
  assumes "params \<noteq> []" and "\<forall>p \<in> set params. SP \<notin> set p"
    and "\<forall>p \<in> set (tl params). p \<noteq> [] \<and> hd p \<noteq> CHR '':''"
  shows "index_of_str '' :'' (qjoin '' '' params @ '' :'' @ trailing) = Some (length (qjoin '' '' params))"
  using assms
proof (induction "'' ''" params rule: qjoin.induct)
  case (2 x)
  then show ?case by (simp add: index_of_str_no_first)
next
  case (3 x y xs)
  have IH: "index_of_str '' :'' (qjoin '' '' (y # xs) @ '' :'' @ trailing) =
      Some (length (qjoin '' '' (y # xs)))"
    using "3.prems" by (intro "3.hyps") auto
  obtain c cs where y: "y = c # cs" "c \<noteq> CHR '':''"
    using "3.prems"(3) by (cases y) auto
  have "\<exists>ds. qjoin '' '' (y # xs) = c # ds"
    by (cases xs) (auto simp: y)
  then obtain ds where ds: "qjoin '' '' (y # xs) = c # ds" ..
  have "index_of_str '' :'' (x @ SP # qjoin '' '' (y # xs) @ '' :'' @ trailing) =
      Some (length x + Suc (length (qjoin '' '' (y # xs))))"
    using "3.prems"(2) IH y(2) by (simp add: index_of_str_no_first ds)
  then show ?case by simp
qed simp

lemma split_irc_wire:
  assumes cmd: "SP \<notin> set cmd" and params: "params \<noteq> []" "\<forall>p \<in> set params. p \<noteq> [] \<and> SP \<notin> set p"
    and colon: "\<forall>p \<in> set (tl params). hd p \<noteq> CHR '':''" and trailing: "trailing \<noteq> []"
  shows "split_irc (cmd @ '' '' @ qjoin '' '' params @ '' :'' @ trailing) = cmd # params @ [trailing]"
proof -
  let ?rest = "qjoin '' '' params @ '' :'' @ trailing"
  have sp: "index_of SP (cmd @ SP # ?rest) = Some (length cmd)"
    using cmd by (rule index_of_append)
  have ne: "\<forall>p \<in> set (tl params). p \<noteq> []"
    using params by (cases params) auto
  have "index_of_str '' :'' ?rest = Some (length (qjoin '' '' params))"
    using params colon ne by (intro index_of_str_params) auto
  moreover have "qsplit SP (qjoin '' '' params) = params"
    using params by (intro qsplit_qjoin) auto
  moreover have "filter (\<lambda>p. p \<noteq> []) params = params"
    using params by (simp add: filter_id_conv)
  ultimately show ?thesis
    using sp trailing by (simp add: split_irc_def)
qed

end
