(* ===== verification/World.thy ===== *)
theory World
  imports Modes Irc_Utils
begin

text \<open>
  The objects of the running server and the pointers between them: the event classes of
  \<open>src/core/qtypes.h\<close>, the members of \<open>Account\<close>, \<open>Channel\<close>, \<open>Metadata\<close> and
  \<open>client_connection\<close>, the caches of \<open>Ctx\<close>, and what the code takes from outside
  (Python handlers, clock, host name, random UUIDs, the database's answers), which is the
  record \<open>env\<close>.

  A pointer is a number, an object the value of a heap function at that number; a
  \<open>QSharedPointer\<close> that can be null is an \<open>option\<close>. An operation of the code is a function
  on the whole \<open>world\<close>; one that can follow a null or dangling pointer, block on its own
  lock, read out of range or throw returns a \<open>world res\<close>. A handler runs to its end before
  the next one starts; calls posted with \<open>Qt::QueuedConnection\<close> wait in \<open>w_queue\<close>.
\<close>

section \<open>Events\<close>

record event_base =
  ev_reason :: bytes
  ev_cancel :: bool

record rename_ev = event_base +
  re_old_name :: bytes
  re_new_name :: bytes
  re_message :: bytes
  re_account :: acc_id
  re_channel :: chan_id

record peer_ev = event_base +
  pe_connections :: int
  pe_ip :: bytes

record nick_ev = event_base +
  ne_old_nick :: bytes
  ne_new_nick :: bytes
  ne_from_server :: bool
  ne_account :: acc_id

record raw_ev = event_base +
  rw_raw :: bytes
  rw_ip :: bytes

record join_ev = event_base +
  je_channel :: "chan_id option"
  je_account :: acc_id
  je_password :: bytes
  je_from_system :: bool

record part_ev = event_base +
  pa_channel :: chan_id
  pa_account :: acc_id
  pa_message :: bytes
  pa_from_system :: bool

record message_ev = event_base +
  me_id :: bytes
  me_conn_id :: bytes
  me_tags :: tag_map
  me_nick :: bytes
  me_host :: bytes
  me_text :: bytes
  me_user :: bytes
  me_targets :: "bytes list"
  me_raw :: bytes
  me_account :: acc_id
  me_dest :: "acc_id option"
  me_channel :: "chan_id option"
  me_from_system :: bool
  me_tag_msg :: bool

text \<open>A \<open>QVariant\<close> in the metadata is null (\<open>None\<close>) or holds a byte array.\<close>

record metadata_ev = event_base +
  md_account :: acc_id
  md_dest :: "acc_id option"
  md_channel :: "chan_id option"
  md_subcmd :: bytes
  md_args :: "bytes list"
  md_metadata :: tag_map
  md_from_system :: bool
  md_error_code :: bytes
  md_error_target :: bytes
  md_error_key :: bytes
  md_subscriptions :: "(bytes \<times> acc_id list) list"

record tags_ev = event_base +
  te_account :: acc_id
  te_tags :: tag_map
  te_line :: bytes
  te_from_system :: bool

record auth_ev = event_base +
  au_username :: bytes
  au_password :: bytes
  au_ip :: bytes
  au_from_system :: bool

section \<open>Objects\<close>

record metadata =
  m_kv :: tag_map
  m_subscribers :: "(bytes \<times> acc_id list) list"

record account =
  a_uid :: quuid
  a_name :: bytes
  a_nick :: bytes
  a_password :: bytes
  a_host :: bytes
  a_creation :: nat
  a_connections :: "conn_id list"
  a_channels :: "(bytes \<times> chan_id option) list"
  a_metadata :: "metadata option"

text \<open>\<open>ch_locked\<close> says that the running thread holds the write lock of the channel.\<close>

record channel =
  ch_uid :: quuid
  ch_name :: bytes
  ch_topic :: bytes
  ch_key :: bytes
  ch_owner :: "acc_id option"
  ch_server :: "nat option"
  ch_members :: "acc_id list"
  ch_bans :: "bytes list"
  ch_limit :: int
  ch_modes :: flags
  ch_creation :: nat
  ch_metadata :: "metadata option"
  ch_locked :: bool

text \<open>
  A \<open>ThreadedServer\<close> (one for TCP clients, one for web sockets) with its workers: the
  connections of each worker, the calls to \<open>Worker::handleConnection\<close> that are posted and not
  yet run, and the sockets whose web-socket handshake is still under way.
\<close>

datatype server_kind = IrcServer | WsServer

record pending =
  pd_worker :: nat
  pd_descriptor :: int
  pd_ip :: "32 word"
  pd_port :: nat

record server =
  s_thread_count :: nat
  s_max_per_ip :: int
  s_active :: "32 word \<rightharpoonup> int"
  s_next_worker :: nat
  s_workers :: "conn_id list list"
  s_pending :: "pending list"
  s_upgrading :: "(nat \<times> 32 word) list"

text \<open>The socket: a TCP socket (open, writable) or a web socket (valid).\<close>

datatype transport = Tcp bool bool | Ws bool

record conn =
  c_tasks :: flags
  c_caps :: flags
  c_user_modes :: flags
  c_transport :: transport
  c_home :: "server_kind \<times> nat"
  c_logged_in :: bool
  c_user :: bytes
  c_realname :: bytes
  c_channels :: "(bytes \<times> chan_id) list"
  c_channel_members :: "chan_id option \<rightharpoonup> acc_id list"
  c_account :: "acc_id option"
  c_remote :: "32 word"
  c_ready :: bool
  c_user_already_exists :: bool
  c_nick :: bytes
  c_buffer :: bytes
  c_pass_given :: bytes
  c_host :: bytes
  c_uid :: bytes
  c_last_activity :: nat
  c_established :: nat
  c_out :: "bytes list"
  c_closing :: bool
  c_alive :: bool

text \<open>Calls posted to a connection's thread, and statements sent to the database.\<close>

datatype queued =
    QPart conn_id part_ev
  | QNick conn_id nick_ev
  | QRename conn_id rename_ev

datatype ref_type = RefAccount | RefChannel

datatype db_op =
    InsertMessage quuid quuid quuid message_ev
  | MetadataUpsert bytes bytes quuid ref_type
  | MetadataRemove bytes quuid
  | MetadataSubscribe quuid "bytes list" quuid
  | MetadataUnsubscribe quuid "bytes list" quuid

record world =
  w_accs :: "acc_id \<Rightarrow> account"
  w_chans :: "chan_id \<Rightarrow> channel"
  w_conns :: "conn_id \<Rightarrow> conn"
  w_srv :: "server_kind \<Rightarrow> server"
  w_next_acc :: acc_id
  w_next_conn :: conn_id
  w_next_chan :: chan_id
  w_accounts :: "acc_id list"
  w_lookup_name :: "bytes \<rightharpoonup> acc_id"
  w_lookup_uuid :: "quuid \<rightharpoonup> acc_id"
  w_nicks :: "bytes \<rightharpoonup> acc_id"
  w_channels :: "(bytes \<times> chan_id option) list"
  w_cap_version :: int
  w_motd :: bytes
  w_motd_modified :: nat
  w_uuids :: nat
  w_queue :: "queued list"
  w_db :: "db_op list"

section \<open>The environment\<close>

text \<open>
  \<open>e_active\<close> are the events some enabled Python module handles. A Python call gives
  \<open>None\<close> when it fails, and otherwise the event as the handlers left it (the returned
  pointer is the one that was passed). \<open>e_motd_file\<close> is the file of the message of the day: its
  modification time and, when it can be opened, its contents. \<open>e_uuid n\<close> is the \<open>n\<close>-th result of
  \<open>QUuid::createUuid\<close>.
\<close>

record env =
  e_server_name :: bytes
  e_default_host :: bytes
  e_password :: bytes
  e_motd_file :: "(nat \<times> bytes option) option"
  e_caps :: "bytes list"
  e_isupport :: "(bytes \<times> bytes) list"
  e_ws_port :: nat
  e_now :: nat
  e_unicode :: unicode
  e_qupper :: "bytes \<Rightarrow> bytes"
  e_base64 :: "bytes \<Rightarrow> bytes"
  e_bcrypt :: "bytes \<Rightarrow> bytes \<Rightarrow> bool"
  e_ip :: "32 word \<Rightarrow> bytes"
  e_uuid :: "nat \<Rightarrow> quuid"
  e_uuid_str :: "quuid \<Rightarrow> bytes"
  e_uuid_id128 :: "quuid \<Rightarrow> bytes"
  e_uuid_rfc4122 :: "quuid \<Rightarrow> bytes"
  e_metadata_get :: "quuid \<Rightarrow> metadata"
  e_active :: flags
  e_on_rename :: "rename_ev \<Rightarrow> rename_ev option"
  e_on_nick :: "nick_ev \<Rightarrow> nick_ev option"
  e_on_raw :: "raw_ev \<Rightarrow> raw_ev option"
  e_on_join :: "join_ev \<Rightarrow> join_ev option"
  e_on_part :: "part_ev \<Rightarrow> part_ev option"
  e_on_message :: "qirc_event \<Rightarrow> message_ev \<Rightarrow> message_ev option"
  e_on_auth :: "auth_ev \<Rightarrow> auth_ev option"
  e_on_tags :: "tags_ev \<Rightarrow> tags_ev option"

definition has_event_handler :: "env \<Rightarrow> qirc_event \<Rightarrow> bool" where
  "has_event_handler E ev = flags_has event_val ev (e_active E)"

definition norm :: "env \<Rightarrow> bytes \<Rightarrow> bytes" where
  "norm E = u_norm (e_unicode E)"

section \<open>Updates of one object\<close>

definition upd_conn :: "conn_id \<Rightarrow> (conn \<Rightarrow> conn) \<Rightarrow> world \<Rightarrow> world" where
  "upd_conn i f w = w\<lparr>w_conns := (w_conns w)(i := f (w_conns w i))\<rparr>"

definition upd_acc :: "acc_id \<Rightarrow> (account \<Rightarrow> account) \<Rightarrow> world \<Rightarrow> world" where
  "upd_acc a f w = w\<lparr>w_accs := (w_accs w)(a := f (w_accs w a))\<rparr>"

definition upd_chan :: "chan_id \<Rightarrow> (channel \<Rightarrow> channel) \<Rightarrow> world \<Rightarrow> world" where
  "upd_chan x f w = w\<lparr>w_chans := (w_chans w)(x := f (w_chans w x))\<rparr>"

lemma upd_conn_simps [simp]:
  "w_conns (upd_conn i f w) = (w_conns w)(i := f (w_conns w i))"
  "w_accs (upd_conn i f w) = w_accs w"
  "w_chans (upd_conn i f w) = w_chans w"
  "w_srv (upd_conn i f w) = w_srv w"
  "w_next_conn (upd_conn i f w) = w_next_conn w"
  "w_motd (upd_conn i f w) = w_motd w"
  "w_motd_modified (upd_conn i f w) = w_motd_modified w"
  "w_next_acc (upd_conn i f w) = w_next_acc w"
  "w_next_chan (upd_conn i f w) = w_next_chan w"
  "w_accounts (upd_conn i f w) = w_accounts w"
  "w_lookup_name (upd_conn i f w) = w_lookup_name w"
  "w_lookup_uuid (upd_conn i f w) = w_lookup_uuid w"
  "w_nicks (upd_conn i f w) = w_nicks w"
  "w_channels (upd_conn i f w) = w_channels w"
  "w_cap_version (upd_conn i f w) = w_cap_version w"
  "w_uuids (upd_conn i f w) = w_uuids w"
  "w_queue (upd_conn i f w) = w_queue w"
  "w_db (upd_conn i f w) = w_db w"
  by (simp_all add: upd_conn_def)

lemma upd_acc_simps [simp]:
  "w_accs (upd_acc a f w) = (w_accs w)(a := f (w_accs w a))"
  "w_chans (upd_acc a f w) = w_chans w"
  "w_conns (upd_acc a f w) = w_conns w"
  "w_srv (upd_acc a f w) = w_srv w"
  "w_next_conn (upd_acc a f w) = w_next_conn w"
  "w_motd (upd_acc a f w) = w_motd w"
  "w_motd_modified (upd_acc a f w) = w_motd_modified w"
  "w_next_acc (upd_acc a f w) = w_next_acc w"
  "w_next_chan (upd_acc a f w) = w_next_chan w"
  "w_accounts (upd_acc a f w) = w_accounts w"
  "w_lookup_name (upd_acc a f w) = w_lookup_name w"
  "w_lookup_uuid (upd_acc a f w) = w_lookup_uuid w"
  "w_nicks (upd_acc a f w) = w_nicks w"
  "w_channels (upd_acc a f w) = w_channels w"
  "w_cap_version (upd_acc a f w) = w_cap_version w"
  "w_uuids (upd_acc a f w) = w_uuids w"
  "w_queue (upd_acc a f w) = w_queue w"
  "w_db (upd_acc a f w) = w_db w"
  by (simp_all add: upd_acc_def)

lemma upd_chan_simps [simp]:
  "w_chans (upd_chan x f w) = (w_chans w)(x := f (w_chans w x))"
  "w_accs (upd_chan x f w) = w_accs w"
  "w_conns (upd_chan x f w) = w_conns w"
  "w_srv (upd_chan x f w) = w_srv w"
  "w_next_conn (upd_chan x f w) = w_next_conn w"
  "w_motd (upd_chan x f w) = w_motd w"
  "w_motd_modified (upd_chan x f w) = w_motd_modified w"
  "w_next_acc (upd_chan x f w) = w_next_acc w"
  "w_next_chan (upd_chan x f w) = w_next_chan w"
  "w_accounts (upd_chan x f w) = w_accounts w"
  "w_lookup_name (upd_chan x f w) = w_lookup_name w"
  "w_lookup_uuid (upd_chan x f w) = w_lookup_uuid w"
  "w_nicks (upd_chan x f w) = w_nicks w"
  "w_channels (upd_chan x f w) = w_channels w"
  "w_cap_version (upd_chan x f w) = w_cap_version w"
  "w_uuids (upd_chan x f w) = w_uuids w"
  "w_queue (upd_chan x f w) = w_queue w"
  "w_db (upd_chan x f w) = w_db w"
  by (simp_all add: upd_chan_def)

section \<open>New objects\<close>

text \<open>The constructors \<open>Account(account_name)\<close> and \<open>Channel(name)\<close>.\<close>

definition new_account :: "env \<Rightarrow> bytes \<Rightarrow> account" where
  "new_account E name =
     \<lparr>a_uid = null_uuid, a_name = name, a_nick = name, a_password = [],
      a_host = e_default_host E, a_creation = 0, a_connections = [], a_channels = [],
      a_metadata = None\<rparr>"

definition new_channel :: "bytes \<Rightarrow> channel" where
  "new_channel name =
     \<lparr>ch_uid = null_uuid, ch_name = name, ch_topic = [], ch_key = [], ch_owner = None,
      ch_server = None, ch_members = [], ch_bans = [], ch_limit = 0,
      ch_modes = flags_set channel_mode_val [NO_OUTSIDE_MSGS, TOPIC_PROTECTED] 0,
      ch_creation = 0, ch_metadata = None, ch_locked = False\<rparr>"

text \<open>
  \<open>init\<close> and the two constructors of \<open>client_connection\<close>, with the remote address that
  \<open>handleConnection\<close> and \<open>handleWSConnection\<close> set.
\<close>

definition new_conn :: "env \<Rightarrow> server_kind \<times> nat \<Rightarrow> transport \<Rightarrow> bytes \<Rightarrow> 32 word \<Rightarrow> conn" where
  "new_conn E home t uid ip =
     \<lparr>c_tasks = flags_set setup_val [CAP_EXCHANGE, NICK, USER] 0, c_caps = 0, c_user_modes = 0,
      c_transport = t, c_home = home, c_logged_in = False, c_user = [], c_realname = [], c_channels = [],
      c_channel_members = Map.empty, c_account = None, c_remote = ip, c_ready = False,
      c_user_already_exists = False, c_nick = [], c_buffer = [], c_pass_given = [],
      c_host = e_default_host E, c_uid = uid, c_last_activity = 0, c_established = e_now E,
      c_out = [], c_closing = False, c_alive = True\<rparr>"

section \<open>Names and prefixes\<close>

definition account_nick :: "account \<Rightarrow> bytes" where
  "account_nick a = (if a_nick a = [] then ''*'' else a_nick a)"

definition account_prefix :: "bytes \<Rightarrow> account \<Rightarrow> bytes" where
  "account_prefix nick_override a =
     (if nick_override = [] then a_nick a else nick_override) @ ''!'' @
     (if a_name a = [] then ''user'' else a_name a) @ ''@'' @ a_host a"

definition account_host :: "env \<Rightarrow> account \<Rightarrow> bytes" where
  "account_host E a = (if a_host a = [] then e_default_host E else a_host a)"

definition is_logged_in :: "account \<Rightarrow> bool" where
  "is_logged_in a \<longleftrightarrow> a_name a \<noteq> []"

definition has_connections :: "account \<Rightarrow> bool" where
  "has_connections a \<longleftrightarrow> length (a_connections a) > 0"

definition conn_nick :: "world \<Rightarrow> conn_id \<Rightarrow> bytes" where
  "conn_nick w i =
     (case c_account (w_conns w i) of
        Some a \<Rightarrow> account_nick (w_accs w a)
      | None \<Rightarrow> if c_nick (w_conns w i) = [] then ''*'' else c_nick (w_conns w i))"

definition conn_prefix :: "world \<Rightarrow> conn_id \<Rightarrow> bytes" where
  "conn_prefix w i =
     conn_nick w i @ ''!'' @
     (if c_user (w_conns w i) = [] then ''user'' else c_user (w_conns w i)) @ ''@'' @
     c_host (w_conns w i)"

section \<open>Sending\<close>

definition on_write :: "bytes \<Rightarrow> conn \<Rightarrow> conn" where
  "on_write d c =
     (case c_transport c of
        Ws valid \<Rightarrow> if valid then c\<lparr>c_out := c_out c @ [d]\<rparr> else c
      | Tcp is_open writable \<Rightarrow>
          if \<not> is_open \<or> \<not> writable then c else c\<lparr>c_out := c_out c @ [d]\<rparr>)"

text \<open>\<open>emit sendData(d)\<close> reaches \<open>onWrite\<close> through the connection made in \<open>init\<close>.\<close>

definition emit_data :: "conn_id \<Rightarrow> bytes \<Rightarrow> world \<Rightarrow> world" where
  "emit_data i d = upd_conn i (on_write d)"

definition send_raw :: "env \<Rightarrow> conn_id \<Rightarrow> bytes \<Rightarrow> world \<Rightarrow> world" where
  "send_raw E i line = emit_data i ('':'' @ e_server_name E @ '' '' @ line @ crlf)"

definition reply_num :: "env \<Rightarrow> conn_id \<Rightarrow> nat \<Rightarrow> bytes \<Rightarrow> world \<Rightarrow> world" where
  "reply_num E i code txt w =
     (let nick = conn_nick w i;
          target = (if nick = [] then ''*'' else nick);
          line = pad3 (dec code) @ '' '' @ target @ '' :'' @ txt
      in send_raw E i line w)"

definition reply_self :: "conn_id \<Rightarrow> bytes \<Rightarrow> bytes \<Rightarrow> world \<Rightarrow> world" where
  "reply_self i command args w =
     emit_data i ('':'' @ conn_prefix w i @ '' '' @ command @
       (if args = [] then [] else '' '' @ args) @ crlf) w"

text \<open>\<open>forceDisconnect\<close>: the socket is asked to close; its \<open>disconnected\<close> signal comes later.\<close>

definition force_disconnect :: "conn_id \<Rightarrow> world \<Rightarrow> world" where
  "force_disconnect i = upd_conn i (\<lambda>c. c\<lparr>c_closing := True\<rparr>)"

definition can_write :: "conn \<Rightarrow> bool" where
  "can_write c = (case c_transport c of Ws valid \<Rightarrow> valid | Tcp is_open writable \<Rightarrow> is_open \<and> writable)"

lemma c_out_on_write [simp]:
  "c_out (on_write d c) = c_out c @ (if can_write c then [d] else [])"
  by (simp add: on_write_def can_write_def split: transport.split)

lemma on_write_simps [simp]:
  "c_tasks (on_write d c) = c_tasks c"
  "c_caps (on_write d c) = c_caps c"
  "c_user_modes (on_write d c) = c_user_modes c"
  "c_transport (on_write d c) = c_transport c"
  "c_home (on_write d c) = c_home c"
  "c_logged_in (on_write d c) = c_logged_in c"
  "c_user (on_write d c) = c_user c"
  "c_realname (on_write d c) = c_realname c"
  "c_channels (on_write d c) = c_channels c"
  "c_channel_members (on_write d c) = c_channel_members c"
  "c_account (on_write d c) = c_account c"
  "c_remote (on_write d c) = c_remote c"
  "c_ready (on_write d c) = c_ready c"
  "c_user_already_exists (on_write d c) = c_user_already_exists c"
  "c_nick (on_write d c) = c_nick c"
  "c_buffer (on_write d c) = c_buffer c"
  "c_pass_given (on_write d c) = c_pass_given c"
  "c_host (on_write d c) = c_host c"
  "c_uid (on_write d c) = c_uid c"
  "c_last_activity (on_write d c) = c_last_activity c"
  "c_established (on_write d c) = c_established c"
  "c_closing (on_write d c) = c_closing c"
  "c_alive (on_write d c) = c_alive c"
  by (simp_all add: on_write_def split: transport.split)

lemma can_write_on_write [simp]: "can_write (on_write d c) = can_write c"
  by (simp add: can_write_def)

lemma emit_data_simps [simp]:
  "w_conns (emit_data i d w) = (w_conns w)(i := on_write d (w_conns w i))"
  "w_accs (emit_data i d w) = w_accs w"
  "w_chans (emit_data i d w) = w_chans w"
  "w_srv (emit_data i d w) = w_srv w"
  "w_next_conn (emit_data i d w) = w_next_conn w"
  "w_motd (emit_data i d w) = w_motd w"
  "w_motd_modified (emit_data i d w) = w_motd_modified w"
  "w_next_acc (emit_data i d w) = w_next_acc w"
  "w_next_chan (emit_data i d w) = w_next_chan w"
  "w_accounts (emit_data i d w) = w_accounts w"
  "w_lookup_name (emit_data i d w) = w_lookup_name w"
  "w_lookup_uuid (emit_data i d w) = w_lookup_uuid w"
  "w_nicks (emit_data i d w) = w_nicks w"
  "w_channels (emit_data i d w) = w_channels w"
  "w_cap_version (emit_data i d w) = w_cap_version w"
  "w_uuids (emit_data i d w) = w_uuids w"
  "w_queue (emit_data i d w) = w_queue w"
  "w_db (emit_data i d w) = w_db w"
  by (simp_all add: emit_data_def)

lemma conn_nick_emit [simp]: "conn_nick (emit_data i d w) j = conn_nick w j"
  by (simp add: conn_nick_def split: option.split)

lemma conn_prefix_emit [simp]: "conn_prefix (emit_data i d w) j = conn_prefix w j"
  by (simp add: conn_prefix_def)

lemma account_nick_not_empty [simp]: "account_nick a \<noteq> []"
  by (simp add: account_nick_def)

lemma conn_nick_not_empty [simp]: "conn_nick w i \<noteq> []"
  by (simp add: conn_nick_def split: option.split)

text \<open>A numeric reply in full.\<close>

lemma reply_num_eq:
  "reply_num E i code txt w =
     emit_data i ('':'' @ e_server_name E @ '' '' @ pad3 (dec code) @ '' '' @ conn_nick w i @
       '' :'' @ txt @ crlf) w"
  by (simp add: reply_num_def send_raw_def)

section \<open>Dereferencing\<close>

definition deref_conn :: "conn_id \<Rightarrow> world \<Rightarrow> conn res" where
  "deref_conn i w =
     (if c_alive (w_conns w i) then Inr (w_conns w i) else Inl UseAfterFree)"

definition deref_opt :: "'a option \<Rightarrow> 'a res" where
  "deref_opt p = (case p of None \<Rightarrow> Inl NullDeref | Some x \<Rightarrow> Inr x)"

lemma deref_opt_simps [simp]: "deref_opt None = Inl NullDeref" "deref_opt (Some x) = Inr x"
  by (simp_all add: deref_opt_def)

lemma deref_opt_Inr [simp]: "deref_opt p = Inr x \<longleftrightarrow> p = Some x"
  by (cases p) auto

end
