(* ===== verification/Caches.thy ===== *)
theory Caches
  imports World
begin

text \<open>
  The caches of \<open>Ctx\<close> (\<open>src/ctx.cpp\<close>): the accounts with their two lookup tables and the
  table of IRC nicks. The laws a cache of objects keeps are stated once, as the locales
  \<open>object_cache\<close> (objects found by UUID) and \<open>named_cache\<close> (also by name), and interpreted
  on the accounts here and on servers, roles, uploads and permissions in \<open>Objects\<close>.
\<close>

section \<open>What a cache promises\<close>

locale object_cache =
  fixes ins rem :: "'p \<Rightarrow> 's \<Rightarrow> 's"
    and objects :: "'s \<Rightarrow> 'p set"
    and by_uuid :: "'s \<Rightarrow> quuid \<Rightarrow> 'p option"
    and uid :: "'s \<Rightarrow> 'p \<Rightarrow> quuid"
  assumes objects_ins: "objects (ins p s) = insert p (objects s)"
    and objects_rem: "objects (rem p s) = objects s - {p}"
    and by_uuid_ins: "by_uuid (ins p s) = (by_uuid s)(uid s p \<mapsto> p)"
    and by_uuid_rem: "by_uuid (rem p s) = (by_uuid s)(uid s p := None)"
    and uid_ins: "uid (ins p s) = uid s"
    and uid_rem: "uid (rem p s) = uid s"
begin

text \<open>Every object is found under its UUID, and everything found is an object with that UUID.\<close>

definition coherent :: "'s \<Rightarrow> bool" where
  "coherent s \<longleftrightarrow> (\<forall>u p. by_uuid s u = Some p \<longleftrightarrow> p \<in> objects s \<and> uid s p = u)"

lemma coherent_uid_inj:
  "coherent s \<Longrightarrow> p \<in> objects s \<Longrightarrow> q \<in> objects s \<Longrightarrow> uid s p = uid s q \<Longrightarrow> p = q"
  by (metis coherent_def option.inject)

lemma coherent_ins:
  assumes "coherent s" and "\<forall>q \<in> objects s. uid s q = uid s p \<longrightarrow> q = p"
  shows "coherent (ins p s)"
  using assms by (auto simp: coherent_def objects_ins by_uuid_ins uid_ins)

lemma coherent_rem:
  assumes "coherent s" and "p \<in> objects s"
  shows "coherent (rem p s)"
  unfolding coherent_def
proof (intro allI)
  fix u q
  have inj: "q \<in> objects s \<Longrightarrow> uid s q = uid s p \<Longrightarrow> q = p" for q
    using coherent_uid_inj [OF assms] by metis
  show "by_uuid (rem p s) u = Some q \<longleftrightarrow> q \<in> objects (rem p s) \<and> uid (rem p s) q = u"
    using assms inj by (auto simp: coherent_def objects_rem by_uuid_rem uid_rem)
qed

lemma lookup_after_ins: "by_uuid (ins p s) (uid s p) = Some p"
  by (simp add: by_uuid_ins)

lemma no_lookup_after_rem:
  assumes "coherent s" and "p \<in> objects s"
  shows "by_uuid (rem p s) u \<noteq> Some p"
  using assms by (auto simp: coherent_def by_uuid_rem)

lemma rem_ins:
  assumes "coherent s" and "p \<notin> objects s" and "\<forall>q \<in> objects s. uid s q \<noteq> uid s p"
  shows "objects (rem p (ins p s)) = objects s" and "by_uuid (rem p (ins p s)) = by_uuid s"
proof -
  show "objects (rem p (ins p s)) = objects s"
    using assms(2) by (simp add: objects_rem objects_ins)
  have "by_uuid s (uid s p) = None"
    using assms by (metis coherent_def not_None_eq)
  then show "by_uuid (rem p (ins p s)) = by_uuid s"
    by (auto simp: by_uuid_rem by_uuid_ins uid_ins fun_eq_iff)
qed

end

locale named_cache = object_cache ins rem objects by_uuid uid
  for ins rem :: "'p \<Rightarrow> 's \<Rightarrow> 's"
    and objects :: "'s \<Rightarrow> 'p set"
    and by_uuid :: "'s \<Rightarrow> quuid \<Rightarrow> 'p option"
    and uid :: "'s \<Rightarrow> 'p \<Rightarrow> quuid" +
  fixes by_name :: "'s \<Rightarrow> bytes \<Rightarrow> 'p option"
    and name :: "'s \<Rightarrow> 'p \<Rightarrow> bytes"
  assumes by_name_ins: "by_name (ins p s) =
      (if name s p = [] then by_name s else (by_name s)(name s p \<mapsto> p))"
    and by_name_rem: "by_name (rem p s) =
      (if name s p = [] then by_name s else (by_name s)(name s p := None))"
    and name_ins: "name (ins p s) = name s"
    and name_rem: "name (rem p s) = name s"
begin

text \<open>Only named objects are found by name, and only under their own.\<close>

definition names_ok :: "'s \<Rightarrow> bool" where
  "names_ok s \<longleftrightarrow> (\<forall>n p. by_name s n = Some p \<longrightarrow> n \<noteq> [] \<and> p \<in> objects s \<and> name s p = n)"

lemma names_ok_ins: "names_ok s \<Longrightarrow> names_ok (ins p s)"
  by (auto simp: names_ok_def by_name_ins objects_ins name_ins)

lemma names_ok_rem: "names_ok s \<Longrightarrow> names_ok (rem p s)"
  by (auto simp: names_ok_def by_name_rem objects_rem name_rem)

lemma found_after_ins: "name s p \<noteq> [] \<Longrightarrow> by_name (ins p s) (name s p) = Some p"
  by (simp add: by_name_ins)

lemma not_found_after_rem: "names_ok s \<Longrightarrow> by_name (rem p s) n \<noteq> Some p"
  by (auto simp: names_ok_def by_name_rem)

lemma anonymous_ins: "name s p = [] \<Longrightarrow> by_name (ins p s) = by_name s"
  by (simp add: by_name_ins)

end

section \<open>Accounts\<close>

definition account_insert_cache :: "acc_id \<Rightarrow> world \<Rightarrow> world" where
  "account_insert_cache p w =
     (let w1 = w\<lparr>w_accounts := List.insert p (w_accounts w)\<rparr>;
          w2 = w1\<lparr>w_lookup_uuid := (w_lookup_uuid w1)(a_uid (w_accs w p) \<mapsto> p)\<rparr>;
          name = a_name (w_accs w p)
      in if name \<noteq> [] then w2\<lparr>w_lookup_name := (w_lookup_name w2)(name \<mapsto> p)\<rparr> else w2)"

definition account_remove_cache :: "acc_id \<Rightarrow> world \<Rightarrow> world" where
  "account_remove_cache p w =
     (let w1 = w\<lparr>w_accounts := removeAll p (w_accounts w)\<rparr>;
          w2 = w1\<lparr>w_lookup_uuid := (w_lookup_uuid w1)(a_uid (w_accs w p) := None)\<rparr>;
          name = a_name (w_accs w p)
      in if name \<noteq> [] then w2\<lparr>w_lookup_name := (w_lookup_name w2)(name := None)\<rparr> else w2)"

definition account_username_exists :: "bytes \<Rightarrow> world \<Rightarrow> bool" where
  "account_username_exists username w \<longleftrightarrow> w_lookup_name w username \<noteq> None"

definition get_by_uid :: "world \<Rightarrow> quuid \<Rightarrow> acc_id option" where
  "get_by_uid w u = w_lookup_uuid w u"

definition get_by_name :: "world \<Rightarrow> bytes \<Rightarrow> acc_id option" where
  "get_by_name w n = w_lookup_name w n"

definition get_accounts_by_uuids :: "quuid list \<Rightarrow> world \<Rightarrow> (quuid \<times> bytes) list" where
  "get_accounts_by_uuids uuids w =
     concat (map (\<lambda>u. case w_lookup_uuid w u of None \<Rightarrow> []
        | Some p \<Rightarrow> [(a_uid (w_accs w p), a_name (w_accs w p))]) uuids)"

definition irc_nicks_remove_cache :: "bytes \<Rightarrow> world \<Rightarrow> world" where
  "irc_nicks_remove_cache nick w = w\<lparr>w_nicks := (w_nicks w)(nick := None)\<rparr>"

definition irc_nicks_insert_cache :: "bytes \<Rightarrow> acc_id \<Rightarrow> world \<Rightarrow> world" where
  "irc_nicks_insert_cache nick p w = w\<lparr>w_nicks := (w_nicks w)(nick \<mapsto> p)\<rparr>"

definition irc_nick_get :: "bytes \<Rightarrow> world \<Rightarrow> acc_id option" where
  "irc_nick_get nick w = w_nicks w nick"

text \<open>\<open>get_accounts_ordered\<close>: by account name; the order of the set is unspecified.\<close>

definition get_accounts_ordered :: "world \<Rightarrow> acc_id list" where
  "get_accounts_ordered w = sort_key (\<lambda>p. a_name (w_accs w p)) (w_accounts w)"

interpretation acc_cache: named_cache
  account_insert_cache account_remove_cache "\<lambda>w. set (w_accounts w)" w_lookup_uuid
  "\<lambda>w p. a_uid (w_accs w p)" w_lookup_name "\<lambda>w p. a_name (w_accs w p)"
  by unfold_locales (auto simp: account_insert_cache_def account_remove_cache_def Let_def)

lemma accounts_distinct:
  "distinct (w_accounts w) \<Longrightarrow> distinct (w_accounts (account_insert_cache p w))"
  "distinct (w_accounts w) \<Longrightarrow> distinct (w_accounts (account_remove_cache p w))"
  by (auto simp: account_insert_cache_def account_remove_cache_def Let_def distinct_removeAll)

end
