(* ===== verification/Delivery.thy ===== *)
theory Delivery
  imports World
begin

text \<open>
  What a \<open>client_connection\<close> does when something is delivered to it
  (\<open>src/irc/client_connection.cpp\<close>): \<open>channel_join\<close>, \<open>channel_part\<close>, \<open>message\<close>,
  \<open>change_nick\<close>, \<open>channel_rename\<close> and \<open>metadata\<close>. A delivery writes lines to the client and
  updates the connection's own view of its channels; \<open>frame\<close> says that it touches nothing
  else.
\<close>

section \<open>The connection's view of channel members\<close>

definition members_seen :: "chan_id option \<Rightarrow> conn \<Rightarrow> acc_id list" where
  "members_seen k c = (case c_channel_members c k of None \<Rightarrow> [] | Some l \<Rightarrow> l)"

text \<open>\<open>channel_members[k]\<close> inserts an empty set when the key is missing.\<close>

definition members_touch :: "chan_id option \<Rightarrow> conn \<Rightarrow> conn" where
  "members_touch k c =
     c\<lparr>c_channel_members := (c_channel_members c)(k \<mapsto> members_seen k c)\<rparr>"

definition members_insert :: "chan_id option \<Rightarrow> acc_id list \<Rightarrow> conn \<Rightarrow> conn" where
  "members_insert k accs c =
     c\<lparr>c_channel_members := (c_channel_members c)(k \<mapsto> fold List.insert accs (members_seen k c))\<rparr>"

section \<open>Joins and parts\<close>

definition conn_channel_join :: "env \<Rightarrow> join_ev \<Rightarrow> conn_id \<Rightarrow> world \<Rightarrow> world" where
  "conn_channel_join E ev i w =
     (case je_channel ev of
        None \<Rightarrow> w
      | Some x \<Rightarrow>
          let account = je_account ev;
              channel = w_chans w x;
              channel_name = ch_name channel
          in
          if Some account \<noteq> c_account (w_conns w i) then
            let acc_prefix = account_prefix [] (w_accs w account);
                msg = '':'' @ acc_prefix @ '' JOIN :#'' @ channel_name @ crlf
            in upd_conn i (members_insert (Some x) [account]) (emit_data i msg w)
          else if map_of (c_channels (w_conns w i)) channel_name \<noteq> None then w
          else
            let nick = conn_nick w i;
                w1 = upd_conn i (members_insert (Some x) (ch_members channel)) w;
                w2 = upd_conn i (\<lambda>c. c\<lparr>c_channels := qmap_put channel_name x (c_channels c)\<rparr>) w1;
                w3 = reply_self i ''JOIN'' ('':#'' @ channel_name) w2;
                w4 = (if ch_topic channel = [] then
                        reply_num E i 331 (''#'' @ channel_name @ '' :No topic is set'') w3
                      else send_raw E i (''332 '' @ nick @ '' #'' @ channel_name @ '' :'' @
                             ch_topic channel) w3);
                names = map (\<lambda>a. let nick_acc = account_nick (w_accs w a) in
                            if nick_acc = [] then a_name (w_accs w a) else nick_acc)
                          (ch_members channel);
                w5 = send_raw E i (''353 '' @ nick @ '' = #'' @ channel_name @ '' :'' @
                       qjoin '' '' names) w4
            in send_raw E i (''366 '' @ nick @ '' #'' @ channel_name @ '' :End of NAMES list'') w5)"

definition conn_channel_part :: "part_ev \<Rightarrow> conn_id \<Rightarrow> world \<Rightarrow> world res" where
  "conn_channel_part ev i w =
     bind_res (deref_opt (c_account (w_conns w i))) (\<lambda>me.
     let channel_name = ch_name (w_chans w (pa_channel ev));
         k = Some (pa_channel ev);
         account = pa_account ev
     in
     if a_uid (w_accs w account) = a_uid (w_accs w me) then
       let w1 = upd_conn i (\<lambda>c. c\<lparr>c_channel_members := (c_channel_members c)(k := None),
                  c_channels := hash_del channel_name (c_channels c)\<rparr>) w
       in Inr (reply_self i ''PART'' ('':#'' @ channel_name) w1)
     else
       (case c_channel_members (w_conns w i) k of
          None \<Rightarrow> Inr w
        | Some accs \<Rightarrow>
            if account \<notin> set accs then Inr w
            else
              let acc_prefix = account_prefix [] (w_accs w account);
                  reason = (if pa_message ev = [] then [] else '' :'' @ pa_message ev);
                  msg = '':'' @ acc_prefix @ '' PART #'' @ channel_name @ reason @ crlf;
                  w1 = emit_data i msg w
              in Inr (upd_conn i (\<lambda>c. c\<lparr>c_channel_members := (c_channel_members c)(k := None)\<rparr>) w1)))"

section \<open>Messages\<close>

definition message_target :: "message_ev \<Rightarrow> world \<Rightarrow> bytes res" where
  "message_target ev w =
     (case me_channel ev of
        None \<Rightarrow> bind_res (deref_opt (me_dest ev)) (\<lambda>d. Inr (account_nick (w_accs w d)))
      | Some x \<Rightarrow> Inr (''#'' @ ch_name (w_chans w x)))"

text \<open>The prefix of the line, or \<open>None\<close> when the connection gets no copy.\<close>

definition message_prefix :: "message_ev \<Rightarrow> conn_id \<Rightarrow> world \<Rightarrow> bytes option" where
  "message_prefix ev i w =
     (let c = w_conns w i in
      if Some (me_account ev) = c_account c then
        if flags_has cap_val ECHO_MESSAGE (c_caps c) then Some (conn_prefix w i)
        else if flags_has cap_val ZNC_SELF_MESSAGE (c_caps c) \<and> c_uid c \<noteq> me_conn_id ev
        then Some (conn_prefix w i)
        else None
      else Some (account_prefix [] (w_accs w (me_account ev))))"

definition message_line :: "message_ev \<Rightarrow> bytes \<Rightarrow> bytes \<Rightarrow> bytes \<Rightarrow> bytes" where
  "message_line ev tag_prefix prefix target =
     tag_prefix @ '':'' @ prefix @ '' '' @ (if me_tag_msg ev then ''TAGMSG'' else ''PRIVMSG'') @
     '' '' @ target @ (if me_tag_msg ev then [] else '' :'' @ me_text ev) @ crlf"

definition conn_message :: "message_ev \<Rightarrow> conn_id \<Rightarrow> world \<Rightarrow> world res" where
  "conn_message ev i w =
     bind_res (message_target ev w) (\<lambda>target.
       case message_prefix ev i w of
         None \<Rightarrow> Inr w
       | Some prefix \<Rightarrow>
           let tag_prefix = build_message_tags (me_tags ev)
                 (Some (a_name (w_accs w (me_account ev)))) (c_caps (w_conns w i))
           in Inr (emit_data i (message_line ev tag_prefix prefix target) w))"

section \<open>Renames\<close>

definition conn_change_nick :: "nick_ev \<Rightarrow> conn_id \<Rightarrow> world \<Rightarrow> bool \<times> world" where
  "conn_change_nick ev i w =
     (let c = w_conns w i;
          account_nick = conn_nick w i
      in
      if Some (ne_account ev) = c_account c then
        if c_nick c = account_nick then (False, w)
        else
          let prefix = ne_old_nick ev @ ''!'' @ c_user c @ ''@'' @ c_host c
          in (True, emit_data i ('':'' @ prefix @ '' NICK :'' @ ne_new_nick ev @ crlf) w)
      else
        let prefix = account_prefix (ne_old_nick ev) (w_accs w (ne_account ev))
        in (True, emit_data i ('':'' @ prefix @ '' NICK :'' @ ne_new_nick ev @ crlf) w))"

definition conn_channel_rename :: "rename_ev \<Rightarrow> conn_id \<Rightarrow> world \<Rightarrow> bool \<times> world" where
  "conn_channel_rename ev i w =
     (if re_old_name ev = re_new_name ev then (False, w)
      else
        let from_channel = ''#'' @ re_old_name ev;
            to_channel = ''#'' @ re_new_name ev
        in
        if flags_has cap_val CHANNEL_RENAME_CAP (c_caps (w_conns w i)) then
          let message = (if re_message ev = [] then [] else '': '' @ re_message ev)
          in (True, emit_data i ('':'' @ conn_prefix w i @ '' RENAME '' @ from_channel @ '' '' @
                to_channel @ message @ crlf) w)
        else
          let w1 = emit_data i ('':'' @ conn_prefix w i @ '' PART #'' @ from_channel @
                     '':Changing the channel name'' @ crlf) w
          in (True, emit_data i ('':'' @ conn_prefix w1 i @ '' JOIN #'' @ to_channel @ crlf) w1))"

section \<open>Metadata replies\<close>

definition metadata_target_name :: "metadata_ev \<Rightarrow> conn_id \<Rightarrow> world \<Rightarrow> bytes" where
  "metadata_target_name ev i w =
     (case md_dest ev of
        Some d \<Rightarrow>
          if Some (md_account ev) = c_account (w_conns w i) then ''*''
          else account_nick (w_accs w d)
      | None \<Rightarrow>
          (case md_channel ev of
             Some x \<Rightarrow> ''#'' @ ch_name (w_chans w x)
           | None \<Rightarrow> ''*''))"

text \<open>One reply, 761 with the value or 766 when the event carries no such key.\<close>

definition metadata_key_line ::
    "env \<Rightarrow> metadata_ev \<Rightarrow> bytes \<Rightarrow> bytes \<Rightarrow> bytes \<Rightarrow> bytes \<Rightarrow> bytes" where
  "metadata_key_line E ev first nick target key =
     (case map_of (md_metadata ev) (norm E key) of
        None \<Rightarrow> qjoin '' '' [first, ''766'', nick, target, key, '':key not set'' @ crlf]
      | Some value \<Rightarrow>
          qjoin '' '' [first, ''761'', nick, target, key, ''*'',
            '':'' @ (case value of None \<Rightarrow> [] | Some v \<Rightarrow> norm E v) @ crlf])"

definition metadata_send_keys ::
    "env \<Rightarrow> metadata_ev \<Rightarrow> conn_id \<Rightarrow> bytes \<Rightarrow> bytes \<Rightarrow> bytes list \<Rightarrow> world \<Rightarrow> world" where
  "metadata_send_keys E ev i first target keys =
     fold (\<lambda>key w. if starts_with key ''__'' then w
        else emit_data i (metadata_key_line E ev first (conn_nick w i) target key) w) keys"

definition metadata_send_subs :: "env \<Rightarrow> metadata_ev \<Rightarrow> conn_id \<Rightarrow> world \<Rightarrow> world" where
  "metadata_send_subs E ev i =
     fold (\<lambda>(key, accs) w.
       let nicks = map (\<lambda>a. account_nick (w_accs w a)) accs in
       if nicks = [] then w
       else emit_data i (qjoin '' '' ['':'' @ e_server_name E, ''770'', conn_nick w i, key,
              qjoin '' '' nicks, crlf]) w) (md_subscriptions ev)"

definition conn_metadata :: "env \<Rightarrow> metadata_ev \<Rightarrow> conn_id \<Rightarrow> world \<Rightarrow> world" where
  "conn_metadata E ev i w =
     (let server_prefix = '':'' @ e_server_name E;
          target = metadata_target_name ev i w
      in
      if md_error_code ev \<noteq> [] then
        emit_data i (qjoin '' '' [server_prefix, ''FAIL METADATA '' @ md_error_code ev, target,
          md_error_key ev, '':You do not have permission to modify metadata'' @ crlf]) w
      else
        let cmd = e_qupper E (norm E (md_subcmd ev));
            w1 =
              (if cmd = ''GET'' \<or> cmd = ''LIST'' \<or> cmd = ''SYNC'' then
                 let batch_ref = e_uuid_id128 E (e_uuid E (w_uuids w));
                     wa = w\<lparr>w_uuids := w_uuids w + 1\<rparr>;
                     wb = emit_data i (qjoin '' '' [server_prefix,
                            ''BATCH +'' @ batch_ref @ '' metadata'' @ crlf]) wa;
                     keys = (if cmd = ''GET'' then md_args ev else map fst (md_metadata ev));
                     wc = metadata_send_keys E ev i (''@batch='' @ batch_ref) target keys wb
                 in emit_data i (qjoin '' '' [server_prefix, ''BATCH -'' @ batch_ref @ crlf]) wc
               else if cmd = ''SET'' \<or> cmd = ''CLEAR'' then
                 metadata_send_keys E ev i server_prefix target (map fst (md_metadata ev)) w
               else w)
        in metadata_send_subs E ev i w1)"

section \<open>What a delivery leaves alone\<close>

text \<open>
  \<open>conn_core\<close> blanks what a delivery may change in a connection, \<open>frame\<close> does so for every
  connection (and the supply of random UUIDs and the
  cached message of the day): two worlds with the same \<open>frame\<close> differ by
  deliveries only.
\<close>

definition conn_core :: "conn \<Rightarrow> conn" where
  "conn_core c = c\<lparr>c_out := [], c_channels := [], c_channel_members := Map.empty\<rparr>"

definition frame :: "world \<Rightarrow> world" where
  "frame w = w\<lparr>w_conns := (\<lambda>i. conn_core (w_conns w i)), w_uuids := 0, w_motd := [],
     w_motd_modified := 0\<rparr>"

lemma conn_core_simps:
  "c_tasks (conn_core c) = c_tasks c"
  "c_caps (conn_core c) = c_caps c"
  "c_user_modes (conn_core c) = c_user_modes c"
  "c_transport (conn_core c) = c_transport c"
  "c_home (conn_core c) = c_home c"
  "c_logged_in (conn_core c) = c_logged_in c"
  "c_user (conn_core c) = c_user c"
  "c_realname (conn_core c) = c_realname c"
  "c_account (conn_core c) = c_account c"
  "c_remote (conn_core c) = c_remote c"
  "c_ready (conn_core c) = c_ready c"
  "c_user_already_exists (conn_core c) = c_user_already_exists c"
  "c_nick (conn_core c) = c_nick c"
  "c_buffer (conn_core c) = c_buffer c"
  "c_pass_given (conn_core c) = c_pass_given c"
  "c_host (conn_core c) = c_host c"
  "c_uid (conn_core c) = c_uid c"
  "c_last_activity (conn_core c) = c_last_activity c"
  "c_established (conn_core c) = c_established c"
  "c_closing (conn_core c) = c_closing c"
  "c_alive (conn_core c) = c_alive c"
  by (simp_all add: conn_core_def)

lemma frame_simps_world:
  "w_accs (frame w) = w_accs w"
  "w_chans (frame w) = w_chans w"
  "w_srv (frame w) = w_srv w"
  "w_next_conn (frame w) = w_next_conn w"
  "w_next_acc (frame w) = w_next_acc w"
  "w_next_chan (frame w) = w_next_chan w"
  "w_accounts (frame w) = w_accounts w"
  "w_lookup_name (frame w) = w_lookup_name w"
  "w_lookup_uuid (frame w) = w_lookup_uuid w"
  "w_nicks (frame w) = w_nicks w"
  "w_channels (frame w) = w_channels w"
  "w_cap_version (frame w) = w_cap_version w"
  "w_queue (frame w) = w_queue w"
  "w_db (frame w) = w_db w"
  "w_conns (frame w) i = conn_core (w_conns w i)"
  by (simp_all add: frame_def)

lemma frame_upd_conn [simp]:
  assumes "conn_core (f (w_conns w i)) = conn_core (w_conns w i)"
  shows "frame (upd_conn i f w) = frame w"
  using assms by (simp add: frame_def upd_conn_def fun_eq_iff)

lemma conn_core_blank [simp]:
  "conn_core (on_write d c) = conn_core c"
  "conn_core (members_touch k c) = conn_core c"
  "conn_core (members_insert k accs c) = conn_core c"
  "conn_core (c\<lparr>c_out := x\<rparr>) = conn_core c"
  "conn_core (c\<lparr>c_channels := cs\<rparr>) = conn_core c"
  "conn_core (c\<lparr>c_channel_members := ms\<rparr>) = conn_core c"
  by (simp_all add: conn_core_def on_write_def members_touch_def members_insert_def
      split: transport.split)

lemma frame_emit [simp]: "frame (emit_data i d w) = frame w"
  by (simp add: emit_data_def)

lemma frame_send [simp]:
  "frame (send_raw E i l w) = frame w"
  "frame (reply_num E i n l w) = frame w"
  "frame (reply_self i l a w) = frame w"
  by (simp_all add: send_raw_def reply_num_def reply_self_def Let_def)

lemma frame_uuids [simp]:
  "frame (w\<lparr>w_uuids := n\<rparr>) = frame w"
  "frame (w\<lparr>w_motd := m\<rparr>) = frame w"
  "frame (w\<lparr>w_motd := m, w_motd_modified := n\<rparr>) = frame w"
  by (simp_all add: frame_def)

lemma fold_frame:
  assumes "\<And>x w. x \<in> set xs \<Longrightarrow> frame (f x w) = frame w"
  shows "frame (fold f xs w) = frame w"
  using assms by (induction xs arbitrary: w) auto

lemma frame_join [simp]: "frame (conn_channel_join E ev i w) = frame w"
  by (simp add: conn_channel_join_def Let_def split: option.split)

lemma frame_part: "conn_channel_part ev i w = Inr w' \<Longrightarrow> frame w' = frame w"
  by (auto simp: conn_channel_part_def Let_def bind_res_Inr_iff split: if_splits option.splits)

lemma frame_message: "conn_message ev i w = Inr w' \<Longrightarrow> frame w' = frame w"
  by (auto simp: conn_message_def Let_def bind_res_Inr_iff split: option.splits)

lemma frame_change_nick [simp]: "frame (snd (conn_change_nick ev i w)) = frame w"
  by (simp add: conn_change_nick_def Let_def)

lemma frame_channel_rename [simp]: "frame (snd (conn_channel_rename ev i w)) = frame w"
  by (simp add: conn_channel_rename_def Let_def)

lemma frame_metadata_parts [simp]:
  "frame (metadata_send_keys E ev i first target keys w) = frame w"
  "frame (metadata_send_subs E ev i w) = frame w"
  unfolding metadata_send_keys_def metadata_send_subs_def
  by (intro fold_frame; simp split: prod.split)+

lemma frame_metadata [simp]: "frame (conn_metadata E ev i w) = frame w"
  by (simp add: conn_metadata_def Let_def)

text \<open>Reading a field through \<open>frame\<close>.\<close>

lemma same_frame:
  assumes "frame w' = frame w"
  shows "w_accs w' = w_accs w" "w_chans w' = w_chans w" "w_accounts w' = w_accounts w"
    "w_lookup_name w' = w_lookup_name w" "w_lookup_uuid w' = w_lookup_uuid w"
    "w_nicks w' = w_nicks w" "w_channels w' = w_channels w" "w_next_acc w' = w_next_acc w"
    "w_next_chan w' = w_next_chan w" "w_cap_version w' = w_cap_version w"
    "w_queue w' = w_queue w" "w_db w' = w_db w" "w_srv w' = w_srv w"
    "w_next_conn w' = w_next_conn w" 
    "conn_core (w_conns w' i) = conn_core (w_conns w i)"
  using assms by (metis frame_simps_world)+

lemma same_core:
  assumes "conn_core c' = conn_core c"
  shows "c_tasks c' = c_tasks c"
    "c_caps c' = c_caps c"
    "c_user_modes c' = c_user_modes c"
    "c_transport c' = c_transport c"
    "c_home c' = c_home c"
    "c_logged_in c' = c_logged_in c"
    "c_user c' = c_user c"
    "c_realname c' = c_realname c"
    "c_account c' = c_account c"
    "c_remote c' = c_remote c"
    "c_ready c' = c_ready c"
    "c_user_already_exists c' = c_user_already_exists c"
    "c_nick c' = c_nick c"
    "c_buffer c' = c_buffer c"
    "c_pass_given c' = c_pass_given c"
    "c_host c' = c_host c"
    "c_uid c' = c_uid c"
    "c_last_activity c' = c_last_activity c"
    "c_established c' = c_established c"
    "c_closing c' = c_closing c"
    "c_alive c' = c_alive c"
  using assms by (metis conn_core_simps)+

lemma same_frame_nick: "frame w' = frame w \<Longrightarrow> conn_nick w' i = conn_nick w i"
  using same_frame [of w' w] same_core [of "w_conns w' i" "w_conns w i"]
  by (simp add: conn_nick_def split: option.split)

section \<open>Delivering to a list of connections\<close>

definition deliver_all ::
    "(conn_id \<Rightarrow> world \<Rightarrow> world res) \<Rightarrow> conn_id list \<Rightarrow> world \<Rightarrow> world res" where
  "deliver_all f = fold_res (\<lambda>i w. bind_res (deref_conn i w) (\<lambda>_. f i w))"

text \<open>\<open>QMetaObject::invokeMethod(conn, ..., Qt::QueuedConnection)\<close> for each connection.\<close>

definition post :: "queued \<Rightarrow> world \<Rightarrow> world" where
  "post q w = w\<lparr>w_queue := w_queue w @ [q]\<rparr>"

definition post_all :: "(conn_id \<Rightarrow> queued) \<Rightarrow> conn_id list \<Rightarrow> world \<Rightarrow> world res" where
  "post_all mk = deliver_all (\<lambda>i w. Inr (post (mk i) w))"

lemma deref_conn_Inr [simp]:
  "deref_conn i w = Inr c \<longleftrightarrow> c_alive (w_conns w i) \<and> c = w_conns w i"
  by (auto simp: deref_conn_def)

lemma deliver_all_Nil [simp]: "deliver_all f [] w = Inr w"
  by (simp add: deliver_all_def)

lemma deliver_all_Cons:
  "deliver_all f (i # is) w =
     (if c_alive (w_conns w i) then bind_res (f i w) (deliver_all f is) else Inl UseAfterFree)"
  by (simp add: deliver_all_def deref_conn_def)

lemma deliver_all_frame:
  assumes "deliver_all f is w = Inr w'"
    and "\<And>i w w'. i \<in> set is \<Longrightarrow> f i w = Inr w' \<Longrightarrow> frame w' = frame w"
  shows "frame w' = frame w"
  using assms
proof (induction "is" arbitrary: w)
  case (Cons i js)
  then obtain u where u: "f i w = Inr u" "deliver_all f js u = Inr w'"
    by (auto simp: deliver_all_Cons bind_res_Inr_iff split: if_splits)
  have "frame w' = frame u" by (rule Cons.IH [OF u(2)]) (rule Cons.prems(2), auto)
  also have "frame u = frame w" by (rule Cons.prems(2) [OF _ u(1)]) simp
  finally show ?case .
qed simp

lemma post_all_eq:
  "post_all mk is w =
     (if \<forall>i \<in> set is. c_alive (w_conns w i) then Inr (w\<lparr>w_queue := w_queue w @ map mk is\<rparr>)
      else Inl UseAfterFree)"
proof (induction "is" arbitrary: w)
  case (Cons i js)
  then show ?case by (simp add: post_all_def deliver_all_Cons post_def)
qed (simp add: post_all_def)

text \<open>
  When every delivery succeeds and keeps \<open>frame\<close>, the whole loop succeeds: the connections
  stay alive because a delivery never destroys one.
\<close>

lemma deliver_all_ok:
  assumes "\<forall>i \<in> set is. c_alive (w_conns w i)"
    and "\<And>i u. i \<in> set is \<Longrightarrow> frame u = frame w \<Longrightarrow> f i u = Inr (g i u) \<and> frame (g i u) = frame u"
  shows "deliver_all f is w = Inr (fold g is w)"
proof -
  have "deliver_all f js u = Inr (fold g js u)"
    if "set js \<subseteq> set is" "frame u = frame w" for js u
    using that
  proof (induction js arbitrary: u)
    case (Cons i js)
    then have i: "i \<in> set is" by simp
    have "c_alive (w_conns u i)"
      using assms(1) i same_frame(15) [OF Cons.prems(2), of i] same_core(21) by metis
    with Cons assms(2) [OF i Cons.prems(2)] show ?case
      by (simp add: deliver_all_Cons)
  qed simp
  then show ?thesis by simp
qed

end
