(* ===== verification/Account.thy ===== *)
theory Account
  imports Caches Delivery
begin

text \<open>
  \<open>src/core/account.cpp\<close> and the inline operations of \<open>account.h\<close>: creation, passwords, the
  nick (with the broadcast of a change), private messages, the connections of an account and
  the merge of two accounts.
\<close>

section \<open>Setters and creation\<close>

definition set_nick_by_force :: "acc_id \<Rightarrow> bytes \<Rightarrow> world \<Rightarrow> world" where
  "set_nick_by_force a nick = upd_acc a (\<lambda>x. x\<lparr>a_nick := nick\<rparr>)"

definition account_set_host :: "acc_id \<Rightarrow> bytes \<Rightarrow> world \<Rightarrow> world" where
  "account_set_host a host = upd_acc a (\<lambda>x. x\<lparr>a_host := host\<rparr>)"

definition account_set_name :: "acc_id \<Rightarrow> bytes \<Rightarrow> world \<Rightarrow> world" where
  "account_set_name a name = upd_acc a (\<lambda>x. x\<lparr>a_name := name\<rparr>)"

definition account_set_uid :: "acc_id \<Rightarrow> quuid \<Rightarrow> world \<Rightarrow> world" where
  "account_set_uid a u = upd_acc a (\<lambda>x. x\<lparr>a_uid := u\<rparr>)"

definition account_set_password :: "acc_id \<Rightarrow> bytes \<Rightarrow> world \<Rightarrow> world" where
  "account_set_password a p = upd_acc a (\<lambda>x. x\<lparr>a_password := p\<rparr>)"

definition set_random_uid :: "env \<Rightarrow> acc_id \<Rightarrow> world \<Rightarrow> world res" where
  "set_random_uid E a w =
     (if a_uid (w_accs w a) \<noteq> null_uuid then Inl Uncaught
      else Inr (account_set_uid a (e_uuid E (w_uuids w)) (w\<lparr>w_uuids := w_uuids w + 1\<rparr>)))"

definition account_create :: "env \<Rightarrow> world \<Rightarrow> acc_id \<times> world" where
  "account_create E w =
     (let a = w_next_acc w
      in (a, upd_acc a (\<lambda>_. new_account E []) (w\<lparr>w_next_acc := a + 1\<rparr>)))"

definition account_create_from_db ::
    "env \<Rightarrow> quuid \<Rightarrow> bytes \<Rightarrow> bytes \<Rightarrow> nat \<Rightarrow> world \<Rightarrow> acc_id \<times> world" where
  "account_create_from_db E uid username password creation w =
     (case get_by_name w username of
        Some ptr \<Rightarrow> (ptr, w)
      | None \<Rightarrow>
          let a = w_next_acc w;
              w1 = upd_acc a (\<lambda>_. new_account E username) (w\<lparr>w_next_acc := a + 1\<rparr>);
              w2 = account_set_uid a uid w1;
              w3 = account_set_name a username w2;
              w4 = account_set_password a password w3;
              w5 = upd_acc a (\<lambda>x. x\<lparr>a_creation := creation\<rparr>) w4;
              w6 = account_insert_cache a w5
          in (a, irc_nicks_insert_cache (account_nick (w_accs w6 a)) a w6))"

section \<open>Passwords\<close>

definition verify_password :: "env \<Rightarrow> auth_ev \<Rightarrow> account \<Rightarrow> auth_ev" where
  "verify_password E auth a =
     (if au_password auth = [] \<or> a_password a = [] then
        auth\<lparr>ev_reason := ''password cannot be empty'', ev_cancel := True\<rparr>
      else if has_event_handler E AUTH_SASL_PLAIN then
        (case e_on_auth E auth of
           Some result \<Rightarrow> result
         | None \<Rightarrow> auth\<lparr>ev_reason := ''application error'', ev_cancel := True\<rparr>)
      else
        let cancel = (\<not> e_bcrypt E (au_password auth) (a_password a))
        in auth\<lparr>ev_cancel := cancel, ev_reason := (if cancel then ''bad password'' else [])\<rparr>)"

section \<open>Nick changes\<close>

text \<open>The event after the Python handlers; \<open>None\<close> when one of them cancelled it.\<close>

definition nick_hook :: "env \<Rightarrow> nick_ev \<Rightarrow> nick_ev option" where
  "nick_hook E ev =
     (if has_event_handler E NICK_CHANGE then
        (case e_on_nick E ev of
           Some result \<Rightarrow> if ev_cancel result then None else Some result
         | None \<Rightarrow> Some ev)
      else Some ev)"

text \<open>
  The accounts to notify: the account itself and the members of its channels. A channel
  pointer of the table can be null.
\<close>

definition notify_accounts :: "acc_id \<Rightarrow> acc_id \<Rightarrow> world \<Rightarrow> acc_id list res" where
  "notify_accounts self a w =
     fold_res (\<lambda>(_, channel) l. bind_res (deref_opt channel) (\<lambda>x.
        Inr (fold List.insert (ch_members (w_chans w x)) l)))
       (a_channels (w_accs w a)) [self]"

definition broadcast_nick :: "nick_ev \<Rightarrow> acc_id \<Rightarrow> acc_id \<Rightarrow> world \<Rightarrow> (bool \<times> world) res" where
  "broadcast_nick ev self a w =
     bind_res (notify_accounts self a w) (\<lambda>l.
     bind_res (post_all (\<lambda>i. QNick i ev) (concat (map (\<lambda>p. a_connections (w_accs w p)) l)) w)
       (\<lambda>w1. Inr (True, w1)))"

definition account_set_nick :: "env \<Rightarrow> nick_ev \<Rightarrow> acc_id \<Rightarrow> world \<Rightarrow> (bool \<times> world) res" where
  "account_set_nick E event a w =
     (case nick_hook E event of
        None \<Rightarrow> Inr (False, w)
      | Some ev \<Rightarrow>
          if ne_new_nick ev = [] then Inr (False, w)
          else
            (case get_by_uid w (a_uid (w_accs w a)) of
               None \<Rightarrow> Inr (False, w)
             | Some self \<Rightarrow>
                 let nick_lower = to_lower (ne_new_nick ev) in
                 if irc_nick_get nick_lower w \<noteq> None \<and> w_nicks w nick_lower \<noteq> Some self
                 then Inr (False, w)
                 else
                   let w1 = w\<lparr>w_nicks := (w_nicks w)(ne_old_nick ev := None, nick_lower \<mapsto> self)\<rparr>;
                       w2 = upd_acc a (\<lambda>x. x\<lparr>a_nick := ne_new_nick ev\<rparr>) w1
                   in broadcast_nick ev self a w2))"

text \<open>
  \<open>setNick(const QByteArray&)\<close>, which the Python bindings call; an account that is not in the
  cache gives an event with a null account, which \<open>setNick\<close> refuses.
\<close>

definition account_set_nick_py :: "env \<Rightarrow> bytes \<Rightarrow> acc_id \<Rightarrow> world \<Rightarrow> (bool \<times> world) res" where
  "account_set_nick_py E nick a w =
     (case get_by_uid w (a_uid (w_accs w a)) of
        None \<Rightarrow> Inr (True, w)
      | Some acc \<Rightarrow>
          let ev = \<lparr>ev_reason = [], ev_cancel = False, ne_old_nick = a_nick (w_accs w a),
                    ne_new_nick = nick, ne_from_server = False, ne_account = acc\<rparr>
          in bind_res (account_set_nick E ev a w) (\<lambda>(_, w'). Inr (True, w')))"

section \<open>Private messages\<close>

definition message_event_type :: "qirc_event \<Rightarrow> message_ev \<Rightarrow> qirc_event" where
  "message_event_type ty ev = (if me_tag_msg ev then TAG_MSG else ty)"

definition account_message :: "env \<Rightarrow> message_ev \<Rightarrow> acc_id \<Rightarrow> world \<Rightarrow> world res" where
  "account_message E message a w =
     (let ev_type = message_event_type PRIVATE_MSG message;
          result = (if has_event_handler E ev_type then
                      (case e_on_message E ev_type message of
                         Some r \<Rightarrow> if ev_cancel r then None else Some r
                       | None \<Rightarrow> Some message)
                    else Some message)
      in case result of
           None \<Rightarrow> Inr w
         | Some ev \<Rightarrow>
             bind_res (deref_opt (me_dest ev)) (\<lambda>dest.
             bind_res (deliver_all (conn_message ev) (a_connections (w_accs w dest)) w) (\<lambda>w1.
             deliver_all (conn_message ev) (a_connections (w_accs w1 a)) w1)))"

section \<open>Connections\<close>

definition add_connection :: "conn_id \<Rightarrow> acc_id \<Rightarrow> world \<Rightarrow> world" where
  "add_connection i a = upd_acc a (\<lambda>x. x\<lparr>a_connections := a_connections x @ [i]\<rparr>)"

definition clear_connections :: "acc_id \<Rightarrow> world \<Rightarrow> world" where
  "clear_connections a = upd_acc a (\<lambda>x. x\<lparr>a_connections := []\<rparr>)"

definition on_connection_disconnected :: "conn_id \<Rightarrow> bytes \<Rightarrow> acc_id \<Rightarrow> world \<Rightarrow> world" where
  "on_connection_disconnected i nick_to_delete a w =
     (let w1 = upd_acc a (\<lambda>x. x\<lparr>a_connections := removeAll i (a_connections x)\<rparr>) w in
      if \<not> is_logged_in (w_accs w1 a) then
        let w2 = irc_nicks_remove_cache nick_to_delete w1
        in (case get_by_uid w2 (a_uid (w_accs w2 a)) of
              None \<Rightarrow> w2
            | Some self \<Rightarrow> account_remove_cache self w2)
      else w1)"

text \<open>
  \<open>merge\<close> holds the write lock of the account while it reads the UUID and the name of
  \<open>from\<close>: merging an anonymous account into itself blocks for ever.
\<close>

definition merge_account :: "acc_id \<Rightarrow> acc_id \<Rightarrow> world \<Rightarrow> world res" where
  "merge_account a from_acc w =
     (if is_logged_in (w_accs w from_acc) then Inr w
      else if from_acc = a then Inl Deadlock
      else
        let w1 = fold (\<lambda>i. add_connection i a) (a_connections (w_accs w from_acc)) w;
            w2 = clear_connections from_acc w1
        in Inr (account_remove_cache from_acc w2))"

end
