(* ===== verification/Channel.thy ===== *)
theory Channel
  imports Account
begin

text \<open>
  \<open>src/core/channel.cpp\<close>: creation and lookup, the setters that take the channel's write lock,
  joining, parting, messages, renames and modes.
\<close>

section \<open>Lookup and creation\<close>

definition channel_get :: "bytes \<Rightarrow> world \<Rightarrow> chan_id option" where
  "channel_get name w = (case map_of (w_channels w) name of None \<Rightarrow> None | Some p \<Rightarrow> p)"

definition channel_get_or_create :: "bytes \<Rightarrow> world \<Rightarrow> chan_id option \<times> world" where
  "channel_get_or_create name w =
     (case map_of (w_channels w) name of
        Some p \<Rightarrow> (p, w)
      | None \<Rightarrow>
          let x = w_next_chan w;
              w1 = upd_chan x (\<lambda>_. new_channel name) (w\<lparr>w_next_chan := x + 1\<rparr>)
          in (Some x, w1\<lparr>w_channels := hash_put name (Some x) (w_channels w1)\<rparr>))"

section \<open>Setters under the write lock\<close>

definition chan_write :: "chan_id \<Rightarrow> (channel \<Rightarrow> channel) \<Rightarrow> world \<Rightarrow> world res" where
  "chan_write x f w =
     (if ch_locked (w_chans w x) then Inl Deadlock else Inr (upd_chan x f w))"

definition channel_set_name :: "chan_id \<Rightarrow> bytes \<Rightarrow> world \<Rightarrow> world res" where
  "channel_set_name x name = chan_write x (\<lambda>c. c\<lparr>ch_name := name\<rparr>)"

definition channel_set_topic :: "chan_id \<Rightarrow> bytes \<Rightarrow> world \<Rightarrow> world res" where
  "channel_set_topic x t = chan_write x (\<lambda>c. if ch_topic c \<noteq> t then c\<lparr>ch_topic := t\<rparr> else c)"

definition channel_set_key :: "chan_id \<Rightarrow> bytes \<Rightarrow> world \<Rightarrow> world res" where
  "channel_set_key x k = chan_write x (\<lambda>c. if ch_key c \<noteq> k then c\<lparr>ch_key := k\<rparr> else c)"

definition channel_set_owner :: "chan_id \<Rightarrow> acc_id option \<Rightarrow> world \<Rightarrow> world res" where
  "channel_set_owner x owner = chan_write x (\<lambda>c. c\<lparr>ch_owner := owner\<rparr>)"

definition channel_set_server :: "chan_id \<Rightarrow> nat option \<Rightarrow> world \<Rightarrow> world res" where
  "channel_set_server x s = chan_write x (\<lambda>c. c\<lparr>ch_server := s\<rparr>)"

definition channel_add_ban :: "chan_id \<Rightarrow> bytes \<Rightarrow> world \<Rightarrow> world res" where
  "channel_add_ban x m =
     chan_write x (\<lambda>c. if m \<noteq> [] then c\<lparr>ch_bans := List.insert m (ch_bans c)\<rparr> else c)"

definition channel_remove_ban :: "chan_id \<Rightarrow> bytes \<Rightarrow> world \<Rightarrow> world res" where
  "channel_remove_ban x m =
     chan_write x (\<lambda>c. if m \<noteq> [] then c\<lparr>ch_bans := removeAll m (ch_bans c)\<rparr> else c)"

definition channel_ban_list :: "chan_id \<Rightarrow> world \<Rightarrow> bytes list" where
  "channel_ban_list x w = ch_bans (w_chans w x)"

text \<open>
  \<open>addMembers\<close> appends without looking for duplicates, and \<open>channels[m_name]\<close> gives every
  account the pointer the name has in the cache (null, and then cached, when it has none).
\<close>

definition channel_add_members :: "chan_id \<Rightarrow> acc_id list \<Rightarrow> world \<Rightarrow> world" where
  "channel_add_members x accs w =
     fold (\<lambda>a w.
       let name = ch_name (w_chans w x);
           ptr = channel_get name w;
           w1 = upd_chan x (\<lambda>c. c\<lparr>ch_members := ch_members c @ [a]\<rparr>) w;
           w2 = w1\<lparr>w_channels := hash_put name ptr (w_channels w1)\<rparr>
       in upd_acc a (\<lambda>p. p\<lparr>a_channels := hash_put name ptr (a_channels p)\<rparr>) w2)
      accs w"

definition channel_create_from_db ::
    "quuid \<Rightarrow> bytes \<Rightarrow> bytes \<Rightarrow> acc_id option \<Rightarrow> nat option \<Rightarrow> nat \<Rightarrow> world \<Rightarrow>
      (chan_id option \<times> world) res" where
  "channel_create_from_db uid name topic owner server creation w =
     (case map_of (w_channels w) name of
        Some p \<Rightarrow> Inr (p, w)
      | None \<Rightarrow>
          let x = w_next_chan w;
              w1 = upd_chan x (\<lambda>_. (new_channel name)\<lparr>ch_uid := uid\<rparr>) (w\<lparr>w_next_chan := x + 1\<rparr>)
          in bind_res (channel_set_name x name w1) (\<lambda>w2.
             bind_res (if owner \<noteq> None then channel_set_owner x owner w2 else Inr w2) (\<lambda>w3.
             bind_res (channel_set_server x server w3) (\<lambda>w4.
             bind_res (channel_set_topic x topic w4) (\<lambda>w5.
             let w6 = upd_chan x (\<lambda>c. c\<lparr>ch_creation := creation\<rparr>) w5
             in Inr (Some x, w6\<lparr>w_channels := hash_put name (Some x) (w_channels w6)\<rparr>))))))"

section \<open>Joining and parting\<close>

definition join_hook :: "env \<Rightarrow> join_ev \<Rightarrow> join_ev option" where
  "join_hook E ev =
     (if \<not> je_from_system ev \<and> has_event_handler E CHANNEL_JOIN then
        (case e_on_join E ev of
           Some r \<Rightarrow> if ev_cancel r then None else Some r
         | None \<Rightarrow> Some ev)
      else Some ev)"

text \<open>The account's own connections, then those of the other members.\<close>

definition join_own :: "env \<Rightarrow> join_ev \<Rightarrow> chan_id \<Rightarrow> world \<Rightarrow> world res" where
  "join_own E ev x w =
     deliver_all (\<lambda>i w.
       if map_of (c_channels (w_conns w i)) (ch_name (w_chans w x)) = None
       then Inr (conn_channel_join E ev i w) else Inr w)
      (a_connections (w_accs w (je_account ev))) w"

definition join_member :: "env \<Rightarrow> join_ev \<Rightarrow> chan_id option \<Rightarrow> acc_id \<Rightarrow> world \<Rightarrow> world res" where
  "join_member E ev chan_ptr member w =
     (if a_uid (w_accs w member) = a_uid (w_accs w (je_account ev)) then Inr w
      else deliver_all (\<lambda>i w.
          let w1 = upd_conn i (members_touch chan_ptr) w in
          if je_account ev \<notin> set (members_seen chan_ptr (w_conns w1 i))
          then Inr (conn_channel_join E ev i w1) else Inr w1)
        (a_connections (w_accs w member)) w)"

definition channel_join :: "env \<Rightarrow> join_ev \<Rightarrow> chan_id \<Rightarrow> world \<Rightarrow> world res" where
  "channel_join E event x w =
     (let chan_ptr = channel_get (ch_name (w_chans w x)) w in
      case join_hook E event of
        None \<Rightarrow> Inr w
      | Some ev \<Rightarrow>
          let a = je_account ev;
              w1 = (if a \<in> set (ch_members (w_chans w x)) then w
                    else upd_acc a (\<lambda>p. p\<lparr>a_channels :=
                             hash_put (ch_name (w_chans w x)) chan_ptr (a_channels p)\<rparr>)
                           (upd_chan x (\<lambda>c. c\<lparr>ch_members := ch_members c @ [a]\<rparr>) w))
          in bind_res (join_own E ev x w1) (\<lambda>w2.
             fold_res (join_member E ev chan_ptr) (ch_members (w_chans w2 x)) w2))"

definition part_hook :: "env \<Rightarrow> part_ev \<Rightarrow> part_ev option" where
  "part_hook E ev =
     (if \<not> pa_from_system ev \<and> has_event_handler E CHANNEL_PART then
        (case e_on_part E ev of
           Some r \<Rightarrow> if ev_cancel r then None else Some r
         | None \<Rightarrow> Some ev)
      else Some ev)"

text \<open>The connections of the members, in the order the two nested loops visit them.\<close>

definition member_conns :: "chan_id \<Rightarrow> world \<Rightarrow> conn_id list" where
  "member_conns x w = concat (map (\<lambda>m. a_connections (w_accs w m)) (ch_members (w_chans w x)))"

definition channel_part :: "env \<Rightarrow> part_ev \<Rightarrow> chan_id \<Rightarrow> world \<Rightarrow> (bool \<times> world) res" where
  "channel_part E event x w =
     (case part_hook E event of
        None \<Rightarrow> Inr (False, w)
      | Some ev \<Rightarrow>
          if pa_account ev \<notin> set (ch_members (w_chans w x)) then Inr (False, w)
          else
            bind_res (post_all (\<lambda>i. QPart i ev) (member_conns x w) w) (\<lambda>w1.
            Inr (True, upd_chan x (\<lambda>c. c\<lparr>ch_members := removeAll (pa_account ev) (ch_members c)\<rparr>) w1)))"

section \<open>Messages\<close>

definition message_hook :: "env \<Rightarrow> message_ev \<Rightarrow> message_ev option" where
  "message_hook E ev =
     (let ev_type = message_event_type CHANNEL_MSG ev in
      if has_event_handler E ev_type then
        (case e_on_message E ev_type ev of
           Some r \<Rightarrow> if ev_cancel r then None else Some r
         | None \<Rightarrow> None)
      else Some ev)"

text \<open>The row \<open>sql::insert_message\<close> binds; the statement's own failure is the database's.\<close>

definition db_insert_message :: "env \<Rightarrow> message_ev \<Rightarrow> world \<Rightarrow> world" where
  "db_insert_message E ev w =
     w\<lparr>w_uuids := w_uuids w + 1,
       w_db := w_db w @ [InsertMessage (e_uuid E (w_uuids w)) (a_uid (w_accs w (me_account ev)))
         (case me_channel ev of None \<Rightarrow> null_uuid | Some x \<Rightarrow> ch_uid (w_chans w x)) ev]\<rparr>"

definition channel_message :: "env \<Rightarrow> message_ev \<Rightarrow> chan_id \<Rightarrow> world \<Rightarrow> world res" where
  "channel_message E message x w =
     (case message_hook E message of
        None \<Rightarrow> Inr w
      | Some ev \<Rightarrow>
          let w1 = db_insert_message E ev w
          in deliver_all (conn_message ev) (member_conns x w1) w1)"

section \<open>Renames\<close>

text \<open>
  The result of the handlers is tested against \<open>QEventNickChange\<close>, which it never is: a
  cancelled rename goes on.
\<close>

definition rename_hook :: "env \<Rightarrow> rename_ev \<Rightarrow> rename_ev" where
  "rename_hook E ev =
     (if has_event_handler E CHANNEL_RENAME then
        (case e_on_rename E ev of Some r \<Rightarrow> r | None \<Rightarrow> ev)
      else ev)"

definition channel_rename :: "env \<Rightarrow> rename_ev \<Rightarrow> world \<Rightarrow> (bool \<times> world) res" where
  "channel_rename E event w =
     (if re_old_name event = re_new_name event then Inr (False, w)
      else
        (case channel_get (ch_name (w_chans w (re_channel event))) w of
           None \<Rightarrow> Inr (False, w)
         | Some channel_from \<Rightarrow>
             let ev = rename_hook E event in
             bind_res (channel_set_name channel_from (re_new_name ev) w) (\<lambda>w1.
             bind_res (post_all (\<lambda>i. QRename i ev) (member_conns (re_channel ev) w1) w1) (\<lambda>w2.
             Inr (True, w2)))))"

section \<open>Modes\<close>

definition set_mode_body ::
    "channel_mode \<Rightarrow> bool \<Rightarrow> bytes \<Rightarrow> chan_id \<Rightarrow> world \<Rightarrow> world res" where
  "set_mode_body mode adding arg x w =
     (let set_bit = upd_chan x (\<lambda>c. c\<lparr>ch_modes := flags_set channel_mode_val [mode] (ch_modes c)\<rparr>);
          clear_bit = upd_chan x (\<lambda>c. c\<lparr>ch_modes := flags_clear channel_mode_val [mode] (ch_modes c)\<rparr>)
      in case mode of
           KEY \<Rightarrow>
             if adding then bind_res (channel_set_key x arg w) (\<lambda>w. Inr (set_bit w))
             else bind_res (channel_set_key x [] w) (\<lambda>w. Inr (clear_bit w))
         | LIMIT \<Rightarrow>
             if adding then
               (case to_int arg of
                  Some n \<Rightarrow> if n \<ge> 0 then Inr (set_bit (upd_chan x (\<lambda>c. c\<lparr>ch_limit := n\<rparr>) w))
                            else Inr w
                | None \<Rightarrow> Inr w)
             else Inr (clear_bit (upd_chan x (\<lambda>c. c\<lparr>ch_limit := 0\<rparr>) w))
         | BAN \<Rightarrow>
             if arg = [] then Inr w
             else if adding then channel_add_ban x arg w else channel_remove_ban x arg w
         | _ \<Rightarrow> Inr (if adding then set_bit w else clear_bit w))"

definition channel_set_mode ::
    "channel_mode \<Rightarrow> bool \<Rightarrow> bytes \<Rightarrow> chan_id \<Rightarrow> world \<Rightarrow> world res" where
  "channel_set_mode mode adding arg x w =
     bind_res (chan_write x (\<lambda>c. c\<lparr>ch_locked := True\<rparr>) w) (\<lambda>w1.
     bind_res (set_mode_body mode adding arg x w1) (\<lambda>w2.
     Inr (upd_chan x (\<lambda>c. c\<lparr>ch_locked := False\<rparr>) w2)))"

end
