(* ===== verification/Round_Robin.thy ===== *)
theory Round_Robin
  imports Prelude "HOL-Library.Multiset"
begin

text \<open>
  Handing work to the members of a pool in turn: what \<open>ThreadedServer\<close> does with sockets and
  \<open>SnakePit\<close> with Python calls. The interface is the size of the pool, the cursor, and the
  operation that hands one item to the member at the cursor.
\<close>

locale round_robin =
  fixes size :: "'s \<Rightarrow> nat"
    and cursor :: "'s \<Rightarrow> nat"
    and give :: "'a \<Rightarrow> 's \<Rightarrow> 's"
  assumes size_give: "size (give x s) = size s"
    and cursor_give: "cursor (give x s) = (cursor s + 1) mod size s"
begin

text \<open>The members that get the items of a list.\<close>

fun takers :: "'a list \<Rightarrow> 's \<Rightarrow> nat list" where
  "takers [] s = []"
| "takers (x # xs) s = cursor s # takers xs (give x s)"

lemma length_takers [simp]: "length (takers xs s) = length xs"
  by (induction xs arbitrary: s) simp_all

lemma takers_append: "takers (xs @ ys) s = takers xs s @ takers ys (fold give xs s)"
  by (induction xs arbitrary: s) simp_all

lemma size_fold: "size (fold give xs s) = size s"
  by (induction xs arbitrary: s) (simp_all add: size_give)

lemma cursor_fold: "cursor s < size s \<Longrightarrow> cursor (fold give xs s) = (cursor s + length xs) mod size s"
proof (induction xs arbitrary: s)
  case (Cons x xs)
  then show ?case
    using mod_less_divisor [of "size s" "cursor s + 1"]
    by (simp add: size_give cursor_give mod_simps)
qed simp

lemma takers_nth: "cursor s < size s \<Longrightarrow> j < length xs \<Longrightarrow> takers xs s ! j = (cursor s + j) mod size s"
proof (induction xs arbitrary: s j)
  case (Cons x xs)
  show ?case
  proof (cases j)
    case (Suc m)
    have "cursor (give x s) < size (give x s)"
      using Cons.prems(1) by (simp add: size_give cursor_give)
    with Cons Suc show ?thesis by (simp add: size_give cursor_give mod_simps)
  qed (use Cons.prems in simp)
qed simp

text \<open>A round gives every member one item, whatever member comes first.\<close>

lemma takers_round:
  assumes "cursor s < size s" and "length xs = size s"
  shows "mset (takers xs s) = mset [0..<size s]"
proof -
  let ?n = "size s"
  have takers: "takers xs s = map (\<lambda>j. (cursor s + j) mod ?n) [0..<?n]"
    by (rule nth_equalityI) (simp_all add: assms takers_nth)
  have "inj_on (\<lambda>j. (cursor s + j) mod ?n) {0..<?n}"
  proof (rule linorder_inj_onI)
    fix a b
    assume ab: "a < b" "a \<in> {0..<?n}" "b \<in> {0..<?n}"
    show "(cursor s + a) mod ?n \<noteq> (cursor s + b) mod ?n"
    proof
      assume "(cursor s + a) mod ?n = (cursor s + b) mod ?n"
      then have "?n dvd (cursor s + b) - (cursor s + a)"
        using ab(1) mod_eq_dvd_iff_nat [of "cursor s + a" "cursor s + b" ?n] by simp
      then show False using ab by (auto dest!: dvd_imp_le)
    qed
  qed (rule linear)
  then have "distinct (takers xs s)" by (simp add: takers distinct_map)
  moreover have "set (takers xs s) \<subseteq> {0..<?n}"
    using assms by (auto simp: takers)
  moreover have "card (set (takers xs s)) = ?n"
    using calculation(1) assms(2) by (simp add: distinct_card)
  ultimately have "set (takers xs s) = set [0..<?n]"
    by (simp add: card_subset_eq)
  with \<open>distinct (takers xs s)\<close> show ?thesis
    using set_eq_iff_mset_eq_distinct [of "takers xs s" "[0..<?n]"] by simp
qed

lemma takers_rounds:
  assumes "cursor s < size s" and "length xs = m * size s" and "i < size s"
  shows "count (mset (takers xs s)) i = m"
  using assms(1,2,3)
proof (induction m arbitrary: xs s)
  case (Suc m)
  let ?a = "take (size s) xs" and ?b = "drop (size s) xs"
  have len: "length ?a = size s" "length ?b = m * size s" using Suc.prems(2) by simp_all
  have s': "cursor (fold give ?a s) < size (fold give ?a s)"
    using Suc.prems(1) by (simp add: size_fold cursor_fold)
  have "mset (takers xs s) = mset (takers ?a s) + mset (takers ?b (fold give ?a s))"
    by (metis append_take_drop_id mset_append takers_append)
  moreover have "count (mset (takers ?b (fold give ?a s))) i = m"
    using len(2) Suc.prems(3) by (intro Suc.IH [OF s']) (simp_all add: size_fold)
  moreover have "count (mset (takers ?a s)) i = 1"
    using Suc.prems(3) by (simp only: takers_round [OF Suc.prems(1) len(1)]) (simp add: count_mset count_list_0_iff)
  ultimately show ?case by simp
qed simp

end

end
