(* ===== verification/Threaded_Server.thy ===== *)
theory Threaded_Server
  imports Delivery Round_Robin
begin

text \<open>
  \<open>src/irc/threaded_server.cpp\<close> and \<open>src/irc/worker.cpp\<close>: the listening server, which counts
  the connections of each peer address and hands sockets to its workers in turn, and the
  worker, which turns a socket into a \<open>client_connection\<close> and undoes the count when the
  connection ends. The capabilities and the ISUPPORT tokens the constructor sets are here too.
\<close>

section \<open>What the constructor announces\<close>

definition server_capabilities :: "bytes list" where
  "server_capabilities =
     [''soju.im/FILEHOST'', ''draft/metadata'', ''draft/metadata-2'', ''message-tags'',
      ''multi-prefix'', ''extended-join'', ''chghost'', ''account-tag'', ''account-notify'',
      ''echo-message'', ''znc.in/self-message'', ''sasl'', ''draft/channel-rename'',
      ''extended-isupport'']"

text \<open>The entries of the hash; the order in which it is walked is the environment's.\<close>

definition server_isupport :: "(bytes \<times> bytes) list" where
  "server_isupport =
     [(''AWAYLEN'', ''390''), (''BOT'', ''B''), (''CASEMAPPING'', ''ascii''),
      (''CHANLIMIT'', ''#:100''), (''CHANMODES'', ''Ibe,k,fl,CEMRUimnstu''),
      (''CHANNELLEN'', ''64''), (''CHANTYPES'', ''#''), (''ELIST'', ''U''), (''EXCEPTS'', []),
      (''EXTBAN'', '',m''), (''FORWARD'', ''f''), (''INVEX'', []), (''KICKLEN'', ''390''),
      (''MAXLIST'', ''beI:60''), (''MAXTARGETS'', ''4''), (''MODES'', []), (''MONITOR'', ''100''),
      (''MSGREFTYPES'', ''msgid,timestamp''), (''NETWORK'', ''chatripper''), (''NICKLEN'', ''32''),
      (''PREFIX'', ''(qaohv)~&@%+''), (''RPCHAN'', ''E''), (''RPUSER'', ''E''), (''SAFELIST'', []),
      (''SAFERATE'', []), (''STATUSMSG'', ''~&@%+''),
      (''TARGMAX'', ''NAMES:1,LIST:1,KICK:,WHOIS:1,USERHOST:10,PRIVMSG:4,TAGMSG:4,NOTICE:4,MONITOR:100''),
      (''TOPICLEN'', ''390''), (''UTF8MAPPING'', ''rfc8265''), (''UTF8ONLY'', []), (''WHOX'', [])]"

definition new_server :: "nat \<Rightarrow> int \<Rightarrow> server res" where
  "new_server thread_count max_per_ip =
     (if thread_count = 0 then Inl Uncaught
      else Inr \<lparr>s_thread_count = thread_count, s_max_per_ip = max_per_ip, s_active = Map.empty,
             s_next_worker = 0, s_workers = replicate thread_count [], s_pending = [],
             s_upgrading = []\<rparr>)"

section \<open>Counting connections\<close>

definition active_count :: "server \<Rightarrow> 32 word \<Rightarrow> int" where
  "active_count s ip = (case s_active s ip of None \<Rightarrow> 0 | Some n \<Rightarrow> n)"

definition active_dec :: "32 word \<Rightarrow> server \<Rightarrow> server" where
  "active_dec ip s =
     (let n = active_count s ip - 1 in
      if n \<le> 0 then s\<lparr>s_active := (s_active s)(ip := None)\<rparr>
      else s\<lparr>s_active := (s_active s)(ip \<mapsto> n)\<rparr>)"

definition dispatch :: "32 word \<Rightarrow> nat \<Rightarrow> int \<Rightarrow> server \<Rightarrow> server" where
  "dispatch ip port descriptor s =
     s\<lparr>s_next_worker := (s_next_worker s + 1) mod s_thread_count s,
       s_pending := s_pending s @ [\<lparr>pd_worker = s_next_worker s, pd_descriptor = descriptor,
                                    pd_ip = ip, pd_port = port\<rparr>]\<rparr>"

interpretation workers: round_robin s_thread_count s_next_worker "\<lambda>(ip, port, d). dispatch ip port d"
  by unfold_locales (auto simp: dispatch_def)

text \<open>
  \<open>remote_ip\<close> is 0 when \<open>getpeername\<close> failed. The Python call of the rejection branch returns
  nothing the server uses.
\<close>

definition incoming_connection :: "32 word \<Rightarrow> nat \<Rightarrow> int \<Rightarrow> server \<Rightarrow> server" where
  "incoming_connection remote_ip local_port descriptor s =
     (if remote_ip \<noteq> 0 then
        let s1 = s\<lparr>s_active := (s_active s)(remote_ip \<mapsto> active_count s remote_ip)\<rparr> in
        if active_count s1 remote_ip \<ge> s_max_per_ip s1 then s1
        else dispatch remote_ip local_port descriptor
               (s1\<lparr>s_active := (s_active s1)(remote_ip \<mapsto> active_count s1 remote_ip + 1)\<rparr>)
      else dispatch remote_ip local_port descriptor s)"

definition concurrent_peers :: "server \<Rightarrow> nat" where
  "concurrent_peers s = sum_list (map length (s_workers s))"

section \<open>The worker\<close>

definition upd_srv :: "server_kind \<Rightarrow> (server \<Rightarrow> server) \<Rightarrow> world \<Rightarrow> world" where
  "upd_srv k f w = w\<lparr>w_srv := (w_srv w)(k := f (w_srv w k))\<rparr>"

definition worker_add :: "nat \<Rightarrow> conn_id \<Rightarrow> server \<Rightarrow> server" where
  "worker_add n i s = s\<lparr>s_workers := (s_workers s)[n := s_workers s ! n @ [i]]\<rparr>"

definition worker_remove :: "nat \<Rightarrow> conn_id \<Rightarrow> server \<Rightarrow> server" where
  "worker_remove n i s = s\<lparr>s_workers := (s_workers s)[n := removeAll i (s_workers s ! n)]\<rparr>"

definition spawn_conn :: "env \<Rightarrow> server_kind \<Rightarrow> nat \<Rightarrow> transport \<Rightarrow> 32 word \<Rightarrow> world \<Rightarrow> world" where
  "spawn_conn E k n t ip w =
     (let i = w_next_conn w;
          uid = e_uuid_rfc4122 E (e_uuid E (w_uuids w));
          w1 = w\<lparr>w_next_conn := i + 1, w_uuids := w_uuids w + 1\<rparr>;
          w2 = upd_conn i (\<lambda>_. new_conn E (k, n) t uid ip) w1
      in upd_srv k (worker_add n i) w2)"

text \<open>
  \<open>handleConnection\<close> for a posted call \<open>p\<close>; \<open>ok\<close> says whether \<open>setSocketDescriptor\<close> accepted
  the descriptor. A socket of the web-socket port goes to \<open>QWebSocketServer\<close>, which announces
  it (\<open>worker_ws_connected\<close>) or drops it (\<open>worker_ws_dropped\<close>) after its handshake.
\<close>

definition worker_handle_connection ::
    "env \<Rightarrow> server_kind \<Rightarrow> pending \<Rightarrow> bool \<Rightarrow> world \<Rightarrow> world" where
  "worker_handle_connection E k p ok w =
     (let w1 = upd_srv k (\<lambda>s. s\<lparr>s_pending := remove1 p (s_pending s)\<rparr>) w in
      if \<not> ok then upd_srv k (active_dec (pd_ip p)) w1
      else if pd_port p = e_ws_port E then
        upd_srv k (\<lambda>s. s\<lparr>s_upgrading := s_upgrading s @ [(pd_worker p, pd_ip p)]\<rparr>) w1
      else spawn_conn E k (pd_worker p) (Tcp True True) (pd_ip p) w1)"

definition worker_ws_connected :: "env \<Rightarrow> server_kind \<Rightarrow> nat \<times> 32 word \<Rightarrow> world \<Rightarrow> world" where
  "worker_ws_connected E k u w =
     spawn_conn E k (fst u) (Ws True) (snd u)
       (upd_srv k (\<lambda>s. s\<lparr>s_upgrading := remove1 u (s_upgrading s)\<rparr>) w)"

definition worker_ws_dropped :: "server_kind \<Rightarrow> nat \<times> 32 word \<Rightarrow> world \<Rightarrow> world" where
  "worker_ws_dropped k u = upd_srv k (\<lambda>s. s\<lparr>s_upgrading := remove1 u (s_upgrading s)\<rparr>)"

text \<open>
  The slot of \<open>disconnected\<close>: the address is uncounted, the worker drops its shared pointer,
  and with it the connection goes.
\<close>

definition worker_disconnected :: "conn_id \<Rightarrow> world \<Rightarrow> world" where
  "worker_disconnected i w =
     (let (k, n) = c_home (w_conns w i);
          w1 = upd_srv k (active_dec (c_remote (w_conns w i))) w;
          owned = i \<in> set (s_workers (w_srv w1 k) ! n);
          w2 = upd_srv k (worker_remove n i) w1
      in if owned then upd_conn i (\<lambda>c. c\<lparr>c_alive := False\<rparr>) w2 else w2)"

text \<open>The server a connection was given: by port, that is by kind of socket.\<close>

definition server_of :: "conn \<Rightarrow> server_kind" where
  "server_of c = (case c_transport c of Tcp _ _ \<Rightarrow> IrcServer | Ws _ \<Rightarrow> WsServer)"

end
