(* ===== verification/Registration.thy ===== *)
theory Registration
  imports Channel Threaded_Server
begin

text \<open>
  The commands of \<open>src/irc/client_connection.cpp\<close> that bring a connection up: CAP, PASS, NICK,
  USER, AUTHENTICATE, the replies they lead to (LUSERS, MOTD, MODE, 005) and
  \<open>try_finalize_setup\<close>, which makes the connection ready.
\<close>

section \<open>LUSERS and MOTD\<close>

definition handle_lusers :: "env \<Rightarrow> conn_id \<Rightarrow> world \<Rightarrow> world" where
  "handle_lusers E i w =
     (let count_users = dec (length (w_accounts w));
          count_peers = dec (concurrent_peers (w_srv w (server_of (w_conns w i))));
          msg_251 = qjoin '' '' [''251'', conn_nick w i, ''There are'', count_users, ''users,'',
            count_peers, ''connected peers,'', ''and 0 services on 1 server(s)'' @ crlf];
          w1 = send_raw E i msg_251 w;
          msg_252 = qjoin '' '' [''252'', conn_nick w1 i, ''I have'', count_users, ''users,'',
            count_peers, ''connected peers'']
      in send_raw E i msg_252 w1)"

definition reload_motd :: "env \<Rightarrow> world \<Rightarrow> world" where
  "reload_motd E w =
     (case e_motd_file E of
        None \<Rightarrow> w\<lparr>w_motd := ''Welcome!'', w_motd_modified := 0\<rparr>
      | Some (last_modified, contents) \<Rightarrow>
          if last_modified = w_motd_modified w then w
          else
            (case contents of
               None \<Rightarrow> w\<lparr>w_motd := ''Welcome!'', w_motd_modified := 0\<rparr>
             | Some motd_data \<Rightarrow> w\<lparr>w_motd := motd_data, w_motd_modified := last_modified\<rparr>))"

definition server_motd :: "env \<Rightarrow> world \<Rightarrow> bytes \<times> world" where
  "server_motd E w = (let w1 = reload_motd E w in (w_motd w1, w1))"

definition max_content_len :: nat where
  "max_content_len = 400"

function motd_chunks :: "bytes \<Rightarrow> nat \<Rightarrow> bytes list" where
  "motd_chunks line pos =
     (if pos < length line
      then take max_content_len (drop pos line) # motd_chunks line (pos + max_content_len)
      else [])"
  by pat_completeness auto

termination
  by (relation "measure (\<lambda>(line, pos). length line - pos)") (auto simp: max_content_len_def)

declare motd_chunks.simps [simp del]

definition handle_motd :: "env \<Rightarrow> conn_id \<Rightarrow> world \<Rightarrow> world" where
  "handle_motd E i w =
     (let nick = conn_nick w i;
          (first, w1) = server_motd E w;
          (motd_text, w2) = (if first = [] then (''Welcome!'', w1) else server_motd E w1);
          w3 = send_raw E i (''375 '' @ nick @ '' :- '' @ e_server_name E @
                 '' Message of the day -'') w2;
          w4 = fold (\<lambda>raw_line.
                 fold (\<lambda>chunk. send_raw E i (''372 '' @ nick @ '' :'' @ chunk))
                   (motd_chunks (trimmed raw_line) 0))
                 (qsplit LF motd_text) w3
      in send_raw E i (''376 '' @ nick @ '' :End of MOTD command.'') w4)"

section \<open>MODE\<close>

definition apply_user_mode :: "user_mode \<Rightarrow> bool \<Rightarrow> conn_id \<Rightarrow> world \<Rightarrow> world" where
  "apply_user_mode mode adding i =
     upd_conn i (\<lambda>c. c\<lparr>c_user_modes :=
       (if adding then flags_set user_mode_val [mode] (c_user_modes c)
        else flags_clear user_mode_val [mode] (c_user_modes c))\<rparr>)"

definition user_modes_present :: "flags \<Rightarrow> bytes" where
  "user_modes_present f =
     concat (map (\<lambda>(mode, info). if flags_has user_mode_val mode f then [umi_letter info] else [])
       user_modes_lookup)"

definition channel_modes_present :: "flags \<Rightarrow> bytes" where
  "channel_modes_present f =
     concat (map (\<lambda>(mode, info). if flags_has channel_mode_val mode f then [cmi_letter info] else [])
       channel_modes_lookup)"

definition mode_query :: "env \<Rightarrow> conn_id \<Rightarrow> bytes \<Rightarrow> world \<Rightarrow> world" where
  "mode_query E i target w =
     (let nick = conn_nick w i in
      if target = nick then
        let present = user_modes_present (c_user_modes (w_conns w i)) in
        if present \<noteq> [] then send_raw E i (''MODE '' @ nick @ '' :'' @ present) w
        else send_raw E i (''MODE '' @ nick @ '' :'') w
      else if starts_with target ''#'' then
        (case channel_get (drop 1 target) w of
           None \<Rightarrow> reply_num E i 403 (target @ '' :No such channel'') w
         | Some x \<Rightarrow>
             let c = w_chans w x;
                 present = channel_modes_present (ch_modes c);
                 params =
                   (if flags_has channel_mode_val KEY (ch_modes c) then '' '' @ ch_key c else []) @
                   (if flags_has channel_mode_val LIMIT (ch_modes c)
                    then '' '' @ dec_int (ch_limit c) else [])
             in
             if present \<noteq> [] then
               send_raw E i (''324 '' @ nick @ '' #'' @ ch_name c @ '' :+'' @ present @ params) w
             else send_raw E i (''324 '' @ nick @ '' #'' @ ch_name c @ '' :'') w)
      else reply_num E i 501 ''Unknown MODE flag'' w)"

text \<open>The letters of a user mode change: the new state, whether one was unknown, those that changed.\<close>

fun user_mode_letters :: "bool \<Rightarrow> conn_id \<Rightarrow> bytes \<Rightarrow> world \<times> bool \<times> bytes \<Rightarrow> world \<times> bool \<times> bytes" where
  "user_mode_letters adding i [] st = st"
| "user_mode_letters adding i (letter # ls) (w, invalid, result) =
     (case map_of user_modes_lookup_letter letter of
        None \<Rightarrow> user_mode_letters adding i ls (w, True, result)
      | Some mode \<Rightarrow>
          let was_set = flags_has user_mode_val mode (c_user_modes (w_conns w i));
              w1 = apply_user_mode mode adding i w;
              is_set = flags_has user_mode_val mode (c_user_modes (w_conns w1 i))
          in user_mode_letters adding i ls
               (w1, invalid, if was_set \<noteq> is_set then result @ [letter] else result))"

fun channel_mode_letters ::
    "bool \<Rightarrow> chan_id \<Rightarrow> bytes list \<Rightarrow> bytes \<Rightarrow> world \<times> bool \<times> bytes \<Rightarrow> (world \<times> bool \<times> bytes) res" where
  "channel_mode_letters adding x margs [] st = Inr st"
| "channel_mode_letters adding x margs (letter # ls) (w, invalid, result) =
     (case map_of channel_modes_lookup_letter letter of
        None \<Rightarrow> channel_mode_letters adding x margs ls (w, True, result)
      | Some mode \<Rightarrow>
          if mode \<in> {BAN, KEY, LIMIT} \<and> margs = [] then
            channel_mode_letters adding x margs ls (w, True, result)
          else
            let (mode_arg, margs') =
                  (if mode \<in> {BAN, KEY, LIMIT} then (hd margs, tl margs) else ([], margs));
                was_set = flags_has channel_mode_val mode (ch_modes (w_chans w x))
            in bind_res (channel_set_mode mode adding mode_arg x w) (\<lambda>w1.
               let is_set = flags_has channel_mode_val mode (ch_modes (w_chans w1 x))
               in channel_mode_letters adding x margs' ls
                    (w1, invalid, if was_set \<noteq> is_set then result @ [letter] else result)))"

definition handle_mode :: "env \<Rightarrow> conn_id \<Rightarrow> bytes list \<Rightarrow> world \<Rightarrow> world res" where
  "handle_mode E i args w =
     (case args of
        [] \<Rightarrow> Inr w
      | [target] \<Rightarrow> Inr (mode_query E i target w)
      | target # requested_modes # mode_args \<Rightarrow>
          let nick = conn_nick w i;
              unknown = Inr (reply_num E i 501 ''Unknown MODE flag'' w);
              adding = starts_with requested_modes ''+'';
              mode_prefix = (if adding then ''+'' else ''-'')
          in
          if starts_with target ''#'' \<and> requested_modes = ''b'' then
            (case channel_get (drop 1 target) w of
               None \<Rightarrow> Inr (reply_num E i 403 (target @ '' :No such channel'') w)
             | Some x \<Rightarrow> Inr (send_raw E i (''368 '' @ nick @ '' #'' @ ch_name (w_chans w x) @
                           '' :End of Channel Ban List'') w))
          else if \<not> (adding \<or> starts_with requested_modes ''-'') then unknown
          else if target = nick then
            let (w1, invalid, result) = user_mode_letters adding i (drop 1 requested_modes) (w, False, [])
            in if \<not> invalid \<and> result \<noteq> []
               then Inr (send_raw E i (''MODE '' @ nick @ '' :'' @ mode_prefix @ result) w1)
               else Inr (reply_num E i 501 ''Unknown MODE flag'' w1)
          else if starts_with target ''#'' then
            (case channel_get (drop 1 target) w of
               None \<Rightarrow> Inr (reply_num E i 403 (target @ '' :No such channel'') w)
             | Some x \<Rightarrow>
                 bind_res (channel_mode_letters adding x mode_args (drop 1 requested_modes) (w, False, []))
                   (\<lambda>(w1, invalid, result).
                     if invalid then Inr (reply_num E i 501 ''Unknown MODE flag'' w1)
                     else if result \<noteq> [] then
                       Inr (send_raw E i (''MODE '' @ target @ '' :'' @ mode_prefix @ result) w1)
                     else Inr w1))
          else unknown)"

section \<open>005\<close>

definition irc_max_len :: nat where
  "irc_max_len = 480"

definition isupport_token :: "bytes \<times> bytes \<Rightarrow> bytes" where
  "isupport_token kv = (if snd kv \<noteq> [] then fst kv @ ''='' @ snd kv else fst kv)"

text \<open>One step of the loop: the lines sent so far and the line being built.\<close>

definition isupport_step ::
    "bytes \<Rightarrow> bytes \<times> bytes \<Rightarrow> bytes list \<times> bytes \<Rightarrow> bytes list \<times> bytes" where
  "isupport_step base kv = (\<lambda>(sent, current0).
     let token = isupport_token kv;
         (sent1, current1) =
           (if length current0 + length token + 1 > irc_max_len
            then (sent @ [current0 @ '':are supported by this server''], base)
            else (sent, current0));
         current2 = (if current1 \<noteq> base then current1 @ '' '' else current1)
     in (sent1, current2 @ token))"

definition isupport_lines :: "bytes \<Rightarrow> (bytes \<times> bytes) list \<Rightarrow> bytes list" where
  "isupport_lines base isupport =
     (let (sent, current) = fold (isupport_step base) isupport ([], base)
      in if current \<noteq> base then sent @ [current @ '' :are supported by this server''] else sent)"

section \<open>The end of the registration\<close>

definition welcome_replies :: "env \<Rightarrow> conn_id \<Rightarrow> bytes \<Rightarrow> world \<Rightarrow> world" where
  "welcome_replies E i anick w =
     (let w1 = reply_num E i 1 ''Hi, welcome to IRC'' w;
          w2 = reply_num E i 2 (''Your host is '' @ e_server_name E @
                 '', running version chatripper-0.1'') w1;
          w3 = reply_num E i 3 ''This server was created Dec 21 1989 at 13:37:00 (lie)'' w2;
          w4 = reply_num E i 4 (e_server_name E @ '' wut-7.2.2+bla.7.3 what is this.'') w3;
          w5 = fold (send_raw E i) (isupport_lines (''005 '' @ anick @ '' '') (e_isupport E)) w4;
          w6 = handle_lusers E i w5
      in handle_motd E i w6)"

definition join_all :: "env \<Rightarrow> acc_id \<Rightarrow> world \<Rightarrow> world res" where
  "join_all E a w =
     fold_res (\<lambda>(_, channel) w. bind_res (deref_opt channel) (\<lambda>x.
        channel_join E \<lparr>ev_reason = [], ev_cancel = False, je_channel = Some x, je_account = a,
          je_password = [], je_from_system = True\<rparr> x w))
       (a_channels (w_accs w a)) w"

text \<open>Once the connection has its account \<open>a\<close>.\<close>

definition finish_setup :: "env \<Rightarrow> conn_id \<Rightarrow> acc_id \<Rightarrow> world \<Rightarrow> world res" where
  "finish_setup E i a w =
     (let anick = account_nick (w_accs w a);
          c = w_conns w i;
          w1 = (if anick \<noteq> c_nick c then
                  emit_data i ('':'' @ c_nick c @ ''!'' @ c_user c @ ''@'' @ c_host c @ '' NICK :'' @
                      anick @ crlf)
                    (upd_conn i (\<lambda>c. c\<lparr>c_nick := anick\<rparr>) w)
                else w);
          w2 = add_connection i a w1;
          nick = conn_nick w2 i;
          w3 = irc_nicks_insert_cache nick a w2;
          w4 = welcome_replies E i anick w3
      in bind_res (if c_logged_in (w_conns w4 i) then handle_mode E i [nick, ''+r''] w4 else Inr w4)
           (\<lambda>w5. bind_res (join_all E a w5)
           (\<lambda>w6. Inr (upd_conn i (\<lambda>c. c\<lparr>c_ready := True\<rparr>) w6))))"

definition new_session_account :: "env \<Rightarrow> conn_id \<Rightarrow> world \<Rightarrow> (acc_id \<times> world) res" where
  "new_session_account E i w =
     (let (a, w1) = account_create E w;
          w2 = upd_conn i (\<lambda>c. c\<lparr>c_account := Some a\<rparr>) w1;
          w3 = set_nick_by_force a (c_nick (w_conns w i)) w2
      in bind_res (set_random_uid E a w3) (\<lambda>w4. Inr (a, account_insert_cache a w4)))"

definition try_finalize_setup :: "env \<Rightarrow> conn_id \<Rightarrow> world \<Rightarrow> world res" where
  "try_finalize_setup E i w =
     (let c = w_conns w i in
      if c_ready c \<or> \<not> flags_empty (c_tasks c) then Inr w
      else if e_password E \<noteq> [] \<and> c_pass_given c \<noteq> e_password E then
        Inr (force_disconnect i (reply_num E i 464 ''Password incorrect'' w))
      else
        (case c_account c of
           Some a \<Rightarrow> finish_setup E i a w
         | None \<Rightarrow>
             if irc_nick_get (to_lower (c_nick c)) w \<noteq> None then
               Inr (force_disconnect i
                 (reply_num E i 433 (c_nick c @ '' :Nickname is already in use'') w))
             else bind_res (new_session_account E i w) (\<lambda>(a, w1). finish_setup E i a w1)))"

section \<open>NICK, USER, PASS\<close>

definition handle_pass :: "env \<Rightarrow> conn_id \<Rightarrow> bytes list \<Rightarrow> world \<Rightarrow> world" where
  "handle_pass E i args w =
     (case args of
        [] \<Rightarrow> reply_num E i 461 ''PASS :Not enough parameters'' w
      | pw # _ \<Rightarrow> upd_conn i (\<lambda>c. c\<lparr>c_pass_given := pw\<rparr>) w)"

text \<open>\<open>client_connection::setNick\<close> throws when the connection already has a nick.\<close>

definition conn_set_nick :: "conn_id \<Rightarrow> bytes \<Rightarrow> world \<Rightarrow> world res" where
  "conn_set_nick i nick w =
     (if c_nick (w_conns w i) \<noteq> [] then Inl Uncaught
      else Inr (upd_conn i (\<lambda>c. c\<lparr>c_nick := nick\<rparr>) w))"

definition clear_task :: "setup_task \<Rightarrow> conn_id \<Rightarrow> world \<Rightarrow> world" where
  "clear_task t i = upd_conn i (\<lambda>c. c\<lparr>c_tasks := flags_clear setup_val [t] (c_tasks c)\<rparr>)"

definition handle_nick :: "env \<Rightarrow> conn_id \<Rightarrow> bytes list \<Rightarrow> world \<Rightarrow> world res" where
  "handle_nick E i args w =
     (case args of
        [] \<Rightarrow> Inr (reply_num E i 431 ''No nickname given'' w)
      | new_nick # _ \<Rightarrow>
          let c = w_conns w i in
          if \<not> is_valid_nick (e_unicode E) new_nick then
            Inr (reply_num E i 432 (new_nick @ '' :Erroneous nickname'') w)
          else if c_account c \<noteq> None \<and> irc_nick_get (to_lower new_nick) w \<noteq> None then
            Inr (reply_num E i 433 new_nick w)
          else if flags_has setup_val NICK (c_tasks c) then
            bind_res (conn_set_nick i new_nick w) (\<lambda>w1.
            try_finalize_setup E i (clear_task NICK i w1))
          else if \<not> flags_empty (c_tasks c) then
            Inr (reply_num E i 432 ''Finish connect bootstrap first'' w)
          else
            let anick = conn_nick w i in
            if new_nick = anick then
              Inr (reply_num E i 431 ''Your nick is already that'' w)
            else
              bind_res (deref_opt (c_account c)) (\<lambda>a.
              bind_res (account_set_nick E
                  \<lparr>ev_reason = [], ev_cancel = False, ne_old_nick = anick,
                   ne_new_nick = new_nick, ne_from_server = False, ne_account = a\<rparr> a w)
                (\<lambda>(ok, w1). if ok then Inr w1 else Inr (reply_num E i 433 new_nick w1))))"

definition handle_user :: "env \<Rightarrow> conn_id \<Rightarrow> bytes list \<Rightarrow> world \<Rightarrow> world res" where
  "handle_user E i args w =
     (if \<not> flags_has setup_val USER (c_tasks (w_conns w i)) then
        Inr (reply_num E i 461 ''USER :User already specified'' w)
      else if length args < 4 then
        Inr (reply_num E i 461 ''USER :Not enough parameters'' w)
      else
        let user = args ! 0;
            w1 = upd_conn i (\<lambda>c. c\<lparr>c_realname := args ! 3, c_user := user\<rparr>) w
        in
        if length user > 16 then
          Inr (force_disconnect i
            (reply_num E i 461 ''USER :Your user is too long (more than 16 characters)'' w1))
        else
          let w2 = (if account_username_exists user w1
                    then upd_conn i (\<lambda>c. c\<lparr>c_user_already_exists := True\<rparr>) w1 else w1)
          in try_finalize_setup E i (clear_task USER i w2))"

section \<open>CAP\<close>

definition cap_name :: "bytes \<Rightarrow> bytes" where
  "cap_name c = takeWhile (\<lambda>x. x \<noteq> CHR ''='') c"

text \<open>The capabilities REQ turns on; the others it acknowledges without effect.\<close>

definition cap_of_name :: "bytes \<Rightarrow> protocol_capability option" where
  "cap_of_name cap =
     (if cap = ''multi-prefix'' then Some MULTI_PREFIX
      else if cap = ''extended-join'' then Some EXTENDED_JOIN
      else if cap = ''chghost'' then Some CHGHOST
      else if cap = ''echo-message'' then Some ECHO_MESSAGE
      else if cap = ''znc.in/self-message'' then Some ZNC_SELF_MESSAGE
      else if cap = ''message-tags'' then Some MESSAGE_TAGS
      else if cap = ''draft/metadata'' \<or> cap = ''draft/metadata-2'' then Some METADATA_CAP
      else if cap = ''soju.im/FILEHOST'' then Some FILEHOST
      else if cap = ''extended-isupport'' then Some EXTENDED_ISUPPORT
      else None)"

definition cap_enable :: "bytes list \<Rightarrow> flags \<Rightarrow> flags" where
  "cap_enable acked f =
     fold (\<lambda>cap f. case cap_of_name cap of None \<Rightarrow> f | Some v \<Rightarrow> flags_set cap_val [v] f) acked f"

definition cap_available :: "env \<Rightarrow> bytes \<Rightarrow> bool" where
  "cap_available E r =
     (let name = (if starts_with r ''-'' then drop 1 r else r)
      in list_ex (\<lambda>c. cap_name c = name) (e_caps E))"

definition cap_req :: "env \<Rightarrow> conn_id \<Rightarrow> bytes list \<Rightarrow> world \<Rightarrow> world" where
  "cap_req E i args w =
     (if length args < 2 then send_raw E i ''CAP * NAK :'' w
      else
        let req_line0 = norm E (args ! 1);
            req_line = (if starts_with req_line0 '':'' then drop 1 req_line0 else req_line0);
            requested = filter (\<lambda>r. r \<noteq> []) (qsplit SP req_line);
            ack = filter (cap_available E) requested;
            nak = filter (\<lambda>r. \<not> cap_available E r) requested
        in
        if ack \<noteq> [] \<and> nak = [] then
          upd_conn i (\<lambda>c. c\<lparr>c_caps := cap_enable ack (c_caps c)\<rparr>)
            (send_raw E i (''CAP * ACK :'' @ qjoin '' '' ack) w)
        else send_raw E i (''CAP * NAK :'' @ qjoin '' '' requested) w)"

definition handle_cap :: "env \<Rightarrow> conn_id \<Rightarrow> bytes list \<Rightarrow> world \<Rightarrow> world res" where
  "handle_cap E i args w =
     (if \<not> flags_has setup_val CAP_EXCHANGE (c_tasks (w_conns w i)) then Inr w
      else
        bind_res (list_at args 0) (\<lambda>sub_cmd.
        if sub_cmd = ''LS'' then
          let ver = (if length args \<ge> 2 then to_int (args ! 1) else None) in
          (case ver of
             Some v \<Rightarrow>
               if v \<ge> 302 then
                 Inr (send_raw E i (''CAP * LS :'' @ qjoin '' '' (e_caps E))
                       (w\<lparr>w_cap_version := max (w_cap_version w) v\<rparr>))
               else Inr (send_raw E i (''CAP * LS :'' @ qjoin '' '' (map cap_name (e_caps E))) w)
           | None \<Rightarrow> Inr (send_raw E i (''CAP * LS :'' @ qjoin '' '' (map cap_name (e_caps E))) w))
        else if sub_cmd = ''REQ'' then Inr (cap_req E i args w)
        else if sub_cmd = ''LIST'' then
          let shown = (if w_cap_version w \<ge> 302 then e_caps E else map cap_name (e_caps E))
          in Inr (send_raw E i (''CAP * LIST :'' @ qjoin '' '' shown) w)
        else if sub_cmd = ''END'' then try_finalize_setup E i (clear_task CAP_EXCHANGE i w)
        else Inr w))"

section \<open>AUTHENTICATE\<close>

text \<open>A verified client takes the account over, or its own account is merged into it.\<close>

definition adopt_account :: "conn_id \<Rightarrow> acc_id \<Rightarrow> world \<Rightarrow> world res" where
  "adopt_account i account w =
     (case c_account (w_conns w i) of
        Some mine \<Rightarrow> merge_account account mine w
      | None \<Rightarrow> Inr (upd_conn i (\<lambda>c. c\<lparr>c_account := Some account\<rparr>) w))"

definition handle_authenticate :: "env \<Rightarrow> conn_id \<Rightarrow> bytes list \<Rightarrow> world \<Rightarrow> world res" where
  "handle_authenticate E i args w =
     (case args of
        [] \<Rightarrow> Inr (force_disconnect i (send_raw E i ''uwot?'' w))
      | arg # _ \<Rightarrow>
          if arg = ''PLAIN'' then Inr (send_raw E i ''AUTHENTICATE +'' w)
          else
            (case qsplit (CHR 0x00) (e_base64 E arg) of
               [_, username, password] \<Rightarrow>
                 (case get_by_name w username of
                    None \<Rightarrow> Inr (force_disconnect i (reply_num E i 900 ''SASL authentication failed'' w))
                  | Some account \<Rightarrow>
                      let auth = verify_password E
                            \<lparr>ev_reason = [], ev_cancel = False, au_username = username,
                             au_password = password, au_ip = e_ip E (c_remote (w_conns w i)),
                             au_from_system = False\<rparr> (w_accs w account)
                      in
                      if \<not> ev_cancel auth then
                        bind_res (adopt_account i account w) (\<lambda>w1.
                          let w2 = reply_num E i 900 (''You are now logged in as '' @ username) w1;
                              w3 = reply_num E i 903 ''SASL authentication successful'' w2
                          in Inr (upd_conn i (\<lambda>c. c\<lparr>c_logged_in := True\<rparr>) w3))
                      else
                        let reply = ''SASL authentication failed'' @
                              (if ev_reason auth \<noteq> [] then '': '' @ ev_reason auth else [])
                        in Inr (force_disconnect i (reply_num E i 900 reply w)))
             | _ \<Rightarrow> Inr (reply_num E i 900 ''SASL authentication failed'' w)))"

end
