(* ===== verification/Metadata_Store.thy ===== *)
theory Metadata_Store
  imports Channel
begin

text \<open>
  \<open>src/core/metadata.cpp\<close>: the key-value store of an account or a channel with its
  subscribers, and \<open>handle\<close>, which runs one METADATA command on it. The store is created on
  first use and read from the database then (\<open>e_metadata_get\<close>).
\<close>

section \<open>Maps that keep their keys sorted\<close>

text \<open>What the code relies on when it writes, removes and reads a key of a \<open>QMap\<close>.\<close>

locale kv_store =
  fixes wf :: "'s \<Rightarrow> bool"
    and put :: "'k \<Rightarrow> 'v \<Rightarrow> 's \<Rightarrow> 's"
    and del :: "'k \<Rightarrow> 's \<Rightarrow> 's"
    and look :: "'s \<Rightarrow> 'k \<Rightarrow> 'v option"
  assumes wf_put: "wf s \<Longrightarrow> wf (put k v s)"
    and wf_del: "wf s \<Longrightarrow> wf (del k s)"
    and look_put: "wf s \<Longrightarrow> look (put k v s) = (look s)(k \<mapsto> v)"
    and look_del: "wf s \<Longrightarrow> look (del k s) = (look s)(k := None)"
begin

lemma get_put: "wf s \<Longrightarrow> look (put k v s) k = Some v"
  by (simp add: look_put)

lemma get_put_other: "wf s \<Longrightarrow> j \<noteq> k \<Longrightarrow> look (put k v s) j = look s j"
  by (simp add: look_put)

lemma get_del: "wf s \<Longrightarrow> look (del k s) k = None"
  by (simp add: look_del)

lemma get_del_other: "wf s \<Longrightarrow> j \<noteq> k \<Longrightarrow> look (del k s) j = look s j"
  by (simp add: look_del)

lemma put_put: "wf s \<Longrightarrow> look (put k v (put k u s)) = look (put k v s)"
  by (simp add: look_put wf_put)

lemma del_put: "wf s \<Longrightarrow> look s k = None \<Longrightarrow> look (del k (put k v s)) = look s"
  by (auto simp: look_put look_del wf_put fun_eq_iff)

lemma wf_fold_put: "wf s \<Longrightarrow> wf (fold (\<lambda>(k, v). put k v) kvs s)"
  by (induction kvs arbitrary: s) (auto simp: wf_put)

lemma fold_put:
  "wf s \<Longrightarrow> look (fold (\<lambda>(k, v). put k v) kvs s) k =
     (case map_of (rev kvs) k of None \<Rightarrow> look s k | Some v \<Rightarrow> Some v)"
proof (induction kvs arbitrary: s)
  case (Cons kv kvs)
  obtain j v where kv: "kv = (j, v)" by force
  show ?case
    using Cons.IH [of "put j v s"] Cons.prems
    by (auto simp: kv look_put wf_put map_add_def split: option.splits)
qed simp

end

abbreviation qmap_ok :: "('k::linorder \<times> 'v) list \<Rightarrow> bool" where
  "qmap_ok m \<equiv> sorted_wrt (<) (map fst m)"

lemma qmap_del_ok: "qmap_ok m \<Longrightarrow> qmap_ok (AList.delete k m)"
  by (induction m) (auto simp: AList.delete_eq)

interpretation qmap: kv_store qmap_ok qmap_put AList.delete map_of
  by unfold_locales (simp_all add: qmap_put_sorted qmap_del_ok map_of_qmap_put)

section \<open>The store\<close>

datatype meta_owner = MetaAccount acc_id | MetaChannel chan_id

definition ref_id :: "meta_owner \<Rightarrow> world \<Rightarrow> quuid" where
  "ref_id owner w =
     (case owner of MetaAccount a \<Rightarrow> a_uid (w_accs w a) | MetaChannel x \<Rightarrow> ch_uid (w_chans w x))"

definition ref_type_of :: "meta_owner \<Rightarrow> ref_type" where
  "ref_type_of owner = (case owner of MetaAccount _ \<Rightarrow> RefAccount | MetaChannel _ \<Rightarrow> RefChannel)"

definition the_store :: "env \<Rightarrow> meta_owner \<Rightarrow> world \<Rightarrow> metadata" where
  "the_store E owner w =
     (case (case owner of MetaAccount a \<Rightarrow> a_metadata (w_accs w a)
                        | MetaChannel x \<Rightarrow> ch_metadata (w_chans w x)) of
        Some m \<Rightarrow> m
      | None \<Rightarrow> e_metadata_get E (ref_id owner w))"

definition put_store :: "meta_owner \<Rightarrow> metadata \<Rightarrow> world \<Rightarrow> world" where
  "put_store owner m =
     (case owner of
        MetaAccount a \<Rightarrow> upd_acc a (\<lambda>p. p\<lparr>a_metadata := Some m\<rparr>)
      | MetaChannel x \<Rightarrow> upd_chan x (\<lambda>c. c\<lparr>ch_metadata := Some m\<rparr>))"

definition db_log :: "db_op \<Rightarrow> world \<Rightarrow> world" where
  "db_log d w = w\<lparr>w_db := w_db w @ [d]\<rparr>"

definition metadata_get :: "env \<Rightarrow> bytes \<Rightarrow> metadata \<Rightarrow> bytes option" where
  "metadata_get E key m = (case map_of (m_kv m) (norm E key) of None \<Rightarrow> None | Some v \<Rightarrow> v)"

definition metadata_set :: "env \<Rightarrow> bytes \<Rightarrow> bytes \<Rightarrow> meta_owner \<Rightarrow> world \<Rightarrow> world" where
  "metadata_set E key value owner w =
     (let m = the_store E owner w;
          w1 = put_store owner (m\<lparr>m_kv := qmap_put (norm E key) (Some value) (m_kv m)\<rparr>) w
      in db_log (MetadataUpsert key value (ref_id owner w1) (ref_type_of owner)) w1)"

definition metadata_remove :: "env \<Rightarrow> bytes \<Rightarrow> meta_owner \<Rightarrow> world \<Rightarrow> bool \<times> world" where
  "metadata_remove E key owner w =
     (let m = the_store E owner w;
          w1 = put_store owner (m\<lparr>m_kv := AList.delete (norm E key) (m_kv m)\<rparr>) w
      in (True, db_log (MetadataRemove key (ref_id owner w1)) w1))"

definition metadata_list :: "metadata \<Rightarrow> tag_map" where
  "metadata_list m = m_kv m"

section \<open>Subscriptions\<close>

definition subs_of :: "(bytes \<times> acc_id list) list \<Rightarrow> bytes \<Rightarrow> acc_id list" where
  "subs_of subs k = (case map_of subs k of None \<Rightarrow> [] | Some l \<Rightarrow> l)"

definition subs_insert ::
    "bytes \<Rightarrow> acc_id \<Rightarrow> (bytes \<times> acc_id list) list \<Rightarrow> (bytes \<times> acc_id list) list" where
  "subs_insert k a subs = qmap_put k (List.insert a (subs_of subs k)) subs"

definition subs_remove ::
    "bytes \<Rightarrow> acc_id \<Rightarrow> (bytes \<times> acc_id list) list \<Rightarrow> (bytes \<times> acc_id list) list" where
  "subs_remove k a subs =
     (case map_of subs k of None \<Rightarrow> subs | Some l \<Rightarrow> qmap_put k (removeAll a l) subs)"

definition metadata_sub :: "env \<Rightarrow> acc_id \<Rightarrow> bytes list \<Rightarrow> meta_owner \<Rightarrow> world \<Rightarrow> world" where
  "metadata_sub E actor keys owner w =
     (let m = the_store E owner w;
          subs = fold (\<lambda>k. subs_insert (norm E k) actor) keys (m_subscribers m);
          w1 = put_store owner (m\<lparr>m_subscribers := subs\<rparr>) w
      in db_log (MetadataSubscribe (ref_id owner w1) keys (a_uid (w_accs w1 actor))) w1)"

definition metadata_unsub :: "env \<Rightarrow> acc_id \<Rightarrow> bytes list \<Rightarrow> meta_owner \<Rightarrow> world \<Rightarrow> world" where
  "metadata_unsub E actor keys owner w =
     (let m = the_store E owner w;
          subs = fold (\<lambda>k. subs_remove (norm E k) actor) keys (m_subscribers m);
          w1 = put_store owner (m\<lparr>m_subscribers := subs\<rparr>) w
      in db_log (MetadataUnsubscribe (ref_id owner w1) keys (a_uid (w_accs w1 actor))) w1)"

definition metadata_subs :: "acc_id \<Rightarrow> metadata \<Rightarrow> bytes list" where
  "metadata_subs actor m = map fst (filter (\<lambda>(k, l). actor \<in> set l) (m_subscribers m))"

section \<open>One command\<close>

definition metadata_denied :: "meta_owner \<Rightarrow> metadata_ev \<Rightarrow> bool" where
  "metadata_denied owner ev =
     (case owner of MetaAccount a \<Rightarrow> md_account ev \<noteq> a | MetaChannel _ \<Rightarrow> False)"

definition owner_nick :: "meta_owner \<Rightarrow> world \<Rightarrow> bytes" where
  "owner_nick owner w = (case owner of MetaAccount a \<Rightarrow> account_nick (w_accs w a) | MetaChannel _ \<Rightarrow> [])"

definition metadata_refuse :: "meta_owner \<Rightarrow> bytes \<Rightarrow> world \<Rightarrow> metadata_ev \<Rightarrow> metadata_ev" where
  "metadata_refuse owner key w ev =
     ev\<lparr>md_error_code := ''KEY_NO_PERMISSION'', md_error_target := owner_nick owner w,
        md_error_key := key\<rparr>"

definition metadata_handle ::
    "env \<Rightarrow> meta_owner \<Rightarrow> metadata_ev \<Rightarrow> world \<Rightarrow> metadata_ev \<times> world" where
  "metadata_handle E owner ev w0 =
     (let w = put_store owner (the_store E owner w0) w0;
          m = the_store E owner w;
          cmd = e_qupper E (norm E (md_subcmd ev));
          args = md_args ev;
          me = md_account ev;
          subscribe = fold (\<lambda>key. subs_insert (norm E key) me) args (md_subscriptions ev)
      in
      if cmd = ''SET'' then
        (case args of
           key # value # _ \<Rightarrow>
             if metadata_denied owner ev then (metadata_refuse owner key w ev, w)
             else (ev\<lparr>md_metadata := qmap_put (norm E key) (Some value) (md_metadata ev)\<rparr>,
                   metadata_set E key value owner w)
         | _ \<Rightarrow> (ev, w))
      else if cmd = ''CLEAR'' then
        (case args of
           [] \<Rightarrow> (ev, w)
         | key # _ \<Rightarrow>
             if metadata_denied owner ev then (metadata_refuse owner key w ev, w)
             else (ev\<lparr>md_metadata := qmap_put (norm E key) None (md_metadata ev)\<rparr>,
                   snd (metadata_remove E key owner w)))
      else if cmd = ''LIST'' then
        (ev\<lparr>md_metadata := fold (\<lambda>(k, v). qmap_put k v) (m_kv m) (md_metadata ev)\<rparr>, w)
      else if cmd = ''GET'' then
        (ev\<lparr>md_metadata := fold (\<lambda>key acc.
            case map_of (m_kv m) (norm E key) of
              None \<Rightarrow> acc
            | Some v \<Rightarrow> qmap_put (norm E key) v acc) args (md_metadata ev)\<rparr>, w)
      else if cmd = ''SUB'' then
        (ev\<lparr>md_subscriptions := subscribe\<rparr>, metadata_sub E me args owner w)
      else if cmd = ''UNSUB'' then
        (ev\<lparr>md_subscriptions := subscribe\<rparr>, metadata_unsub E me args owner w)
      else if cmd = ''SUBS'' then
        (ev\<lparr>md_subscriptions := fold (\<lambda>(k, l) subs. if me \<in> set l then subs_insert k me subs else subs)
            (m_subscribers m) (md_subscriptions ev)\<rparr>, w)
      else (ev, w))"

end
