(* ===== verification/Commands.thy ===== *)
theory Commands
  imports Registration Metadata_Store
begin

text \<open>
  The commands of a ready connection (\<open>src/irc/client_connection.cpp\<close>): JOIN, PART, PRIVMSG,
  TAGMSG, RENAME, CHATHISTORY, WHO, METADATA, and PING, PONG, QUIT. NAMES, TOPIC and WHOIS have
  empty bodies in the code.
\<close>

section \<open>JOIN and PART\<close>

definition join_one :: "env \<Rightarrow> conn_id \<Rightarrow> bytes \<Rightarrow> bytes \<Rightarrow> world \<Rightarrow> world res" where
  "join_one E i arg0 name w =
     (let channel_name = drop 1 name in
      if channel_name = [] then Inr w
      else
        bind_res (deref_opt (c_account (w_conns w i))) (\<lambda>a.
        let (channel, w1) = channel_get_or_create channel_name w
        in case channel of
             Some x \<Rightarrow>
               channel_join E \<lparr>ev_reason = [], ev_cancel = False, je_channel = Some x,
                 je_account = a, je_password = [], je_from_system = False\<rparr> x w1
           | None \<Rightarrow> Inr (reply_num E i 476 (arg0 @ '' :Invalid channel name'') w1)))"

definition handle_join :: "env \<Rightarrow> conn_id \<Rightarrow> bytes list \<Rightarrow> world \<Rightarrow> world res" where
  "handle_join E i args w =
     (case args of
        [] \<Rightarrow> Inr (reply_num E i 461 ''JOIN :Not enough parameters'' w)
      | arg0 # _ \<Rightarrow> fold_res (join_one E i arg0) (qsplit (CHR '','') arg0) w)"

text \<open>The loop of PART ends at the first channel that was left.\<close>

fun part_loop :: "env \<Rightarrow> conn_id \<Rightarrow> bytes \<Rightarrow> bytes \<Rightarrow> bytes list \<Rightarrow> world \<Rightarrow> world res" where
  "part_loop E i nick message [] w = Inr w"
| "part_loop E i nick message (name # names) w =
     (if \<not> starts_with name ''#'' then part_loop E i nick message names w
      else
        let channel_name = drop 1 name;
            not_on = (\<lambda>w. part_loop E i nick message names
                       (send_raw E i (''442 '' @ nick @ '' '' @ channel_name @
                          '' :You're not on that channel'') w))
        in case channel_get channel_name w of
             None \<Rightarrow> not_on w
           | Some x \<Rightarrow>
               bind_res (deref_opt (c_account (w_conns w i))) (\<lambda>a.
               bind_res (channel_part E
                   \<lparr>ev_reason = [], ev_cancel = False, pa_channel = x, pa_account = a,
                    pa_message = message, pa_from_system = False\<rparr> x w)
                 (\<lambda>(parted, w1). if parted then Inr w1 else not_on w1)))"

definition handle_part :: "env \<Rightarrow> conn_id \<Rightarrow> bytes list \<Rightarrow> world \<Rightarrow> world res" where
  "handle_part E i args w =
     (case args of
        [] \<Rightarrow> Inr (reply_num E i 461 ''PART :Not enough parameters'' w)
      | arg0 # rest \<Rightarrow>
          let message = (case rest of [] \<Rightarrow> [] | m # _ \<Rightarrow> m)
          in part_loop E i (conn_nick w i) message (qsplit (CHR '','') arg0) w)"

section \<open>PRIVMSG and TAGMSG\<close>

definition new_message ::
    "conn \<Rightarrow> acc_id \<Rightarrow> bytes \<Rightarrow> bytes \<Rightarrow> bytes list \<Rightarrow> tag_map \<Rightarrow> bool \<Rightarrow> message_ev" where
  "new_message c a nick txt args tags tag_msg =
     \<lparr>ev_reason = [], ev_cancel = False, me_id = [], me_conn_id = c_uid c, me_tags = tags,
      me_nick = nick, me_host = c_host c, me_text = txt, me_user = c_user c, me_targets = [],
      me_raw = qjoin '' '' args, me_account = a, me_dest = None, me_channel = None,
      me_from_system = False, me_tag_msg = tag_msg\<rparr>"

definition send_message ::
    "env \<Rightarrow> conn_id \<Rightarrow> acc_id \<Rightarrow> bytes \<Rightarrow> message_ev \<Rightarrow> world \<Rightarrow> world res" where
  "send_message E i a target msg w =
     (let no_such = Inr (send_raw E i (''401 '' @ me_nick msg @ '' '' @ target @
                          '' :No such nick/channel'') w)
      in
      if starts_with target ''#'' then
        (case channel_get (drop 1 target) w of
           None \<Rightarrow> no_such
         | Some x \<Rightarrow> channel_message E (msg\<lparr>me_channel := Some x\<rparr>) x w)
      else
        (case irc_nick_get target w of
           None \<Rightarrow> no_such
         | Some dest \<Rightarrow> account_message E (msg\<lparr>me_dest := Some dest\<rparr>) a w))"

definition handle_privmsg ::
    "env \<Rightarrow> conn_id \<Rightarrow> tag_map \<Rightarrow> bytes list \<Rightarrow> world \<Rightarrow> world res" where
  "handle_privmsg E i tags args w =
     (case args of
        target # txt # _ \<Rightarrow>
          bind_res (deref_opt (c_account (w_conns w i))) (\<lambda>a.
          send_message E i a target
            (new_message (w_conns w i) a (conn_nick w i) txt args tags False) w)
      | _ \<Rightarrow> Inr (reply_num E i 461 ''PRIVMSG :Not enough parameters'' w))"

definition handle_tagmsg ::
    "env \<Rightarrow> conn_id \<Rightarrow> tag_map \<Rightarrow> bytes list \<Rightarrow> world \<Rightarrow> world res" where
  "handle_tagmsg E i tags args w =
     (case args of
        target # _ \<Rightarrow>
          bind_res (deref_opt (c_account (w_conns w i))) (\<lambda>a.
          send_message E i a target
            (new_message (w_conns w i) a (conn_nick w i) [] args tags True) w)
      | [] \<Rightarrow> Inr (reply_num E i 461 ''TAGMSG :Not enough parameters'' w))"

section \<open>RENAME\<close>

definition strip_hash :: "bytes \<Rightarrow> bytes" where
  "strip_hash s = (if starts_with s ''#'' then drop 1 s else s)"

definition rename_fail :: "conn_id \<Rightarrow> bytes \<Rightarrow> bytes \<Rightarrow> bytes \<Rightarrow> bytes \<Rightarrow> world \<Rightarrow> world" where
  "rename_fail i code from_channel to_channel txt w =
     emit_data i (qjoin '' '' ['':'' @ conn_prefix w i, ''FAIL RENAME '' @ code,
       ''#'' @ from_channel, ''#'' @ to_channel, '':'' @ txt @ crlf]) w"

definition handle_rename :: "env \<Rightarrow> conn_id \<Rightarrow> bytes list \<Rightarrow> world \<Rightarrow> world res" where
  "handle_rename E i args w =
     (case args of
        from0 # to0 # rest \<Rightarrow>
          let from_channel = strip_hash from0;
              to_channel = strip_hash to0;
              message = (case rest of [] \<Rightarrow> [] | m # _ \<Rightarrow> m)
          in
          (case channel_get from_channel w of
             None \<Rightarrow> Inr (rename_fail i ''CANNOT_RENAME'' from_channel to_channel
                           ''Channel to rename does not exist'' w)
           | Some x \<Rightarrow>
               if channel_get to_channel w \<noteq> None then
                 Inr (rename_fail i ''CHANNEL_NAME_IN_USE'' from_channel to_channel
                       ''Channel already exists'' w)
               else
                 bind_res (deref_opt (c_account (w_conns w i))) (\<lambda>a.
                 bind_res (channel_rename E
                     \<lparr>ev_reason = [], ev_cancel = False, re_old_name = from_channel,
                      re_new_name = to_channel, re_message = message, re_account = a,
                      re_channel = x\<rparr> w)
                   (\<lambda>(_, w1). Inr w1)))
      | _ \<Rightarrow> Inr w)"

section \<open>CHATHISTORY and WHO\<close>

definition handle_chathistory :: "env \<Rightarrow> conn_id \<Rightarrow> bytes list \<Rightarrow> world \<Rightarrow> world" where
  "handle_chathistory E i args w =
     (if length args \<le> 3 then w
      else
        (case channel_get (drop 1 (args ! 1)) w of
           None \<Rightarrow> w
         | Some x \<Rightarrow>
             send_raw E i ''BATCH -123''
               (send_raw E i (''BATCH +123 chathistory #'' @ ch_name (w_chans w x)) w)))"

definition who_line :: "env \<Rightarrow> conn_id \<Rightarrow> bytes \<Rightarrow> acc_id \<Rightarrow> world \<Rightarrow> bytes" where
  "who_line E i raw_channel_arg a w =
     (let acc = w_accs w a;
          nick = account_nick acc;
          host0 = account_host E acc;
          host = (if host0 = [] then e_default_host E else host0);
          status = (if has_connections acc then ''H'' else ''G'') @
                   (if a_name acc = ''admin'' then ''@'' else [])
      in qjoin '' '' [''354'', conn_nick w i, raw_channel_arg, ''~u'', host, nick, status, ''0'',
           ''*'', nick])"

definition handle_who :: "env \<Rightarrow> conn_id \<Rightarrow> bytes list \<Rightarrow> world \<Rightarrow> world" where
  "handle_who E i args w =
     (case args of
        [] \<Rightarrow> reply_num E i 461 ''WHO :Not enough parameters'' w
      | raw_channel_arg # _ \<Rightarrow>
          (case channel_get (strip_hash raw_channel_arg) w of
             None \<Rightarrow> send_raw E i (''401 '' @ conn_nick w i @ '' '' @ raw_channel_arg @
                       '' :No such nick/channel'') w
           | Some x \<Rightarrow>
               let w1 = fold (\<lambda>a w. send_raw E i (who_line E i raw_channel_arg a w) w)
                          (ch_members (w_chans w x)) w
               in send_raw E i (qjoin '' '' [''315'', conn_nick w1 i, raw_channel_arg,
                    '':End of WHO list'']) w1))"

section \<open>PING, PONG, QUIT\<close>

definition touch_activity :: "env \<Rightarrow> conn_id \<Rightarrow> world \<Rightarrow> world" where
  "touch_activity E i = upd_conn i (\<lambda>c. c\<lparr>c_last_activity := e_now E\<rparr>)"

definition handle_ping :: "env \<Rightarrow> conn_id \<Rightarrow> bytes list \<Rightarrow> world \<Rightarrow> world" where
  "handle_ping E i args w =
     (if args = [] then reply_num E i 409 ''No origin specified'' w
      else emit_data i (''PONG '' @ e_server_name E @ '' :'' @ last args @ crlf)
             (touch_activity E i w))"

definition handle_pong :: "env \<Rightarrow> conn_id \<Rightarrow> bytes list \<Rightarrow> world \<Rightarrow> world" where
  "handle_pong E i args w = touch_activity E i w"

definition handle_quit :: "env \<Rightarrow> conn_id \<Rightarrow> bytes list \<Rightarrow> world \<Rightarrow> world" where
  "handle_quit E i args w = force_disconnect i w"

section \<open>METADATA\<close>

definition handle_metadata :: "env \<Rightarrow> conn_id \<Rightarrow> bytes list \<Rightarrow> world \<Rightarrow> world res" where
  "handle_metadata E i args w =
     (case args of
        target # subcmd # sub_args \<Rightarrow>
          if \<not> flags_has cap_val METADATA_CAP (c_caps (w_conns w i)) then Inr w
          else
            bind_res (deref_opt (c_account (w_conns w i))) (\<lambda>a.
            let event = \<lparr>ev_reason = [], ev_cancel = False, md_account = a, md_dest = None,
                  md_channel = None, md_subcmd = subcmd, md_args = sub_args, md_metadata = [],
                  md_from_system = False, md_error_code = [], md_error_target = [],
                  md_error_key = [], md_subscriptions = []\<rparr>;
                no_such = Inr (send_raw E i (''401 '' @ conn_nick w i @ '' '' @ target @
                            '' :No such nick/channel'') w);
                run = (\<lambda>owner ev. let (ev1, w1) = metadata_handle E owner ev w
                                   in Inr (conn_metadata E ev1 i w1))
            in
            if starts_with target ''#'' then
              (case channel_get (drop 1 target) w of
                 None \<Rightarrow> no_such
               | Some x \<Rightarrow> run (MetaChannel x) (event\<lparr>md_channel := Some x\<rparr>))
            else if target = ''*'' \<or> target = account_nick (w_accs w a) then
              run (MetaAccount a) (event\<lparr>md_dest := Some a\<rparr>)
            else
              (case irc_nick_get target w of
                 None \<Rightarrow> no_such
               | Some dest \<Rightarrow> run (MetaAccount dest) (event\<lparr>md_dest := Some dest\<rparr>)))
      | _ \<Rightarrow> Inr (reply_num E i 461 ''METADATA :Not enough parameters'' w))"

end
