(* ===== verification/Dispatcher.thy ===== *)
theory Dispatcher
  imports Commands
begin

text \<open>
  From the socket to the handlers: \<open>onReadyRead\<close> assembles lines, \<open>parseIncoming\<close> splits one
  and calls its handler, \<open>onSocketDisconnected\<close> ends a connection, and \<open>run_queued\<close> is the
  event loop running a posted call.
\<close>

section \<open>One line\<close>

text \<open>What the Python handlers of RAW_MSG leave of a line; \<open>None\<close> when it is dropped.\<close>

definition raw_hook :: "env \<Rightarrow> conn_id \<Rightarrow> bytes \<Rightarrow> world \<Rightarrow> bytes option" where
  "raw_hook E i line w =
     (if has_event_handler E RAW_MSG then
        (case e_on_raw E \<lparr>ev_reason = [], ev_cancel = False, rw_raw = line,
                 rw_ip = e_ip E (c_remote (w_conns w i))\<rparr> of
           Some r \<Rightarrow> if ev_cancel r then None else Some (rw_raw r)
         | None \<Rightarrow> Some line)
      else Some line)"

text \<open>
  The tag block and the line without it. The result of the VERIFY_MSG_TAGS handlers is tested
  against \<open>QEventMessage\<close>, which it never is, and their event is not one the bindings copy
  back: it changes neither the tags nor the line.
\<close>

definition strip_tags :: "env \<Rightarrow> conn_id \<Rightarrow> bytes \<Rightarrow> world \<Rightarrow> tag_map \<times> bytes" where
  "strip_tags E i line w =
     (if c_account (w_conns w i) \<noteq> None \<and> starts_with line ''@'' \<and>
         flags_has cap_val MESSAGE_TAGS (c_caps (w_conns w i)) then
        let (tags, tags_end) = parse_message_tags (norm E) line;
            line1 = (case tags_end of None \<Rightarrow> line | Some n \<Rightarrow> drop (n + 1) line)
        in (tags, trimmed line1)
      else ([], trimmed line))"

text \<open>
  The chain of comparisons. \<open>None\<close> in the result says that \<open>parseIncoming\<close> returned before
  it recorded the activity.
\<close>

definition run_command ::
    "env \<Rightarrow> conn_id \<Rightarrow> tag_map \<Rightarrow> bytes \<Rightarrow> bytes list \<Rightarrow> world \<Rightarrow> world option res" where
  "run_command E i tags cmd parts w =
     (let ready = c_ready (w_conns w i);
          done = (\<lambda>r. bind_res r (\<lambda>w. Inr (Some w)))
      in
      if cmd = ''PASS'' then Inr (Some (handle_pass E i parts w))
      else if cmd = ''NICK'' then done (handle_nick E i parts w)
      else if cmd = ''USER'' then done (handle_user E i parts w)
      else if cmd = ''PING'' then Inr (Some (handle_ping E i parts w))
      else if cmd = ''PONG'' then Inr (Some (handle_pong E i parts w))
      else if cmd = ''JOIN'' \<and> ready then
        bind_res (list_at parts 0) (\<lambda>p0.
        if p0 = '':'' \<and> length parts = 1 then Inr None else done (handle_join E i parts w))
      else if cmd = ''PART'' \<and> ready then done (handle_part E i parts w)
      else if cmd = ''PRIVMSG'' \<and> ready then done (handle_privmsg E i tags parts w)
      else if cmd = ''TAGMSG'' \<and> ready then done (handle_tagmsg E i tags parts w)
      else if cmd = ''QUIT'' then Inr (Some (handle_quit E i parts w))
      else if cmd = ''NAMES'' \<and> ready then Inr (Some w)
      else if cmd = ''CHATHISTORY'' \<and> ready then Inr (Some (handle_chathistory E i parts w))
      else if cmd = ''RENAME'' \<and> ready then done (handle_rename E i parts w)
      else if cmd = ''METADATA'' \<and> ready then done (handle_metadata E i parts w)
      else if cmd = ''TOPIC'' \<and> ready then Inr (Some w)
      else if cmd = ''LUSERS'' \<and> ready then Inr (Some (handle_lusers E i w))
      else if cmd = ''MOTD'' then Inr (Some (handle_motd E i w))
      else if cmd = ''WHO'' \<and> ready then Inr (Some (handle_who E i parts w))
      else if cmd = ''AUTHENTICATE'' then done (handle_authenticate E i parts w)
      else if cmd = ''CAP'' then done (handle_cap E i parts w)
      else if cmd = ''MODE'' \<and> ready then done (handle_mode E i parts w)
      else Inr None)"

definition parse_incoming :: "env \<Rightarrow> conn_id \<Rightarrow> bytes \<Rightarrow> world \<Rightarrow> world res" where
  "parse_incoming E i raw_line w =
     (case raw_hook E i raw_line w of
        None \<Rightarrow> Inr w
      | Some line0 \<Rightarrow>
          let (tags, line) = strip_tags E i line0 w;
              parts = split_irc line
          in bind_res (run_command E i tags (hd parts) (tl parts) w) (\<lambda>r.
             case r of
               None \<Rightarrow> Inr w
             | Some w1 \<Rightarrow> Inr (touch_activity E i w1)))"

section \<open>Bytes from the socket\<close>

definition on_socket_disconnected :: "env \<Rightarrow> conn_id \<Rightarrow> world \<Rightarrow> world" where
  "on_socket_disconnected E i w =
     (let nick = conn_nick w i;
          w1 = (case c_account (w_conns w i) of
                  None \<Rightarrow> w
                | Some a \<Rightarrow> on_connection_disconnected i nick a w)
      in worker_disconnected i w1)"

definition max_buffer_size :: nat where
  "max_buffer_size = 1024"

definition chunk_size :: nat where
  "chunk_size = 1024"

text \<open>The first loop: \<open>None\<close> when the buffer outgrew its bound.\<close>

fun append_chunks :: "bytes list \<Rightarrow> bytes \<Rightarrow> bytes option" where
  "append_chunks [] buffer = Some buffer"
| "append_chunks (chunk # chunks) buffer =
     (if chunk = [] then Some buffer
      else
        let buffer1 = buffer @ chunk
        in if length buffer1 > max_buffer_size then None else append_chunks chunks buffer1)"

definition chop_cr :: "bytes \<Rightarrow> bytes" where
  "chop_cr raw = (if raw \<noteq> [] \<and> last raw = CR then butlast raw else raw)"

text \<open>The second loop; the fuel is the length of the buffer, of which a round takes a byte or more.\<close>

fun drain_buffer :: "nat \<Rightarrow> env \<Rightarrow> conn_id \<Rightarrow> world \<Rightarrow> world res" where
  "drain_buffer 0 E i w = Inr w"
| "drain_buffer (Suc fuel) E i w =
     (case index_of LF (c_buffer (w_conns w i)) of
        None \<Rightarrow> Inr w
      | Some n \<Rightarrow>
          let raw = chop_cr (take n (c_buffer (w_conns w i)));
              w1 = upd_conn i (\<lambda>c. c\<lparr>c_buffer := drop (n + 1) (c_buffer c)\<rparr>) w
          in bind_res (parse_incoming E i raw w1) (drain_buffer fuel E i))"

text \<open>\<open>chunks\<close> are what the successive reads return, none longer than \<open>CHUNK_SIZE\<close>.\<close>

definition on_ready_read :: "env \<Rightarrow> conn_id \<Rightarrow> bytes list \<Rightarrow> world \<Rightarrow> world res" where
  "on_ready_read E i chunks w =
     (case append_chunks chunks (c_buffer (w_conns w i)) of
        None \<Rightarrow> Inr (on_socket_disconnected E i (upd_conn i (\<lambda>c. c\<lparr>c_buffer := []\<rparr>) w))
      | Some buffer \<Rightarrow>
          drain_buffer (length buffer) E i (upd_conn i (\<lambda>c. c\<lparr>c_buffer := buffer\<rparr>) w))"

definition parse_incoming_ws :: "env \<Rightarrow> conn_id \<Rightarrow> bytes \<Rightarrow> world \<Rightarrow> world res" where
  "parse_incoming_ws E i line w = parse_incoming E i line w"

section \<open>Posted calls\<close>

text \<open>A call posted to a connection that was destroyed meanwhile is dropped by the event loop.\<close>

definition queued_conn :: "queued \<Rightarrow> conn_id" where
  "queued_conn q = (case q of QPart i _ \<Rightarrow> i | QNick i _ \<Rightarrow> i | QRename i _ \<Rightarrow> i)"

definition run_call :: "queued \<Rightarrow> world \<Rightarrow> world res" where
  "run_call q w =
     (if \<not> c_alive (w_conns w (queued_conn q)) then Inr w
      else
        (case q of
           QPart i ev \<Rightarrow> conn_channel_part ev i w
         | QNick i ev \<Rightarrow> Inr (snd (conn_change_nick ev i w))
         | QRename i ev \<Rightarrow> Inr (snd (conn_channel_rename ev i w))))"

definition run_queue :: "world \<Rightarrow> world res" where
  "run_queue w = fold_res run_call (w_queue w) (w\<lparr>w_queue := []\<rparr>)"

end
