(* ===== verification/Invariants.thy ===== *)
theory Invariants
  imports Dispatcher
begin

text \<open>
  What every command keeps of the state, and which faults it can end in.

  \<open>st\<close> is the part of the world the invariants speak of: for each connection its registration
  (tasks, account, nick, ready) and what only the socket layer changes, for each account
  the list of its connections, and the two servers with their workers. Most commands leave \<open>st\<close> alone (\<open>keeps\<close>); the registration
  commands change it for their own connection and keep \<open>world_ok\<close> (\<open>holds\<close>).
\<close>

section \<open>The observed part of the state\<close>

definition reg :: "conn \<Rightarrow> flags \<times> acc_id option \<times> bytes \<times> bool" where
  "reg c = (c_tasks c, c_account c, c_nick c, c_ready c)"

definition fixed :: "conn \<Rightarrow> bytes \<times> bool \<times> transport \<times> (server_kind \<times> nat) \<times> 32 word \<times> bytes" where
  "fixed c = (c_buffer c, c_alive c, c_transport c, c_home c, c_remote c, c_uid c)"

definition st ::
    "world \<Rightarrow> (conn_id \<Rightarrow> flags \<times> acc_id option \<times> bytes \<times> bool) \<times>
      (conn_id \<Rightarrow> bytes \<times> bool \<times> transport \<times> (server_kind \<times> nat) \<times> 32 word \<times> bytes) \<times>
      (acc_id \<Rightarrow> conn_id list) \<times> conn_id \<times> (server_kind \<Rightarrow> server)" where
  "st w = ((\<lambda>i. reg (w_conns w i)), (\<lambda>i. fixed (w_conns w i)), (\<lambda>a. a_connections (w_accs w a)),
     w_next_conn w, w_srv w)"

lemma st_fields:
  assumes "st w' = st w"
  shows "reg (w_conns w' i) = reg (w_conns w i)" "fixed (w_conns w' i) = fixed (w_conns w i)"
    "a_connections (w_accs w' a) = a_connections (w_accs w a)"
    "c_tasks (w_conns w' i) = c_tasks (w_conns w i)"
    "c_account (w_conns w' i) = c_account (w_conns w i)"
    "c_nick (w_conns w' i) = c_nick (w_conns w i)"
    "c_ready (w_conns w' i) = c_ready (w_conns w i)"
    "c_alive (w_conns w' i) = c_alive (w_conns w i)"
    "c_buffer (w_conns w' i) = c_buffer (w_conns w i)"
    "w_next_conn w' = w_next_conn w" "w_srv w' = w_srv w"
proof -
  from assms show *: "reg (w_conns w' i) = reg (w_conns w i)"
    "fixed (w_conns w' i) = fixed (w_conns w i)"
    "a_connections (w_accs w' a) = a_connections (w_accs w a)"
    "w_next_conn w' = w_next_conn w" "w_srv w' = w_srv w"
    unfolding st_def by (simp_all add: fun_eq_iff)
  from *(1,2) show
    "c_tasks (w_conns w' i) = c_tasks (w_conns w i)"
    "c_account (w_conns w' i) = c_account (w_conns w i)"
    "c_nick (w_conns w' i) = c_nick (w_conns w i)"
    "c_ready (w_conns w' i) = c_ready (w_conns w i)"
    "c_alive (w_conns w' i) = c_alive (w_conns w i)"
    "c_buffer (w_conns w' i) = c_buffer (w_conns w i)"
    by (simp_all add: reg_def fixed_def)
qed

lemma st_frame: "frame w' = frame w \<Longrightarrow> st w' = st w"
proof -
  assume f: "frame w' = frame w"
  have "reg (w_conns w' i) = reg (w_conns w i) \<and> fixed (w_conns w' i) = fixed (w_conns w i)" for i
    using same_core [OF same_frame(15) [OF f, of i]] by (simp add: reg_def fixed_def)
  then show ?thesis using same_frame(1,13,14) [OF f] by (simp add: st_def)
qed

lemma st_upd_conn [simp]:
  "reg (f (w_conns w i)) = reg (w_conns w i) \<Longrightarrow> fixed (f (w_conns w i)) = fixed (w_conns w i) \<Longrightarrow>
   st (upd_conn i f w) = st w"
  by (simp add: st_def fun_eq_iff)

lemma st_upd_acc [simp]:
  "a_connections (f (w_accs w a)) = a_connections (w_accs w a) \<Longrightarrow> st (upd_acc a f w) = st w"
  by (simp add: st_def fun_eq_iff)

lemma st_upd_chan [simp]: "st (upd_chan x f w) = st w"
  by (simp add: st_def)

lemma st_world [simp]:
  "st (w\<lparr>w_nicks := a\<rparr>) = st w" "st (w\<lparr>w_queue := b\<rparr>) = st w" "st (w\<lparr>w_db := c\<rparr>) = st w"
  "st (w\<lparr>w_uuids := d\<rparr>) = st w" "st (w\<lparr>w_channels := e\<rparr>) = st w" "st (w\<lparr>w_next_chan := f\<rparr>) = st w"
  "st (w\<lparr>w_next_acc := f\<rparr>) = st w" "st (w\<lparr>w_cap_version := g\<rparr>) = st w"
  "st (w\<lparr>w_accounts := h\<rparr>) = st w" "st (w\<lparr>w_lookup_name := k\<rparr>) = st w"
  "st (w\<lparr>w_lookup_uuid := l\<rparr>) = st w" "st (w\<lparr>w_motd := m\<rparr>) = st w"
  "st (w\<lparr>w_motd_modified := n\<rparr>) = st w"
  by (simp_all add: st_def)

lemma st_send [simp]:
  "st (emit_data i d w) = st w" "st (send_raw E i l w) = st w" "st (reply_num E i n l w) = st w"
  "st (reply_self i l a w) = st w"
  by (rule st_frame, simp)+

lemma reg_fixed_updates [simp]:
  "reg (c\<lparr>c_caps := a\<rparr>) = reg c" "fixed (c\<lparr>c_caps := a\<rparr>) = fixed c"
  "reg (c\<lparr>c_user_modes := a\<rparr>) = reg c" "fixed (c\<lparr>c_user_modes := a\<rparr>) = fixed c"
  "reg (c\<lparr>c_logged_in := b\<rparr>) = reg c" "fixed (c\<lparr>c_logged_in := b\<rparr>) = fixed c"
  "reg (c\<lparr>c_user := d\<rparr>) = reg c" "fixed (c\<lparr>c_user := d\<rparr>) = fixed c"
  "reg (c\<lparr>c_realname := d\<rparr>) = reg c" "fixed (c\<lparr>c_realname := d\<rparr>) = fixed c"
  "reg (c\<lparr>c_pass_given := d\<rparr>) = reg c" "fixed (c\<lparr>c_pass_given := d\<rparr>) = fixed c"
  "reg (c\<lparr>c_closing := b\<rparr>) = reg c" "fixed (c\<lparr>c_closing := b\<rparr>) = fixed c"
  "reg (c\<lparr>c_last_activity := n\<rparr>) = reg c" "fixed (c\<lparr>c_last_activity := n\<rparr>) = fixed c"
  "reg (c\<lparr>c_user_already_exists := b\<rparr>) = reg c" "fixed (c\<lparr>c_user_already_exists := b\<rparr>) = fixed c"
  "fixed (c\<lparr>c_tasks := a\<rparr>) = fixed c" "fixed (c\<lparr>c_account := p\<rparr>) = fixed c"
  "fixed (c\<lparr>c_nick := d\<rparr>) = fixed c" "fixed (c\<lparr>c_ready := b\<rparr>) = fixed c"
  by (simp_all add: reg_def fixed_def)

lemma st_small [simp]:
  "st (force_disconnect i w) = st w" "st (touch_activity E i w) = st w"
  "st (irc_nicks_insert_cache n a w) = st w" "st (irc_nicks_remove_cache n w) = st w"
  "st (account_insert_cache a w) = st w" "st (account_remove_cache a w) = st w"
  "st (db_log d w) = st w" "st (put_store owner m w) = st w"
  "st (apply_user_mode mode adding i w) = st w" "st (reload_motd E w) = st w"
  by (simp_all add: force_disconnect_def touch_activity_def irc_nicks_insert_cache_def
      irc_nicks_remove_cache_def account_insert_cache_def account_remove_cache_def db_log_def
      put_store_def apply_user_mode_def reload_motd_def Let_def
      split: meta_owner.split option.split prod.split)

lemma st_fold:
  "(\<And>x w. st (f x w) = st w) \<Longrightarrow> st w = st w0 \<Longrightarrow> st (fold f xs w) = st w0"
  by (induction xs arbitrary: w) auto

section \<open>The invariant\<close>

text \<open>
  A ready connection has finished its setup and has an account; as long as NICK is still to
  come the connection has no nick of its own.
\<close>

definition conn_ok :: "conn \<Rightarrow> bool" where
  "conn_ok c \<longleftrightarrow>
     (c_ready c \<longrightarrow> flags_empty (c_tasks c) \<and> c_account c \<noteq> None) \<and>
     (flags_has setup_val NICK (c_tasks c) \<longrightarrow> c_nick c = [])"

text \<open>The connections an account lists are alive and are its own.\<close>

definition links_ok :: "world \<Rightarrow> bool" where
  "links_ok w \<longleftrightarrow>
     (\<forall>a. \<forall>i \<in> set (a_connections (w_accs w a)).
        c_alive (w_conns w i) \<and> c_account (w_conns w i) = Some a)"

text \<open>Only connections that were allocated are alive.\<close>

definition fresh_ok :: "world \<Rightarrow> bool" where
  "fresh_ok w \<longleftrightarrow> (\<forall>i. c_alive (w_conns w i) \<longrightarrow> i < w_next_conn w)"

definition world_ok :: "world \<Rightarrow> bool" where
  "world_ok w \<longleftrightarrow> (\<forall>i. conn_ok (w_conns w i)) \<and> links_ok w \<and> fresh_ok w"

lemma world_ok_st: "st w' = st w \<Longrightarrow> world_ok w' = world_ok w"
  using st_fields [of w' w] by (simp add: world_ok_def conn_ok_def links_ok_def fresh_ok_def)

lemma world_ok_upd_srv [simp]: "world_ok (upd_srv k f w) = world_ok w"
  by (simp add: upd_srv_def world_ok_def links_ok_def fresh_ok_def)

lemma links_ok_st: "st w' = st w \<Longrightarrow> links_ok w' = links_ok w"
  using st_fields [of w' w] by (simp add: links_ok_def)

lemma links_alive: "links_ok w \<Longrightarrow> i \<in> set (a_connections (w_accs w a)) \<Longrightarrow> c_alive (w_conns w i)"
  by (auto simp: links_ok_def)

section \<open>Commands that leave the observed part alone\<close>

text \<open>
  The faults a command can end in once the invariant holds: never a dangling connection
  (\<open>UseAfterFree\<close>) and never an exception (\<open>Uncaught\<close>).
\<close>

definition tolerated :: "fault set" where
  "tolerated = {Deadlock, OutOfRange, NullDeref}"

definition keeps :: "world \<Rightarrow> world res \<Rightarrow> bool" where
  "keeps w r \<longleftrightarrow> (case r of Inl e \<Rightarrow> e \<in> tolerated | Inr w' \<Rightarrow> st w' = st w)"

definition keeps_snd :: "world \<Rightarrow> ('a \<times> world) res \<Rightarrow> bool" where
  "keeps_snd w r \<longleftrightarrow> (case r of Inl e \<Rightarrow> e \<in> tolerated | Inr p \<Rightarrow> st (snd p) = st w)"

lemma keeps_Inr [inv_intros]: "st w' = st w \<Longrightarrow> keeps w (Inr w')"
  by (simp add: keeps_def)

lemma keeps_snd_Inr [inv_intros]: "st w' = st w \<Longrightarrow> keeps_snd w (Inr (x, w'))"
  by (simp add: keeps_snd_def)

lemma keeps_bind:
  "keeps w r \<Longrightarrow> (\<And>w1. st w1 = st w \<Longrightarrow> keeps w (f w1)) \<Longrightarrow> keeps w (bind_res r f)"
  by (cases r) (auto simp: keeps_def)

lemma keeps_bind_snd:
  "keeps w r \<Longrightarrow> (\<And>w1. st w1 = st w \<Longrightarrow> keeps_snd w (f w1)) \<Longrightarrow> keeps_snd w (bind_res r f)"
  by (cases r) (auto simp: keeps_def keeps_snd_def)

lemma keeps_snd_bind:
  "keeps_snd w r \<Longrightarrow> (\<And>x w1. st w1 = st w \<Longrightarrow> keeps w (f (x, w1))) \<Longrightarrow> keeps w (bind_res r f)"
  by (cases r) (auto simp: keeps_def keeps_snd_def)

lemma keeps_deref:
  "(\<And>x. p = Some x \<Longrightarrow> keeps w (f x)) \<Longrightarrow> keeps w (bind_res (deref_opt p) f)"
  by (cases p) (auto simp: keeps_def tolerated_def)

lemma keeps_value:
  "(\<And>e. r = Inl e \<Longrightarrow> e \<in> tolerated) \<Longrightarrow> (\<And>x. r = Inr x \<Longrightarrow> keeps_snd w (f x)) \<Longrightarrow>
   keeps_snd w (bind_res r f)"
  by (cases r) (auto simp: keeps_snd_def)

lemma keeps_st: "st w1 = st w \<Longrightarrow> keeps w1 r = keeps w r"
  by (cases r) (simp_all add: keeps_def)

lemma keeps_snd_st: "st w1 = st w \<Longrightarrow> keeps_snd w1 r = keeps_snd w r"
  by (cases r) (simp_all add: keeps_snd_def)

lemma keeps_fold:
  assumes "\<And>x w1. x \<in> set xs \<Longrightarrow> st w1 = st w \<Longrightarrow> keeps w (f x w1)" and "st w1 = st w"
  shows "keeps w (fold_res f xs w1)"
  using assms
proof (induction xs arbitrary: w1)
  case (Cons x xs)
  have "keeps w (bind_res (f x w1) (fold_res f xs))"
    using Cons.prems by (intro keeps_bind Cons.IH) auto
  then show ?case by simp
qed (simp add: keeps_def)

lemma keeps_deliver_all:
  assumes "\<forall>i \<in> set is. c_alive (w_conns w i)" and "st w1 = st w"
    and "\<And>i w2. i \<in> set is \<Longrightarrow> st w2 = st w \<Longrightarrow> keeps w (f i w2)"
  shows "keeps w (deliver_all f is w1)"
  unfolding deliver_all_def
proof (rule keeps_fold [OF _ assms(2)])
  fix i w2
  assume "i \<in> set is" and w2: "st w2 = st w"
  then have "c_alive (w_conns w2 i)"
    using assms(1) st_fields(8) [OF w2] by metis
  with assms(3) \<open>i \<in> set is\<close> w2 show "keeps w (bind_res (deref_conn i w2) (\<lambda>_. f i w2))"
    by (simp add: deref_conn_def)
qed

lemma keeps_post_all:
  assumes "\<forall>i \<in> set is. c_alive (w_conns w i)"
  shows "keeps w (post_all mk is w)"
  using assms by (simp add: post_all_eq keeps_def)

text \<open>Deliveries.\<close>

lemma st_join [simp]: "st (conn_channel_join E ev i w) = st w"
  by (rule st_frame) simp

lemma st_metadata [simp]: "st (conn_metadata E ev i w) = st w"
  by (rule st_frame) simp

lemma keeps_conn_message [inv_intros]: "keeps w (conn_message ev i w)"
proof (cases "conn_message ev i w")
  case (Inl e)
  then show ?thesis
    by (auto simp: conn_message_def message_target_def keeps_def tolerated_def Let_def deref_opt_def
        split: option.splits)
next
  case (Inr w')
  then show ?thesis using st_frame [OF frame_message] by (simp add: keeps_def)
qed

lemma keeps_conn_part [inv_intros]: "keeps w (conn_channel_part ev i w)"
proof (cases "conn_channel_part ev i w")
  case (Inl e)
  then show ?thesis
    by (auto simp: conn_channel_part_def keeps_def tolerated_def Let_def deref_opt_def
        split: option.splits if_splits)
next
  case (Inr w')
  then show ?thesis using st_frame [OF frame_part] by (simp add: keeps_def)
qed

lemma keeps_message_to:
  assumes "links_ok w" and "st w1 = st w" and "\<forall>i \<in> set is. \<exists>a. i \<in> set (a_connections (w_accs w a))"
  shows "keeps w (deliver_all (conn_message ev) is w1)"
proof (rule keeps_deliver_all [OF _ assms(2)])
  show "\<forall>i \<in> set is. c_alive (w_conns w i)"
    using assms(1,3) links_alive by blast
  show "keeps w (conn_message ev i w2)" if "st w2 = st w" for i w2
    using keeps_conn_message [of w2 ev i] keeps_st [OF that] by simp
qed

text \<open>Accounts.\<close>

lemma keeps_account_message [inv_intros]:
  assumes "links_ok w"
  shows "keeps w (account_message E ev a w)"
proof -
  have "keeps w (bind_res (deref_opt (me_dest e)) (\<lambda>dest.
        bind_res (deliver_all (conn_message e) (a_connections (w_accs w dest)) w) (\<lambda>w1.
        deliver_all (conn_message e) (a_connections (w_accs w1 a)) w1)))" for e
  proof (intro keeps_deref keeps_bind)
    fix x
    show "keeps w (deliver_all (conn_message e) (a_connections (w_accs w x)) w)"
      using assms by (intro keeps_message_to) auto
  next
    fix x w1
    assume w1: "st w1 = st w"
    show "keeps w (deliver_all (conn_message e) (a_connections (w_accs w1 a)) w1)"
      using assms w1 st_fields(3) [OF w1] by (intro keeps_message_to) auto
  qed
  then show ?thesis
    by (auto simp: account_message_def Let_def keeps_def split: option.split)
qed

lemma notify_accounts_faults: "notify_accounts self a w = Inl e \<Longrightarrow> e = NullDeref"
proof -
  have "fold_res (\<lambda>(_, channel) l. bind_res (deref_opt channel) (\<lambda>x.
      Inr (fold List.insert (ch_members (w_chans w x)) l))) cs l = Inl e \<Longrightarrow> e = NullDeref" for cs l
  proof (induction cs arbitrary: l)
    case (Cons c cs)
    then show ?case by (cases "snd c") (auto split: prod.splits)
  qed simp
  then show "notify_accounts self a w = Inl e \<Longrightarrow> e = NullDeref"
    unfolding notify_accounts_def by blast
qed

lemma keeps_broadcast_nick:
  assumes "links_ok w" and w2: "st w2 = st w"
  shows "keeps_snd w (broadcast_nick ev self a w2)"
  unfolding broadcast_nick_def
proof (rule keeps_value)
  show "e \<in> tolerated" if "notify_accounts self a w2 = Inl e" for e
    using notify_accounts_faults [OF that] by (simp add: tolerated_def)
next
  fix l
  have "links_ok w2" using assms links_ok_st [OF w2] by simp
  then have "keeps w (post_all (\<lambda>i. QNick i ev) (concat (map (\<lambda>p. a_connections (w_accs w2 p)) l)) w2)"
    unfolding keeps_st [OF w2, symmetric] by (intro keeps_post_all) (auto intro: links_alive)
  then show "keeps_snd w (bind_res
      (post_all (\<lambda>i. QNick i ev) (concat (map (\<lambda>p. a_connections (w_accs w2 p)) l)) w2)
      (\<lambda>w3. Inr (True, w3)))"
    by (intro keeps_bind_snd) (simp_all add: keeps_snd_def)
qed

lemma keeps_set_nick [inv_intros]:
  "links_ok w \<Longrightarrow> keeps_snd w (account_set_nick E ev a w)"
  by (auto simp: account_set_nick_def Let_def split: option.split
      intro!: keeps_snd_Inr keeps_broadcast_nick)

text \<open>Channels.\<close>

lemma st_get_or_create [simp]: "st (snd (channel_get_or_create name w)) = st w"
  by (simp add: channel_get_or_create_def Let_def split: option.split)

lemma st_get_or_create': "channel_get_or_create name w = (p, w') \<Longrightarrow> st w' = st w"
  by (metis snd_conv st_get_or_create)

lemma st_touch [simp]: "st (upd_conn i (members_touch k) w) = st w"
  by (rule st_frame) simp

lemma keeps_chan_write [inv_intros]: "keeps w (chan_write x f w)"
  by (simp add: chan_write_def keeps_def tolerated_def)

lemma keeps_join_own:
  assumes "links_ok w" and w1: "st w1 = st w"
  shows "keeps w (join_own E ev x w1)"
  unfolding join_own_def
  by (rule keeps_deliver_all [OF _ w1])
    (use assms st_fields(3) [OF w1] in \<open>auto simp: links_alive keeps_def\<close>)

lemma keeps_join_member:
  assumes "links_ok w" and w1: "st w1 = st w"
  shows "keeps w (join_member E ev k m w1)"
proof -
  have "keeps w (deliver_all (\<lambda>i w.
      let w1 = upd_conn i (members_touch k) w in
      if je_account ev \<notin> set (members_seen k (w_conns w1 i))
      then Inr (conn_channel_join E ev i w1) else Inr w1) (a_connections (w_accs w1 m)) w1)"
    by (rule keeps_deliver_all [OF _ w1])
      (use assms st_fields(3) [OF w1] in \<open>auto simp: links_alive keeps_def Let_def\<close>)
  with w1 show ?thesis by (auto simp: join_member_def keeps_Inr)
qed

lemma keeps_channel_join:
  assumes "links_ok w" and w0: "st w0 = st w"
  shows "keeps w (channel_join E ev x w0)"
proof -
  have "keeps w (bind_res (join_own E e x w1) (\<lambda>w2.
      fold_res (join_member E e p) (ch_members (w_chans w2 x)) w2))" if "st w1 = st w" for e w1 p
    using assms that by (intro keeps_bind keeps_join_own keeps_fold keeps_join_member) auto
  with w0 show ?thesis
    unfolding channel_join_def Let_def
    by (auto split: option.split intro!: keeps_Inr)
qed

lemma member_conns_alive:
  "links_ok w \<Longrightarrow> i \<in> set (member_conns x w) \<Longrightarrow> c_alive (w_conns w i)"
  by (auto simp: member_conns_def intro: links_alive)

lemma keeps_channel_part [inv_intros]:
  assumes "links_ok w"
  shows "keeps_snd w (channel_part E ev x w)"
proof -
  have "keeps w (post_all mk (member_conns x w) w)" for mk
    using assms by (intro keeps_post_all) (auto intro: member_conns_alive)
  then have "keeps_snd w (bind_res (post_all mk (member_conns x w) w) (\<lambda>w1.
      Inr (True, upd_chan x f w1)))" for mk f
    by (intro keeps_bind_snd) (simp_all add: keeps_snd_def)
  then show ?thesis
    by (auto simp: channel_part_def split: option.split intro!: keeps_snd_Inr)
qed

lemma st_db_insert [simp]: "st (db_insert_message E ev w) = st w"
  by (simp add: db_insert_message_def st_def)

lemma keeps_channel_message [inv_intros]:
  assumes "links_ok w"
  shows "keeps w (channel_message E ev x w)"
proof -
  have "keeps w (deliver_all (conn_message e) (member_conns x (db_insert_message E e w))
      (db_insert_message E e w))" for e
    using assms
    by (intro keeps_message_to)
      (auto simp: member_conns_def db_insert_message_def)
  then show ?thesis
    by (auto simp: channel_message_def Let_def split: option.split intro!: keeps_Inr)
qed

lemma keeps_channel_rename [inv_intros]:
  assumes "links_ok w"
  shows "keeps_snd w (channel_rename E ev w)"
proof -
  have "keeps_snd w (bind_res (channel_set_name x name w) (\<lambda>w1.
      bind_res (post_all mk (member_conns y w1) w1) (\<lambda>w2. Inr (True, w2))))" for x name mk y
  proof (rule keeps_bind_snd)
    show "keeps w (channel_set_name x name w)"
      by (simp add: channel_set_name_def keeps_chan_write)
    fix w1
    assume w1: "st w1 = st w"
    then have "links_ok w1" using assms links_ok_st by blast
    then have "keeps w (post_all mk (member_conns y w1) w1)"
      unfolding keeps_st [OF w1, symmetric] by (intro keeps_post_all) (auto intro: member_conns_alive)
    then show "keeps_snd w (bind_res (post_all mk (member_conns y w1) w1) (\<lambda>w2. Inr (True, w2)))"
      by (intro keeps_bind_snd) (simp_all add: keeps_snd_def)
  qed
  then show ?thesis
    by (auto simp: channel_rename_def Let_def split: option.split intro!: keeps_snd_Inr)
qed

lemma keeps_set_mode:
  assumes w0: "st w0 = st w"
  shows "keeps w (channel_set_mode mode adding arg x w0)"
proof -
  have wr: "keeps w (chan_write x f w1)" if "st w1 = st w" for f w1
    using keeps_chan_write [of w1 x f] by (simp add: keeps_st [OF that])
  have "keeps w (set_mode_body mode adding arg x w1)" if "st w1 = st w" for w1
    using that wr [OF that]
    by (cases mode)
      (auto simp: set_mode_body_def Let_def channel_set_key_def channel_add_ban_def
        channel_remove_ban_def split: option.split intro!: keeps_bind keeps_Inr)
  with wr [OF w0] show ?thesis
    unfolding channel_set_mode_def by (intro keeps_bind) (auto intro: keeps_Inr)
qed

text \<open>Metadata.\<close>

lemma st_metadata_handle [simp]: "st (snd (metadata_handle E owner ev w)) = st w"
  by (auto simp: metadata_handle_def metadata_set_def metadata_remove_def metadata_sub_def
      metadata_unsub_def Let_def split: list.split)

section \<open>The commands of a ready connection\<close>

lemma keeps_handle_join [inv_intros]:
  assumes "links_ok w"
  shows "keeps w (handle_join E i args w)"
proof -
  have one: "keeps w (join_one E i a0 name w1)" if "st w1 = st w" for a0 name w1
    using that assms
    by (auto simp: join_one_def Let_def split: prod.split option.split
        intro!: keeps_deref keeps_Inr keeps_channel_join dest!: st_get_or_create')
  show ?thesis
    by (cases args) (auto simp: handle_join_def intro!: keeps_Inr keeps_fold one)
qed

lemma keeps_part_loop:
  "links_ok w \<Longrightarrow> st w1 = st w \<Longrightarrow> keeps w (part_loop E i nick m names w1)"
proof (induction names arbitrary: w1)
  case (Cons name names)
  have again: "keeps w (part_loop E i nick m names (send_raw E i l w2))" if "st w2 = st w" for l w2
    using that by (intro Cons.IH Cons.prems) simp
  have links: "links_ok w1" using Cons.prems links_ok_st by blast
  have part: "keeps_snd w (channel_part E ev x w1)" for ev x
    using keeps_channel_part [OF links] keeps_snd_st [OF Cons.prems(2)] by blast
  show ?case
    using Cons.prems again
    by (auto simp: Let_def keeps_Inr Cons.IH split: option.split intro!: keeps_deref keeps_snd_bind part)
qed (simp add: keeps_Inr)

lemma keeps_handle_part [inv_intros]: "links_ok w \<Longrightarrow> keeps w (handle_part E i args w)"
  by (auto simp: handle_part_def Let_def keeps_Inr keeps_part_loop split: list.split)

lemma keeps_send_message [inv_intros]: "links_ok w \<Longrightarrow> keeps w (send_message E i a t msg w)"
  by (auto simp: send_message_def Let_def split: option.split intro!: inv_intros)

lemma keeps_handle_privmsg [inv_intros]: "links_ok w \<Longrightarrow> keeps w (handle_privmsg E i tags args w)"
  by (auto simp: handle_privmsg_def split: list.split intro!: keeps_deref inv_intros)

lemma keeps_handle_tagmsg [inv_intros]: "links_ok w \<Longrightarrow> keeps w (handle_tagmsg E i tags args w)"
  by (auto simp: handle_tagmsg_def split: list.split intro!: keeps_deref inv_intros)

lemma keeps_handle_rename [inv_intros]: "links_ok w \<Longrightarrow> keeps w (handle_rename E i args w)"
  by (auto simp: handle_rename_def rename_fail_def Let_def split: list.split option.split
      intro!: keeps_deref keeps_snd_bind inv_intros)

lemma st_plain_handlers [simp]:
  "st (handle_chathistory E i args w) = st w" "st (handle_who E i args w) = st w"
  "st (handle_ping E i args w) = st w" "st (handle_pong E i args w) = st w"
  "st (handle_quit E i args w) = st w" "st (handle_lusers E i w) = st w"
  "st (handle_pass E i args w) = st w" "st (mode_query E i target w) = st w"
  by (auto simp: handle_chathistory_def handle_who_def handle_ping_def handle_pong_def
      handle_quit_def handle_lusers_def handle_pass_def mode_query_def Let_def
      split: option.split list.split intro!: st_fold)

lemma st_handle_motd [simp]: "st (handle_motd E i w) = st w"
  by (auto simp: handle_motd_def server_motd_def Let_def intro!: st_fold)

lemma keeps_handle_metadata [inv_intros]: "keeps w (handle_metadata E i args w)"
  by (auto simp: handle_metadata_def Let_def split: list.split option.split prod.split
      intro!: keeps_deref inv_intros dest!: arg_cong [of _ _ snd] simp del: st_metadata_handle)
    (metis snd_conv st_metadata_handle)+

lemma st_user_mode_letters [simp]: "st (fst (user_mode_letters adding i ls st0)) = st (fst st0)"
  by (induction adding i ls st0 rule: user_mode_letters.induct)
    (auto simp: Let_def split: option.split)

lemma keeps_channel_mode_letters:
  "st w1 = st w \<Longrightarrow> case channel_mode_letters adding x margs ls (w1, iv, rs) of
     Inl e \<Rightarrow> e \<in> tolerated | Inr t \<Rightarrow> st (fst t) = st w"
proof (induction ls arbitrary: w1 iv rs margs)
  case (Cons l ls)
  show ?case
  proof (cases "map_of channel_modes_lookup_letter l")
    case None
    with Cons show ?thesis by simp
  next
    case (Some mode)
    show ?thesis
    proof (cases "mode \<in> {BAN, KEY, LIMIT} \<and> margs = []")
      case True
      with Some Cons show ?thesis by simp
    next
      case False
      define arg where "arg = (if mode \<in> {BAN, KEY, LIMIT} then hd margs else [])"
      define margs' where "margs' = (if mode \<in> {BAN, KEY, LIMIT} then tl margs else margs)"
      define f where "f w2 = (if flags_has channel_mode_val mode (ch_modes (w_chans w1 x)) \<noteq>
          flags_has channel_mode_val mode (ch_modes (w_chans w2 x)) then rs @ [l] else rs)" for w2 :: world
      have step: "channel_mode_letters adding x margs (l # ls) (w1, iv, rs) =
           bind_res (channel_set_mode mode adding arg x w1)
             (\<lambda>w2. channel_mode_letters adding x margs' ls (w2, iv, f w2))"
        using Some False by (auto simp: Let_def arg_def margs'_def f_def)
      have "keeps w (channel_set_mode mode adding arg x w1)"
        by (rule keeps_set_mode) (rule Cons.prems)
      then show ?thesis
        using Cons.IH unfolding step by (cases "channel_set_mode mode adding arg x w1") (auto simp: keeps_def)
    qed
  qed
qed simp

lemma keeps_handle_mode [inv_intros]: "keeps w (handle_mode E i args w)"
proof -
  have user: "keeps w (case user_mode_letters adding i ls (w, iv, rs) of (w1, invalid, result) \<Rightarrow>
      if \<not> invalid \<and> result \<noteq> [] then Inr (send_raw E i (g result) w1)
      else Inr (reply_num E i n l w1))" for adding ls iv rs g n l
    using st_user_mode_letters [of adding i ls "(w, iv, rs)"]
    by (cases "user_mode_letters adding i ls (w, iv, rs)") (auto intro: keeps_Inr)
  have letters: "keeps w (bind_res (channel_mode_letters adding x margs ls (w, iv, rs)) (\<lambda>(w1, invalid, result).
      if invalid then Inr (reply_num E i n l w1)
      else if result \<noteq> [] then Inr (send_raw E i (g result) w1) else Inr w1))" for adding x margs ls iv rs n l g
    using keeps_channel_mode_letters [of w w adding x margs ls iv rs]
    by (cases "channel_mode_letters adding x margs ls (w, iv, rs)") (auto simp: keeps_def split: prod.split)
  show ?thesis
  proof (cases "\<exists>t rm ma. args = t # rm # ma")
    case True
    then obtain t rm ma where args: "args = t # rm # ma" by blast
    show ?thesis
      unfolding args handle_mode_def Let_def list.case
      by (auto simp: keeps_Inr letters user simp del: if_split intro!: user letters split: option.split)
  next
    case False
    then show ?thesis
      by (auto simp: handle_mode_def keeps_Inr split: list.split)
  qed
qed

end
