(* ===== verification/Sample.thy ===== *)
theory Sample
  imports Dispatcher
begin

text \<open>
  A concrete environment and the world of a server that has just started, on which the
  properties with hypotheses are exercised. The sample environment handles no Python event,
  decodes ASCII, numbers its UUIDs from 1 and finds neither a message of the day nor stored
  metadata.
\<close>

definition ascii_unicode :: unicode where
  "ascii_unicode =
     \<lparr>u_decode = map of_char, u_norm = (\<lambda>s. s),
      u_letter = (\<lambda>x. (65 \<le> x \<and> x \<le> 90) \<or> (97 \<le> x \<and> x \<le> 122)),
      u_number = (\<lambda>x. 48 \<le> x \<and> x \<le> 57)\<rparr>"

definition sample_env :: env where
  "sample_env =
     \<lparr>e_server_name = ''irc'', e_default_host = ''host'', e_password = [], e_motd_file = None,
      e_caps = server_capabilities, e_isupport = [(''NICKLEN'', ''32'')], e_ws_port = 8200,
      e_now = 5, e_unicode = ascii_unicode, e_qupper = to_upper, e_base64 = (\<lambda>s. s),
      e_bcrypt = (\<lambda>p h. p = h), e_ip = (\<lambda>_. ''127.0.0.1''), e_uuid = (\<lambda>n. of_nat n + 1),
      e_uuid_str = (\<lambda>_. ''uuid''), e_uuid_id128 = (\<lambda>_. ''ref''), e_uuid_rfc4122 = (\<lambda>u. dec (unat u)),
      e_metadata_get = (\<lambda>_. \<lparr>m_kv = [], m_subscribers = []\<rparr>), e_active = 0,
      e_on_rename = Some, e_on_nick = Some, e_on_raw = Some, e_on_join = Some, e_on_part = Some,
      e_on_message = (\<lambda>_. Some), e_on_auth = Some, e_on_tags = Some\<rparr>"

definition dead_conn :: conn where
  "dead_conn = (new_conn sample_env (IrcServer, 0) (Tcp False False) [] 0)\<lparr>c_alive := False\<rparr>"

definition pool_server :: server where
  "pool_server =
     \<lparr>s_thread_count = 4, s_max_per_ip = 10, s_active = Map.empty, s_next_worker = 0,
      s_workers = [[], [], [], []], s_pending = [], s_upgrading = []\<rparr>"

definition initial_world :: world where
  "initial_world =
     \<lparr>w_accs = (\<lambda>_. new_account sample_env []), w_chans = (\<lambda>_. new_channel []),
      w_conns = (\<lambda>_. dead_conn), w_srv = (\<lambda>_. pool_server), w_next_acc = 0, w_next_conn = 0,
      w_next_chan = 0, w_accounts = [], w_lookup_name = Map.empty, w_lookup_uuid = Map.empty,
      w_nicks = Map.empty, w_channels = [], w_cap_version = 0, w_motd = [], w_motd_modified = 0,
      w_uuids = 0, w_queue = [], w_db = []\<rparr>"

text \<open>Two registered clients, alice and bob, on one channel, each with one connection.\<close>

definition client :: "bytes \<Rightarrow> acc_id \<Rightarrow> conn" where
  "client nick a =
     (new_conn sample_env (IrcServer, 0) (Tcp True True) nick 7)
       \<lparr>c_tasks := 0, c_account := Some a, c_nick := nick, c_user := nick, c_ready := True,
        c_channels := [(''x'', 0)], c_channel_members := [Some 0 \<mapsto> [0, 1]]\<rparr>"

definition person :: "quuid \<Rightarrow> bytes \<Rightarrow> conn_id \<Rightarrow> account" where
  "person u nick i =
     (new_account sample_env [])
       \<lparr>a_uid := u, a_nick := nick, a_connections := [i], a_channels := [(''x'', Some 0)]\<rparr>"

definition chat_world :: world where
  "chat_world = initial_world
     \<lparr>w_accs := (\<lambda>_. new_account sample_env [])(0 := person 1 ''alice'' 0, 1 := person 2 ''bob'' 1),
      w_chans := (\<lambda>_. new_channel [])(0 := (new_channel ''x'')\<lparr>ch_members := [0, 1]\<rparr>),
      w_conns := (\<lambda>_. dead_conn)(0 := client ''alice'' 0, 1 := client ''bob'' 1),
      w_next_acc := 2, w_next_conn := 2, w_next_chan := 1, w_accounts := [0, 1],
      w_lookup_uuid := [1 \<mapsto> 0, 2 \<mapsto> 1], w_nicks := [''alice'' \<mapsto> 0, ''bob'' \<mapsto> 1],
      w_channels := [(''x'', Some 0)]\<rparr>"

lemmas sample_defs =
  sample_env_def ascii_unicode_def dead_conn_def pool_server_def initial_world_def client_def
  person_def chat_world_def new_conn_def new_account_def new_channel_def

end
