(* ===== verification/Safety.thy ===== *)
theory Safety
  imports Invariants Sample
begin

text \<open>
  The registration commands keep \<open>world_ok\<close>, and with them every line a client sends: no
  command throws, none follows a dangling connection, a connection that is ready has an
  account and nothing left to set up. The one exception is AUTHENTICATE on a connection whose
  account is anonymous, which leaves the pointer of the merge behind.
\<close>

section \<open>Keeping the invariant\<close>

text \<open>What only the socket layer changes.\<close>

definition sockets ::
    "world \<Rightarrow> (conn_id \<Rightarrow> bytes \<times> bool \<times> transport \<times> (server_kind \<times> nat) \<times> 32 word \<times> bytes) \<times>
      (server_kind \<Rightarrow> server) \<times> conn_id" where
  "sockets w = ((\<lambda>i. fixed (w_conns w i)), w_srv w, w_next_conn w)"

lemma sockets_fields:
  assumes "sockets w' = sockets w"
  shows "fixed (w_conns w' i) = fixed (w_conns w i)" "w_srv w' = w_srv w"
    "w_next_conn w' = w_next_conn w" "c_alive (w_conns w' i) = c_alive (w_conns w i)"
    "c_buffer (w_conns w' i) = c_buffer (w_conns w i)" "c_home (w_conns w' i) = c_home (w_conns w i)"
    "c_remote (w_conns w' i) = c_remote (w_conns w i)"
proof -
  from assms show *: "fixed (w_conns w' i) = fixed (w_conns w i)" "w_srv w' = w_srv w"
    "w_next_conn w' = w_next_conn w"
    unfolding sockets_def by (simp_all add: fun_eq_iff)
  from *(1) show "c_alive (w_conns w' i) = c_alive (w_conns w i)"
    "c_buffer (w_conns w' i) = c_buffer (w_conns w i)" "c_home (w_conns w' i) = c_home (w_conns w i)"
    "c_remote (w_conns w' i) = c_remote (w_conns w i)"
    by (simp_all add: fixed_def)
qed

lemma sockets_st: "st w' = st w \<Longrightarrow> sockets w' = sockets w"
  using st_fields [of w' w] by (simp add: sockets_def)

lemma sockets_upd_conn [simp]:
  "fixed (f (w_conns w i)) = fixed (w_conns w i) \<Longrightarrow> sockets (upd_conn i f w) = sockets w"
  by (simp add: sockets_def fun_eq_iff)

definition holds :: "world \<Rightarrow> world res \<Rightarrow> bool" where
  "holds w r \<longleftrightarrow>
     (case r of
        Inl e \<Rightarrow> e \<in> tolerated
      | Inr w' \<Rightarrow> world_ok w' \<and> sockets w' = sockets w)"

lemma keeps_holds: "world_ok w \<Longrightarrow> keeps w r \<Longrightarrow> holds w r"
proof (cases r)
  case (Inr w')
  assume "world_ok w" "keeps w r"
  with Inr have *: "st w' = st w" by (simp add: keeps_def)
  from world_ok_st [OF *] sockets_st [OF *] show ?thesis
    using Inr \<open>world_ok w\<close> by (simp add: holds_def)
qed (simp add: keeps_def holds_def)

lemma holds_bind_keeps:
  assumes "holds w r" and "\<And>w1. world_ok w1 \<Longrightarrow> keeps w1 (f w1)"
  shows "holds w (bind_res r f)"
proof (cases r)
  case (Inr w1)
  with assms have "world_ok w1" "sockets w1 = sockets w"
    by (auto simp: holds_def)
  with assms(2) [of w1] keeps_holds [of w1 "f w1"] Inr show ?thesis
    by (cases "f w1") (auto simp: holds_def)
qed (use assms in \<open>auto simp: holds_def\<close>)

lemma links_of: "world_ok w \<Longrightarrow> links_ok w"
  by (simp add: world_ok_def)

text \<open>Changing the registration of one connection.\<close>

lemma world_ok_upd_conn:
  assumes "world_ok w" and "conn_ok (f (w_conns w i))"
    and "c_alive (f (w_conns w i)) = c_alive (w_conns w i)"
    and "c_account (f (w_conns w i)) = c_account (w_conns w i)"
  shows "world_ok (upd_conn i f w)"
  using assms by (auto simp: world_ok_def links_ok_def fresh_ok_def)

lemma flags_clear_zero: "flags_clear val es 0 = 0"
  by (induction es) simp_all

lemma conn_ok_clear:
  "conn_ok c \<Longrightarrow> conn_ok (c\<lparr>c_tasks := flags_clear setup_val [t] (c_tasks c)\<rparr>)"
  by (auto simp: conn_ok_def flags_empty_def tasks.has_clear flags_clear_zero
      simp del: flags_clear.simps)

lemma world_ok_clear_task: "world_ok w \<Longrightarrow> world_ok (clear_task t i w)"
  unfolding clear_task_def
  by (rule world_ok_upd_conn) (simp_all add: conn_ok_clear world_ok_def del: flags_clear.simps)

lemma world_ok_same: "st w' = st w \<Longrightarrow> world_ok w \<Longrightarrow> world_ok w'"
  using world_ok_st by blast

section \<open>The end of the registration\<close>

lemma st_welcome [simp]: "st (welcome_replies E i n w) = st w"
  by (simp add: welcome_replies_def Let_def st_fold)

lemma keeps_join_all: "links_ok w \<Longrightarrow> st w1 = st w \<Longrightarrow> keeps w (join_all E a w1)"
  unfolding join_all_def
  by (intro keeps_fold) (auto split: prod.split intro!: keeps_deref keeps_channel_join)

lemma holds_finish_setup:
  assumes ok: "world_ok w" and tasks: "flags_empty (c_tasks (w_conns w i))"
    and acc: "c_account (w_conns w i) = Some a" and alive: "c_alive (w_conns w i)"
  shows "holds w (finish_setup E i a w)"
proof -
  have no_nick: "\<not> flags_has setup_val NICK (c_tasks (w_conns w i))"
    using tasks by (rule tasks.not_has_empty)
  let ?n = "account_nick (w_accs w a)"
  let ?c = "w_conns w i"
  define w1 where "w1 = (if ?n \<noteq> c_nick ?c then
      emit_data i ('':'' @ c_nick ?c @ ''!'' @ c_user ?c @ ''@'' @ c_host ?c @ '' NICK :'' @ ?n @ crlf)
        (upd_conn i (\<lambda>c. c\<lparr>c_nick := ?n\<rparr>) w) else w)"
  have w1: "world_ok w1" "sockets w1 = sockets w"
    "c_tasks (w_conns w1 i) = c_tasks ?c" "c_account (w_conns w1 i) = Some a"
  proof -
    have "world_ok (upd_conn i (\<lambda>c. c\<lparr>c_nick := ?n\<rparr>) w)"
      using ok no_nick by (intro world_ok_upd_conn) (auto simp: world_ok_def conn_ok_def)
    then show "world_ok w1"
      using ok by (auto simp: w1_def intro: world_ok_same [rotated])
    show "sockets w1 = sockets w"
      by (auto simp: w1_def sockets_st [OF st_send(1)])
    show "c_tasks (w_conns w1 i) = c_tasks ?c" "c_account (w_conns w1 i) = Some a"
      using acc by (simp_all add: w1_def)
  qed
  define w2 where "w2 = add_connection i a w1"
  have w2: "world_ok w2" "\<And>j. w_conns w2 j = w_conns w1 j" "sockets w2 = sockets w1"
    using w1(1,4) alive sockets_fields(4) [OF w1(2), of i]
    by (auto simp: w2_def add_connection_def world_ok_def links_ok_def fresh_ok_def sockets_def)
  define w4 where "w4 = welcome_replies E i ?n (irc_nicks_insert_cache (conn_nick w2 i) a w2)"
  have w4: "st w4 = st w2" by (simp add: w4_def)
  have body: "finish_setup E i a w =
      bind_res (bind_res (if c_logged_in (w_conns w4 i) then handle_mode E i [conn_nick w2 i, ''+r''] w4 else Inr w4)
        (join_all E a)) (\<lambda>w6. Inr (upd_conn i (\<lambda>c. c\<lparr>c_ready := True\<rparr>) w6))"
    unfolding finish_setup_def Let_def w1_def [symmetric] w2_def [symmetric] w4_def [symmetric]
    by (simp add: bind_res_def split: sum.split)
  have "keeps w2 (bind_res (if c_logged_in (w_conns w4 i) then handle_mode E i [conn_nick w2 i, ''+r''] w4 else Inr w4)
        (join_all E a))"
    using w4 links_of [OF w2(1)] keeps_handle_mode [of w4 E i "[conn_nick w2 i, ''+r'']"]
    by (intro keeps_bind keeps_join_all) (auto simp: keeps_Inr keeps_st [OF w4])
  then show ?thesis
    unfolding body
  proof (cases "bind_res (if c_logged_in (w_conns w4 i) then handle_mode E i [conn_nick w2 i, ''+r''] w4 else Inr w4)
        (join_all E a)")
    case (Inr w6)
    then have w6: "st w6 = st w2"
      using \<open>keeps w2 _\<close> by (simp add: keeps_def)
    have "world_ok w6" using w2(1) world_ok_st [OF w6] by simp
    moreover have "flags_empty (c_tasks (w_conns w6 i))" "c_account (w_conns w6 i) = Some a"
      using st_fields(4,5) [OF w6] w2(2) w1(3,4) tasks by simp_all
    ultimately have "world_ok (upd_conn i (\<lambda>c. c\<lparr>c_ready := True\<rparr>) w6)"
      by (intro world_ok_upd_conn) (auto simp: world_ok_def conn_ok_def)
    moreover have "sockets w6 = sockets w"
      using sockets_st [OF w6] w2(3) w1(2) by simp
    ultimately show "holds w (bind_res (bind_res (if c_logged_in (w_conns w4 i) then handle_mode E i [conn_nick w2 i, ''+r''] w4 else Inr w4)
        (join_all E a)) (\<lambda>w6. Inr (upd_conn i (\<lambda>c. c\<lparr>c_ready := True\<rparr>) w6)))"
      unfolding Inr by (auto simp: holds_def)
  qed (auto simp: keeps_def holds_def)
qed

lemma new_session_account_ok:
  assumes ok: "world_ok w" and none: "c_account (w_conns w i) = None"
  obtains a w1 where "new_session_account E i w = Inr (a, w1)" "world_ok w1"
    "sockets w1 = sockets w"
    "c_tasks (w_conns w1 i) = c_tasks (w_conns w i)" "c_account (w_conns w1 i) = Some a"
proof -
  let ?a = "w_next_acc w"
  define w3 where "w3 = set_nick_by_force ?a (c_nick (w_conns w i))
    (upd_conn i (\<lambda>c. c\<lparr>c_account := Some ?a\<rparr>) (snd (account_create E w)))"
  define w4 where "w4 = account_insert_cache ?a
    (account_set_uid ?a (e_uuid E (w_uuids w3)) (w3\<lparr>w_uuids := w_uuids w3 + 1\<rparr>))"
  have "a_uid (w_accs w3 ?a) = null_uuid"
    by (simp add: w3_def set_nick_by_force_def account_create_def Let_def new_account_def)
  then have eq: "new_session_account E i w = Inr (?a, w4)"
    unfolding new_session_account_def
    by (simp add: account_create_def Let_def set_random_uid_def w4_def w3_def)
  have conns: "w_conns w4 = (w_conns w)(i := (w_conns w i)\<lparr>c_account := Some ?a\<rparr>)"
    "\<And>b. a_connections (w_accs w4 b) = (if b = ?a then [] else a_connections (w_accs w b))"
    "w_next_conn w4 = w_next_conn w" "w_srv w4 = w_srv w"
    by (simp_all add: w4_def w3_def set_nick_by_force_def account_create_def Let_def new_account_def
        account_set_uid_def account_insert_cache_def)
  have "world_ok w4"
  proof -
    have "links_ok w4" using ok none by (force simp: world_ok_def links_ok_def conns)
    moreover have "conn_ok (w_conns w4 j)" "fresh_ok w4" for j
      using ok by (auto simp: world_ok_def conn_ok_def fresh_ok_def conns)
    ultimately show ?thesis by (simp add: world_ok_def)
  qed
  moreover have "sockets w4 = sockets w"
    by (simp add: conns sockets_def fun_eq_iff)
  ultimately show thesis
    by (intro that [OF eq]) (simp_all add: conns)
qed

lemma holds_try_finalize:
  assumes ok: "world_ok w" and alive: "c_alive (w_conns w i)"
  shows "holds w (try_finalize_setup E i w)"
proof -
  have new: "holds w (bind_res (new_session_account E i w) (\<lambda>(a, w1). finish_setup E i a w1))"
    if none: "c_account (w_conns w i) = None" and tasks: "flags_empty (c_tasks (w_conns w i))"
  proof (rule new_session_account_ok [OF ok none])
    fix a w1
    assume w1: "new_session_account E i w = Inr (a, w1)" "world_ok w1"
      "sockets w1 = sockets w"
      "c_tasks (w_conns w1 i) = c_tasks (w_conns w i)" "c_account (w_conns w1 i) = Some a"
    have "holds w1 (finish_setup E i a w1)"
      using w1 tasks alive sockets_fields(4) [OF w1(3), of i] by (intro holds_finish_setup) auto
    then show ?thesis
      using w1(1,3) by (simp add: holds_def split: sum.splits)
  qed
  have simple: "holds w (Inr w')" if "st w' = st w" for w'
    using keeps_holds [OF ok keeps_Inr [OF that]] .
  show ?thesis
    unfolding try_finalize_setup_def Let_def
    by (auto split: option.split intro!: simple new holds_finish_setup ok alive)
qed

section \<open>NICK, USER, CAP, AUTHENTICATE\<close>

lemma holds_trans:
  assumes "sockets w1 = sockets w" and "holds w1 r"
  shows "holds w r"
  using assms by (cases r) (auto simp: holds_def)

lemma holds_simple: "world_ok w \<Longrightarrow> st w' = st w \<Longrightarrow> holds w (Inr w')"
  by (intro keeps_holds keeps_Inr)

lemma holds_fault [simp]: "holds w (Inl NullDeref)" "holds w (Inl OutOfRange)"
  by (simp_all add: holds_def tolerated_def)

lemma holds_if: "(P \<Longrightarrow> holds w a) \<Longrightarrow> (\<not> P \<Longrightarrow> holds w b) \<Longrightarrow> holds w (if P then a else b)"
  by simp

lemma holds_value:
  "(\<And>e. r = Inl e \<Longrightarrow> e \<in> tolerated) \<Longrightarrow> (\<And>x. r = Inr x \<Longrightarrow> holds w (f x)) \<Longrightarrow> holds w (bind_res r f)"
  by (cases r) (auto simp: holds_def)

lemma list_at_fault: "list_at xs n = Inl e \<Longrightarrow> e \<in> tolerated"
  by (auto simp: list_at_def tolerated_def split: if_splits)

lemma holds_st:
  assumes "holds w (Inr w1)" and st: "st w2 = st w1"
  shows "holds w (Inr w2)"
  using assms(1) world_ok_st [OF st] sockets_st [OF st] by (simp add: holds_def)

text \<open>Clearing a task and trying to finish, after changes that keep what the invariant needs.\<close>

lemma holds_clear_finish:
  assumes ok: "world_ok (clear_task t i w1)" and same: "sockets w1 = sockets w"
    and alive: "c_alive (w_conns w i)"
  shows "holds w (try_finalize_setup E i (clear_task t i w1))"
proof -
  have *: "sockets (clear_task t i w1) = sockets w"
    using same by (simp add: clear_task_def)
  have "holds (clear_task t i w1) (try_finalize_setup E i (clear_task t i w1))"
    using ok alive sockets_fields(4) [OF *, of i] by (intro holds_try_finalize) auto
  then show ?thesis using holds_trans [OF *] by blast
qed

lemma holds_handle_nick:
  assumes ok: "world_ok w" and alive: "c_alive (w_conns w i)"
  shows "holds w (handle_nick E i args w)"
proof -
  have set_nick: "holds w (bind_res (conn_set_nick i n w) (\<lambda>w1. try_finalize_setup E i (clear_task NICK i w1)))"
    if "flags_has setup_val NICK (c_tasks (w_conns w i))" for n
  proof -
    have "conn_ok (w_conns w i)" using ok by (simp add: world_ok_def)
    with that have "c_nick (w_conns w i) = []" "\<not> c_ready (w_conns w i)"
      using tasks.not_has_empty by (auto simp: conn_ok_def)
    then have "world_ok (clear_task NICK i (upd_conn i (\<lambda>c. c\<lparr>c_nick := n\<rparr>) w))"
      using ok
      by (auto simp: clear_task_def world_ok_def links_ok_def fresh_ok_def conn_ok_def tasks.has_clear
          simp del: flags_clear.simps)
    then show ?thesis
      using \<open>c_nick (w_conns w i) = []\<close> alive
      by (auto simp: conn_set_nick_def intro!: holds_clear_finish)
  qed
  have change: "holds w (bind_res (account_set_nick E ev a w)
      (\<lambda>(ok, w1). if ok then Inr w1 else Inr (reply_num E i n l w1)))" for ev a n l
    by (rule keeps_holds [OF ok], rule keeps_snd_bind [OF keeps_set_nick [OF links_of [OF ok]]])
      (auto intro: keeps_Inr)
  have null: "holds w (bind_res (deref_opt (c_account (w_conns w i))) f)"
    if "\<And>a. holds w (f a)" for f
    using that by (cases "c_account (w_conns w i)") (auto simp: holds_def tolerated_def)
  show ?thesis
    by (cases args)
      (auto simp: handle_nick_def Let_def simp del: One_nat_def
        intro!: holds_simple ok set_nick null change)
qed

lemma holds_handle_user:
  assumes ok: "world_ok w" and alive: "c_alive (w_conns w i)"
  shows "holds w (handle_user E i args w)"
proof -
  have "holds w (try_finalize_setup E i (clear_task USER i w2))"
    if "st w2 = st w" for w2
    using world_ok_clear_task [OF world_ok_same [OF that ok]] sockets_st [OF that] alive
    by (intro holds_clear_finish) auto
  then show ?thesis
    by (auto simp: handle_user_def Let_def intro!: holds_simple ok)
qed

lemma keeps_cap_req [simp]: "st (cap_req E i args w) = st w"
  by (simp add: cap_req_def Let_def)

lemma holds_handle_cap:
  assumes ok: "world_ok w" and alive: "c_alive (w_conns w i)"
  shows "holds w (handle_cap E i args w)"
proof -
  have fin: "holds w (try_finalize_setup E i (clear_task CAP_EXCHANGE i w))"
    using world_ok_clear_task [OF ok] alive by (intro holds_clear_finish) auto
  have body: "holds w (case v of Some v \<Rightarrow> if v \<ge> 302 then Inr (f v) else Inr g | None \<Rightarrow> Inr g)"
    if "\<And>v. st (f v) = st w" "st g = st w" for f g and v :: "int option"
    using that by (auto intro!: holds_simple ok split: option.split)
  show ?thesis
    unfolding handle_cap_def Let_def
    by (intro holds_if holds_value body fin holds_simple ok) (simp_all add: list_at_fault)
qed

text \<open>The connections AUTHENTICATE can serve without leaving a dangling pointer.\<close>

definition auth_safe :: "conn_id \<Rightarrow> world \<Rightarrow> bool" where
  "auth_safe i w =
     (case c_account (w_conns w i) of None \<Rightarrow> True | Some a \<Rightarrow> is_logged_in (w_accs w a))"

lemma holds_handle_authenticate:
  assumes ok: "world_ok w" and safe: "auth_safe i w"
  shows "holds w (handle_authenticate E i args w)"
proof -
  have adopt: "holds w (adopt_account i account w)" for account
  proof (cases "c_account (w_conns w i)")
    case None
    then have "world_ok (upd_conn i (\<lambda>c. c\<lparr>c_account := Some account\<rparr>) w)"
      using ok by (fastforce simp: world_ok_def links_ok_def fresh_ok_def conn_ok_def)
    with None show ?thesis by (simp add: holds_def adopt_account_def)
  next
    case (Some mine)
    with safe ok show ?thesis
      by (auto simp: auth_safe_def merge_account_def adopt_account_def intro: holds_simple)
  qed
  have last: "keeps w1 (Inr (upd_conn i (\<lambda>c. c\<lparr>c_logged_in := True\<rparr>)
      (reply_num E i m l (reply_num E i n k w1))))" for w1 m l n k
    by (simp add: keeps_Inr)
  show ?thesis
    unfolding handle_authenticate_def Let_def
    by (auto split: list.split option.split intro!: holds_simple ok holds_bind_keeps adopt last)
qed

section \<open>A line, a chunk, the end of a connection\<close>

definition holds_opt :: "world \<Rightarrow> world option res \<Rightarrow> bool" where
  "holds_opt w r \<longleftrightarrow>
     (case r of Inl e \<Rightarrow> e \<in> tolerated | Inr None \<Rightarrow> True | Inr (Some w') \<Rightarrow> holds w (Inr w'))"

lemma holds_opt_done: "holds w r \<Longrightarrow> holds_opt w (bind_res r (\<lambda>w. Inr (Some w)))"
  by (cases r) (auto simp: holds_opt_def holds_def)

lemma holds_opt_Some: "world_ok w \<Longrightarrow> st w' = st w \<Longrightarrow> holds_opt w (Inr (Some w'))"
  by (simp add: holds_opt_def holds_simple)

lemma holds_opt_None: "holds_opt w (Inr None)"
  by (simp add: holds_opt_def)

lemma holds_opt_if:
  "(P \<Longrightarrow> holds_opt w a) \<Longrightarrow> (\<not> P \<Longrightarrow> holds_opt w b) \<Longrightarrow> holds_opt w (if P then a else b)"
  by simp

lemma holds_opt_list_at:
  "(\<And>x. holds_opt w (f x)) \<Longrightarrow> holds_opt w (bind_res (list_at xs n) f)"
  by (simp add: list_at_def holds_opt_def tolerated_def)

lemma holds_opt_run_command:
  assumes ok: "world_ok w" and alive: "c_alive (w_conns w i)"
    and auth: "cmd = ''AUTHENTICATE'' \<Longrightarrow> auth_safe i w"
  shows "holds_opt w (run_command E i tags cmd parts w)"
proof -
  note l = links_of [OF ok]
  note k = keeps_holds [OF ok]
  show ?thesis
    unfolding run_command_def Let_def
    by (intro holds_opt_if holds_opt_list_at holds_opt_None)
      (rule holds_opt_Some [OF ok] holds_opt_done holds_handle_nick holds_handle_user
        holds_handle_cap holds_handle_authenticate
        k [OF keeps_handle_join] k [OF keeps_handle_part] k [OF keeps_handle_privmsg]
        k [OF keeps_handle_tagmsg] k [OF keeps_handle_rename] k [OF keeps_handle_metadata]
        k [OF keeps_handle_mode] ok alive auth l | simp)+
qed

text \<open>The command word a line leads to, after the hooks and the tag block.\<close>

definition command_of :: "env \<Rightarrow> conn_id \<Rightarrow> bytes \<Rightarrow> world \<Rightarrow> bytes option" where
  "command_of E i raw_line w =
     map_option (\<lambda>line. hd (split_irc (snd (strip_tags E i line w)))) (raw_hook E i raw_line w)"

lemma holds_parse_incoming:
  assumes ok: "world_ok w" and alive: "c_alive (w_conns w i)"
    and auth: "command_of E i line w = Some ''AUTHENTICATE'' \<Longrightarrow> auth_safe i w"
  shows "holds w (parse_incoming E i line w)"
proof (cases "raw_hook E i line w")
  case None
  then show ?thesis by (simp add: parse_incoming_def holds_simple ok)
next
  case (Some line0)
  obtain tags l where tl: "strip_tags E i line0 w = (tags, l)" by force
  have "holds_opt w (run_command E i tags (hd (split_irc l)) (tl (split_irc l)) w)"
    using auth by (intro holds_opt_run_command ok alive) (auto simp: command_of_def Some tl)
  then show ?thesis
  proof (cases "run_command E i tags (hd (split_irc l)) (tl (split_irc l)) w")
    case (Inr r)
    show ?thesis
    proof (cases r)
      case None
      with Inr show ?thesis by (simp add: parse_incoming_def Some tl holds_simple ok)
    next
      case (Some w1)
      with Inr \<open>holds_opt w _\<close> have "holds w (Inr w1)" by (simp add: holds_opt_def)
      then have "holds w (Inr (touch_activity E i w1))" by (rule holds_st) simp
      with Inr Some show ?thesis by (simp add: parse_incoming_def \<open>raw_hook E i line w = _\<close> tl)
    qed
  qed (simp add: parse_incoming_def Some tl holds_opt_def holds_def)
qed

lemma keeps_run_call: "keeps w (run_call q w)"
proof -
  have "st (snd (conn_change_nick ev i w)) = st w" "st (snd (conn_channel_rename ev' i w)) = st w"
    for ev ev' i
    by (rule st_frame, simp)+
  then show ?thesis
    by (cases q) (simp_all add: run_call_def keeps_Inr keeps_conn_part)
qed

lemma keeps_run_queue: "keeps w (run_queue w)"
proof -
  have "keeps w (run_call q w1)" if "st w1 = st w" for q w1
    using keeps_run_call [of w1 q] keeps_st [OF that] by simp
  then show ?thesis
    unfolding run_queue_def by (intro keeps_fold) simp_all
qed

text \<open>The end of a connection takes it out of its account before it is destroyed.\<close>

lemma world_ok_disconnected:
  assumes ok: "world_ok w"
  shows "world_ok (on_socket_disconnected E i w)"
proof -
  define w1 where "w1 = (case c_account (w_conns w i) of None \<Rightarrow> w
    | Some a \<Rightarrow> on_connection_disconnected i (conn_nick w i) a w)"
  have conns: "w_conns w1 = w_conns w"
    by (auto simp: w1_def on_connection_disconnected_def irc_nicks_remove_cache_def
        account_remove_cache_def Let_def split: option.split)
  have lists: "set (a_connections (w_accs w1 a)) \<subseteq> set (a_connections (w_accs w a)) - {i}" for a
  proof (cases "c_account (w_conns w i)")
    case None
    with ok show ?thesis by (auto simp: w1_def world_ok_def links_ok_def fresh_ok_def)
  next
    case (Some b)
    have "set (a_connections (w_accs w1 a)) =
        (if a = b then set (a_connections (w_accs w a)) - {i} else set (a_connections (w_accs w a)))"
      by (auto simp: w1_def Some on_connection_disconnected_def irc_nicks_remove_cache_def
          account_remove_cache_def Let_def split: option.split)
    with ok Some show ?thesis by (auto simp: world_ok_def links_ok_def fresh_ok_def)
  qed
  have accs: "w_accs (worker_disconnected i w1) = w_accs w1"
    by (simp add: worker_disconnected_def upd_srv_def Let_def split: prod.split)
  have "w_conns (worker_disconnected i w1) = w_conns w1 \<or>
      w_conns (worker_disconnected i w1) = (w_conns w1)(i := (w_conns w1 i)\<lparr>c_alive := False\<rparr>)"
    by (simp add: worker_disconnected_def upd_srv_def Let_def split: prod.split)
  then have other: "j \<noteq> i \<Longrightarrow> w_conns (worker_disconnected i w1) j = w_conns w j"
    and same: "reg (w_conns (worker_disconnected i w1) j) = reg (w_conns w j)" for j
    by (auto simp: conns reg_def split: if_splits)
  have next_id: "w_next_conn (worker_disconnected i w1) = w_next_conn w"
    by (auto simp: worker_disconnected_def upd_srv_def w1_def on_connection_disconnected_def
        irc_nicks_remove_cache_def account_remove_cache_def Let_def split: prod.split option.split)
  have "links_ok (worker_disconnected i w1)"
    unfolding links_ok_def
  proof (intro allI ballI)
    fix a j
    assume "j \<in> set (a_connections (w_accs (worker_disconnected i w1) a))"
    then have "j \<in> set (a_connections (w_accs w a))" "j \<noteq> i"
      using lists [of a] accs by auto
    then show "c_alive (w_conns (worker_disconnected i w1) j) \<and>
        c_account (w_conns (worker_disconnected i w1) j) = Some a"
      using ok other [of j] by (auto simp: world_ok_def links_ok_def fresh_ok_def)
  qed
  moreover have "conn_ok (w_conns (worker_disconnected i w1) j)" for j
    using ok same [of j] unfolding reg_def world_ok_def conn_ok_def by (metis prod.inject)
  moreover have "fresh_ok (worker_disconnected i w1)"
    unfolding fresh_ok_def next_id
  proof (intro allI impI)
    fix j
    assume "c_alive (w_conns (worker_disconnected i w1) j)"
    then have "c_alive (w_conns w j)"
      using \<open>_ \<or> _\<close> conns by (auto split: if_splits)
    then show "j < w_next_conn w" using ok by (simp add: world_ok_def fresh_ok_def)
  qed
  ultimately show ?thesis
    by (simp add: on_socket_disconnected_def w1_def world_ok_def Let_def)
qed

section \<open>The running server\<close>

text \<open>
  One event of the event loops: a peer connects, a worker takes the socket up, a web socket is
  announced or dropped, bytes are buffered, a line is parsed, the posted calls run, a socket
  closes. The environment may differ from event to event. Lines that would merge an anonymous
  account away are the ones left out (\<open>auth_safe\<close>).
\<close>

inductive server_step :: "world \<Rightarrow> world \<Rightarrow> bool" where
  peer: "server_step w (upd_srv k (incoming_connection ip port descriptor) w)"
| socket: "p \<in> set (s_pending (w_srv w k)) \<Longrightarrow> server_step w (worker_handle_connection E k p ok w)"
| ws_up: "u \<in> set (s_upgrading (w_srv w k)) \<Longrightarrow> server_step w (worker_ws_connected E k u w)"
| ws_gone: "u \<in> set (s_upgrading (w_srv w k)) \<Longrightarrow> server_step w (worker_ws_dropped k u w)"
| buffered: "server_step w (upd_conn i (\<lambda>c. c\<lparr>c_buffer := b\<rparr>) w)"
| line: "c_alive (w_conns w i) \<Longrightarrow>
    (command_of E i l w = Some ''AUTHENTICATE'' \<Longrightarrow> auth_safe i w) \<Longrightarrow>
    parse_incoming E i l w = Inr w' \<Longrightarrow> server_step w w'"
| posted: "run_queue w = Inr w' \<Longrightarrow> server_step w w'"
| closed: "c_alive (w_conns w i) \<Longrightarrow> server_step w (on_socket_disconnected E i w)"

text \<open>
  The server starts with whatever accounts, channels and memberships the database held, and
  without connections.
\<close>

definition booted :: "world \<Rightarrow> bool" where
  "booted w \<longleftrightarrow>
     (\<forall>i. \<not> c_alive (w_conns w i) \<and> conn_ok (w_conns w i)) \<and>
     (\<forall>a. a_connections (w_accs w a) = []) \<and>
     (\<forall>k. \<exists>n limit. 0 < n \<and> new_server n limit = Inr (w_srv w k))"

inductive reachable :: "world \<Rightarrow> bool" where
  start: "booted w \<Longrightarrow> reachable w"
| step: "reachable w \<Longrightarrow> server_step w w' \<Longrightarrow> reachable w'"

lemma booted_initial: "booted initial_world"
  by (auto simp: booted_def initial_world_def new_account_def dead_conn_def conn_ok_def new_conn_def
      new_server_def pool_server_def numeral_eq_Suc intro!: exI [of _ 4])

lemma world_ok_booted: "booted w \<Longrightarrow> world_ok w"
  by (simp add: booted_def world_ok_def links_ok_def fresh_ok_def)

lemma world_ok_spawn:
  assumes ok: "world_ok w"
  shows "world_ok (spawn_conn E k n t ip w)"
proof -
  let ?i = "w_next_conn w"
  have dead: "\<not> c_alive (w_conns w ?i)" using ok by (auto simp: world_ok_def fresh_ok_def)
  have conns: "w_conns (spawn_conn E k n t ip w) =
      (w_conns w)(?i := new_conn E (k, n) t (e_uuid_rfc4122 E (e_uuid E (w_uuids w))) ip)"
    "w_accs (spawn_conn E k n t ip w) = w_accs w"
    "w_next_conn (spawn_conn E k n t ip w) = Suc ?i"
    by (simp_all add: spawn_conn_def upd_srv_def Let_def)
  have "conn_ok (new_conn E (k, n) t u ip)" for u
    by (simp add: conn_ok_def new_conn_def)
  then show ?thesis
    using ok dead by (auto simp: world_ok_def links_ok_def fresh_ok_def conns less_Suc_eq)
qed

lemma world_ok_step: "server_step w w' \<Longrightarrow> world_ok w \<Longrightarrow> world_ok w'"
proof (induction rule: server_step.induct)
  case (socket p w k E ok)
  then show ?case
    by (auto simp: worker_handle_connection_def Let_def intro!: world_ok_spawn)
next
  case (ws_up u w k E)
  then show ?case
    by (auto simp: worker_ws_connected_def intro!: world_ok_spawn)
next
  case (buffered w i b)
  then show ?case by (auto simp: world_ok_def links_ok_def fresh_ok_def conn_ok_def)
next
  case (line w i E l w')
  then show ?case using holds_parse_incoming [of w i E l] by (simp add: holds_def)
next
  case (posted w w')
  have "keeps w (run_queue w)" by (rule keeps_run_queue)
  with posted show ?case using world_ok_same by (auto simp: keeps_def)
next
  case (closed w i E)
  then show ?case by (intro world_ok_disconnected)
qed (simp_all add: worker_ws_dropped_def)

lemma reachable_world_ok: "reachable w \<Longrightarrow> world_ok w"
  by (induction rule: reachable.induct) (auto intro: world_ok_booted world_ok_step)

text \<open>A world with a first client that has just connected, for the witnesses.\<close>

definition first_client :: world where
  "first_client = worker_handle_connection sample_env IrcServer
     \<lparr>pd_worker = 0, pd_descriptor = 3, pd_ip = 7, pd_port = 6667\<rparr> True
     (upd_srv IrcServer (incoming_connection 7 6667 3) initial_world)"

lemmas first_client_defs = first_client_def worker_handle_connection_def incoming_connection_def
  active_count_def dispatch_def pool_server_def spawn_conn_def upd_srv_def Let_def sample_env_def
  initial_world_def new_conn_def

lemma reachable_first_client: "reachable first_client"
  unfolding first_client_def
  by (rule reachable.step [OF reachable.step [OF reachable.start [OF booted_initial] server_step.peer]
      server_step.socket])
    (simp add: incoming_connection_def active_count_def dispatch_def pool_server_def upd_srv_def
      Let_def initial_world_def)

lemma first_client_alive: "c_alive (w_conns first_client 0)"
  by (simp add: first_client_defs)



end
