(* ===== verification/Lifecycle.thy ===== *)
theory Lifecycle
  imports Safety
begin

text \<open>
  The life of a connection: the three lines that register a client make it ready, and what
  readiness and the connection lists of the accounts mean in every state the server reaches.
\<close>

section \<open>The registration completes\<close>

lemma frame_fold: "(\<And>x w. frame (f x w) = frame w) \<Longrightarrow> frame w = frame w0 \<Longrightarrow> frame (fold f xs w) = frame w0"
  by (induction xs arbitrary: w) auto

lemma frame_welcome [simp]: "frame (welcome_replies E i n w) = frame w"
proof -
  have motd: "frame (reload_motd E w) = frame w" for w
    by (simp add: reload_motd_def split: option.split prod.split)
  have "frame (handle_motd E i w) = frame w" for w
    by (auto simp: handle_motd_def server_motd_def Let_def motd intro!: frame_fold)
  then show ?thesis
    by (simp add: welcome_replies_def handle_lusers_def Let_def frame_fold)
qed

text \<open>
  A connection whose tasks are done, with a nick nobody uses, gets an anonymous account of that
  nick, is its only connection, and is ready.
\<close>

lemma try_finalize_new:
  assumes tasks: "flags_empty (c_tasks (w_conns w i))" and unready: "\<not> c_ready (w_conns w i)"
    and pw: "e_password E = [] \<or> c_pass_given (w_conns w i) = e_password E"
    and none: "c_account (w_conns w i) = None"
    and free: "irc_nick_get (to_lower (c_nick (w_conns w i))) w = None"
    and anon: "\<not> c_logged_in (w_conns w i)" and nick: "c_nick (w_conns w i) \<noteq> []"
  obtains w' where "try_finalize_setup E i w = Inr w'" "c_ready (w_conns w' i)"
    "c_account (w_conns w' i) = Some (w_next_acc w)"
    "a_nick (w_accs w' (w_next_acc w)) = c_nick (w_conns w i)"
    "a_connections (w_accs w' (w_next_acc w)) = [i]"
    "w_nicks w' = (w_nicks w)(c_nick (w_conns w i) \<mapsto> w_next_acc w)"
    "flags_empty (c_tasks (w_conns w' i))" "w_next_acc w' = Suc (w_next_acc w)"
    "\<And>b. b \<noteq> w_next_acc w \<Longrightarrow> w_accs w' b = w_accs w b"
proof -
  let ?a = "w_next_acc w" and ?n = "c_nick (w_conns w i)"
  obtain w1 where w1: "new_session_account E i w = Inr (?a, w1)"
    "w_conns w1 = (w_conns w)(i := (w_conns w i)\<lparr>c_account := Some ?a\<rparr>)" "w_nicks w1 = w_nicks w"
    "a_nick (w_accs w1 ?a) = ?n" "a_connections (w_accs w1 ?a) = []" "a_channels (w_accs w1 ?a) = []"
    "w_next_acc w1 = Suc ?a" "\<And>b. b \<noteq> ?a \<Longrightarrow> w_accs w1 b = w_accs w b"
    unfolding new_session_account_def
    by (simp add: account_create_def Let_def set_random_uid_def set_nick_by_force_def new_account_def
        account_set_uid_def account_insert_cache_def)
  define w3 where "w3 = irc_nicks_insert_cache (conn_nick (add_connection i ?a w1) i) ?a (add_connection i ?a w1)"
  define w4 where "w4 = welcome_replies E i ?n w3"
  have an: "account_nick (w_accs w1 ?a) = ?n" using nick w1(4) by (simp add: account_nick_def)
  have w3: "w_conns w3 = w_conns w1" "w_nicks w3 = (w_nicks w)(?n \<mapsto> ?a)"
    "w_accs w3 = (w_accs w1)(?a := (w_accs w1 ?a)\<lparr>a_connections := [i]\<rparr>)" "w_next_acc w3 = Suc ?a"
    using w1 an nick by (simp_all add: w3_def irc_nicks_insert_cache_def add_connection_def conn_nick_def
        account_nick_def)
  have f: "frame w4 = frame w3" by (simp add: w4_def)
  have core: "conn_core (w_conns w4 i) = conn_core (w_conns w3 i)" by (rule same_frame(15) [OF f])
  have given: "(e_password E \<noteq> [] \<and> c_pass_given (w_conns w i) \<noteq> e_password E) = False"
    using pw by blast
  have eq: "try_finalize_setup E i w = Inr (upd_conn i (\<lambda>c. c\<lparr>c_ready := True\<rparr>) w4)"
    using tasks unready none free anon nick w1(1,2,6) an w3(3) same_frame(1) [OF f] same_core [OF core]
    by (simp add: try_finalize_setup_def given finish_setup_def Let_def w3_def [symmetric] w4_def [symmetric]
        w3(1) join_all_def)
  show thesis
    by (rule that [OF eq])
      (use tasks w1 w3 same_frame(1,6,8) [OF f] same_core [OF core] in simp_all)
qed

lemma try_finalize_wait:
  "\<not> flags_empty (c_tasks (w_conns w i)) \<Longrightarrow> try_finalize_setup E i w = Inr w"
  by (simp add: try_finalize_setup_def)

lemma task_bits:
  "flags_empty (flags_clear setup_val [CAP_EXCHANGE] (flags_clear setup_val [USER]
     (flags_clear setup_val [NICK] (flags_set setup_val [CAP_EXCHANGE, NICK, USER] 0))))"
  "\<not> flags_empty (flags_clear setup_val [USER]
     (flags_clear setup_val [NICK] (flags_set setup_val [CAP_EXCHANGE, NICK, USER] 0)))"
  "\<not> flags_empty (flags_clear setup_val [NICK] (flags_set setup_val [CAP_EXCHANGE, NICK, USER] 0))"
  by (simp_all add: flags_empty_def)

text \<open>A connection on its way: the tasks left, the nick it chose, nothing else yet.\<close>

definition stage :: "flags \<Rightarrow> bytes \<Rightarrow> world \<Rightarrow> conn_id \<Rightarrow> world \<Rightarrow> bool" where
  "stage t n w0 i w \<longleftrightarrow>
     c_tasks (w_conns w i) = t \<and> c_account (w_conns w i) = None \<and> c_nick (w_conns w i) = n \<and>
     \<not> c_ready (w_conns w i) \<and> \<not> c_logged_in (w_conns w i) \<and>
     w_nicks w = w_nicks w0 \<and> w_next_acc w = w_next_acc w0 \<and> w_accs w = w_accs w0"

lemma stage_start: "w_conns w i = new_conn E home t uid ip \<Longrightarrow>
    stage (flags_set setup_val [CAP_EXCHANGE, NICK, USER] 0) [] w i w"
  by (simp add: stage_def new_conn_def)

lemma stage_touch: "stage t n w0 i w \<Longrightarrow> stage t n w0 i (touch_activity E i w)"
  by (simp add: stage_def touch_activity_def)

lemma stage_nick:
  assumes s: "stage t [] w0 i w" and t: "flags_has setup_val NICK t"
    "\<not> flags_empty (flags_clear setup_val [NICK] t)"
    and valid: "is_valid_nick (e_unicode E) nick"
  obtains w1 where "handle_nick E i [nick] w = Inr w1" "stage (flags_clear setup_val [NICK] t) nick w0 i w1"
proof -
  define w1 where "w1 = clear_task NICK i (upd_conn i (\<lambda>c. c\<lparr>c_nick := nick\<rparr>) w)"
  have "handle_nick E i [nick] w = try_finalize_setup E i w1"
    using valid s t(1)
    by (simp add: handle_nick_def Let_def conn_set_nick_def w1_def stage_def del: flags_clear.simps)
  moreover have "stage (flags_clear setup_val [NICK] t) nick w0 i w1"
    using s by (simp add: w1_def stage_def clear_task_def del: flags_clear.simps)
  moreover from this have "try_finalize_setup E i w1 = Inr w1"
    using t(2) by (intro try_finalize_wait) (simp add: stage_def del: flags_clear.simps)
  ultimately show thesis using that by metis
qed

lemma stage_user:
  assumes s: "stage t n w0 i w" and t: "flags_has setup_val USER t"
    "\<not> flags_empty (flags_clear setup_val [USER] t)"
    and user: "length args \<ge> 4" "length (args ! 0) \<le> 16"
  obtains w1 where "handle_user E i args w = Inr w1" "stage (flags_clear setup_val [USER] t) n w0 i w1"
proof -
  define w2 where "w2 = upd_conn i (\<lambda>c. c\<lparr>c_realname := args ! 3, c_user := args ! 0\<rparr>) w"
  define w1 where "w1 = clear_task USER i (if account_username_exists (args ! 0) w2
    then upd_conn i (\<lambda>c. c\<lparr>c_user_already_exists := True\<rparr>) w2 else w2)"
  have "handle_user E i args w = try_finalize_setup E i w1"
    using user s t(1)
    by (simp add: handle_user_def Let_def w2_def w1_def stage_def del: flags_clear.simps)
  moreover have "stage (flags_clear setup_val [USER] t) n w0 i w1"
    using s by (simp add: w1_def w2_def stage_def clear_task_def del: flags_clear.simps)
  moreover from this have "try_finalize_setup E i w1 = Inr w1"
    using t(2) by (intro try_finalize_wait) (simp add: stage_def del: flags_clear.simps)
  ultimately show thesis using that by metis
qed

lemma stage_cap_end:
  assumes s: "stage t n w0 i w" and t: "flags_has setup_val CAP_EXCHANGE t"
    "flags_empty (flags_clear setup_val [CAP_EXCHANGE] t)"
    and n: "n \<noteq> []" "irc_nick_get (to_lower n) w0 = None" and pw: "e_password E = []"
  obtains w1 where "handle_cap E i [''END''] w = Inr w1" "c_ready (w_conns w1 i)"
    "c_account (w_conns w1 i) = Some (w_next_acc w0)" "a_nick (w_accs w1 (w_next_acc w0)) = n"
    "a_connections (w_accs w1 (w_next_acc w0)) = [i]"
    "w_nicks w1 = (w_nicks w0)(n \<mapsto> w_next_acc w0)" "w_next_acc w1 = Suc (w_next_acc w0)"
    "\<And>b. b \<noteq> w_next_acc w0 \<Longrightarrow> w_accs w1 b = w_accs w0 b"
proof -
  define w5 where "w5 = clear_task CAP_EXCHANGE i w"
  have s5: "stage (flags_clear setup_val [CAP_EXCHANGE] t) n w0 i w5"
    using s by (simp add: w5_def stage_def clear_task_def del: flags_clear.simps)
  have "handle_cap E i [''END''] w = try_finalize_setup E i w5"
    using s t(1) by (simp add: handle_cap_def list_at_def w5_def stage_def del: flags_clear.simps)
  moreover obtain w1 where "try_finalize_setup E i w5 = Inr w1" "c_ready (w_conns w1 i)"
    "c_account (w_conns w1 i) = Some (w_next_acc w5)"
    "a_nick (w_accs w1 (w_next_acc w5)) = c_nick (w_conns w5 i)"
    "a_connections (w_accs w1 (w_next_acc w5)) = [i]"
    "w_nicks w1 = (w_nicks w5)(c_nick (w_conns w5 i) \<mapsto> w_next_acc w5)"
    "w_next_acc w1 = Suc (w_next_acc w5)" "\<And>b. b \<noteq> w_next_acc w5 \<Longrightarrow> w_accs w1 b = w_accs w5 b"
    by (rule try_finalize_new [of w5 i E])
      (use s5 t(2) n pw in \<open>simp_all add: stage_def irc_nick_get_def del: flags_clear.simps\<close>)
  ultimately show thesis using s5 by (intro that [of w1]) (simp_all add: stage_def)
qed

section \<open>Plain lines\<close>

definition plain :: "bytes \<Rightarrow> bool" where
  "plain s \<longleftrightarrow> s \<noteq> [] \<and> (\<forall>c \<in> set s. \<not> is_space c)"

lemma plain_SP: "plain s \<Longrightarrow> SP \<notin> set s"
  by (auto simp: plain_def is_space_def)

lemma plain_trimmed: "plain s \<Longrightarrow> plain t \<Longrightarrow> trimmed (s @ u @ t) = s @ u @ t"
  unfolding plain_def
  by (rule trimmed_id) auto

lemma parse_untagged:
  assumes "\<not> has_event_handler E RAW_MSG" and "c_account (w_conns w i) = None" and "trimmed l = l"
    and "split_irc l = cmd # args"
  shows "parse_incoming E i l w = bind_res (run_command E i [] cmd args w)
    (\<lambda>r. case r of None \<Rightarrow> Inr w | Some w1 \<Rightarrow> Inr (touch_activity E i w1))"
  using assms by (simp add: parse_incoming_def raw_hook_def strip_tags_def)

lemma index_of_str_none: "SP \<notin> set s \<Longrightarrow> index_of_str (SP # p) s = None"
  by (induction s) auto

lemma split_two:
  assumes "SP \<notin> set c" and "plain a"
  shows "split_irc (c @ '' '' @ a) = [c, a]"
proof -
  have "index_of SP (c @ SP # a) = Some (length c)" using assms(1) by (rule index_of_append)
  moreover have "index_of_str '' :'' a = None"
    using plain_SP [OF assms(2)] by (intro index_of_str_none)
  ultimately show ?thesis
    using plain_SP [OF assms(2)] assms(2)
    by (simp add: split_irc_def qsplit_single plain_def)
qed

lemma split_user:
  assumes "plain u" and "plain r"
  shows "split_irc (''USER '' @ u @ '' 0 * :'' @ r) = [''USER'', u, ''0'', ''*'', r]"
proof -
  have "split_irc (''USER'' @ '' '' @ qjoin '' '' [u, ''0'', ''*''] @ '' :'' @ r) =
      ''USER'' # [u, ''0'', ''*''] @ [r]"
    using assms plain_SP [OF assms(1)] by (intro split_irc_wire) (auto simp: plain_def)
  then show ?thesis by simp
qed

lemma nick_line:
  assumes s: "stage t [] w0 i w" and t: "flags_has setup_val NICK t"
    "\<not> flags_empty (flags_clear setup_val [NICK] t)"
    and valid: "is_valid_nick (e_unicode E) nick" "plain nick" and raw: "\<not> has_event_handler E RAW_MSG"
  obtains w1 where "parse_incoming E i (''NICK '' @ nick) w = Inr w1"
    "stage (flags_clear setup_val [NICK] t) nick w0 i w1"
proof -
  obtain w1 where w1: "handle_nick E i [nick] w = Inr w1" "stage (flags_clear setup_val [NICK] t) nick w0 i w1"
    by (rule stage_nick [OF s t valid(1)])
  have "split_irc (''NICK '' @ nick) = [''NICK'', nick]"
    using split_two [of "''NICK''" nick] valid(2) by simp
  moreover have "trimmed (''NICK '' @ nick) = ''NICK '' @ nick"
    using plain_trimmed [of "''NICK''" nick "'' ''"] valid(2) by (simp add: plain_def is_space_def)
  ultimately have "parse_incoming E i (''NICK '' @ nick) w = Inr (touch_activity E i w1)"
    using parse_untagged [OF raw, of w i "''NICK '' @ nick" "''NICK''" "[nick]"] s w1(1)
    by (simp add: run_command_def stage_def)
  then show thesis by (rule that) (rule stage_touch [OF w1(2)])
qed

lemma user_line:
  assumes s: "stage t n w0 i w" and t: "flags_has setup_val USER t"
    "\<not> flags_empty (flags_clear setup_val [USER] t)"
    and user: "plain u" "plain r" "length u \<le> 16" and raw: "\<not> has_event_handler E RAW_MSG"
  obtains w1 where "parse_incoming E i (''USER '' @ u @ '' 0 * :'' @ r) w = Inr w1"
    "stage (flags_clear setup_val [USER] t) n w0 i w1"
proof -
  let ?l = "''USER '' @ u @ '' 0 * :'' @ r"
  obtain w1 where w1: "handle_user E i [u, ''0'', ''*'', r] w = Inr w1"
    "stage (flags_clear setup_val [USER] t) n w0 i w1"
    by (rule stage_user [OF s t, of "[u, ''0'', ''*'', r]"]) (use user in simp_all)
  have "trimmed ?l = ?l"
    using plain_trimmed [of "''USER''" r "'' '' @ u @ '' 0 * :''"] user(2) by (simp add: plain_def is_space_def)
  then have "parse_incoming E i ?l w = Inr (touch_activity E i w1)"
    using parse_untagged [OF raw, of w i ?l "''USER''" "[u, ''0'', ''*'', r]"] s w1(1) split_user [OF user(1,2)]
    by (simp add: run_command_def stage_def)
  then show thesis by (rule that) (rule stage_touch [OF w1(2)])
qed

definition registration_lines :: "bytes \<Rightarrow> bytes \<Rightarrow> bytes \<Rightarrow> bytes list" where
  "registration_lines nick u r = [''NICK '' @ nick, ''USER '' @ u @ '' 0 * :'' @ r, ''CAP END'']"

lemma registration_lines_split:
  "registration_lines nick u r = [''NICK '' @ nick, ''USER '' @ u @ '' 0 * :'' @ r] @ [''CAP END'']"
  by (simp add: registration_lines_def)

lemma registration_prefix:
  assumes conn: "w_conns w i = new_conn E home t uid ip"
    and nick: "is_valid_nick (e_unicode E) nick" "plain nick"
    and user: "plain u" "plain r" "length u \<le> 16" and raw: "\<not> has_event_handler E RAW_MSG"
  obtains w2 t2 where
    "fold_res (parse_incoming E i) [''NICK '' @ nick, ''USER '' @ u @ '' 0 * :'' @ r] w = Inr w2"
    "stage t2 nick w i w2" "flags_has setup_val CAP_EXCHANGE t2"
    "flags_empty (flags_clear setup_val [CAP_EXCHANGE] t2)"
proof -
  let ?t0 = "flags_set setup_val [CAP_EXCHANGE, NICK, USER] 0"
  have has: "flags_has setup_val NICK ?t0" "flags_has setup_val USER (flags_clear setup_val [NICK] ?t0)"
    "flags_has setup_val CAP_EXCHANGE (flags_clear setup_val [USER] (flags_clear setup_val [NICK] ?t0))"
    by (simp_all add: tasks.has_set tasks.has_clear del: flags_set.simps flags_clear.simps)
  obtain w1 where w1: "parse_incoming E i (''NICK '' @ nick) w = Inr w1"
    "stage (flags_clear setup_val [NICK] ?t0) nick w i w1"
    by (rule nick_line [OF stage_start [OF conn] has(1) task_bits(3) nick(1,2) raw])
  obtain w2 where w2: "parse_incoming E i (''USER '' @ u @ '' 0 * :'' @ r) w1 = Inr w2"
    "stage (flags_clear setup_val [USER] (flags_clear setup_val [NICK] ?t0)) nick w i w2"
    by (rule user_line [OF w1(2) has(2) task_bits(2) user raw])
  show thesis
    by (rule that [OF _ w2(2) has(3) task_bits(1)]) (simp only: fold_res.simps w1(1) w2(1) bind_res_simps)
qed

lemma cap_end_line:
  assumes "stage t n w0 i w" and "\<not> has_event_handler E RAW_MSG"
  shows "parse_incoming E i ''CAP END'' w =
    bind_res (handle_cap E i [''END''] w) (\<lambda>w1. Inr (touch_activity E i w1))"
  using parse_untagged [OF assms(2), of w i "''CAP END''" "''CAP''" "[''END'']"] assms(1)
  by (simp add: run_command_def stage_def trimmed_def is_space_def split_irc_def bind_res_def split: sum.split)

lemma registration_steps:
  assumes conn: "w_conns w i = new_conn E home t uid ip"
    and nick: "is_valid_nick (e_unicode E) nick" "plain nick" "w_nicks w (to_lower nick) = None"
    and user: "plain u" "plain r" "length u \<le> 16"
    and env: "e_password E = []" "\<not> has_event_handler E RAW_MSG"
  shows "\<exists>w'. fold_res (parse_incoming E i) (registration_lines nick u r) w = Inr w' \<and>
    c_ready (w_conns w' i) \<and> c_account (w_conns w' i) = Some (w_next_acc w) \<and>
    account_nick (w_accs w' (w_next_acc w)) = nick \<and>
    a_connections (w_accs w' (w_next_acc w)) = [i] \<and>
    w_nicks w' = (w_nicks w)(nick \<mapsto> w_next_acc w) \<and> w_next_acc w' = Suc (w_next_acc w) \<and>
    (\<forall>b. b \<noteq> w_next_acc w \<longrightarrow> w_accs w' b = w_accs w b)"
proof (rule registration_prefix [OF conn nick(1,2) user env(2)])
  fix w2 t2
  assume w2: "fold_res (parse_incoming E i) [''NICK '' @ nick, ''USER '' @ u @ '' 0 * :'' @ r] w = Inr w2"
    "stage t2 nick w i w2" "flags_has setup_val CAP_EXCHANGE t2"
    "flags_empty (flags_clear setup_val [CAP_EXCHANGE] t2)"
  obtain w3 where w3: "handle_cap E i [''END''] w2 = Inr w3" "c_ready (w_conns w3 i)"
    "c_account (w_conns w3 i) = Some (w_next_acc w)" "a_nick (w_accs w3 (w_next_acc w)) = nick"
    "a_connections (w_accs w3 (w_next_acc w)) = [i]"
    "w_nicks w3 = (w_nicks w)(nick \<mapsto> w_next_acc w)" "w_next_acc w3 = Suc (w_next_acc w)"
    "\<And>b. b \<noteq> w_next_acc w \<Longrightarrow> w_accs w3 b = w_accs w b"
    by (rule stage_cap_end [OF w2(2,3,4) _ _ env(1)])
      (use nick(2,3) in \<open>simp_all add: plain_def irc_nick_get_def\<close>)
  have "fold_res (parse_incoming E i) (registration_lines nick u r) w = Inr (touch_activity E i w3)"
    unfolding registration_lines_split fold_res_append w2(1)
    by (simp only: bind_res_simps fold_res.simps cap_end_line [OF w2(2) env(2)] w3(1))
  with w3 nick(2) show ?thesis
    by (auto simp: touch_activity_def account_nick_def plain_def)
qed

section \<open>A reachable server with a registered client\<close>

lemma reachable_parse:
  assumes "reachable w" and "c_alive (w_conns w i)"
    and "command_of E i l w = Some ''AUTHENTICATE'' \<Longrightarrow> auth_safe i w"
    and "parse_incoming E i l w = Inr w'"
  shows "reachable w' \<and> c_alive (w_conns w' i) \<and> w_srv w' = w_srv w"
proof (intro conjI)
  show "reachable w'"
    using assms by (blast intro: reachable.step server_step.line)
  have "holds w (parse_incoming E i l w)"
    by (rule holds_parse_incoming [OF reachable_world_ok [OF assms(1)] assms(2)]) (rule assms(3))
  with assms(4) have "sockets w' = sockets w" by (simp add: holds_def)
  with assms(2) show "c_alive (w_conns w' i)" "w_srv w' = w_srv w"
    using sockets_fields(2,4) by metis+
qed

lemma sample_command:
  "\<not> starts_with l ''@'' \<Longrightarrow> command_of sample_env i l w = Some (hd (split_irc (trimmed l)))"
  by (simp add: command_of_def raw_hook_def has_event_handler_def sample_env_def events.not_has_empty
      flags_empty_def strip_tags_def)

lemma first_client_conn: "w_conns first_client 0 =
    new_conn sample_env (IrcServer, 0) (Tcp True True) (e_uuid_rfc4122 sample_env (e_uuid sample_env 0)) 7"
  by (simp add: first_client_def worker_handle_connection_def incoming_connection_def
      active_count_def dispatch_def pool_server_def spawn_conn_def upd_srv_def Let_def
      initial_world_def sample_env_def)

lemma first_client_world: "w_nicks first_client = Map.empty" "w_next_acc first_client = 0"
  by (simp_all add: first_client_defs)

lemma sample_nick:
  "is_valid_nick (e_unicode sample_env) ''bob''" "plain ''bob''" "plain ''Bob''"
  "e_password sample_env = []" "\<not> has_event_handler sample_env RAW_MSG"
  by (simp_all add: is_valid_nick_def sample_env_def ascii_unicode_def nick_body_def nick_first_def
      nick_rest_def nick_punct_def plain_def is_space_def has_event_handler_def events.not_has_empty
      flags_empty_def)

lemma first_client_free: "w_nicks first_client n = None"
  by (simp add: first_client_world)

lemmas sample_registration = registration_steps [OF first_client_conn sample_nick(1,2)
    first_client_free sample_nick(2,3) _ sample_nick(4,5)]

lemma ready_world:
  obtains w where "reachable w" "c_ready (w_conns w 0)" "a_connections (w_accs w 0) = [0]"
    "w_nicks w = [''bob'' \<mapsto> 0]" "w_srv w = w_srv first_client"
proof -
  have "\<exists>w'. fold_res (parse_incoming sample_env 0) (registration_lines ''bob'' ''bob'' ''Bob'') first_client = Inr w' \<and>
    c_ready (w_conns w' 0) \<and> c_account (w_conns w' 0) = Some (w_next_acc first_client) \<and>
    account_nick (w_accs w' (w_next_acc first_client)) = ''bob'' \<and>
    a_connections (w_accs w' (w_next_acc first_client)) = [0] \<and>
    w_nicks w' = (w_nicks first_client)(''bob'' \<mapsto> w_next_acc first_client) \<and>
    w_next_acc w' = Suc (w_next_acc first_client) \<and>
    (\<forall>b. b \<noteq> w_next_acc first_client \<longrightarrow> w_accs w' b = w_accs first_client b)"
    by (rule sample_registration) simp
  then obtain w1 w2 w3 where steps: "parse_incoming sample_env 0 ''NICK bob'' first_client = Inr w1"
    "parse_incoming sample_env 0 ''USER bob 0 * :Bob'' w1 = Inr w2"
    "parse_incoming sample_env 0 ''CAP END'' w2 = Inr w3"
    and w3: "c_ready (w_conns w3 0)" "a_connections (w_accs w3 0) = [0]" "w_nicks w3 = [''bob'' \<mapsto> 0]"
    by (auto simp: registration_lines_def bind_res_Inr_iff first_client_world)
  have "reachable w1 \<and> c_alive (w_conns w1 0) \<and> w_srv w1 = w_srv first_client"
    by (rule reachable_parse [OF reachable_first_client first_client_alive _ steps(1)])
      (simp add: sample_command trimmed_def is_space_def split_irc_def)
  then have "reachable w2 \<and> c_alive (w_conns w2 0) \<and> w_srv w2 = w_srv first_client"
    using reachable_parse [OF _ _ _ steps(2)]
    by (simp add: sample_command trimmed_def is_space_def split_irc_def)
  then have "reachable w3 \<and> w_srv w3 = w_srv first_client"
    using reachable_parse [OF _ _ _ steps(3)]
    by (simp add: sample_command trimmed_def is_space_def split_irc_def)
  then show thesis using that w3 by blast
qed

text \<open>
  C3: In every reachable state a connection that is ready has no setup task left and has an
  account.
\<close>

theorem ready_is_registered:
  assumes "reachable w" and "c_ready (w_conns w i)"
  shows "flags_empty (c_tasks (w_conns w i)) \<and> c_account (w_conns w i) \<noteq> None"
  using reachable_world_ok [OF assms(1)] assms(2) by (simp add: world_ok_def conn_ok_def)

theorem ready_is_registered_witness:
  "\<exists>w. reachable w \<and> flags_empty (c_tasks (w_conns w 0)) \<and> c_account (w_conns w 0) \<noteq> None"
  using ready_is_registered ready_world by metis



text \<open>
  C6: A new connection that sends NICK with a valid nick nobody uses, USER and CAP END, to a
  server without a password and without RAW_MSG handlers, becomes ready: the three lines are
  handled without a fault, and the connection owns a new account with that nick, whose only
  connection it is and which the nick table leads to; the other accounts are untouched.
\<close>

theorem registration_completes:
  assumes conn: "w_conns w i = new_conn E home t uid ip"
    and nick: "is_valid_nick (e_unicode E) nick" "plain nick" "w_nicks w (to_lower nick) = None"
    and user: "plain u" "plain r" "length u \<le> 16"
    and env: "e_password E = []" "\<not> has_event_handler E RAW_MSG"
  shows "\<exists>w'. fold_res (parse_incoming E i) (registration_lines nick u r) w = Inr w' \<and>
    c_ready (w_conns w' i) \<and> c_account (w_conns w' i) = Some (w_next_acc w) \<and>
    account_nick (w_accs w' (w_next_acc w)) = nick \<and>
    a_connections (w_accs w' (w_next_acc w)) = [i] \<and>
    w_nicks w' = (w_nicks w)(nick \<mapsto> w_next_acc w) \<and> w_next_acc w' = Suc (w_next_acc w) \<and>
    (\<forall>b. b \<noteq> w_next_acc w \<longrightarrow> w_accs w' b = w_accs w b)"
  using assms by (rule registration_steps)

theorem registration_completes_witness:
  "\<exists>w'. fold_res (parse_incoming sample_env 0) (registration_lines ''bob'' ''bob'' ''Bob'') first_client = Inr w' \<and>
    c_ready (w_conns w' 0) \<and> account_nick (w_accs w' (w_next_acc first_client)) = ''bob'' \<and>
    a_connections (w_accs w' (w_next_acc first_client)) = [0]"
proof -
  have "length ''bob'' \<le> 16" by simp
  from registration_completes [OF first_client_conn sample_nick(1,2) first_client_free sample_nick(2,3)
      this sample_nick(4,5)]
  show ?thesis by blast
qed

end
