(* ===== verification/Peer_Limits.thy ===== *)
theory Peer_Limits
  imports Lifecycle
begin

text \<open>
  The number of connections one peer address can hold: the counter of \<open>ThreadedServer\<close> against
  what it is meant to count, over every run of the server. \<open>tracked\<close> is the multiset of the
  addresses a server is serving: the sockets posted to a worker, those in a web-socket
  handshake, and the connections of the workers.
\<close>

section \<open>What the counter counts\<close>

definition tracked :: "(conn_id \<Rightarrow> 32 word) \<Rightarrow> server \<Rightarrow> 32 word multiset" where
  "tracked r s = image_mset pd_ip (mset (s_pending s)) + image_mset snd (mset (s_upgrading s)) +
     image_mset r (mset (concat (s_workers s)))"

definition remotes :: "world \<Rightarrow> conn_id \<Rightarrow> 32 word" where
  "remotes w i = c_remote (w_conns w i)"

definition shape_ok :: "server \<Rightarrow> bool" where
  "shape_ok s \<longleftrightarrow> s_thread_count s = length (s_workers s) \<and> s_next_worker s < s_thread_count s \<and>
     (\<forall>p \<in> set (s_pending s). pd_worker p < length (s_workers s)) \<and>
     (\<forall>u \<in> set (s_upgrading s). fst u < length (s_workers s)) \<and> distinct (concat (s_workers s))"

definition owned_ok :: "world \<Rightarrow> server_kind \<Rightarrow> bool" where
  "owned_ok w k \<longleftrightarrow>
     (\<forall>i n. c_alive (w_conns w i) \<and> c_home (w_conns w i) = (k, n) \<longleftrightarrow>
        n < length (s_workers (w_srv w k)) \<and> i \<in> set (s_workers (w_srv w k) ! n))"

definition count_ok :: "(conn_id \<Rightarrow> 32 word) \<Rightarrow> server \<Rightarrow> bool" where
  "count_ok r s \<longleftrightarrow>
     (\<forall>ip. ip \<noteq> 0 \<longrightarrow> int (count (tracked r s) ip) \<le> active_count s ip \<and>
        active_count s ip \<le> max 0 (s_max_per_ip s))"

definition pool_ok :: "world \<Rightarrow> bool" where
  "pool_ok w \<longleftrightarrow> (\<forall>k. shape_ok (w_srv w k) \<and> owned_ok w k \<and> count_ok (remotes w) (w_srv w k))"

lemma pool_ok_sockets: "sockets w' = sockets w \<Longrightarrow> pool_ok w' = pool_ok w"
  using sockets_fields [of w' w]
  by (simp add: pool_ok_def owned_ok_def remotes_def [abs_def])

lemma pool_ok_same: "sockets w' = sockets w \<Longrightarrow> pool_ok w \<Longrightarrow> pool_ok w'"
  using pool_ok_sockets [of w' w] by simp

section \<open>The lists of the workers\<close>

lemma mset_worker_add:
  "n < length xss \<Longrightarrow> mset (concat (xss[n := xss ! n @ [i]])) = add_mset i (mset (concat xss))"
  by (induction xss arbitrary: n) (auto split: nat.split)

lemma removeAll_absent: "i \<notin> set xs \<Longrightarrow> removeAll i xs = xs"
  by (induction xs) auto

lemma concat_worker_remove:
  assumes "n < length xss" and "distinct (concat xss)" and "i \<in> set (xss ! n)"
  shows "concat (xss[n := removeAll i (xss ! n)]) = removeAll i (concat xss)"
  using assms
proof (induction xss arbitrary: n)
  case (Cons xs xss)
  show ?case
  proof (cases n)
    case 0
    with Cons.prems have "i \<notin> set (concat xss)" by auto
    with 0 show ?thesis by (simp add: removeAll_absent)
  next
    case (Suc m)
    with Cons.prems have "i \<in> set (concat xss)" by (auto intro: nth_mem)
    with Cons.prems(2) have "i \<notin> set xs" by auto
    with Suc Cons show ?thesis by (simp add: removeAll_absent)
  qed
qed simp

lemma mset_worker_remove:
  assumes "n < length xss" and "distinct (concat xss)" and "i \<in> set (xss ! n)"
  shows "add_mset i (mset (concat (xss[n := removeAll i (xss ! n)]))) = mset (concat xss)"
proof -
  have "i \<in> set (concat xss)" using assms(1,3) by (auto intro: nth_mem)
  moreover have "removeAll i (concat xss) = remove1 i (concat xss)"
    using assms(2) by (simp add: distinct_remove1_removeAll)
  ultimately show ?thesis
    by (simp only: concat_worker_remove [OF assms]) simp
qed

section \<open>The operations of the server keep the count\<close>

lemma active_dec_count:
  "active_count (active_dec ip s) ip' =
     (if ip' = ip then max 0 (active_count s ip - 1) else active_count s ip')"
  by (auto simp: active_dec_def active_count_def Let_def)

lemma active_dec_simps [simp]:
  "s_pending (active_dec ip s) = s_pending s" "s_upgrading (active_dec ip s) = s_upgrading s"
  "s_workers (active_dec ip s) = s_workers s" "s_max_per_ip (active_dec ip s) = s_max_per_ip s"
  "s_thread_count (active_dec ip s) = s_thread_count s"
  "s_next_worker (active_dec ip s) = s_next_worker s"
  by (simp_all add: active_dec_def Let_def)

lemma count_ok_dec:
  assumes "count_ok r s" and "add_mset ip (tracked r' s') = tracked r s"
    and "s_max_per_ip s' = s_max_per_ip s" and "s_active s' = s_active s"
  shows "count_ok r' (active_dec ip s')"
proof -
  have same: "active_count s' = active_count s"
    using assms(4) by (simp add: active_count_def fun_eq_iff)
  have "tracked r' (active_dec ip s') = tracked r' s'" by (simp add: tracked_def)
  moreover have "count (tracked r s) ip' = count (tracked r' s') ip' + (if ip' = ip then 1 else 0)" for ip'
    by (simp add: assms(2) [symmetric])
  ultimately show ?thesis
    using assms(1,3) unfolding count_ok_def
    by (auto simp: active_dec_count same)
qed

lemma count_ok_incoming:
  assumes "count_ok r s"
  shows "count_ok r (incoming_connection ip port d s)"
proof (cases "ip = 0 \<or> active_count s ip < s_max_per_ip s")
  case False
  then have "tracked r (incoming_connection ip port d s) = tracked r s"
    "active_count (incoming_connection ip port d s) = active_count s"
    "s_max_per_ip (incoming_connection ip port d s) = s_max_per_ip s"
    by (auto simp: incoming_connection_def tracked_def active_count_def Let_def fun_eq_iff)
  with assms show ?thesis by (simp add: count_ok_def)
next
  case True
  then have "tracked r (incoming_connection ip port d s) = add_mset ip (tracked r s)"
    "active_count (incoming_connection ip port d s) ip' =
       active_count s ip' + (if ip' = ip \<and> ip \<noteq> 0 then 1 else 0)"
    "s_max_per_ip (incoming_connection ip port d s) = s_max_per_ip s" for ip'
    by (auto simp: incoming_connection_def tracked_def active_count_def dispatch_def Let_def)
  with assms True show ?thesis
    by (auto simp: count_ok_def)
qed

lemma shape_ok_incoming: "shape_ok s \<Longrightarrow> shape_ok (incoming_connection ip port d s)"
  by (auto simp: shape_ok_def incoming_connection_def dispatch_def Let_def
      intro!: mod_less_divisor intro: le_less_trans [OF le0])

lemma incoming_workers [simp]: "s_workers (incoming_connection ip port d s) = s_workers s"
  by (simp add: incoming_connection_def dispatch_def Let_def)

lemma w_upd_srv [simp]:
  "w_srv (upd_srv k f w) = (w_srv w)(k := f (w_srv w k))" "w_conns (upd_srv k f w) = w_conns w"
  "w_next_conn (upd_srv k f w) = w_next_conn w" "w_uuids (upd_srv k f w) = w_uuids w"
  "remotes (upd_srv k f w) = remotes w"
  by (simp_all add: upd_srv_def remotes_def [abs_def])

lemma pool_ok_upd_srv:
  assumes "pool_ok w" and "shape_ok (f (w_srv w k))" and "s_workers (f (w_srv w k)) = s_workers (w_srv w k)"
    and "count_ok (remotes w) (f (w_srv w k))"
  shows "pool_ok (upd_srv k f w)"
  using assms by (simp add: pool_ok_def owned_ok_def)

lemma tracked_take:
  assumes "p \<in> set (s_pending s)"
  shows "add_mset (pd_ip p) (tracked r (s\<lparr>s_pending := remove1 p (s_pending s)\<rparr>)) = tracked r s"
proof -
  have "mset (s_pending s) = add_mset p (mset (remove1 p (s_pending s)))" using assms by simp
  then show ?thesis by (simp add: tracked_def del: mset_remove1)
qed

lemma tracked_upgrade:
  assumes "u \<in> set (s_upgrading s)"
  shows "add_mset (snd u) (tracked r (s\<lparr>s_upgrading := remove1 u (s_upgrading s)\<rparr>)) = tracked r s"
proof -
  have "mset (s_upgrading s) = add_mset u (mset (remove1 u (s_upgrading s)))" using assms by simp
  then show ?thesis by (simp add: tracked_def del: mset_remove1)
qed

lemma shape_ok_sub:
  "shape_ok s \<Longrightarrow> set ps \<subseteq> set (s_pending s) \<Longrightarrow> shape_ok (s\<lparr>s_pending := ps\<rparr>)"
  "shape_ok s \<Longrightarrow> set us \<subseteq> set (s_upgrading s) \<Longrightarrow> shape_ok (s\<lparr>s_upgrading := us\<rparr>)"
  "shape_ok s \<Longrightarrow> shape_ok (active_dec ip s)"
  by (auto simp: shape_ok_def)

text \<open>A connection made of a socket the server already counts.\<close>

lemma pool_ok_spawn:
  assumes ok: "pool_ok w0" and fresh: "fresh_ok w0" and s: "s = w_srv w0 k"
    and f: "s_workers (f s) = s_workers s" "s_active (f s) = s_active s" "s_max_per_ip (f s) = s_max_per_ip s"
    and moved: "add_mset ip (tracked (remotes w0) (f s)) = tracked (remotes w0) s"
    and shape: "shape_ok (f s)" and n: "n < length (s_workers s)"
  shows "pool_ok (spawn_conn E k n t ip (upd_srv k f w0))"
proof -
  let ?i = "w_next_conn w0" and ?w = "spawn_conn E k n t ip (upd_srv k f w0)"
  have dead: "\<not> c_alive (w_conns w0 ?i)" using fresh by (auto simp: fresh_ok_def)
  then have absent: "?i \<notin> set (s_workers (w_srv w0 k') ! m)" if "m < length (s_workers (w_srv w0 k'))" for k' m
    using ok that by (auto simp: pool_ok_def owned_ok_def)
  then have absent': "?i \<notin> set (concat (s_workers (w_srv w0 k')))" for k'
    by (auto simp: in_set_conv_nth [of _ "s_workers (w_srv w0 k')"])
  have srv: "w_srv ?w = (w_srv w0)(k := worker_add n ?i (f s))"
    and conns: "w_conns ?w = (w_conns w0)(?i := new_conn E (k, n) t (e_uuid_rfc4122 E (e_uuid E (w_uuids w0))) ip)"
    by (simp_all add: spawn_conn_def Let_def s upd_srv_def)
  have remote: "remotes ?w j = (if j = ?i then ip else remotes w0 j)" for j
    by (simp add: remotes_def conns new_conn_def)
  have others: "image_mset (remotes ?w) (mset (concat (s_workers (w_srv w0 k')))) =
      image_mset (remotes w0) (mset (concat (s_workers (w_srv w0 k'))))" for k'
    using absent' [of k'] by (intro image_mset_cong) (auto simp: remote)
  have "shape_ok (w_srv ?w k')" for k'
  proof -
    have "distinct (concat ((s_workers s)[n := s_workers s ! n @ [?i]]))"
      using mset_worker_add [OF n, of ?i] absent' [of k] shape f(1)
      by (metis (no_types, lifting) distinct.simps(2) mset.simps(2) mset_eq_imp_distinct_iff s shape_ok_def)
    moreover have "shape_ok (w_srv w0 k')" using ok by (simp add: pool_ok_def)
    ultimately show ?thesis
      using shape f(1) by (simp add: srv shape_ok_def worker_add_def)
  qed
  moreover have "owned_ok ?w k'" for k'
    unfolding owned_ok_def
  proof (intro allI)
    fix i m
    have "owned_ok w0 k'" using ok by (simp add: pool_ok_def)
    then show "c_alive (w_conns ?w i) \<and> c_home (w_conns ?w i) = (k', m) \<longleftrightarrow>
        m < length (s_workers (w_srv ?w k')) \<and> i \<in> set (s_workers (w_srv ?w k') ! m)"
      using absent [of m k'] n f(1)
      by (cases "k' = k"; cases "m = n"; cases "i = ?i")
        (auto simp: srv conns worker_add_def new_conn_def owned_ok_def s)
  qed
  moreover have "count_ok (remotes ?w) (w_srv ?w k')" for k'
  proof (cases "k' = k")
    case True
    have "tracked (remotes ?w) (worker_add n ?i (f s)) = add_mset ip (tracked (remotes w0) (f s))"
      using mset_worker_add [OF n, of ?i] others [of k] f(1)
      by (simp add: tracked_def worker_add_def remote s del: mset_concat)
    with True ok f(2,3) moved s show ?thesis
      by (simp add: srv count_ok_def pool_ok_def active_count_def worker_add_def)
  next
    case False
    then show ?thesis
      using ok others [of k'] by (simp add: srv pool_ok_def count_ok_def tracked_def del: mset_concat)
  qed
  ultimately show ?thesis by (simp add: pool_ok_def)
qed

lemma pool_ok_handle_connection:
  assumes ok: "pool_ok w" and fresh: "fresh_ok w" and p: "p \<in> set (s_pending (w_srv w k))"
  shows "pool_ok (worker_handle_connection E k p accepted w)"
proof -
  let ?s = "w_srv w k"
  let ?f = "\<lambda>s. s\<lparr>s_pending := remove1 p (s_pending s)\<rparr>"
  have s: "shape_ok ?s" "count_ok (remotes w) ?s" using ok by (simp_all add: pool_ok_def)
  have shape: "shape_ok (?f ?s)" by (rule shape_ok_sub(1) [OF s(1) set_remove1_subset])
  have n: "pd_worker p < length (s_workers ?s)" using s(1) p by (auto simp: shape_ok_def)
  note take = tracked_take [OF p, of "remotes w"]
  let ?u = "\<lambda>s. s\<lparr>s_upgrading := s_upgrading s @ [(pd_worker p, pd_ip p)]\<rparr>"
  have "tracked (remotes w) (?u (?f ?s)) = tracked (remotes w) ?s"
    unfolding take [symmetric] by (simp add: tracked_def)
  then have "pool_ok (upd_srv k (\<lambda>s. ?u (?f s)) w)"
    using ok shape s(2) n
    by (intro pool_ok_upd_srv) (auto simp: shape_ok_def count_ok_def active_count_def)
  moreover have "pool_ok (upd_srv k (\<lambda>s. active_dec (pd_ip p) (?f s)) w)"
    using ok shape by (intro pool_ok_upd_srv count_ok_dec [OF s(2) take] shape_ok_sub(3)) simp_all
  moreover have "pool_ok (spawn_conn E k (pd_worker p) (Tcp True True) (pd_ip p) (upd_srv k ?f w))"
    by (rule pool_ok_spawn [where f = ?f, OF ok fresh refl _ _ _ take shape n]) simp_all
  ultimately show ?thesis
    by (simp add: worker_handle_connection_def Let_def upd_srv_def)
qed

lemma pool_ok_ws_connected:
  assumes ok: "pool_ok w" and fresh: "fresh_ok w" and u: "u \<in> set (s_upgrading (w_srv w k))"
  shows "pool_ok (worker_ws_connected E k u w)"
  unfolding worker_ws_connected_def
proof (rule pool_ok_spawn [where f = "\<lambda>s. s\<lparr>s_upgrading := remove1 u (s_upgrading s)\<rparr>",
      OF ok fresh refl _ _ _ tracked_upgrade [OF u]])
  have s: "shape_ok (w_srv w k)" using ok by (simp add: pool_ok_def)
  then show "shape_ok ((w_srv w k)\<lparr>s_upgrading := remove1 u (s_upgrading (w_srv w k))\<rparr>)"
    by (rule shape_ok_sub(2)) (rule set_remove1_subset)
  show "fst u < length (s_workers (w_srv w k))" using s u by (auto simp: shape_ok_def)
qed simp_all

lemma count_ok_less:
  assumes "count_ok r s" and "tracked r s' \<subseteq># tracked r s"
    and "s_max_per_ip s' = s_max_per_ip s" and "s_active s' = s_active s"
  shows "count_ok r s'"
proof -
  have "active_count s' = active_count s"
    using assms(4) by (simp add: active_count_def fun_eq_iff)
  moreover have "count (tracked r s') ip \<le> count (tracked r s) ip" for ip
    using assms(2) by (rule mset_subset_eq_count)
  ultimately show ?thesis
    using assms(1,3) unfolding count_ok_def by (metis of_nat_mono order_trans)
qed

lemma pool_ok_ws_dropped:
  assumes ok: "pool_ok w" and u: "u \<in> set (s_upgrading (w_srv w k))"
  shows "pool_ok (worker_ws_dropped k u w)"
  unfolding worker_ws_dropped_def
proof (rule pool_ok_upd_srv [OF ok])
  have s: "shape_ok (w_srv w k)" "count_ok (remotes w) (w_srv w k)" using ok by (simp_all add: pool_ok_def)
  show "shape_ok ((w_srv w k)\<lparr>s_upgrading := remove1 u (s_upgrading (w_srv w k))\<rparr>)"
    by (rule shape_ok_sub(2) [OF s(1) set_remove1_subset])
  show "count_ok (remotes w) ((w_srv w k)\<lparr>s_upgrading := remove1 u (s_upgrading (w_srv w k))\<rparr>)"
  proof (rule count_ok_less [OF s(2)])
    show "tracked (remotes w) ((w_srv w k)\<lparr>s_upgrading := remove1 u (s_upgrading (w_srv w k))\<rparr>) \<subseteq>#
        tracked (remotes w) (w_srv w k)"
      using tracked_upgrade [OF u, of "remotes w"] by (metis add_mset_add_single mset_subset_eq_add_left)
  qed simp_all
qed simp

lemma pool_ok_disconnected:
  assumes ok: "pool_ok w" and alive: "c_alive (w_conns w i)"
  shows "pool_ok (worker_disconnected i w)"
proof -
  obtain k n where home: "c_home (w_conns w i) = (k, n)" by force
  let ?s = "w_srv w k" and ?ip = "c_remote (w_conns w i)" and ?w = "worker_disconnected i w"
  have k: "shape_ok ?s" "owned_ok w k" "count_ok (remotes w) ?s" using ok by (simp_all add: pool_ok_def)
  have i: "n < length (s_workers ?s)" "i \<in> set (s_workers ?s ! n)"
    using k(2) alive home by (auto simp: owned_ok_def)
  have srv: "w_srv ?w = (w_srv w)(k := worker_remove n i (active_dec ?ip ?s))"
    and conns: "w_conns ?w = (w_conns w)(i := (w_conns w i)\<lparr>c_alive := False\<rparr>)"
    using i by (simp_all add: worker_disconnected_def home Let_def)
  have dist: "distinct (concat (s_workers ?s))" using k(1) by (simp add: shape_ok_def)
  have rem: "remotes ?w = remotes w" by (simp add: remotes_def [abs_def] conns fun_eq_iff)
  have "shape_ok (w_srv ?w k')" for k'
  proof -
    have "shape_ok (w_srv w k')" using ok by (simp add: pool_ok_def)
    then show ?thesis
      using k(1) dist concat_worker_remove [OF i(1) dist i(2)]
      by (simp add: srv shape_ok_def worker_remove_def distinct_removeAll)
  qed
  moreover have "owned_ok ?w k'" for k'
    unfolding owned_ok_def
  proof (intro allI)
    fix j m
    have "owned_ok w k'" using ok by (simp add: pool_ok_def)
    then have before: "c_alive (w_conns w j) \<and> c_home (w_conns w j) = (k', m) \<longleftrightarrow>
        m < length (s_workers (w_srv w k')) \<and> j \<in> set (s_workers (w_srv w k') ! m)"
      unfolding owned_ok_def by blast
    have "m < length (s_workers (w_srv ?w k')) \<and> j \<in> set (s_workers (w_srv ?w k') ! m) \<longleftrightarrow>
        (c_alive (w_conns w j) \<and> c_home (w_conns w j) = (k', m)) \<and> \<not> (k' = k \<and> m = n \<and> j = i)"
      unfolding before by (auto simp: srv worker_remove_def nth_list_update i(1))
    then show "c_alive (w_conns ?w j) \<and> c_home (w_conns ?w j) = (k', m) \<longleftrightarrow>
        m < length (s_workers (w_srv ?w k')) \<and> j \<in> set (s_workers (w_srv ?w k') ! m)"
      by (cases "j = i") (auto simp: conns home)
  qed
  moreover have "count_ok (remotes ?w) (w_srv ?w k')" for k'
  proof (cases "k' = k")
    case True
    have "add_mset ?ip (tracked (remotes w) (worker_remove n i ?s)) = tracked (remotes w) ?s"
      unfolding tracked_def worker_remove_def mset_worker_remove [OF i(1) dist i(2), symmetric]
      by (simp add: remotes_def)
    then have "count_ok (remotes w) (active_dec ?ip (worker_remove n i ?s))"
      by (rule count_ok_dec [OF k(3)]) (simp_all add: worker_remove_def)
    moreover have "worker_remove n i (active_dec ?ip ?s) = active_dec ?ip (worker_remove n i ?s)"
      by (simp add: worker_remove_def active_dec_def active_count_def Let_def)
    ultimately show ?thesis by (simp add: True srv rem)
  next
    case False
    then show ?thesis using ok by (simp add: srv rem pool_ok_def)
  qed
  ultimately show ?thesis by (simp add: pool_ok_def)
qed

lemma pool_ok_socket_disconnected:
  assumes ok: "pool_ok w" and alive: "c_alive (w_conns w i)"
  shows "pool_ok (on_socket_disconnected E i w)"
proof -
  define w1 where "w1 = (case c_account (w_conns w i) of None \<Rightarrow> w
      | Some a \<Rightarrow> on_connection_disconnected i (conn_nick w i) a w)"
  have same: "w_conns w1 = w_conns w" "w_srv w1 = w_srv w" "w_next_conn w1 = w_next_conn w"
    by (auto simp: w1_def on_connection_disconnected_def irc_nicks_remove_cache_def
        account_remove_cache_def Let_def split: option.split)
  then have "sockets w1 = sockets w" by (simp add: sockets_def)
  then have "pool_ok w1" using ok by (rule pool_ok_same)
  then have "pool_ok (worker_disconnected i w1)"
    by (rule pool_ok_disconnected) (simp add: same(1) alive)
  then show ?thesis by (simp add: on_socket_disconnected_def w1_def Let_def)
qed

section \<open>Every run\<close>

lemma pool_ok_step: "server_step w w' \<Longrightarrow> world_ok w \<Longrightarrow> pool_ok w \<Longrightarrow> pool_ok w'"
proof (induction rule: server_step.induct)
  case (peer w k ip port descriptor)
  then show ?case
    by (intro pool_ok_upd_srv) (simp_all add: pool_ok_def shape_ok_incoming count_ok_incoming)
next
  case (line w i E l w')
  then have "holds w (Inr w')" using holds_parse_incoming [of w i E l] by simp
  then have "sockets w' = sockets w" by (simp add: holds_def)
  then show ?case using line.prems(2) by (rule pool_ok_same)
next
  case (posted w w')
  have "keeps w (run_queue w)" by (rule keeps_run_queue)
  with posted have "st w' = st w" by (simp add: keeps_def)
  from sockets_st [OF this] show ?case using posted.prems(2) by (rule pool_ok_same)
next
  case (buffered w i b)
  have "remotes (upd_conn i (\<lambda>c. c\<lparr>c_buffer := b\<rparr>) w) = remotes w"
    by (simp add: remotes_def fun_eq_iff)
  with buffered show ?case by (simp add: pool_ok_def owned_ok_def)
qed (simp_all add: world_ok_def pool_ok_handle_connection pool_ok_ws_connected pool_ok_ws_dropped
      pool_ok_socket_disconnected)

lemma pool_ok_booted:
  assumes "booted w"
  shows "pool_ok w"
proof -
  have "shape_ok (w_srv w k) \<and> owned_ok w k \<and> count_ok (remotes w) (w_srv w k)" for k
  proof -
    obtain n limit where "0 < n" "new_server n limit = Inr (w_srv w k)"
      using assms unfolding booted_def by blast
    then have s: "w_srv w k = \<lparr>s_thread_count = n, s_max_per_ip = limit, s_active = Map.empty,
        s_next_worker = 0, s_workers = replicate n [], s_pending = [], s_upgrading = []\<rparr>" "0 < n"
      by (auto simp: new_server_def split: if_splits)
    have "concat (replicate n []) = []" by (induction n) simp_all
    with s assms show ?thesis
      by (auto simp: shape_ok_def owned_ok_def count_ok_def booted_def tracked_def active_count_def)
  qed
  then show ?thesis by (simp add: pool_ok_def)
qed

lemma reachable_pool_ok: "reachable w \<Longrightarrow> pool_ok w"
  by (induction rule: reachable.induct)
    (auto intro: pool_ok_booted pool_ok_step reachable_world_ok)

text \<open>The connections of one address on one server.\<close>

definition peers_of :: "world \<Rightarrow> server_kind \<Rightarrow> 32 word \<Rightarrow> conn_id set" where
  "peers_of w k ip = {i. c_alive (w_conns w i) \<and> fst (c_home (w_conns w i)) = k \<and> c_remote (w_conns w i) = ip}"

lemma card_peers_of:
  assumes ok: "pool_ok w"
  shows "card (peers_of w k ip) \<le> count (tracked (remotes w) (w_srv w k)) ip"
proof -
  let ?is = "concat (s_workers (w_srv w k))"
  have k: "shape_ok (w_srv w k)" "owned_ok w k" using ok by (simp_all add: pool_ok_def)
  have "peers_of w k ip \<subseteq> set (filter (\<lambda>i. remotes w i = ip) ?is)"
  proof
    fix i
    assume i: "i \<in> peers_of w k ip"
    then obtain n where "c_home (w_conns w i) = (k, n)" by (cases "c_home (w_conns w i)") (auto simp: peers_of_def)
    with i k(2) have "n < length (s_workers (w_srv w k)) \<and> i \<in> set (s_workers (w_srv w k) ! n)"
      by (auto simp: owned_ok_def peers_of_def)
    then have "i \<in> set ?is" by (auto intro: nth_mem)
    with i show "i \<in> set (filter (\<lambda>i. remotes w i = ip) ?is)" by (simp add: peers_of_def remotes_def)
  qed
  then have "card (peers_of w k ip) \<le> card (set (filter (\<lambda>i. remotes w i = ip) ?is))"
    by (intro card_mono) simp_all
  also have "\<dots> \<le> length (filter (\<lambda>i. remotes w i = ip) ?is)" by (rule card_length)
  also have "\<dots> = count (image_mset (remotes w) (mset ?is)) ip"
    by (simp only: mset_map [symmetric] count_mset count_list_eq_length_filter filter_map length_map)
      (simp add: comp_def eq_commute [of ip])
  also have "\<dots> \<le> count (tracked (remotes w) (w_srv w k)) ip" by (simp add: tracked_def)
  finally show ?thesis .
qed

text \<open>
  C13: In every reachable state a server has at most as many live connections from one (known)
  peer address as its limit allows.
\<close>

theorem peer_limit:
  assumes "reachable w" and "ip \<noteq> 0"
  shows "int (card (peers_of w k ip)) \<le> max 0 (s_max_per_ip (w_srv w k))"
proof -
  have ok: "pool_ok w" using assms(1) by (rule reachable_pool_ok)
  have "int (card (peers_of w k ip)) \<le> int (count (tracked (remotes w) (w_srv w k)) ip)"
    using card_peers_of [OF ok] by simp
  also have "\<dots> \<le> max 0 (s_max_per_ip (w_srv w k))"
    using ok assms(2) unfolding pool_ok_def count_ok_def by (meson order_trans)
  finally show ?thesis .
qed

lemma first_client_limit: "s_max_per_ip (w_srv first_client IrcServer) = 10"
  by (simp add: first_client_defs worker_add_def)

theorem peer_limit_witness: "int (card (peers_of first_client IrcServer 7)) \<le> 10"
  using peer_limit [OF reachable_first_client, of 7 IrcServer] by (simp add: first_client_limit)

text \<open>
  when a live connection of a reachable state ends, its server counts one connection less
  from that address, and the other addresses as before.
\<close>

theorem disconnect_uncounts:
  assumes "reachable w" and "c_alive (w_conns w i)" and "c_remote (w_conns w i) \<noteq> 0"
    and "fst (c_home (w_conns w i)) = k"
  shows "active_count (w_srv (on_socket_disconnected E i w) k) ip =
    active_count (w_srv w k) ip - (if ip = c_remote (w_conns w i) then 1 else 0)"
proof -
  have ok: "pool_ok w" using assms(1) by (rule reachable_pool_ok)
  let ?ip = "c_remote (w_conns w i)"
  have "i \<in> peers_of w k ?ip" using assms by (simp add: peers_of_def)
  moreover have "fresh_ok w" using reachable_world_ok [OF assms(1)] by (simp add: world_ok_def)
  then have "peers_of w k ?ip \<subseteq> {..<w_next_conn w}"
    unfolding peers_of_def fresh_ok_def by blast
  then have "finite (peers_of w k ?ip)" by (rule finite_subset) simp
  ultimately have "0 < card (peers_of w k ?ip)" by (auto simp: card_gt_0_iff)
  then have "0 < int (count (tracked (remotes w) (w_srv w k)) ?ip)"
    using card_peers_of [OF ok, of k ?ip] by linarith
  then have pos: "0 < active_count (w_srv w k) ?ip"
    using ok assms(3) unfolding pool_ok_def count_ok_def by (meson order_less_le_trans)
  obtain n where home: "c_home (w_conns w i) = (k, n)" using assms(4) by (cases "c_home (w_conns w i)") auto
  define w1 where "w1 = (case c_account (w_conns w i) of None \<Rightarrow> w
      | Some a \<Rightarrow> on_connection_disconnected i (conn_nick w i) a w)"
  have same: "w_conns w1 = w_conns w" "w_srv w1 = w_srv w"
    by (auto simp: w1_def on_connection_disconnected_def irc_nicks_remove_cache_def
        account_remove_cache_def Let_def split: option.split)
  have "w_srv (on_socket_disconnected E i w) k = worker_remove n i (active_dec ?ip (w_srv w k))"
    by (simp add: on_socket_disconnected_def Let_def w1_def [symmetric] worker_disconnected_def same home)
  moreover have "active_count (worker_remove n i s) = active_count s" for s
    by (simp add: worker_remove_def active_count_def fun_eq_iff)
  ultimately show ?thesis using pos by (simp add: active_dec_count)
qed

theorem disconnect_uncounts_witness:
  "active_count (w_srv (on_socket_disconnected sample_env 0 first_client) IrcServer) 7 = 0"
proof -
  have c: "c_remote (w_conns first_client 0) = 7" "fst (c_home (w_conns first_client 0)) = IrcServer"
    by (simp_all add: first_client_conn new_conn_def)
  have "active_count (w_srv first_client IrcServer) 7 = 1"
    by (simp add: first_client_defs worker_add_def)
  then show ?thesis
    using disconnect_uncounts [OF reachable_first_client first_client_alive _ c(2), of sample_env 7]
    by (simp add: c(1))
qed

section \<open>Web-socket handshakes that fail\<close>

text \<open>A peer that connects to the web-socket port and is dropped in its handshake.\<close>

definition failed_handshake :: "env \<Rightarrow> server_kind \<Rightarrow> 32 word \<Rightarrow> int \<Rightarrow> world \<Rightarrow> world" where
  "failed_handshake E k ip d w =
     (let n = s_next_worker (w_srv w k);
          p = \<lparr>pd_worker = n, pd_descriptor = d, pd_ip = ip, pd_port = e_ws_port E\<rparr>
      in worker_ws_dropped k (n, ip)
           (worker_handle_connection E k p True
             (upd_srv k (incoming_connection ip (e_ws_port E) d) w)))"

lemma failed_handshake_counts:
  assumes "ip \<noteq> 0" and "active_count (w_srv w k) ip < s_max_per_ip (w_srv w k)"
  shows "active_count (w_srv (failed_handshake E k ip d w) k) ip = active_count (w_srv w k) ip + 1"
    "s_max_per_ip (w_srv (failed_handshake E k ip d w) k) = s_max_per_ip (w_srv w k)"
    "tracked r (w_srv (failed_handshake E k ip d w) k) = tracked r (w_srv w k)"
proof -
  let ?s = "w_srv w k"
  let ?n = "s_next_worker ?s"
  let ?p = "\<lparr>pd_worker = ?n, pd_descriptor = d, pd_ip = ip, pd_port = e_ws_port E\<rparr>"
  have s: "w_srv (failed_handshake E k ip d w) k =
      ?s\<lparr>s_active := (s_active ?s)(ip \<mapsto> active_count ?s ip + 1),
         s_next_worker := (?n + 1) mod s_thread_count ?s,
         s_pending := remove1 ?p (s_pending ?s @ [?p]),
         s_upgrading := remove1 (?n, ip) (s_upgrading ?s @ [(?n, ip)])\<rparr>"
    using assms
    by (simp add: failed_handshake_def worker_ws_dropped_def worker_handle_connection_def
        incoming_connection_def dispatch_def active_count_def Let_def)
  show "active_count (w_srv (failed_handshake E k ip d w) k) ip = active_count ?s ip + 1"
    "s_max_per_ip (w_srv (failed_handshake E k ip d w) k) = s_max_per_ip ?s"
    by (simp_all add: s active_count_def)
  show "tracked r (w_srv (failed_handshake E k ip d w) k) = tracked r ?s"
    by (simp only: s tracked_def server.simps server.select_convs server.update_convs mset_remove1 mset_append)
      simp
qed

lemma failed_handshakes:
  assumes ip: "ip \<noteq> 0" and idle: "active_count (w_srv w k) ip = 0"
    and "int n \<le> s_max_per_ip (w_srv w k)"
  shows "active_count (w_srv ((failed_handshake E k ip d ^^ n) w) k) ip = int n \<and>
    s_max_per_ip (w_srv ((failed_handshake E k ip d ^^ n) w) k) = s_max_per_ip (w_srv w k) \<and>
    tracked r (w_srv ((failed_handshake E k ip d ^^ n) w) k) = tracked r (w_srv w k)"
  using assms(3)
proof (induction n)
  case 0
  then show ?case using idle by simp
next
  case (Suc n)
  then show ?case
    using failed_handshake_counts [OF ip, of "(failed_handshake E k ip d ^^ n) w" k] by simp
qed

text \<open>
  The counter is not decremented when a web-socket handshake fails: after as many failed
  handshakes as the limit allows, the server serves nobody more from that address than before,
  and refuses its next connection.
\<close>

theorem failed_handshakes_lock_out:
  assumes "ip \<noteq> 0" and "active_count (w_srv w k) ip = 0"
    and "int n = s_max_per_ip (w_srv w k)" and "w' = (failed_handshake E k ip d ^^ n) w"
  shows "tracked r (w_srv w' k) = tracked r (w_srv w k) \<and>
    s_pending (incoming_connection ip port d' (w_srv w' k)) = s_pending (w_srv w' k)"
  using failed_handshakes [OF assms(1,2), of n E d r] assms(1,3,4)
  by (simp add: incoming_connection_def active_count_def Let_def)

theorem failed_handshakes_lock_out_witness:
  "s_pending (incoming_connection 7 6667 3
     (w_srv ((failed_handshake sample_env WsServer 7 3 ^^ 10) initial_world) WsServer)) =
   s_pending (w_srv ((failed_handshake sample_env WsServer 7 3 ^^ 10) initial_world) WsServer)"
proof -
  have "active_count (w_srv initial_world WsServer) 7 = 0" "int 10 = s_max_per_ip (w_srv initial_world WsServer)"
    by (simp_all add: initial_world_def pool_server_def active_count_def)
  from failed_handshakes_lock_out [OF _ this refl] show ?thesis by simp
qed

section \<open>The workers share the sockets\<close>

lemma dispatched:
  "map pd_worker (s_pending (fold (\<lambda>(ip, port, d). dispatch ip port d) xs s)) =
     map pd_worker (s_pending s) @ workers.takers xs s"
  by (induction xs arbitrary: s) (auto simp: dispatch_def)

text \<open>
  The sockets a server accepts go round its workers: of \<open>m\<close> times as many sockets as there
  are workers, every worker is posted exactly \<open>m\<close>.
\<close>

theorem sockets_spread_evenly:
  assumes "reachable w" and "n = s_thread_count (w_srv w k)" and "length xs = m * n" and "i < n"
    and "s' = fold (\<lambda>(ip, port, d). dispatch ip port d) xs (w_srv w k)"
  shows "count_list (drop (length (s_pending (w_srv w k))) (map pd_worker (s_pending s'))) i = m"
proof -
  have "shape_ok (w_srv w k)" using reachable_pool_ok [OF assms(1)] by (simp add: pool_ok_def)
  then have "count (mset (workers.takers xs (w_srv w k))) i = m"
    using assms(2-4) by (intro workers.takers_rounds) (simp_all add: shape_ok_def)
  then show ?thesis by (simp add: assms(5) dispatched count_mset)
qed

theorem sockets_spread_evenly_witness:
  "count_list (map pd_worker (s_pending (fold (\<lambda>(ip, port, d). dispatch ip port d)
     [(1, 6667, 1), (2, 6667, 2), (3, 6667, 3), (4, 6667, 4)] (w_srv initial_world IrcServer)))) 2 = 1"
proof -
  have s: "s_thread_count (w_srv initial_world IrcServer) = 4" "s_pending (w_srv initial_world IrcServer) = []"
    by (simp_all add: initial_world_def pool_server_def)
  show ?thesis
    using sockets_spread_evenly [OF reachable.start [OF booted_initial], of 4 IrcServer
        "[(1, 6667, 1), (2, 6667, 2), (3, 6667, 3), (4, 6667, 4)]" 1 2, OF _ _ _ refl]
    by (simp add: s)
qed

end
