(* ===== verification/Messaging.thy ===== *)
theory Messaging
  imports Lifecycle
begin

text \<open>
  Who receives a message: a PRIVMSG to a channel reaches every connection of every member, a
  PRIVMSG to a nick the connections of its account, the sender's own connections only when they
  asked for echoes, and nobody else.
\<close>

section \<open>The copy a connection gets\<close>

definition message_copy :: "message_ev \<Rightarrow> bytes \<Rightarrow> conn_id \<Rightarrow> world \<Rightarrow> bytes list" where
  "message_copy ev target i w =
     (case message_prefix ev i w of
        None \<Rightarrow> []
      | Some prefix \<Rightarrow>
          if can_write (w_conns w i) then
            [message_line ev (build_message_tags (me_tags ev)
               (Some (a_name (w_accs w (me_account ev)))) (c_caps (w_conns w i))) prefix target]
          else [])"

lemma same_frame_prefix: "frame w' = frame w \<Longrightarrow> conn_prefix w' i = conn_prefix w i"
  using same_frame_nick [of w' w i] same_core [OF same_frame(15) [of w' w i]]
  by (simp add: conn_prefix_def)

lemma same_frame_can_write: "frame w' = frame w \<Longrightarrow> can_write (w_conns w' i) = can_write (w_conns w i)"
  using same_core [OF same_frame(15) [of w' w i]] by (simp add: can_write_def)

lemma message_copy_frame:
  assumes "frame w' = frame w"
  shows "message_copy ev target i w' = message_copy ev target i w"
    and "message_target ev w' = message_target ev w"
proof -
  have "message_prefix ev i w' = message_prefix ev i w"
    using same_core [OF same_frame(15) [OF assms, of i]] same_frame(1) [OF assms]
      same_frame_prefix [OF assms]
    by (simp add: message_prefix_def Let_def)
  then show "message_copy ev target i w' = message_copy ev target i w"
    using same_core(2) [OF same_frame(15) [OF assms, of i]] same_frame(1) [OF assms]
      same_frame_can_write [OF assms]
    by (auto simp: message_copy_def split: option.split)
  show "message_target ev w' = message_target ev w"
    using same_frame(1,2) [OF assms] by (simp add: message_target_def split: option.split)
qed

lemma conn_message_effect:
  assumes "message_target ev w = Inr target"
  shows "\<exists>w'. conn_message ev i w = Inr w' \<and> frame w' = frame w \<and>
    (\<forall>j. c_out (w_conns w' j) = c_out (w_conns w j) @ (if j = i then message_copy ev target i w else []))"
  using assms by (auto simp: conn_message_def message_copy_def Let_def split: option.split)

lemma deliver_message:
  assumes "message_target ev w = Inr target" and "\<forall>i \<in> set is. c_alive (w_conns w i)"
  shows "\<exists>w'. deliver_all (conn_message ev) is w = Inr w' \<and> frame w' = frame w \<and>
    (\<forall>j. c_out (w_conns w' j) =
       c_out (w_conns w j) @ concat (replicate (count_list is j) (message_copy ev target j w)))"
  using assms
proof (induction "is" arbitrary: w)
  case (Cons i js)
  obtain w1 where w1: "conn_message ev i w = Inr w1" "frame w1 = frame w"
    "\<And>j. c_out (w_conns w1 j) = c_out (w_conns w j) @ (if j = i then message_copy ev target i w else [])"
    using conn_message_effect [OF Cons.prems(1), of i] by blast
  have alive: "\<forall>j \<in> set js. c_alive (w_conns w1 j)"
    using Cons.prems(2) same_core(21) [OF same_frame(15) [OF w1(2)]] by simp
  obtain w2 where w2: "deliver_all (conn_message ev) js w1 = Inr w2" "frame w2 = frame w1"
    "\<And>j. c_out (w_conns w2 j) =
       c_out (w_conns w1 j) @ concat (replicate (count_list js j) (message_copy ev target j w1))"
    using Cons.IH [of w1] Cons.prems(1) alive message_copy_frame(2) [OF w1(2), of ev] by auto
  have "deliver_all (conn_message ev) (i # js) w = Inr w2"
    using Cons.prems(2) w1(1) w2(1) by (simp add: deliver_all_Cons)
  moreover have "c_out (w_conns w2 j) = c_out (w_conns w j) @
      concat (replicate (count_list (i # js) j) (message_copy ev target j w))" for j
    using w2(3) [of j] w1(3) [of j] message_copy_frame(1) [OF w1(2), of ev target j] by simp
  ultimately show ?case using w1(2) w2(2) by metis
qed simp

lemma copies:
  "concat (replicate n [l]) = replicate n l" "concat (replicate n []) = []"
  by (induction n) simp_all

text \<open>A message to a channel: one row for the database, one copy for each listed connection.\<close>

lemma channel_message_effect:
  assumes "links_ok w" and "message_hook E ev = Some ev'" and "me_channel ev' = Some x"
  shows "\<exists>w'. channel_message E ev x w = Inr w' \<and>
    frame w' = frame (db_insert_message E ev' w) \<and>
    (\<forall>j. c_out (w_conns w' j) = c_out (w_conns w j) @
       concat (replicate (count_list (member_conns x w) j)
         (message_copy ev' (''#'' @ ch_name (w_chans w x)) j w)))"
proof -
  let ?w = "db_insert_message E ev' w" and ?target = "''#'' @ ch_name (w_chans w x)"
  have w: "w_conns ?w = w_conns w" "w_accs ?w = w_accs w" "w_chans ?w = w_chans w"
    by (simp_all add: db_insert_message_def)
  have mc: "member_conns x ?w = member_conns x w" by (simp add: member_conns_def w)
  have copy: "message_copy ev' t j ?w = message_copy ev' t j w" for t j
    by (simp add: message_copy_def message_prefix_def conn_prefix_def conn_nick_def w Let_def
        cong: option.case_cong)
  have "message_target ev' ?w = Inr ?target" using assms(3) by (simp add: message_target_def w)
  then show ?thesis
    using deliver_message [of ev' ?w ?target "member_conns x ?w"] member_conns_alive [OF assms(1)]
    by (simp add: channel_message_def assms(2) mc copy w)
qed

text \<open>A private message: the connections of the addressee, then those of the sender.\<close>

lemma account_message_effect:
  assumes "links_ok w" and "\<not> has_event_handler E (message_event_type PRIVATE_MSG ev)"
    and "me_dest ev = Some d" and "me_channel ev = None"
  shows "\<exists>w'. account_message E ev a w = Inr w' \<and> frame w' = frame w \<and>
    (\<forall>j. c_out (w_conns w' j) = c_out (w_conns w j) @
       concat (replicate (count_list (a_connections (w_accs w d)) j + count_list (a_connections (w_accs w a)) j)
         (message_copy ev (account_nick (w_accs w d)) j w)))"
proof -
  let ?target = "account_nick (w_accs w d)"
  have target: "message_target ev w = Inr ?target" using assms(3,4) by (simp add: message_target_def)
  have alive: "\<forall>i \<in> set (a_connections (w_accs w b)). c_alive (w_conns w i)" for b
    using assms(1) links_alive by blast
  obtain w1 where w1: "deliver_all (conn_message ev) (a_connections (w_accs w d)) w = Inr w1" "frame w1 = frame w"
    "\<And>j. c_out (w_conns w1 j) = c_out (w_conns w j) @
       concat (replicate (count_list (a_connections (w_accs w d)) j) (message_copy ev ?target j w))"
    using deliver_message [OF target alive [of d]] by blast
  have "\<forall>i \<in> set (a_connections (w_accs w a)). c_alive (w_conns w1 i)"
    using alive [of a] same_core(21) [OF same_frame(15) [OF w1(2)]] by simp
  then obtain w2 where w2: "deliver_all (conn_message ev) (a_connections (w_accs w a)) w1 = Inr w2" "frame w2 = frame w1"
    "\<And>j. c_out (w_conns w2 j) = c_out (w_conns w1 j) @
       concat (replicate (count_list (a_connections (w_accs w a)) j) (message_copy ev ?target j w1))"
    using deliver_message [of ev w1 ?target "a_connections (w_accs w a)"] target
      message_copy_frame(2) [OF w1(2), of ev] by auto
  have "account_message E ev a w = Inr w2"
    using w1(1) w2(1) same_frame(1) [OF w1(2)] by (simp add: account_message_def assms(2,3))
  moreover have "c_out (w_conns w2 j) = c_out (w_conns w j) @
      concat (replicate (count_list (a_connections (w_accs w d)) j + count_list (a_connections (w_accs w a)) j)
         (message_copy ev ?target j w))" for j
    using w2(3) [of j] w1(3) [of j] message_copy_frame(1) [OF w1(2), of ev ?target j]
    by (simp add: replicate_add)
  ultimately show ?thesis using w1(2) w2(2) by metis
qed

section \<open>PRIVMSG from the line\<close>

lemma parse_plain:
  assumes "\<not> has_event_handler E RAW_MSG" and "\<not> starts_with l ''@''" and "trimmed l = l"
    and "split_irc l = cmd # args"
  shows "parse_incoming E i l w = bind_res (run_command E i [] cmd args w)
    (\<lambda>r. case r of None \<Rightarrow> Inr w | Some w1 \<Rightarrow> Inr (touch_activity E i w1))"
  using assms by (simp add: parse_incoming_def raw_hook_def strip_tags_def)

lemma split_privmsg:
  assumes "SP \<notin> set target" and "target \<noteq> []" and "txt \<noteq> []" and "\<not> is_space (last txt)"
  shows "split_irc (''PRIVMSG '' @ target @ '' :'' @ txt) = [''PRIVMSG'', target, txt]"
    and "trimmed (''PRIVMSG '' @ target @ '' :'' @ txt) = ''PRIVMSG '' @ target @ '' :'' @ txt"
proof -
  have "split_irc (''PRIVMSG'' @ '' '' @ qjoin '' '' [target] @ '' :'' @ txt) =
      ''PRIVMSG'' # [target] @ [txt]"
    using assms by (intro split_irc_wire) auto
  then show "split_irc (''PRIVMSG '' @ target @ '' :'' @ txt) = [''PRIVMSG'', target, txt]" by simp
  show "trimmed (''PRIVMSG '' @ target @ '' :'' @ txt) = ''PRIVMSG '' @ target @ '' :'' @ txt"
    using assms by (intro trimmed_id) (simp_all add: is_space_def)
qed

lemma privmsg_line:
  assumes "\<not> has_event_handler E RAW_MSG" and "c_ready (w_conns w i)" and "c_account (w_conns w i) = Some a"
    and "SP \<notin> set target" and "target \<noteq> []" and "txt \<noteq> []" and "\<not> is_space (last txt)"
  shows "parse_incoming E i (''PRIVMSG '' @ target @ '' :'' @ txt) w =
    bind_res (send_message E i a target
        (new_message (w_conns w i) a (conn_nick w i) txt [target, txt] [] False) w)
      (\<lambda>w1. Inr (touch_activity E i w1))"
proof -
  have "run_command E i [] ''PRIVMSG'' [target, txt] w =
      bind_res (handle_privmsg E i [] [target, txt] w) (\<lambda>w. Inr (Some w))"
    using assms(2) by (simp add: run_command_def)
  then show ?thesis
    using assms(3) parse_plain [OF assms(1) _ split_privmsg(2,1) [OF assms(4-7)], of i w]
    by (simp add: handle_privmsg_def bind_res_def split: sum.split)
qed

lemma channel_send:
  assumes "channel_get name w = Some x"
  shows "send_message E i a (''#'' @ name) msg w = channel_message E (msg\<lparr>me_channel := Some x\<rparr>) x w"
  using assms by (simp add: send_message_def)


text \<open>
  The sender's own connections get a copy of a channel message only with the capability
  echo-message, or with znc.in/self-message on a connection other than the one that sent it.
\<close>

theorem no_unwanted_echo:
  assumes "links_ok w" and "message_hook E ev = Some ev'" and "me_channel ev' = Some x"
    and "c_account (w_conns w j) = Some (me_account ev')"
    and "\<not> flags_has cap_val ECHO_MESSAGE (c_caps (w_conns w j))"
    and "flags_has cap_val ZNC_SELF_MESSAGE (c_caps (w_conns w j)) \<longrightarrow> c_uid (w_conns w j) = me_conn_id ev'"
  shows "\<exists>w'. channel_message E ev x w = Inr w' \<and> c_out (w_conns w' j) = c_out (w_conns w j)"
proof -
  have "message_copy ev' t j w = []" for t
    using assms(4-6) by (simp add: message_copy_def message_prefix_def Let_def)
  then show ?thesis
    using channel_message_effect [OF assms(1-3)]
    by (auto simp: copies)
qed


lemma links_chat_world: "links_ok chat_world"
  by (auto simp: links_ok_def chat_world_def person_def new_account_def client_def new_conn_def
      initial_world_def)

lemma chat_world_facts:
  "c_ready (w_conns chat_world 0)" "c_account (w_conns chat_world 0) = Some 0"
  "c_account (w_conns chat_world 1) = Some 1" "channel_get ''x'' chat_world = Some 0"
  "member_conns 0 chat_world = [0, 1]" "c_caps (w_conns chat_world i) = 0"
  "can_write (w_conns chat_world 1)" "account_prefix [] (w_accs chat_world 0) = ''alice!user@host''"
  "ch_name (w_chans chat_world 0) = ''x''" "c_out (w_conns chat_world i) = []"
  by (simp_all add: chat_world_def initial_world_def client_def person_def new_account_def new_conn_def
      new_channel_def channel_get_def member_conns_def can_write_def account_prefix_def sample_env_def
      dead_conn_def)

lemma sample_no_handler: "\<not> has_event_handler sample_env ev"
  by (simp add: sample_env_def has_event_handler_def events.not_has_empty flags_empty_def)


theorem no_unwanted_echo_witness:
  "\<exists>w'. channel_message sample_env
      ((new_message (w_conns chat_world 0) 0 ''alice'' ''hi'' [] [] False)\<lparr>me_channel := Some 0\<rparr>) 0 chat_world = Inr w' \<and>
    c_out (w_conns w' 0) = []"
  using no_unwanted_echo [OF links_chat_world, of sample_env
      "(new_message (w_conns chat_world 0) 0 ''alice'' ''hi'' [] [] False)\<lparr>me_channel := Some 0\<rparr>" _ 0 0]
  by (simp add: chat_world_facts message_hook_def Let_def sample_no_handler new_message_def flags_has_def)

text \<open>
  C29: A ready client's PRIVMSG to a nick of the nick table, when no Python module handles raw
  lines or private messages, reaches every connection of the account the nick leads to, which
  gets the line addressed to that account's nick; a third party's connection gets nothing.
\<close>

theorem privmsg_to_nick:
  assumes "links_ok w" and "c_ready (w_conns w i)" and "c_account (w_conns w i) = Some a"
    and "\<not> has_event_handler E RAW_MSG" and "\<not> has_event_handler E PRIVATE_MSG"
    and "irc_nick_get nick w = Some d" and "SP \<notin> set nick" and "nick \<noteq> []" and "\<not> starts_with nick ''#''"
    and "txt \<noteq> []" and "\<not> is_space (last txt)" and "c_account (w_conns w j) \<noteq> Some a"
  shows "\<exists>w'. parse_incoming E i (''PRIVMSG '' @ nick @ '' :'' @ txt) w = Inr w' \<and>
    c_out (w_conns w' j) = c_out (w_conns w j) @
      (if can_write (w_conns w j) then
         replicate (count_list (a_connections (w_accs w d)) j)
           (build_message_tags [] (Some (a_name (w_accs w a))) (c_caps (w_conns w j)) @ '':'' @
            account_prefix [] (w_accs w a) @ '' PRIVMSG '' @ account_nick (w_accs w d) @ '' :'' @ txt @ crlf)
       else [])"
proof -
  define ev where "ev = (new_message (w_conns w i) a (conn_nick w i) txt [nick, txt] [] False)
    \<lparr>me_dest := Some d\<rparr>"
  have send: "send_message E i a nick (new_message (w_conns w i) a (conn_nick w i) txt [nick, txt] [] False) w =
      account_message E ev a w"
    using assms(6,9) by (simp add: send_message_def ev_def)
  have "\<exists>w1. account_message E ev a w = Inr w1 \<and> frame w1 = frame w \<and>
    (\<forall>j. c_out (w_conns w1 j) = c_out (w_conns w j) @
       concat (replicate (count_list (a_connections (w_accs w d)) j + count_list (a_connections (w_accs w a)) j)
         (message_copy ev (account_nick (w_accs w d)) j w)))"
    using assms(5) by (intro account_message_effect [OF assms(1)])
      (simp_all add: ev_def new_message_def message_event_type_def)
  then obtain w1 where w1: "account_message E ev a w = Inr w1"
    "c_out (w_conns w1 j) = c_out (w_conns w j) @
       concat (replicate (count_list (a_connections (w_accs w d)) j + count_list (a_connections (w_accs w a)) j)
         (message_copy ev (account_nick (w_accs w d)) j w))"
    by blast
  have "parse_incoming E i (''PRIVMSG '' @ nick @ '' :'' @ txt) w = Inr (touch_activity E i w1)"
    using assms(7,8,10,11) w1(1)
    by (subst privmsg_line [OF assms(4,2,3)]) (simp_all add: send)
  moreover have "count_list (a_connections (w_accs w a)) j = 0"
    using assms(1,12) by (auto simp: count_list_0_iff links_ok_def)
  moreover have "message_copy ev (account_nick (w_accs w d)) j w =
      (if can_write (w_conns w j) then
         [build_message_tags [] (Some (a_name (w_accs w a))) (c_caps (w_conns w j)) @ '':'' @
          account_prefix [] (w_accs w a) @ '' PRIVMSG '' @ account_nick (w_accs w d) @ '' :'' @ txt @ crlf]
       else [])"
    using assms(12)
    by (simp add: message_copy_def message_prefix_def message_line_def ev_def new_message_def eq_commute)
  ultimately show ?thesis using w1(2) by (auto simp: touch_activity_def copies)
qed

theorem privmsg_to_nick_witness:
  "\<exists>w'. parse_incoming sample_env 0 ''PRIVMSG bob :hi'' chat_world = Inr w' \<and>
    c_out (w_conns w' 1) = ['':alice!user@host PRIVMSG bob :hi'' @ crlf]"
proof -
  have one: "replicate 1 l = [l]" for l :: bytes by simp
  have bob: "irc_nick_get ''bob'' chat_world = Some 1" "a_connections (w_accs chat_world 1) = [1]"
    "account_nick (w_accs chat_world 1) = ''bob''"
    by (simp_all add: irc_nick_get_def chat_world_def person_def account_nick_def)
  show ?thesis
    using privmsg_to_nick [OF links_chat_world chat_world_facts(1,2) sample_no_handler sample_no_handler
        bob(1), of "''hi''" 1]
    by (simp add: chat_world_facts bob is_space_def build_message_tags_def flags_has_def one del: One_nat_def)
qed

end
