(* ===== verification/Nicks.thy ===== *)
theory Nicks
  imports Messaging
begin

text \<open>
  Nicknames: what a change of nick checks, updates and announces, and two defects of the table
  of nicks: a registration is refused by the lower-cased nick but entered under the nick as it
  was written, and a refused registration leaves a connection on which a further NICK follows
  a null pointer.
\<close>

section \<open>Changing the nick of an account\<close>

text \<open>The members of the channels in a table, with the account itself.\<close>

definition channel_mates :: "acc_id \<Rightarrow> (bytes \<times> chan_id option) list \<Rightarrow> world \<Rightarrow> acc_id set" where
  "channel_mates self cs w = {self} \<union> (\<Union>(n, p) \<in> set cs. case p of None \<Rightarrow> {} | Some x \<Rightarrow> set (ch_members (w_chans w x)))"

lemma set_fold_insert: "set (fold List.insert xs l) = set l \<union> set xs"
  by (induction xs arbitrary: l) auto

lemma distinct_fold_insert: "distinct l \<Longrightarrow> distinct (fold List.insert xs l)"
  by (induction xs arbitrary: l) auto

lemma notify_step:
  assumes "\<forall>(n, p) \<in> set cs. p \<noteq> None" and "distinct l"
  shows "\<exists>l'. fold_res (\<lambda>(_, channel) l. bind_res (deref_opt channel) (\<lambda>x.
      Inr (fold List.insert (ch_members (w_chans w x)) l))) cs l = Inr l' \<and> distinct l' \<and>
    set l' = set l \<union> (\<Union>(n, p) \<in> set cs. case p of None \<Rightarrow> {} | Some x \<Rightarrow> set (ch_members (w_chans w x)))"
  using assms
proof (induction cs arbitrary: l)
  case (Cons c cs)
  obtain n x where c: "c = (n, Some x)" using Cons.prems(1) by (cases c) auto
  have "distinct (fold List.insert (ch_members (w_chans w x)) l)"
    using Cons.prems(2) by (rule distinct_fold_insert)
  from Cons.IH [OF _ this] Cons.prems(1) show ?case
    by (auto simp: c set_fold_insert)
qed simp

lemma notify_accounts_ok:
  assumes "\<forall>(n, p) \<in> set (a_channels (w_accs w a)). p \<noteq> None"
  obtains l where "notify_accounts self a w = Inr l" "distinct l"
    "set l = channel_mates self (a_channels (w_accs w a)) w"
  using notify_step [OF assms, of "[self]" w] by (auto simp: notify_accounts_def channel_mates_def)

lemma nick_change_steps:
  assumes "links_ok w" and "nick_hook E event = Some ev" and "ne_new_nick ev \<noteq> []"
    and "get_by_uid w (a_uid (w_accs w a)) = Some self"
    and "irc_nick_get (to_lower (ne_new_nick ev)) w \<in> {None, Some self}"
    and "\<forall>(n, p) \<in> set (a_channels (w_accs w a)). p \<noteq> None"
  shows "\<exists>w' l. account_set_nick E event a w = Inr (True, w') \<and>
    a_nick (w_accs w' a) = ne_new_nick ev \<and>
    w_nicks w' = (w_nicks w)(ne_old_nick ev := None, to_lower (ne_new_nick ev) \<mapsto> self) \<and>
    distinct l \<and> set l = channel_mates self (a_channels (w_accs w a)) w \<and>
    w_queue w' = w_queue w @ map (\<lambda>i. QNick i ev) (concat (map (\<lambda>p. a_connections (w_accs w p)) l))"
proof -
  define w1 where "w1 = w\<lparr>w_nicks := (w_nicks w)(ne_old_nick ev := None, to_lower (ne_new_nick ev) \<mapsto> self)\<rparr>"
  define w2 where "w2 = upd_acc a (\<lambda>x. x\<lparr>a_nick := ne_new_nick ev\<rparr>) w1"
  have set_nick: "account_set_nick E event a w = broadcast_nick ev self a w2"
    using assms(2-5) unfolding account_set_nick_def Let_def w2_def w1_def
    by (auto simp: irc_nick_get_def)
  have w2: "a_channels (w_accs w2 a) = a_channels (w_accs w a)" "w_chans w2 = w_chans w"
    "\<And>p. a_connections (w_accs w2 p) = a_connections (w_accs w p)" "w_conns w2 = w_conns w"
    "w_queue w2 = w_queue w" "w_nicks w2 = w_nicks w1" "a_nick (w_accs w2 a) = ne_new_nick ev"
    by (simp_all add: w2_def w1_def)
  have "\<forall>(n, p) \<in> set (a_channels (w_accs w2 a)). p \<noteq> None" using assms(6) by (simp add: w2)
  then obtain l where l: "notify_accounts self a w2 = Inr l" "distinct l"
    "set l = channel_mates self (a_channels (w_accs w2 a)) w2"
    by (rule notify_accounts_ok)
  let ?is = "concat (map (\<lambda>p. a_connections (w_accs w p)) l)"
  have "\<forall>i \<in> set ?is. c_alive (w_conns w i)"
    using assms(1) by (auto intro: links_alive)
  then have "broadcast_nick ev self a w2 = Inr (True, w2\<lparr>w_queue := w_queue w @ map (\<lambda>i. QNick i ev) ?is\<rparr>)"
    by (simp add: broadcast_nick_def l(1) post_all_eq w2)
  moreover have "set l = channel_mates self (a_channels (w_accs w a)) w"
    using l(3) by (simp add: w2 channel_mates_def)
  ultimately show ?thesis using l(2) w2 set_nick by (auto simp: w1_def)
qed


definition rename_bob :: nick_ev where
  "rename_bob = \<lparr>ev_reason = [], ev_cancel = False, ne_old_nick = ''bob'', ne_new_nick = ''Rob'',
     ne_from_server = False, ne_account = 1\<rparr>"


text \<open>
  A nick that another account holds (compared in lower case) is refused: nothing changes.
\<close>

theorem nick_change_refused:
  assumes "nick_hook E event = Some ev"
    and "get_by_uid w (a_uid (w_accs w a)) = Some self"
    and "irc_nick_get (to_lower (ne_new_nick ev)) w = Some other" and "other \<noteq> self"
  shows "account_set_nick E event a w = Inr (False, w)"
  using assms by (simp add: account_set_nick_def irc_nick_get_def Let_def)

theorem nick_change_refused_witness:
  "account_set_nick sample_env (rename_bob\<lparr>ne_new_nick := ''ALICE''\<rparr>) 1 chat_world = Inr (False, chat_world)"
proof -
  have lower: "to_lower ''ALICE'' = ''alice''" by code_simp
  show ?thesis
    by (rule nick_change_refused [where self = 1 and other = 0 and ev = "rename_bob\<lparr>ne_new_nick := ''ALICE''\<rparr>"])
      (simp_all add: nick_hook_def sample_no_handler chat_world_def person_def get_by_uid_def
        irc_nick_get_def lower)
qed

text \<open>
  The old nick is taken out of the table as it is written, while the entry of a changed
  nick is in lower case: leaving a nick with an upper-case letter keeps its entry, so nobody
  can take it and messages to it still reach the account.
\<close>

theorem old_nick_stays_taken:
  assumes "account_set_nick E event a w = Inr (True, w')" and "nick_hook E event = Some ev"
    and "to_lower (ne_old_nick ev) \<noteq> ne_old_nick ev"
    and "to_lower (ne_old_nick ev) \<noteq> to_lower (ne_new_nick ev)"
    and "irc_nick_get (to_lower (ne_old_nick ev)) w = Some b"
  shows "irc_nick_get (to_lower (ne_old_nick ev)) w' = Some b"
proof -
  have nicks: "w_nicks w1 = w_nicks w" if "broadcast_nick e s b w = Inr (ok, w1)" for e s b w ok w1
    using that by (auto simp: broadcast_nick_def bind_res_Inr_iff post_all_eq split: if_splits)
  obtain self where "w_nicks w' = (w_nicks w)(ne_old_nick ev := None, to_lower (ne_new_nick ev) \<mapsto> self)"
    using assms(1,2) by (auto simp: account_set_nick_def Let_def dest!: nicks split: option.splits if_splits)
  with assms(3-5) show ?thesis by (simp add: irc_nick_get_def)
qed

definition rob_world :: world where
  "rob_world = chat_world
     \<lparr>w_accs := (w_accs chat_world)(1 := person 2 ''Rob'' 1), w_nicks := [''alice'' \<mapsto> 0, ''rob'' \<mapsto> 1]\<rparr>"

definition rename_rob :: nick_ev where
  "rename_rob = \<lparr>ev_reason = [], ev_cancel = False, ne_old_nick = ''Rob'', ne_new_nick = ''bob'',
     ne_from_server = False, ne_account = 1\<rparr>"

theorem old_nick_stays_taken_witness:
  "\<exists>w'. account_set_nick sample_env rename_rob 1 rob_world = Inr (True, w') \<and>
    a_nick (w_accs w' 1) = ''bob'' \<and> irc_nick_get ''rob'' w' = Some 1"
proof -
  have hook: "nick_hook sample_env rename_rob = Some rename_rob"
    by (simp add: nick_hook_def sample_no_handler)
  have lower: "to_lower ''Rob'' = ''rob''" "to_lower ''bob'' = ''bob''" by code_simp+
  have names: "ne_old_nick rename_rob = ''Rob''" "ne_new_nick rename_rob = ''bob''"
    by (simp_all add: rename_rob_def)
  have links: "links_ok rob_world"
    by (auto simp: links_ok_def rob_world_def chat_world_def person_def new_account_def client_def
        new_conn_def initial_world_def)
  have uid: "get_by_uid rob_world (a_uid (w_accs rob_world 1)) = Some 1"
    "irc_nick_get (to_lower (ne_new_nick rename_rob)) rob_world \<in> {None, Some 1}"
    "\<forall>(n, p) \<in> set (a_channels (w_accs rob_world 1)). p \<noteq> None"
    by (simp_all add: rob_world_def chat_world_def person_def get_by_uid_def irc_nick_get_def names lower)
  obtain w' where w': "account_set_nick sample_env rename_rob 1 rob_world = Inr (True, w')"
    "a_nick (w_accs w' 1) = ''bob''"
    using nick_change_steps [OF links hook _ uid] by (auto simp: names)
  have "irc_nick_get ''rob'' rob_world = Some 1" by (simp add: rob_world_def irc_nick_get_def)
  with w' old_nick_stays_taken [OF w'(1) hook, of 1] show ?thesis by (auto simp: names lower)
qed

section \<open>Registering under a nick in use\<close>

text \<open>
  The check at the end of a registration looks the nick up in lower case, but the entry
  is made under the nick as the client wrote it: a client whose nick has an upper-case letter
  does not keep a second client from registering the same nick, and from then on messages to
  the nick go to the second one.
\<close>

theorem same_nick_twice:
  assumes conn: "w_conns w i = new_conn E home t uid ip"
    and nick: "is_valid_nick (e_unicode E) nick" "plain nick" "to_lower nick \<noteq> nick"
    and free: "w_nicks w (to_lower nick) = None"
    and user: "plain u" "plain r" "length u \<le> 16"
    and env: "e_password E = []" "\<not> has_event_handler E RAW_MSG"
  shows "\<exists>w1 w2. fold_res (parse_incoming E i) (registration_lines nick u r) w = Inr w1 \<and>
    fold_res (parse_incoming E (w_next_conn w1)) (registration_lines nick u r)
      (spawn_conn E k n t' ip' w1) = Inr w2 \<and>
    account_nick (w_accs w2 (w_next_acc w)) = nick \<and>
    a_connections (w_accs w2 (w_next_acc w)) = [i] \<and>
    account_nick (w_accs w2 (Suc (w_next_acc w))) = nick \<and>
    a_connections (w_accs w2 (Suc (w_next_acc w))) = [w_next_conn w1] \<and>
    irc_nick_get nick w2 = Some (Suc (w_next_acc w))"
proof -
  let ?a = "w_next_acc w"
  obtain w1 where w1: "fold_res (parse_incoming E i) (registration_lines nick u r) w = Inr w1"
    "account_nick (w_accs w1 ?a) = nick" "a_connections (w_accs w1 ?a) = [i]"
    "w_nicks w1 = (w_nicks w)(nick \<mapsto> ?a)" "w_next_acc w1 = Suc ?a"
    using registration_steps [OF conn nick(1,2) free user env] by blast
  let ?w = "spawn_conn E k n t' ip' w1" and ?j = "w_next_conn w1"
  have w: "w_accs ?w = w_accs w1" "w_nicks ?w = w_nicks w1" "w_next_acc ?w = w_next_acc w1"
    by (simp_all add: spawn_conn_def upd_srv_def Let_def)
  have conn': "w_conns ?w ?j = new_conn E (k, n) t' (e_uuid_rfc4122 E (e_uuid E (w_uuids w1))) ip'"
    by (simp add: spawn_conn_def upd_srv_def Let_def)
  have free': "w_nicks ?w (to_lower nick) = None"
    using free nick(3) by (simp add: w w1(4))
  obtain w2 where w2: "fold_res (parse_incoming E ?j) (registration_lines nick u r) ?w = Inr w2"
    "account_nick (w_accs w2 (Suc ?a)) = nick" "a_connections (w_accs w2 (Suc ?a)) = [?j]"
    "w_nicks w2 = (w_nicks ?w)(nick \<mapsto> Suc ?a)" "w_accs w2 ?a = w_accs ?w ?a"
    using registration_steps [OF conn' nick(1,2) free' user env] by (auto simp: w w1(5))
  from w1 w2 show ?thesis by (auto simp: w irc_nick_get_def)
qed

theorem same_nick_twice_witness:
  "\<exists>w2. account_nick (w_accs w2 0) = ''Bob'' \<and> a_connections (w_accs w2 0) = [0] \<and>
    account_nick (w_accs w2 1) = ''Bob'' \<and> irc_nick_get ''Bob'' w2 = Some 1"
proof -
  have lower: "to_lower ''Bob'' = ''bob''" by code_simp
  have "is_valid_nick (e_unicode sample_env) ''Bob''"
    by (simp add: is_valid_nick_def sample_env_def ascii_unicode_def nick_body_def nick_first_def
        nick_rest_def nick_punct_def)
  from same_nick_twice [OF first_client_conn this sample_nick(3) _ first_client_free sample_nick(2,3) _
      sample_nick(4,5), of IrcServer 1 "Tcp True True" 8]
  show ?thesis by (auto simp: lower first_client_world)
qed

text \<open>
  A registration whose nick is in use is refused, but the connection keeps running until
  its socket closes, with its setup done and without an account: a NICK that was sent in the
  same packet follows the null account pointer.
\<close>

theorem refused_then_nick_crashes:
  assumes conn: "w_conns w i = new_conn E home t uid ip"
    and nick: "is_valid_nick (e_unicode E) nick" "plain nick" "w_nicks w (to_lower nick) = Some b"
    and other: "is_valid_nick (e_unicode E) nick'" "plain nick'" "nick' \<noteq> nick"
    and user: "plain u" "plain r" "length u \<le> 16"
    and env: "e_password E = []" "\<not> has_event_handler E RAW_MSG"
  shows "fold_res (parse_incoming E i) (registration_lines nick u r @ [''NICK '' @ nick']) w = Inl NullDeref"
proof (rule registration_prefix [OF conn nick(1,2) user env(2)])
  fix w2 t2
  assume w2: "fold_res (parse_incoming E i) [''NICK '' @ nick, ''USER '' @ u @ '' 0 * :'' @ r] w = Inr w2"
    "stage t2 nick w i w2" "flags_has setup_val CAP_EXCHANGE t2"
    "flags_empty (flags_clear setup_val [CAP_EXCHANGE] t2)"
  define w5 where "w5 = clear_task CAP_EXCHANGE i w2"
  have s5: "stage (flags_clear setup_val [CAP_EXCHANGE] t2) nick w i w5"
    using w2(2) by (simp add: w5_def stage_def clear_task_def del: flags_clear.simps)
  define w3 where "w3 = force_disconnect i (reply_num E i 433 (nick @ '' :Nickname is already in use'') w5)"
  have "handle_cap E i [''END''] w2 = try_finalize_setup E i w5"
    using w2(2,3) by (simp add: handle_cap_def list_at_def w5_def stage_def del: flags_clear.simps)
  also have "\<dots> = Inr w3"
    using s5 w2(4) nick(3) env(1)
    by (simp add: try_finalize_setup_def stage_def irc_nick_get_def w3_def Let_def)
  finally have cap: "handle_cap E i [''END''] w2 = Inr w3" .
  have reg: "reg (w_conns w3 i) = reg (w_conns w5 i)"
    by (rule st_fields(1)) (simp add: w3_def)
  have w3: "flags_empty (c_tasks (w_conns w3 i))" "c_account (w_conns w3 i) = None" "c_nick (w_conns w3 i) = nick"
    using reg s5 w2(4) by (simp_all add: reg_def stage_def)
  let ?w = "touch_activity E i w3"
  have w: "flags_empty (c_tasks (w_conns ?w i))" "c_account (w_conns ?w i) = None" "c_nick (w_conns ?w i) = nick"
    using w3 by (simp_all add: touch_activity_def)
  have "handle_nick E i [nick'] ?w = Inl NullDeref"
    using other w tasks.not_has_empty [OF w(1)] nick(2)
    by (simp add: handle_nick_def Let_def conn_nick_def plain_def)
  then have "parse_incoming E i (''NICK '' @ nick') ?w = Inl NullDeref"
    using parse_untagged [OF env(2) w(2), of "''NICK '' @ nick'" "''NICK''" "[nick']"]
      split_two [of "''NICK''" nick'] plain_trimmed [of "''NICK''" nick' "'' ''"] other(2)
    by (simp add: run_command_def plain_def is_space_def)
  then have last: "fold_res (parse_incoming E i) [''NICK '' @ nick'] ?w = Inl NullDeref"
    by (simp only: fold_res.simps bind_res_simps)
  have "fold_res (parse_incoming E i) [''CAP END''] w2 = Inr ?w"
    by (simp only: bind_res_simps fold_res.simps cap_end_line [OF w2(2) env(2)] cap)
  then show ?thesis
    unfolding registration_lines_split fold_res_append w2(1) by (simp only: bind_res_simps last)
qed

lemma second_client:
  obtains w i uid ip where "reachable w" "w_nicks w = [''bob'' \<mapsto> 0]"
    "w_conns w i = new_conn sample_env (IrcServer, 1) (Tcp True True) uid ip"
proof -
  obtain w0 where w0: "reachable w0" "w_nicks w0 = [''bob'' \<mapsto> 0]" "w_srv w0 = w_srv first_client"
    using ready_world by metis
  let ?p = "\<lparr>pd_worker = 1, pd_descriptor = 4, pd_ip = 7, pd_port = 6667\<rparr>"
  define w1 where "w1 = upd_srv IrcServer (incoming_connection 7 6667 4) w0"
  define w2 where "w2 = worker_handle_connection sample_env IrcServer ?p True w1"
  have srv: "s_active (w_srv first_client IrcServer) 7 = Some 1" "s_max_per_ip (w_srv first_client IrcServer) = 10"
    "s_next_worker (w_srv first_client IrcServer) = 1"
    by (simp_all add: first_client_defs worker_add_def)
  have "?p \<in> set (s_pending (w_srv w1 IrcServer))"
    using srv by (simp add: w1_def upd_srv_def w0(3) incoming_connection_def active_count_def dispatch_def Let_def)
  then have "server_step w1 w2" unfolding w2_def by (rule server_step.socket)
  moreover have "reachable w1"
    unfolding w1_def by (rule reachable.step [OF w0(1) server_step.peer])
  ultimately have "reachable w2" using reachable.step by blast
  moreover have "w_nicks w2 = [''bob'' \<mapsto> 0]" "w_conns w2 (w_next_conn w1) =
      new_conn sample_env (IrcServer, 1) (Tcp True True) (e_uuid_rfc4122 sample_env (e_uuid sample_env (w_uuids w1))) 7"
    by (simp_all add: w2_def w1_def worker_handle_connection_def spawn_conn_def upd_srv_def Let_def w0(2))
      (simp add: sample_env_def)
  ultimately show thesis by (rule that)
qed

theorem refused_then_nick_crashes_witness:
  "\<exists>w i. reachable w \<and> fold_res (parse_incoming sample_env i)
     (registration_lines ''bob'' ''bob'' ''Bob'' @ [''NICK Bob'']) w = Inl NullDeref"
proof (rule second_client)
  fix w i uid ip
  assume w: "reachable w" "w_nicks w = [''bob'' \<mapsto> 0]"
    "w_conns w i = new_conn sample_env (IrcServer, 1) (Tcp True True) uid ip"
  have lower: "to_lower ''bob'' = ''bob''" by code_simp
  have taken: "w_nicks w (to_lower ''bob'') = Some 0" by (simp add: lower w(2))
  have bob: "is_valid_nick (e_unicode sample_env) ''Bob''" "''Bob'' \<noteq> ''bob''" "length ''bob'' \<le> 16"
    by (simp_all add: is_valid_nick_def sample_env_def ascii_unicode_def nick_body_def nick_first_def
        nick_rest_def nick_punct_def)
  from refused_then_nick_crashes [OF w(3) sample_nick(1,2) taken bob(1) sample_nick(3) bob(2)
      sample_nick(2,3) bob(3) sample_nick(4,5)] w(1)
  show ?thesis by (intro exI [of _ w] exI [of _ i]) simp
qed

end
