(* ===== verification/Membership.thy ===== *)
theory Membership
  imports Nicks
begin

text \<open>
  Channels: who is a member after JOIN and PART, what a rename and a mode change do, and which
  decisions of the Python handlers are obeyed.
\<close>

section \<open>Joining\<close>

lemma join_member_frame:
  assumes "join_member E ev p m w = Inr w'"
  shows "frame w' = frame w"
proof (cases "a_uid (w_accs w m) = a_uid (w_accs w (je_account ev))")
  case False
  have "frame w2 = frame w1"
    if "(let w1 = upd_conn i (members_touch p) w1 in
      if je_account ev \<notin> set (members_seen p (w_conns w1 i))
      then Inr (conn_channel_join E ev i w1) else Inr w1) = Inr w2" for i w1 w2
    using that by (auto simp: Let_def split: if_splits)
  with assms False show ?thesis
    by (auto simp: join_member_def intro: deliver_all_frame)
qed (use assms in \<open>simp add: join_member_def\<close>)

lemma join_own_frame:
  assumes "join_own E ev x w = Inr w'"
  shows "frame w' = frame w"
  using assms unfolding join_own_def
  by (rule deliver_all_frame) (auto split: if_splits)

lemma join_deliveries:
  assumes "links_ok w"
  shows "\<exists>w'. bind_res (join_own E ev x w) (\<lambda>w2. fold_res (join_member E ev p) (ch_members (w_chans w2 x)) w2) = Inr w' \<and>
    frame w' = frame w"
proof -
  have own: "\<exists>w1. join_own E ev x w = Inr w1"
  proof -
    have "deliver_all (\<lambda>i w. if map_of (c_channels (w_conns w i)) (ch_name (w_chans w x)) = None
        then Inr (conn_channel_join E ev i w) else Inr w) (a_connections (w_accs w (je_account ev))) w =
      Inr (fold (\<lambda>i w. if map_of (c_channels (w_conns w i)) (ch_name (w_chans w x)) = None
        then conn_channel_join E ev i w else w) (a_connections (w_accs w (je_account ev))) w)"
      using assms by (intro deliver_all_ok) (auto intro: links_alive)
    then show ?thesis by (simp add: join_own_def)
  qed
  have member: "\<exists>w2. join_member E ev p m w1 = Inr w2 \<and> frame w2 = frame w" if "frame w1 = frame w" for m w1
  proof -
    have alive: "\<forall>i \<in> set (a_connections (w_accs w1 m)). c_alive (w_conns w1 i)"
      using assms links_ok_st [OF st_frame [OF that]] links_alive by blast
    have "\<exists>w2. join_member E ev p m w1 = Inr w2"
    proof (cases "a_uid (w_accs w1 m) = a_uid (w_accs w1 (je_account ev))")
      case False
      have "deliver_all (\<lambda>i w. let w1 = upd_conn i (members_touch p) w in
            if je_account ev \<notin> set (members_seen p (w_conns w1 i))
            then Inr (conn_channel_join E ev i w1) else Inr w1) (a_connections (w_accs w1 m)) w1 =
        Inr (fold (\<lambda>i w. let w1 = upd_conn i (members_touch p) w in
            if je_account ev \<notin> set (members_seen p (w_conns w1 i))
            then conn_channel_join E ev i w1 else w1) (a_connections (w_accs w1 m)) w1)"
        using alive by (intro deliver_all_ok) (auto simp: Let_def)
      with False show ?thesis by (simp add: join_member_def)
    qed (simp add: join_member_def)
    then show ?thesis using that join_member_frame by metis
  qed
  have fold: "\<exists>w2. fold_res (join_member E ev p) ms w1 = Inr w2 \<and> frame w2 = frame w"
    if "frame w1 = frame w" for ms w1
    using that
  proof (induction ms arbitrary: w1)
    case (Cons m ms)
    then show ?case using member [OF Cons.prems, of m] by fastforce
  qed simp
  obtain w1 where w1: "join_own E ev x w = Inr w1" using own ..
  with fold [OF join_own_frame [OF w1]] show ?thesis by simp
qed

lemma join_members:
  assumes "links_ok w" and "join_hook E event = Some ev"
  shows "\<exists>w'. channel_join E event x w = Inr w' \<and>
    ch_members (w_chans w' x) =
      (if je_account ev \<in> set (ch_members (w_chans w x)) then ch_members (w_chans w x)
       else ch_members (w_chans w x) @ [je_account ev]) \<and>
    (\<forall>y. y \<noteq> x \<longrightarrow> w_chans w' y = w_chans w y) \<and>
    (je_account ev \<notin> set (ch_members (w_chans w x)) \<longrightarrow>
      map_of (a_channels (w_accs w' (je_account ev))) (ch_name (w_chans w x)) =
        Some (channel_get (ch_name (w_chans w x)) w)) \<and>
    w_channels w' = w_channels w \<and> w_nicks w' = w_nicks w \<and> links_ok w'"
proof -
  let ?a = "je_account ev" and ?name = "ch_name (w_chans w x)"
  let ?p = "channel_get ?name w"
  define w1 where "w1 = (if ?a \<in> set (ch_members (w_chans w x)) then w
    else upd_acc ?a (\<lambda>p. p\<lparr>a_channels := hash_put ?name ?p (a_channels p)\<rparr>)
           (upd_chan x (\<lambda>c. c\<lparr>ch_members := ch_members c @ [?a]\<rparr>) w))"
  have links: "links_ok w1" using assms(1) by (auto simp: w1_def links_ok_def)
  then obtain w2 where w2: "bind_res (join_own E ev x w1) (\<lambda>w2. fold_res (join_member E ev ?p) (ch_members (w_chans w2 x)) w2) = Inr w2"
    "frame w2 = frame w1"
    using join_deliveries by blast
  have "channel_join E event x w = Inr w2"
    using w2(1) by (simp add: channel_join_def assms(2) w1_def [symmetric] Let_def)
  then show ?thesis
    using same_frame(1,2,6,7) [OF w2(2)] links links_ok_st [OF st_frame [OF w2(2)]] by (auto simp: w1_def)
qed

text \<open>
  A join that no Python handler cancels succeeds: the account is a member exactly once
  more than before if it was none, the other members and channels are as they were, and the
  account's table of channels leads from the name to what the server has under that name.
\<close>

theorem join_adds_member:
  assumes "links_ok w" and "join_hook E event = Some ev"
  shows "\<exists>w'. channel_join E event x w = Inr w' \<and>
    ch_members (w_chans w' x) =
      (if je_account ev \<in> set (ch_members (w_chans w x)) then ch_members (w_chans w x)
       else ch_members (w_chans w x) @ [je_account ev]) \<and>
    (\<forall>y. y \<noteq> x \<longrightarrow> w_chans w' y = w_chans w y) \<and>
    (je_account ev \<notin> set (ch_members (w_chans w x)) \<longrightarrow>
      map_of (a_channels (w_accs w' (je_account ev))) (ch_name (w_chans w x)) =
        Some (channel_get (ch_name (w_chans w x)) w)) \<and>
    w_channels w' = w_channels w \<and> w_nicks w' = w_nicks w"
  using join_members [OF assms] by blast

definition join_bob :: join_ev where
  "join_bob = \<lparr>ev_reason = [], ev_cancel = False, je_channel = Some 0, je_account = 5, je_password = [],
     je_from_system = False\<rparr>"

theorem join_adds_member_witness:
  "\<exists>w'. channel_join sample_env join_bob 0 chat_world = Inr w' \<and>
    ch_members (w_chans w' 0) = [0, 1, 5] \<and> map_of (a_channels (w_accs w' 5)) ''x'' = Some (Some 0)"
proof -
  have hook: "join_hook sample_env join_bob = Some join_bob"
    by (simp add: join_hook_def sample_no_handler)
  have facts: "je_account join_bob = 5" "ch_members (w_chans chat_world 0) = [0, 1]"
    by (simp_all add: join_bob_def chat_world_def)
  show ?thesis
    using join_adds_member [OF links_chat_world hook, of 0]
    by (auto simp: facts chat_world_facts)
qed

section \<open>Parting\<close>

lemma part_steps:
  assumes "links_ok w" and "part_hook E event = Some ev" and "pa_account ev \<in> set (ch_members (w_chans w x))"
  shows "\<exists>w'. channel_part E event x w = Inr (True, w') \<and>
    ch_members (w_chans w' x) = removeAll (pa_account ev) (ch_members (w_chans w x)) \<and>
    w_queue w' = w_queue w @ map (\<lambda>i. QPart i ev) (member_conns x w) \<and>
    a_channels (w_accs w' (pa_account ev)) = a_channels (w_accs w (pa_account ev))"
proof -
  have "\<forall>i \<in> set (member_conns x w). c_alive (w_conns w i)"
    using member_conns_alive [OF assms(1)] by blast
  then show ?thesis
    using assms(2,3) by (simp add: channel_part_def post_all_eq)
qed

text \<open>
  A part of a member that no Python handler cancels takes the account off the channel,
  once posted to every connection of every member; the account's own table of channels keeps
  the channel, so that its next connection joins it again.
\<close>

theorem part_removes_member:
  assumes "links_ok w" and "part_hook E event = Some ev" and "pa_account ev \<in> set (ch_members (w_chans w x))"
  shows "\<exists>w'. channel_part E event x w = Inr (True, w') \<and>
    ch_members (w_chans w' x) = removeAll (pa_account ev) (ch_members (w_chans w x)) \<and>
    w_queue w' = w_queue w @ map (\<lambda>i. QPart i ev) (member_conns x w) \<and>
    a_channels (w_accs w' (pa_account ev)) = a_channels (w_accs w (pa_account ev))"
  using assms by (rule part_steps)

definition part_alice :: part_ev where
  "part_alice = \<lparr>ev_reason = [], ev_cancel = False, pa_channel = 0, pa_account = 0, pa_message = ''bye'',
     pa_from_system = False\<rparr>"

theorem part_removes_member_witness:
  "\<exists>w'. channel_part sample_env part_alice 0 chat_world = Inr (True, w') \<and>
    ch_members (w_chans w' 0) = [1] \<and> w_queue w' = [QPart 0 part_alice, QPart 1 part_alice] \<and>
    a_channels (w_accs w' 0) = [(''x'', Some 0)]"
proof -
  have hook: "part_hook sample_env part_alice = Some part_alice"
    by (simp add: part_hook_def sample_no_handler)
  have facts: "pa_account part_alice = 0" "ch_members (w_chans chat_world 0) = [0, 1]"
    "w_queue chat_world = []" "a_channels (w_accs chat_world 0) = [(''x'', Some 0)]"
    by (simp_all add: part_alice_def chat_world_def initial_world_def person_def)
  show ?thesis
    using part_removes_member [OF links_chat_world hook, of 0]
    by (simp add: facts chat_world_facts)
qed

text \<open>
  Joining a channel the account was not on and parting again leaves the members as they
  were.
\<close>

theorem join_part_members:
  assumes "links_ok w" and "join_hook E jev = Some jev'" and "part_hook E pev = Some pev'"
    and "pa_account pev' = je_account jev'" and "je_account jev' \<notin> set (ch_members (w_chans w x))"
    and "channel_join E jev x w = Inr w1" and "channel_part E pev x w1 = Inr (ok, w2)"
  shows "ok \<and> ch_members (w_chans w2 x) = ch_members (w_chans w x)"
proof -
  obtain w' where w': "channel_join E jev x w = Inr w'"
    "ch_members (w_chans w' x) = ch_members (w_chans w x) @ [je_account jev']" "links_ok w'"
    using join_members [OF assms(1,2), of x] assms(5) by auto
  then have w1: "w' = w1" using assms(6) by simp
  have "pa_account pev' \<in> set (ch_members (w_chans w1 x))" using w' w1 assms(4) by simp
  from part_steps [OF w'(3) [unfolded w1] assms(3) this] show ?thesis
    using assms(4,5,7) w'(2) w1 by (auto simp: removeAll_id)
qed

definition part_bob :: part_ev where
  "part_bob = \<lparr>ev_reason = [], ev_cancel = False, pa_channel = 0, pa_account = 5, pa_message = [],
     pa_from_system = False\<rparr>"

theorem join_part_members_witness:
  "\<exists>w1 w2. channel_join sample_env join_bob 0 chat_world = Inr w1 \<and>
    channel_part sample_env part_bob 0 w1 = Inr (True, w2) \<and> ch_members (w_chans w2 0) = [0, 1]"
proof -
  have hook: "join_hook sample_env join_bob = Some join_bob" "part_hook sample_env part_bob = Some part_bob"
    by (simp_all add: join_hook_def part_hook_def sample_no_handler)
  have facts: "je_account join_bob = 5" "pa_account part_bob = 5" "ch_members (w_chans chat_world 0) = [0, 1]"
    by (simp_all add: join_bob_def part_bob_def chat_world_def)
  obtain w1 where w1: "channel_join sample_env join_bob 0 chat_world = Inr w1"
    "ch_members (w_chans w1 0) = [0, 1, 5]" "links_ok w1"
    using join_members [OF links_chat_world hook(1), of 0] by (auto simp: facts)
  then obtain ok w2 where w2: "channel_part sample_env part_bob 0 w1 = Inr (ok, w2)"
    using part_steps [OF w1(3) hook(2), of 0] by (auto simp: facts)
  from join_part_members [OF links_chat_world hook _ _ w1(1) w2] show ?thesis
    using w1(1) w2 by (auto simp: facts)
qed

section \<open>Renames\<close>

text \<open>
  A rename that succeeds gives the channel its new name, but the table of channels keeps
  it under the old one: no channel is found under the new name, a second rename fails, and
  the old name still leads to the renamed channel.
\<close>

theorem rename_not_rekeyed:
  assumes "channel_rename E event w = Inr (True, w')" and "channel_get old w = Some (re_channel event)"
    and "ch_name (w_chans w (re_channel event)) = old"
    and "channel_get (re_new_name (rename_hook E event)) w = None"
  shows "ch_name (w_chans w' (re_channel event)) = re_new_name (rename_hook E event) \<and>
    channel_get old w' = Some (re_channel event) \<and>
    channel_get (re_new_name (rename_hook E event)) w' = None \<and>
    (re_channel event' = re_channel event \<longrightarrow> channel_rename E' event' w' = Inr (False, w'))"
proof -
  let ?new = "re_new_name (rename_hook E event)" and ?x = "re_channel event"
  obtain w1 where w1: "channel_set_name ?x ?new w = Inr w1"
    "w' = w1\<lparr>w_queue := w_queue w1 @ map (\<lambda>i. QRename i (rename_hook E event))
       (member_conns (re_channel (rename_hook E event)) w1)\<rparr>"
    using assms(1-3)
    by (auto simp: channel_rename_def Let_def bind_res_Inr_iff post_all_eq split: if_splits)
  then have "w_chans w' ?x = (w_chans w ?x)\<lparr>ch_name := ?new\<rparr>" "w_channels w' = w_channels w"
    by (auto simp: channel_set_name_def chan_write_def split: if_splits)
  then have get: "channel_get n w' = channel_get n w" "ch_name (w_chans w' ?x) = ?new" for n
    by (simp_all add: channel_get_def)
  have "channel_rename E' event' w' = Inr (False, w')" if "re_channel event' = ?x"
    using get assms(4) by (simp add: channel_rename_def that)
  then show ?thesis using get assms(2,4) by simp
qed

definition rename_x :: rename_ev where
  "rename_x = \<lparr>ev_reason = [], ev_cancel = False, re_old_name = ''x'', re_new_name = ''y'',
     re_message = [], re_account = 0, re_channel = 0\<rparr>"

theorem rename_not_rekeyed_witness:
  "\<exists>w'. channel_rename sample_env rename_x chat_world = Inr (True, w') \<and> ch_name (w_chans w' 0) = ''y'' \<and>
    channel_get ''x'' w' = Some 0 \<and> channel_get ''y'' w' = None \<and>
    channel_rename sample_env rename_x w' = Inr (False, w')"
proof -
  have x: "re_old_name rename_x = ''x''" "re_new_name rename_x = ''y''" "re_channel rename_x = 0"
    by (simp_all add: rename_x_def)
  have hook: "rename_hook sample_env rename_x = rename_x" by (simp add: rename_hook_def sample_no_handler)
  have lock: "ch_locked (w_chans chat_world 0) = False" by (simp add: chat_world_def new_channel_def)
  have set_name: "channel_set_name 0 ''y'' chat_world = Inr (upd_chan 0 (\<lambda>c. c\<lparr>ch_name := ''y''\<rparr>) chat_world)"
    by (simp add: channel_set_name_def chan_write_def lock)
  have "\<forall>i \<in> set (member_conns 0 (upd_chan 0 (\<lambda>c. c\<lparr>ch_name := ''y''\<rparr>) chat_world)).
      c_alive (w_conns (upd_chan 0 (\<lambda>c. c\<lparr>ch_name := ''y''\<rparr>) chat_world) i)"
    using links_chat_world by (intro ballI member_conns_alive [of _ _ 0]) (auto simp: links_ok_def)
  then obtain w' where w': "channel_rename sample_env rename_x chat_world = Inr (True, w')"
    by (simp add: channel_rename_def x hook chat_world_facts set_name post_all_eq Let_def)
  have "channel_get ''y'' chat_world = None" by (simp add: channel_get_def chat_world_def)
  with rename_not_rekeyed [OF w', of "''x''" rename_x sample_env] w' show ?thesis
    by (auto simp: x hook chat_world_facts)
qed

section \<open>What the Python handlers decide\<close>

text \<open>
  A join, a part, a channel message, a private message and a change of nick that a Python
  handler cancels change nothing at all.
\<close>

theorem cancel_is_obeyed:
  assumes "has_event_handler E CHANNEL_JOIN" "\<not> je_from_system jev" "e_on_join E jev = Some jres" "ev_cancel jres"
    and "has_event_handler E CHANNEL_PART" "\<not> pa_from_system pev" "e_on_part E pev = Some pres" "ev_cancel pres"
    and "has_event_handler E (message_event_type CHANNEL_MSG mev)"
    and "e_on_message E (message_event_type CHANNEL_MSG mev) mev = Some mres" "ev_cancel mres"
    and "has_event_handler E (message_event_type PRIVATE_MSG mev)"
    and "e_on_message E (message_event_type PRIVATE_MSG mev) mev = Some mres'" "ev_cancel mres'"
    and "has_event_handler E NICK_CHANGE" "e_on_nick E nev = Some nres" "ev_cancel nres"
  shows "channel_join E jev x w = Inr w \<and> channel_part E pev x w = Inr (False, w) \<and>
    channel_message E mev x w = Inr w \<and> account_message E mev a w = Inr w \<and>
    account_set_nick E nev a w = Inr (False, w)"
  using assms
  by (simp add: channel_join_def join_hook_def channel_part_def part_hook_def channel_message_def
      message_hook_def account_message_def account_set_nick_def nick_hook_def Let_def)

definition strict_env :: env where
  "strict_env = sample_env
     \<lparr>e_active := flags_set event_val [CHANNEL_JOIN, CHANNEL_PART, CHANNEL_MSG, PRIVATE_MSG, NICK_CHANGE, CHANNEL_RENAME] 0,
      e_on_join := (\<lambda>e. Some (e\<lparr>ev_cancel := True\<rparr>)), e_on_part := (\<lambda>e. Some (e\<lparr>ev_cancel := True\<rparr>)),
      e_on_message := (\<lambda>_ e. Some (e\<lparr>ev_cancel := True\<rparr>)), e_on_nick := (\<lambda>e. Some (e\<lparr>ev_cancel := True\<rparr>)),
      e_on_rename := (\<lambda>e. Some (e\<lparr>ev_cancel := True\<rparr>))\<rparr>"

lemma strict_handlers:
  "has_event_handler strict_env ev \<longleftrightarrow>
     ev \<in> {CHANNEL_JOIN, CHANNEL_PART, CHANNEL_MSG, PRIVATE_MSG, NICK_CHANGE, CHANNEL_RENAME}"
  by (simp add: has_event_handler_def strict_env_def events.has_set events.not_has_empty flags_empty_def
      del: flags_set.simps)

theorem cancel_is_obeyed_witness:
  "channel_join strict_env join_bob 0 chat_world = Inr chat_world \<and>
   channel_part strict_env part_alice 0 chat_world = Inr (False, chat_world) \<and>
   account_set_nick strict_env rename_bob 1 chat_world = Inr (False, chat_world)"
proof -
  let ?m = "new_message (w_conns chat_world 0) 0 ''alice'' ''hi'' [] [] False"
  have types: "message_event_type CHANNEL_MSG ?m = CHANNEL_MSG" "message_event_type PRIVATE_MSG ?m = PRIVATE_MSG"
    by (simp_all add: message_event_type_def new_message_def)
  show ?thesis
    using cancel_is_obeyed [of strict_env join_bob "join_bob\<lparr>ev_cancel := True\<rparr>"
        part_alice "part_alice\<lparr>ev_cancel := True\<rparr>" ?m "?m\<lparr>ev_cancel := True\<rparr>" "?m\<lparr>ev_cancel := True\<rparr>"
        rename_bob "rename_bob\<lparr>ev_cancel := True\<rparr>" 0 chat_world 1]
    by (simp add: strict_handlers types) (simp add: strict_env_def join_bob_def part_alice_def)
qed

text \<open>
  A rename that a Python handler cancels goes ahead: the result of the handlers is tested
  for the event type of a nick change.
\<close>

theorem cancelled_rename_goes_ahead:
  assumes "links_ok w" and "has_event_handler E CHANNEL_RENAME"
    and "e_on_rename E event = Some (event\<lparr>ev_cancel := True\<rparr>)" and "re_old_name event \<noteq> re_new_name event"
    and "channel_get (ch_name (w_chans w (re_channel event))) w = Some (re_channel event)"
    and "\<not> ch_locked (w_chans w (re_channel event))"
  shows "\<exists>w'. channel_rename E event w = Inr (True, w') \<and>
    ch_name (w_chans w' (re_channel event)) = re_new_name event"
proof -
  let ?x = "re_channel event"
  let ?w = "upd_chan ?x (\<lambda>c. c\<lparr>ch_name := re_new_name event\<rparr>) w"
  have "links_ok ?w" using assms(1) by (simp add: links_ok_def)
  then have "\<forall>i \<in> set (member_conns ?x ?w). c_alive (w_conns ?w i)"
    using member_conns_alive by blast
  then have "post_all mk (member_conns ?x ?w) ?w = Inr (?w\<lparr>w_queue := w_queue ?w @ map mk (member_conns ?x ?w)\<rparr>)" for mk
    by (simp add: post_all_eq)
  with assms(2-6) show ?thesis
    by (simp add: channel_rename_def rename_hook_def channel_set_name_def chan_write_def Let_def)
qed

theorem cancelled_rename_goes_ahead_witness:
  "\<exists>w'. channel_rename strict_env rename_x chat_world = Inr (True, w') \<and> ch_name (w_chans w' 0) = ''y''"
proof -
  have x: "re_old_name rename_x = ''x''" "re_new_name rename_x = ''y''" "re_channel rename_x = 0"
    "e_on_rename strict_env rename_x = Some (rename_x\<lparr>ev_cancel := True\<rparr>)"
    "ch_locked (w_chans chat_world 0) = False"
    by (simp_all add: rename_x_def strict_env_def chat_world_def new_channel_def)
  show ?thesis
    using cancelled_rename_goes_ahead [OF links_chat_world _ x(4)]
    by (simp add: x strict_handlers chat_world_facts)
qed

section \<open>Modes\<close>

text \<open>
  A channel mode without an argument, on a channel whose lock is free, is set or cleared
  and nothing else changes: no other mode, no other field, no other channel, and the lock is
  free again.
\<close>

theorem set_mode_exact:
  assumes "mode \<notin> {KEY, BAN, LIMIT}" and "\<not> ch_locked (w_chans w x)"
  shows "\<exists>w'. channel_set_mode mode adding arg x w = Inr w' \<and>
    (\<forall>m. flags_has channel_mode_val m (ch_modes (w_chans w' x)) \<longleftrightarrow>
       (if m = mode then adding else flags_has channel_mode_val m (ch_modes (w_chans w x)))) \<and>
    (w_chans w' x)\<lparr>ch_modes := ch_modes (w_chans w x)\<rparr> = w_chans w x \<and>
    (\<forall>y. y \<noteq> x \<longrightarrow> w_chans w' y = w_chans w y)"
proof -
  let ?c = "w_chans w x"
  let ?f = "if adding then flags_set channel_mode_val [mode] (ch_modes ?c)
    else flags_clear channel_mode_val [mode] (ch_modes ?c)"
  obtain w' where w': "channel_set_mode mode adding arg x w = Inr w'"
    "w_chans w' = (w_chans w)(x := ?c\<lparr>ch_modes := ?f, ch_locked := False\<rparr>)"
    using assms
    by (cases mode)
      (auto simp: channel_set_mode_def chan_write_def set_mode_body_def simp del: flags_set.simps flags_clear.simps)
  have "?c\<lparr>ch_locked := False\<rparr> = ?c" using assms(2) by (cases ?c) simp
  with w' show ?thesis
    by (auto simp: cmodes.has_set cmodes.has_clear simp del: flags_set.simps flags_clear.simps)
qed

theorem set_mode_exact_witness:
  "\<exists>w'. channel_set_mode MODERATED True [] 0 chat_world = Inr w' \<and>
    flags_has channel_mode_val MODERATED (ch_modes (w_chans w' 0)) \<and> w_chans w' 1 = w_chans chat_world 1"
proof -
  have "\<not> ch_locked (w_chans chat_world 0)" by (simp add: chat_world_def new_channel_def)
  from set_mode_exact [OF _ this, of MODERATED True "[]"] show ?thesis by auto
qed

end
