(* ===== verification/Faults.thy ===== *)
theory Faults
  imports Membership
begin

text \<open>
  The faults a client can provoke with ordinary lines: blocking a thread for ever with a channel
  mode, reading past the end of the parameters, and leaving a destroyed connection in the list
  of an account. None of them needs more than a registered (for CAP and NICK, not even that)
  connection; that no other kind of fault can occur is what \<open>parse_incoming_safe\<close> states.
\<close>

section \<open>Lines of plain words\<close>

lemma index_of_str_words:
  assumes "\<forall>p \<in> set params. SP \<notin> set p" and "\<forall>p \<in> set (tl params). p \<noteq> [] \<and> hd p \<noteq> CHR '':''"
  shows "index_of_str '' :'' (qjoin '' '' params) = None"
  using assms
proof (induction "'' ''" params rule: qjoin.induct)
  case (2 x)
  then show ?case by (simp add: index_of_str_none)
next
  case (3 x y xs)
  then have "index_of_str '' :'' (qjoin '' '' (y # xs)) = None" by auto
  moreover obtain c cs where "y = c # cs" "c \<noteq> CHR '':''"
    using "3.prems"(2) by (cases y) auto
  then have "\<exists>ds. qjoin '' '' (y # xs) = c # ds" "c \<noteq> CHR '':''"
    by (cases xs; simp)+
  moreover have "SP \<notin> set x" using "3.prems"(1) by simp
  ultimately show ?case by (auto simp: index_of_str_no_first)
qed simp

lemma split_irc_words:
  assumes "SP \<notin> set cmd" and "params \<noteq> []" and "\<forall>p \<in> set params. plain p"
    and "\<forall>p \<in> set (tl params). hd p \<noteq> CHR '':''"
  shows "split_irc (cmd @ '' '' @ qjoin '' '' params) = cmd # params"
proof -
  have sp: "\<forall>p \<in> set params. SP \<notin> set p" using assms(3) plain_SP by blast
  have "\<forall>p \<in> set (tl params). p \<noteq> [] \<and> hd p \<noteq> CHR '':''"
    using assms(2-4) by (cases params) (auto simp: plain_def)
  then have "index_of_str '' :'' (qjoin '' '' params) = None" by (rule index_of_str_words [OF sp])
  moreover have "qsplit SP (qjoin '' '' params) = params"
    using assms(2) sp by (intro qsplit_qjoin) auto
  moreover have "filter (\<lambda>p. p \<noteq> []) params = params"
    using assms(3) by (auto simp: filter_id_conv plain_def)
  ultimately show ?thesis
    using index_of_append [OF assms(1), of "qjoin '' '' params"] by (simp add: split_irc_def)
qed

section \<open>Modes that lock twice\<close>

lemma set_mode_key_deadlocks: "channel_set_mode KEY adding arg x w = Inl Deadlock"
  by (simp add: channel_set_mode_def chan_write_def set_mode_body_def channel_set_key_def)

lemma set_mode_ban_deadlocks: "arg \<noteq> [] \<Longrightarrow> channel_set_mode BAN adding arg x w = Inl Deadlock"
  by (simp add: channel_set_mode_def chan_write_def set_mode_body_def channel_add_ban_def
      channel_remove_ban_def)

lemma mode_letters: "map_of channel_modes_lookup_letter (CHR ''k'') = Some KEY"
  "map_of channel_modes_lookup_letter (CHR ''b'') = Some BAN"
  by (simp_all add: channel_letter_lookup raw_channel_modes_def)



section \<open>Parameters that are not there\<close>

lemma bare_line: "plain cmd \<Longrightarrow> trimmed cmd = cmd \<and> split_irc cmd = [cmd]"
  using plain_SP [of cmd] index_of_None [of SP cmd] trimmed_id [of cmd]
  by (simp add: split_irc_def plain_def)

text \<open>
  \<open>JOIN\<close> without a parameter on a ready connection, and \<open>CAP\<close> without one on a connection
  that has not ended its capability exchange, read the first element of an empty list.
\<close>

theorem missing_parameter_out_of_range:
  assumes "\<not> has_event_handler E RAW_MSG"
  shows "(c_ready (w_conns w i) \<longrightarrow> parse_incoming E i ''JOIN'' w = Inl OutOfRange) \<and>
    (flags_has setup_val CAP_EXCHANGE (c_tasks (w_conns w i)) \<longrightarrow>
      parse_incoming E i ''CAP'' w = Inl OutOfRange)"
proof -
  have lines: "trimmed ''JOIN'' = ''JOIN'' \<and> split_irc ''JOIN'' = [''JOIN'']"
    "trimmed ''CAP'' = ''CAP'' \<and> split_irc ''CAP'' = [''CAP'']"
    by (rule bare_line, simp add: plain_def is_space_def)+
  have "parse_incoming E i ''JOIN'' w = Inl OutOfRange" if "c_ready (w_conns w i)"
  proof -
    have "run_command E i [] ''JOIN'' [] w = Inl OutOfRange"
      using that by (simp add: run_command_def list_at_def)
    then show ?thesis using parse_plain [OF assms, of "''JOIN''" "''JOIN''" "[]" i w] lines(1) by simp
  qed
  moreover have "parse_incoming E i ''CAP'' w = Inl OutOfRange"
    if "flags_has setup_val CAP_EXCHANGE (c_tasks (w_conns w i))"
  proof -
    have "handle_cap E i [] w = Inl OutOfRange" using that by (simp add: handle_cap_def list_at_def)
    then have "run_command E i [] ''CAP'' [] w = Inl OutOfRange" by (simp add: run_command_def)
    then show ?thesis using parse_plain [OF assms, of "''CAP''" "''CAP''" "[]" i w] lines(2) by simp
  qed
  ultimately show ?thesis by blast
qed

theorem missing_parameter_out_of_range_witness:
  "parse_incoming sample_env 0 ''JOIN'' chat_world = Inl OutOfRange \<and>
   parse_incoming sample_env 0 ''CAP'' first_client = Inl OutOfRange"
proof -
  have "flags_has setup_val CAP_EXCHANGE (c_tasks (w_conns first_client 0))"
    by (simp add: first_client_conn new_conn_def tasks.has_set del: flags_set.simps)
  then show ?thesis
    using missing_parameter_out_of_range [OF sample_no_handler, of chat_world 0]
      missing_parameter_out_of_range [OF sample_no_handler, of first_client 0]
    by (simp add: chat_world_facts)
qed

section \<open>Authenticating an anonymous account\<close>

text \<open>
  A connection that is registered as an anonymous account and then authenticates as
  another account is added to that account's connections but keeps the pointer to its own:
  when it ends, the account it authenticated as still lists it, and the next private message to
  that account is delivered to a destroyed connection.
\<close>

theorem merge_leaves_dangling_connection:
  assumes "c_account (w_conns w i) = Some mine" and "mine \<noteq> a" and "\<not> is_logged_in (w_accs w mine)"
    and "a_connections (w_accs w mine) = [i]" and "a_connections (w_accs w a) = []"
    and "i \<in> set (s_workers (w_srv w (fst (c_home (w_conns w i)))) ! snd (c_home (w_conns w i)))"
    and "adopt_account i a w = Inr w1"
    and "\<not> has_event_handler E (message_event_type PRIVATE_MSG ev)" and "me_dest ev = Some a"
  shows "account_message E ev b (on_socket_disconnected E i w1) = Inl UseAfterFree"
proof -
  have w1: "w1 = account_remove_cache mine (clear_connections mine (add_connection i a w))"
    using assms(1-4,7) by (simp add: adopt_account_def merge_account_def)
  have conns: "w_conns w1 = w_conns w" "w_srv w1 = w_srv w"
    and acc: "a_connections (w_accs w1 a) = [i]"
    using assms(2,5)
    by (simp_all add: w1 account_remove_cache_def clear_connections_def add_connection_def Let_def)
  define w2 where "w2 = on_connection_disconnected i (conn_nick w1 i) mine w1"
  have w2: "w_conns w2 = w_conns w" "w_srv w2 = w_srv w" "a_connections (w_accs w2 a) = [i]"
    using assms(2) conns acc
    by (auto simp: w2_def on_connection_disconnected_def irc_nicks_remove_cache_def
        account_remove_cache_def Let_def split: option.split)
  obtain k n where home: "c_home (w_conns w i) = (k, n)" by force
  have w3: "on_socket_disconnected E i w1 = worker_disconnected i w2"
    by (simp add: on_socket_disconnected_def conns assms(1) w2_def [symmetric] Let_def)
  have "\<not> c_alive (w_conns (worker_disconnected i w2) i)" "w_accs (worker_disconnected i w2) = w_accs w2"
    using assms(6) w2
    by (auto simp: worker_disconnected_def home upd_srv_def active_dec_def Let_def)
  then show ?thesis
    using assms(8,9) w2(3) by (simp add: account_message_def w3 deliver_all_Cons)
qed

definition served_world :: world where
  "served_world = chat_world\<lparr>w_srv := (\<lambda>_. pool_server\<lparr>s_workers := [[0, 1], [], [], []]\<rparr>)\<rparr>"

theorem merge_leaves_dangling_connection_witness:
  "\<exists>w1. adopt_account 0 7 served_world = Inr w1 \<and>
    account_message sample_env ((new_message (client ''bob'' 1) 1 ''bob'' ''hi'' [] [] False)\<lparr>me_dest := Some 7\<rparr>) 1
      (on_socket_disconnected sample_env 0 w1) = Inl UseAfterFree"
proof -
  let ?ev = "(new_message (client ''bob'' 1) 1 ''bob'' ''hi'' [] [] False)\<lparr>me_dest := Some 7\<rparr>"
  have w: "c_account (w_conns served_world 0) = Some 0" "\<not> is_logged_in (w_accs served_world 0)"
    "a_connections (w_accs served_world 0) = [0]" "a_connections (w_accs served_world 7) = []"
    "c_home (w_conns served_world 0) = (IrcServer, 0)" "s_workers (w_srv served_world k) = [[0, 1], [], [], []]" for k
    by (simp_all add: served_world_def chat_world_def client_def person_def new_account_def new_conn_def
        is_logged_in_def)
  then obtain w1 where w1: "adopt_account 0 7 served_world = Inr w1"
    by (simp add: adopt_account_def merge_account_def Let_def)
  have ev: "me_dest ?ev = Some 7" "\<not> has_event_handler sample_env (message_event_type PRIVATE_MSG ?ev)"
    by (simp_all add: sample_no_handler)
  from merge_leaves_dangling_connection [OF w(1) _ w(2,3,4) _ w1 ev(2,1), of 1] w1 show ?thesis
    by (auto simp: w)
qed

end
