(* ===== verification/Wire.thy ===== *)
theory Wire
  imports Messaging
begin

text \<open>
  What goes over the wire: the round trips of message tags and of lines, and the bounds of the
  replies that are cut into pieces (message tags, MOTD, 005).
\<close>

section \<open>Lines and tags\<close>

text \<open>
  C24: A line made of a command, parameters without spaces and a trailing parameter is split
  into exactly those, whatever bytes the trailing parameter holds.
\<close>

theorem split_irc_inverts_wire:
  assumes "SP \<notin> set cmd" and "params \<noteq> []" and "\<forall>p \<in> set params. p \<noteq> [] \<and> SP \<notin> set p"
    and "\<forall>p \<in> set (tl params). hd p \<noteq> CHR '':''" and "trailing \<noteq> []"
  shows "split_irc (cmd @ '' '' @ qjoin '' '' params @ '' :'' @ trailing) = cmd # params @ [trailing]"
  using assms by (rule split_irc_wire)

theorem split_irc_inverts_wire_witness:
  "split_irc ''USER bob 0 * :Bob B :x'' = [''USER'', ''bob'', ''0'', ''*'', ''Bob B :x'']"
  using split_irc_inverts_wire [of "''USER''" "[''bob'', ''0'', ''*'']" "''Bob B :x''"] by simp



text \<open>
  A tag block never exceeds 4096 bytes, and escaping is inverted by unescaping except for
  a backslash at the end, which is lost.
\<close>

theorem tag_escaping:
  "length (build_message_tags tags src caps) \<le> 4096 \<and>
   unescape_tag_value (escape_tag_value v) = (if v \<noteq> [] \<and> last v = BSL then butlast v else v) \<and>
   set (escape_tag_value v) \<inter> {CHR '';'', SP, CR, LF} = {}"
  using length_build_message_tags [of tags src caps] unescape_escape [of v] set_escape_tag_value [of v]
  by (simp add: max_tag_data_def)

section \<open>Replies in pieces\<close>

text \<open>What a client was sent after a run of \<open>send_raw\<close>.\<close>

definition raw_line :: "env \<Rightarrow> bytes \<Rightarrow> bytes" where
  "raw_line E l = '':'' @ e_server_name E @ '' '' @ l @ crlf"

lemma sent_raw:
  "can_write (w_conns (send_raw E i l w) j) = can_write (w_conns w j)"
  "c_out (w_conns (send_raw E i l w) i) =
     c_out (w_conns w i) @ (if can_write (w_conns w i) then [raw_line E l] else [])"
  by (simp_all add: send_raw_def raw_line_def)

lemma sent_raws:
  "can_write (w_conns (fold (send_raw E i) ls w) j) = can_write (w_conns w j) \<and>
   c_out (w_conns (fold (send_raw E i) ls w) i) =
     c_out (w_conns w i) @ (if can_write (w_conns w i) then map (raw_line E) ls else [])"
  by (induction ls arbitrary: w) (simp_all add: sent_raw)

lemma motd_chunks_concat: "concat (motd_chunks line pos) = drop pos line"
proof (induction line pos rule: motd_chunks.induct)
  case (1 line pos)
  show ?case
  proof (cases "pos < length line")
    case True
    have "concat (motd_chunks line pos) =
        take max_content_len (drop pos line) @ drop (pos + max_content_len) line"
      using 1 True by (subst motd_chunks.simps) simp
    also have "\<dots> = drop pos line"
      by (metis add.commute append_take_drop_id drop_drop)
    finally show ?thesis .
  qed (simp add: motd_chunks.simps)
qed

lemma motd_chunks_bound:
  "c \<in> set (motd_chunks line pos) \<Longrightarrow> c \<noteq> [] \<and> length c \<le> 400"
proof (induction line pos rule: motd_chunks.induct)
  case (1 line pos)
  show ?case
  proof (cases "pos < length line")
    case True
    with 1 show ?thesis
      by (subst (asm) (2) motd_chunks.simps) (auto simp: max_content_len_def)
  next
    case False
    with 1 show ?thesis by (simp add: motd_chunks.simps)
  qed
qed

text \<open>The text the client is shown.\<close>

definition motd_shown :: "env \<Rightarrow> world \<Rightarrow> bytes" where
  "motd_shown E w = (let t = w_motd (reload_motd E w) in if t = [] then ''Welcome!'' else t)"

lemma reload_motd_again: "w_motd (reload_motd E (reload_motd E w)) = w_motd (reload_motd E w)"
  by (auto simp: reload_motd_def split: option.split)

definition motd_pieces :: "bytes \<Rightarrow> bytes list" where
  "motd_pieces t = concat (map (\<lambda>l. motd_chunks (trimmed l) 0) (qsplit LF t))"

lemma frame_reload_motd: "frame (reload_motd E w) = frame w"
  by (auto simp: reload_motd_def split: option.split)

lemma conns_reload_motd: "w_conns (reload_motd E w) = w_conns w"
  by (auto simp: reload_motd_def split: option.split)

lemma fold_pieces:
  "fold (\<lambda>raw. fold (\<lambda>c. send_raw E i (p c)) (motd_chunks (trimmed raw) 0)) ls w =
     fold (send_raw E i) (map p (concat (map (\<lambda>l. motd_chunks (trimmed l) 0) ls))) w"
  by (induction ls arbitrary: w) (simp_all add: fold_map comp_def)

text \<open>
  MOTD answers with 375, one 372 for each piece of each line of the text, and 376; the
  pieces of a line are not empty, at most 400 bytes long, and make up the trimmed line.
\<close>

theorem motd_reply:
  assumes "can_write (w_conns w i)"
  shows "c_out (w_conns (handle_motd E i w) i) = c_out (w_conns w i) @ map (raw_line E)
      ([''375 '' @ conn_nick w i @ '' :- '' @ e_server_name E @ '' Message of the day -''] @
       map (\<lambda>c. ''372 '' @ conn_nick w i @ '' :'' @ c) (motd_pieces (motd_shown E w)) @
       [''376 '' @ conn_nick w i @ '' :End of MOTD command.'']) \<and>
    (\<forall>c \<in> set (motd_pieces (motd_shown E w)). c \<noteq> [] \<and> length c \<le> 400) \<and>
    concat (motd_pieces (motd_shown E w)) = concat (map trimmed (qsplit LF (motd_shown E w)))"
proof (intro conjI)
  let ?n = "conn_nick w i"
  let ?r = "reload_motd E w"
  define w2 where "w2 = (if w_motd ?r = [] then ?r else reload_motd E ?r)"
  have conns: "w_conns w2 = w_conns w" by (simp add: w2_def conns_reload_motd)
  have shown: "(if w_motd ?r = [] then (''Welcome!'', ?r) else server_motd E ?r) = (motd_shown E w, w2)"
    by (simp add: server_motd_def motd_shown_def Let_def w2_def reload_motd_again)
  have run: "handle_motd E i w =
      fold (send_raw E i) ([''375 '' @ ?n @ '' :- '' @ e_server_name E @ '' Message of the day -''] @
        map (\<lambda>c. ''372 '' @ ?n @ '' :'' @ c) (motd_pieces (motd_shown E w)) @
        [''376 '' @ ?n @ '' :End of MOTD command.'']) w2"
    unfolding handle_motd_def server_motd_def [of E w] Let_def prod.case shown fold_pieces
    by (simp add: motd_pieces_def)
  show "c_out (w_conns (handle_motd E i w) i) = c_out (w_conns w i) @ map (raw_line E)
      ([''375 '' @ ?n @ '' :- '' @ e_server_name E @ '' Message of the day -''] @
       map (\<lambda>c. ''372 '' @ ?n @ '' :'' @ c) (motd_pieces (motd_shown E w)) @
       [''376 '' @ ?n @ '' :End of MOTD command.''])"
    using sent_raws [of E i _ w2] assms by (simp only: run conns if_True)
  show "\<forall>c \<in> set (motd_pieces (motd_shown E w)). c \<noteq> [] \<and> length c \<le> 400"
    by (auto simp: motd_pieces_def dest: motd_chunks_bound)
  have "concat (concat (map (\<lambda>l. motd_chunks (trimmed l) 0) ls)) = concat (map trimmed ls)" for ls
    by (induction ls) (simp_all add: motd_chunks_concat)
  then show "concat (motd_pieces (motd_shown E w)) = concat (map trimmed (qsplit LF (motd_shown E w)))"
    by (simp add: motd_pieces_def)
qed

theorem motd_reply_witness:
  "c_out (w_conns (handle_motd sample_env 1 chat_world) 1) =
     [raw_line sample_env ''375 bob :- irc Message of the day -'',
      raw_line sample_env ''372 bob :Welcome!'',
      raw_line sample_env ''376 bob :End of MOTD command.'']"
proof -
  have shown: "motd_shown sample_env chat_world = ''Welcome!''"
    by (simp add: motd_shown_def reload_motd_def sample_env_def chat_world_def initial_world_def)
  have pieces: "motd_pieces ''Welcome!'' = [''Welcome!'']"
    by (simp add: motd_pieces_def trimmed_def is_space_def motd_chunks.simps max_content_len_def)
  have nick: "conn_nick chat_world 1 = ''bob''"
    by (simp add: conn_nick_def chat_world_def client_def new_conn_def person_def account_nick_def)
  have out: "c_out (w_conns chat_world 1) = []" by (rule chat_world_facts)
  have name: "e_server_name sample_env = ''irc''" by (simp add: sample_env_def)
  show ?thesis
    using motd_reply [OF chat_world_facts(7), of sample_env]
    by (simp add: shown pieces nick out name del: One_nat_def)
qed

section \<open>005\<close>

lemma qjoin_snoc: "qjoin sep (g @ [t]) = qjoin sep g @ (if g = [] then t else sep @ t)"
  by (induction sep g rule: qjoin.induct) auto

lemma qjoin_nonempty: "g \<noteq> [] \<Longrightarrow> \<forall>t \<in> set g. t \<noteq> [] \<Longrightarrow> qjoin sep g \<noteq> []"
  by (induction sep g rule: qjoin.induct) auto

definition full_line :: "bytes \<Rightarrow> bytes list \<Rightarrow> bytes" where
  "full_line base g = base @ qjoin '' '' g @ '':are supported by this server''"

definition last_line :: "bytes \<Rightarrow> bytes list \<Rightarrow> bytes" where
  "last_line base g = base @ qjoin '' '' g @ '' :are supported by this server''"

definition fits :: "bytes \<Rightarrow> bytes list \<Rightarrow> bool" where
  "fits base g \<longleftrightarrow> g \<noteq> [] \<and> (\<forall>t \<in> set g. t \<noteq> []) \<and> length base + length (qjoin '' '' g) \<le> 480"

lemma isupport_step_fits:
  assumes "g = [] \<or> fits base g" and "isupport_token kv \<noteq> []"
    and "length base + length (isupport_token kv) + 1 \<le> 480"
  shows "\<exists>front g'. isupport_step base kv (sent, base @ qjoin '' '' g) =
      (sent @ map (full_line base) front, base @ qjoin '' '' g') \<and>
      concat front @ g' = g @ [isupport_token kv] \<and> fits base g' \<and> (\<forall>h \<in> set front. fits base h)"
proof (cases "length (base @ qjoin '' '' g) + length (isupport_token kv) + 1 > 480")
  case True
  with assms(3) have "g \<noteq> []" by auto
  with assms(1) have g: "fits base g" by simp
  have "isupport_step base kv (sent, base @ qjoin '' '' g) =
      (sent @ [full_line base g], base @ isupport_token kv)"
    using True by (simp add: isupport_step_def Let_def irc_max_len_def full_line_def)
  with g assms(2,3) show ?thesis
    by (intro exI [of _ "[g]"] exI [of _ "[isupport_token kv]"]) (simp add: fits_def)
next
  case False
  have "isupport_step base kv (sent, base @ qjoin '' '' g) =
      (sent, base @ qjoin '' '' (g @ [isupport_token kv]))"
    using False assms(1) qjoin_nonempty [of g "'' ''"]
    by (auto simp: isupport_step_def Let_def irc_max_len_def qjoin_snoc fits_def)
  moreover have "fits base (g @ [isupport_token kv])"
    using False assms by (auto simp: fits_def qjoin_snoc)
  ultimately show ?thesis
    by (intro exI [of _ "[]"] exI [of _ "g @ [isupport_token kv]"]) simp
qed

lemma isupport_fold:
  assumes "\<forall>kv \<in> set kvs. isupport_token kv \<noteq> [] \<and> length base + length (isupport_token kv) + 1 \<le> 480"
  shows "\<exists>front g. fold (isupport_step base) kvs ([], base) =
      (map (full_line base) front, base @ qjoin '' '' g) \<and>
      concat front @ g = map isupport_token kvs \<and> (kvs \<noteq> [] \<longrightarrow> fits base g) \<and>
      (\<forall>h \<in> set front. fits base h)"
  using assms
proof (induction kvs rule: rev_induct)
  case Nil
  show ?case by (intro exI [of _ "[]"]) simp
next
  case (snoc kv kvs)
  then obtain front g where IH: "fold (isupport_step base) kvs ([], base) =
      (map (full_line base) front, base @ qjoin '' '' g)" "concat front @ g = map isupport_token kvs"
      "kvs \<noteq> [] \<longrightarrow> fits base g" "\<forall>h \<in> set front. fits base h"
    by auto
  have "g = [] \<or> fits base g" using IH(2,3) by auto
  then obtain more g' where step: "isupport_step base kv (map (full_line base) front, base @ qjoin '' '' g) =
      (map (full_line base) front @ map (full_line base) more, base @ qjoin '' '' g')"
      "concat more @ g' = g @ [isupport_token kv]" "fits base g'" "\<forall>h \<in> set more. fits base h"
    using isupport_step_fits [of g base kv "map (full_line base) front"] snoc.prems by auto
  show ?case
  proof (intro exI conjI)
    show "fold (isupport_step base) (kvs @ [kv]) ([], base) =
        (map (full_line base) (front @ more), base @ qjoin '' '' g')"
      using IH(1) step(1) by simp
    have "concat (front @ more) @ g' = (concat front @ g) @ [isupport_token kv]"
      using step(2) by simp
    then show "concat (front @ more) @ g' = map isupport_token (kvs @ [kv])" by (simp add: IH(2))
  qed (use step(3,4) IH(4) in auto)
qed

text \<open>
  The 005 lines carry every ISUPPORT token once, in order and never cut, as many to a line
  as fit; no line is longer than 510 bytes. Only the last line has a space before the colon.
\<close>

theorem isupport_reply:
  assumes "\<forall>kv \<in> set kvs. isupport_token kv \<noteq> [] \<and> length base + length (isupport_token kv) + 1 \<le> 480"
    and "kvs \<noteq> []"
  shows "\<exists>front g. concat front @ g = map isupport_token kvs \<and>
    isupport_lines base kvs =
      map (\<lambda>h. base @ qjoin '' '' h @ '':are supported by this server'') front @
      [base @ qjoin '' '' g @ '' :are supported by this server''] \<and>
    list_all (\<lambda>h. h \<noteq> []) (front @ [g]) \<and> list_all (\<lambda>l. length l \<le> 510) (isupport_lines base kvs)"
proof -
  obtain front g where fg: "fold (isupport_step base) kvs ([], base) =
      (map (full_line base) front, base @ qjoin '' '' g)" "concat front @ g = map isupport_token kvs"
      "fits base g" "\<forall>h \<in> set front. fits base h"
    using isupport_fold [OF assms(1)] assms(2) by blast
  have "base @ qjoin '' '' g \<noteq> base" using fg(3) qjoin_nonempty [of g "'' ''"] by (auto simp: fits_def)
  then have ls: "isupport_lines base kvs = map (full_line base) front @ [last_line base g]"
    by (simp add: isupport_lines_def fg(1) last_line_def)
  have short: "list_all (\<lambda>l. length l \<le> 510) (isupport_lines base kvs)"
    using fg(3,4) unfolding ls by (auto simp: list_all_iff fits_def full_line_def last_line_def)
  have filled: "list_all (\<lambda>h. h \<noteq> []) (front @ [g])" using fg(3,4) by (auto simp: fits_def list_all_iff)
  show ?thesis
    using fg(2) short filled
    by (intro exI [of _ front] exI [of _ g]) (simp add: ls full_line_def [abs_def] last_line_def)
qed

theorem isupport_reply_witness:
  "list_all (\<lambda>l. length l \<le> 510) (isupport_lines ''005 bob '' [(''NICKLEN'', ''32''), (''UTF8ONLY'', [])])"
  using isupport_reply [of "[(''NICKLEN'', ''32''), (''UTF8ONLY'', [])]" "''005 bob ''"]
  by (auto simp: isupport_token_def)

end
