(* ===== verification/Rate_Limiter.thy ===== *)
theory Rate_Limiter
  imports Prelude "HOL-Library.Signed_Division"
begin

text \<open>
  \<open>src/web/ratelimiter.cpp\<close>: the fixed-window limiter in front of the login, upload and
  static-file routes, and the bound it gives: no client gets more than twice the limit into any
  interval as long as a window. Times are milliseconds (\<open>QDateTime\<close>), a client is the text of
  its address.
\<close>

section \<open>The limiter\<close>

record rate_entry =
  re_count :: int
  re_window_start :: int

record rate_limiter =
  rl_table :: "(bytes \<times> rate_entry) list"
  rl_max_requests :: int
  rl_window_seconds :: int

record rate_limit_result =
  rr_allowed :: bool
  rr_retry_after :: "int option"
  rr_msg :: bytes

definition new_rate_limiter :: "int \<Rightarrow> int \<Rightarrow> rate_limiter" where
  "new_rate_limiter max_requests window_seconds =
     \<lparr>rl_table = [], rl_max_requests = max_requests, rl_window_seconds = window_seconds\<rparr>"

text \<open>\<open>QDateTime::secsTo\<close> divides and truncates toward zero.\<close>

definition secs_to :: "int \<Rightarrow> int \<Rightarrow> int" where
  "secs_to a b = (b - a) sdiv 1000"

text \<open>\<open>QString::arg\<close> on a message whose only place marker is \<open>%1\<close>.\<close>

fun qarg :: "bytes \<Rightarrow> bytes \<Rightarrow> bytes" where
  "qarg v (x # y # s) = (if x = CHR ''%'' \<and> y = CHR ''1'' then v @ qarg v s else x # qarg v (y # s))"
| "qarg v s = s"

definition allowed_result :: rate_limit_result where
  "allowed_result = \<lparr>rr_allowed = True, rr_retry_after = None, rr_msg = []\<rparr>"

text \<open>\<open>now\<close> is the first reading of the clock in \<open>check\<close>, \<open>now'\<close> the second one.\<close>

definition rate_check ::
    "bytes \<Rightarrow> bytes \<Rightarrow> int \<Rightarrow> int \<Rightarrow> rate_limiter \<Rightarrow> rate_limit_result \<times> rate_limiter" where
  "rate_check key msg now now' L =
     (case map_of (rl_table L) key of
        None \<Rightarrow>
          (allowed_result,
           L\<lparr>rl_table := hash_put key \<lparr>re_count = 1, re_window_start = now\<rparr> (rl_table L)\<rparr>)
      | Some e \<Rightarrow>
          let elapsed = secs_to (re_window_start e) now in
          if elapsed \<ge> rl_window_seconds L then
            (allowed_result,
             L\<lparr>rl_table := hash_put key \<lparr>re_count = 1, re_window_start = now\<rparr> (rl_table L)\<rparr>)
          else if re_count e < rl_max_requests L then
            (allowed_result,
             L\<lparr>rl_table := hash_put key (e\<lparr>re_count := re_count e + 1\<rparr>) (rl_table L)\<rparr>)
          else
            let retry = re_window_start e + rl_window_seconds L * 1000
            in (\<lparr>rr_allowed = False, rr_retry_after = Some retry,
                 rr_msg = qarg (dec_int (secs_to now' retry)) msg\<rparr>, L))"

section \<open>Runs\<close>

text \<open>The times at which a run of requests (client, time) was allowed, for one client.\<close>

fun allowed_times :: "bytes \<Rightarrow> (bytes \<times> int) list \<Rightarrow> rate_limiter \<Rightarrow> int list" where
  "allowed_times key [] L = []"
| "allowed_times key ((k, t) # rs) L =
     (let (r, L') = rate_check k [] t t L
      in (if k = key \<and> rr_allowed r then [t] else []) @ allowed_times key rs L')"

definition within :: "int \<Rightarrow> int \<Rightarrow> int list \<Rightarrow> nat" where
  "within t len ts = length (filter (\<lambda>x. t \<le> x \<and> x < t + len) ts)"

lemma within_simps [simp]:
  "within t len [] = 0"
  "within t len (x # ts) = (if t \<le> x \<and> x < t + len then 1 else 0) + within t len ts"
  "within t len (xs @ ts) = within t len xs + within t len ts"
  by (simp_all add: within_def)

lemma secs_to_window: "a \<le> b \<Longrightarrow> w > 0 \<Longrightarrow> secs_to a b \<ge> w \<longleftrightarrow> b \<ge> a + w * 1000"
  by (simp add: secs_to_def signed_divide_int_def sgn_if) linarith

text \<open>One client's requests, run on its own entry only.\<close>

fun entry_times :: "int \<Rightarrow> int \<Rightarrow> int list \<Rightarrow> rate_entry \<Rightarrow> int list" where
  "entry_times m win [] e = []"
| "entry_times m win (t # ts) e =
     (if t \<ge> re_window_start e + win then
        t # entry_times m win ts \<lparr>re_count = 1, re_window_start = t\<rparr>
      else if re_count e < m then
        t # entry_times m win ts (e\<lparr>re_count := re_count e + 1\<rparr>)
      else entry_times m win ts e)"

definition own_times :: "bytes \<Rightarrow> (bytes \<times> int) list \<Rightarrow> int list" where
  "own_times key rs = map snd (filter (\<lambda>r. fst r = key) rs)"

lemma allowed_times_entry:
  assumes "map_of (rl_table L) key = Some e" and "rl_window_seconds L = win" and "win > 0"
    and "rl_max_requests L = m" and "sorted (own_times key rs)"
    and "\<forall>t \<in> set (own_times key rs). re_window_start e \<le> t"
  shows "allowed_times key rs L = entry_times m (win * 1000) (own_times key rs) e"
  using assms
proof (induction rs arbitrary: L e)
  case (Cons r rs)
  obtain k t where r: "r = (k, t)" by force
  obtain res L' where step: "rate_check k [] t t L = (res, L')" by force
  have same: "rl_window_seconds L' = win" "rl_max_requests L' = m"
    using step Cons.prems(2,4) by (auto simp: rate_check_def Let_def split: option.splits if_splits)
  show ?case
  proof (cases "k = key")
    case False
    then have "map_of (rl_table L') key = Some e"
      using step Cons.prems(1) by (auto simp: rate_check_def Let_def split: option.splits if_splits)
    then show ?thesis
      using Cons.IH [OF _ same(1) Cons.prems(3) same(2)] Cons.prems(5,6) False
      by (simp add: r step own_times_def)
  next
    case True
    have late: "re_window_start e \<le> t" and rest: "sorted (own_times key rs)"
      and later: "\<forall>x \<in> set (own_times key rs). t \<le> x"
      using Cons.prems(5,6) by (simp_all add: r True own_times_def)
    define e' where "e' = (if t \<ge> re_window_start e + win * 1000 then \<lparr>re_count = 1, re_window_start = t\<rparr>
        else if re_count e < m then e\<lparr>re_count := re_count e + 1\<rparr> else e)"
    have e': "map_of (rl_table L') key = Some e'" "re_window_start e' \<le> t"
      and ok: "rr_allowed res \<longleftrightarrow> t \<ge> re_window_start e + win * 1000 \<or> re_count e < m"
      using step Cons.prems(1,2,4) late
      by (auto simp: rate_check_def Let_def True e'_def allowed_result_def
          secs_to_window [OF late Cons.prems(3)] split: if_splits)
    have "allowed_times key rs L' = entry_times m (win * 1000) (own_times key rs) e'"
      using Cons.IH [OF e'(1) same(1) Cons.prems(3) same(2) rest] e'(2) later by force
    then show ?thesis
      using step ok by (auto simp: r True own_times_def e'_def)
  qed
qed (simp add: own_times_def)

lemma entry_times_subset: "set (entry_times m win ts e) \<subseteq> set ts"
  by (induction m win ts e rule: entry_times.induct) auto

lemma within_late: "\<forall>x \<in> set ts. t + len \<le> x \<Longrightarrow> within t len ts = 0"
  by (auto simp: within_def filter_empty_conv)

text \<open>
  At most \<open>m - c\<close> more requests fit into the running window; an interval meets at most one
  window beside the one it starts in.
\<close>

lemma entry_bound:
  assumes "sorted ts" and "\<forall>x \<in> set ts. re_window_start e \<le> x" and "1 \<le> re_count e" and "re_count e \<le> m"
    and "win > 0"
  shows "int (within t win (entry_times m win ts e)) \<le>
    (if t \<le> re_window_start e then m - re_count e
     else if t < re_window_start e + win then 2 * m - re_count e else 2 * m)"
  using assms
proof (induction m win ts e arbitrary: t rule: entry_times.induct)
  case (2 m win x ts e)
  have rest: "sorted ts" "\<forall>y \<in> set ts. x \<le> y" and start: "re_window_start e \<le> x"
    using "2.prems" by simp_all
  show ?case
  proof (cases "x \<ge> re_window_start e + win")
    case new: True
    have IH: "int (within t win (entry_times m win ts \<lparr>re_count = 1, re_window_start = x\<rparr>)) \<le>
        (if t \<le> x then m - 1 else if t < x + win then 2 * m - 1 else 2 * m)"
      using "2.IH"(1) [OF new rest(1), of t] rest(2) "2.prems" by (auto split: if_splits)
    have none: "within t win (entry_times m win ts e') = 0" if "t + win \<le> x" for e'
      by (rule within_late) (use entry_times_subset rest(2) that in force)
    show ?thesis
      using IH none [of "\<lparr>re_count = 1, re_window_start = x\<rparr>"] new "2.prems"(3-5) by (auto split: if_splits)
  next
    case same: False
    show ?thesis
    proof (cases "re_count e < m")
      case True
      then show ?thesis
        using "2.IH"(2) [OF same True rest(1), of t] "2.prems" same start by (auto split: if_splits)
    next
      case False
      then show ?thesis
        using "2.IH"(3) [OF same False rest(1), of t] "2.prems" same by auto
    qed
  qed
qed simp

text \<open>
  C12: Whatever the other clients do, a client whose requests come at non-decreasing times gets at
  most twice the limit of them allowed within any interval as long as the window.
\<close>

theorem rate_limited:
  assumes "1 \<le> m" and "0 < win" and "sorted (own_times key rs)"
  shows "int (within t (win * 1000) (allowed_times key rs (new_rate_limiter m win))) \<le> 2 * m"
proof -
  have "int (within t (win * 1000) (allowed_times key rs L)) \<le> 2 * m"
    if "map_of (rl_table L) key = None" "rl_window_seconds L = win" "rl_max_requests L = m" for L
    using assms(3) that
  proof (induction rs arbitrary: L)
    case (Cons r rs)
    obtain k x where r: "r = (k, x)" by force
    obtain res L' where step: "rate_check k [] x x L = (res, L')" by force
    have same: "rl_window_seconds L' = win" "rl_max_requests L' = m"
      using step Cons.prems(3,4) by (auto simp: rate_check_def Let_def split: option.splits if_splits)
    show ?case
    proof (cases "k = key")
      case False
      then have "map_of (rl_table L') key = None"
        using step Cons.prems(2) by (auto simp: rate_check_def Let_def split: option.splits if_splits)
      then show ?thesis
        using Cons.IH [OF _ _ same] Cons.prems(1) False by (simp add: r step own_times_def)
    next
      case True
      let ?e = "\<lparr>re_count = 1, re_window_start = x\<rparr>"
      have res: "rr_allowed res" "map_of (rl_table L') key = Some ?e"
        using step Cons.prems(2) by (auto simp: rate_check_def True allowed_result_def)
      have later: "sorted (own_times key rs)" "\<forall>y \<in> set (own_times key rs). re_window_start ?e \<le> y"
        using Cons.prems(1) by (simp_all add: r True own_times_def)
      have "allowed_times key rs L' = entry_times m (win * 1000) (own_times key rs) ?e"
        by (rule allowed_times_entry [OF res(2) same(1) assms(2) same(2) later])
      then show ?thesis
        using entry_bound [OF later, of m "win * 1000" t] assms(1,2) res(1)
        by (auto simp: r True step [unfolded True] split: if_splits)
    qed
  qed (use assms(1) in simp)
  then show ?thesis by (simp add: new_rate_limiter_def)
qed

theorem rate_limited_witness:
  "within 4900 5000 (allowed_times ''a'' [(''a'', 0), (''b'', 1), (''a'', 4900), (''a'', 4950), (''a'', 4999), (''a'', 5000), (''a'', 5001), (''a'', 5002), (''a'', 5003)]
     (new_rate_limiter 3 5)) \<le> 6"
  using rate_limited [of 3 5 "''a''" "[(''a'', 0), (''b'', 1), (''a'', 4900), (''a'', 4950), (''a'', 4999), (''a'', 5000), (''a'', 5001), (''a'', 5002), (''a'', 5003)]" 4900]
  by (simp add: own_times_def)

end
