(* ===== verification/Serialize.thy ===== *)
theory Serialize
  imports Registration
begin

text \<open>
  What the objects look like outside the process: the JSON values that \<open>to_rapidjson\<close> builds for
  the web API and the variant maps that \<open>to_variantmap\<close> builds for the Python bindings, for
  accounts and channels (those of servers, roles, uploads and permissions are in \<open>Objects\<close>).
  Writing a JSON value out as text is left to rapidjson.
\<close>

section \<open>Values\<close>

datatype json = JNull | JBool bool | JInt int | JStr bytes | JArr "json list" | JObj "(bytes \<times> json) list"

datatype qvariant = VNull | VUuid quuid | VStr bytes | VBytes bytes | VInt int | VList "qvariant list"

text \<open>
  A rapidjson string is made from \<open>constData()\<close>, so it ends at the first NUL. \<open>QString::fromUtf8\<close>
  is \<open>norm\<close>: its result, encoded again. \<open>date\<close> renders a date (\<open>Qt::ISODate\<close>).
\<close>

definition c_str :: "bytes \<Rightarrow> bytes" where
  "c_str s = takeWhile (\<lambda>c. c \<noteq> CHR 0x00) s"

definition qvariant_map :: "(bytes \<times> qvariant) list \<Rightarrow> (bytes \<times> qvariant) list" where
  "qvariant_map kvs = fold (\<lambda>(k, v). qmap_put k v) kvs []"

text \<open>\<open>m_uid_str\<close> is empty until \<open>setUID\<close> is called, which is never called with the null UUID.\<close>

definition uid_string :: "env \<Rightarrow> quuid \<Rightarrow> bytes" where
  "uid_string E u = (if u = null_uuid then [] else e_uuid_str E u)"

section \<open>Accounts\<close>

definition account_channel_ids :: "(bytes \<times> chan_id option) list \<Rightarrow> chan_id list" where
  "account_channel_ids cs = concat (map (\<lambda>(_, p). case p of None \<Rightarrow> [] | Some x \<Rightarrow> [x]) cs)"

definition account_to_json ::
    "env \<Rightarrow> (nat \<Rightarrow> bytes) \<Rightarrow> bool \<Rightarrow> bool \<Rightarrow> acc_id \<Rightarrow> world \<Rightarrow> json" where
  "account_to_json E date include_channels include_connection_count a w =
     (let x = w_accs w a in
      JObj ([(''uid'', JStr (c_str (uid_string E (a_uid x)))),
             (''name'', JStr (c_str (a_name x))),
             (''nick'', JStr (c_str (a_nick x))),
             (''host'', JStr (c_str (if a_host x = [] then e_default_host E else a_host x))),
             (''creation_date'', JStr (c_str (date (a_creation x))))] @
            (if include_channels then
               [(''channels'', JArr (map (\<lambda>c. JStr (c_str (uid_string E (ch_uid (w_chans w c)))))
                   (account_channel_ids (a_channels x))))]
             else []) @
            (if include_connection_count then
               [(''connections_count'', JInt (int (length (a_connections x))))]
             else [])))"

definition account_to_variantmap :: "env \<Rightarrow> (nat \<Rightarrow> bytes) \<Rightarrow> acc_id \<Rightarrow> world \<Rightarrow> (bytes \<times> qvariant) list" where
  "account_to_variantmap E date a w =
     (let x = w_accs w a in
      qvariant_map
        [(''uid'', VUuid (a_uid x)),
         (''name'', VStr (norm E (a_name x))),
         (''nick'', VStr (norm E (a_nick x))),
         (''host'', VStr (norm E (if a_host x = [] then e_default_host E else a_host x))),
         (''creation_date'', VStr (date (a_creation x))),
         (''channels'', VList (map (\<lambda>c. VUuid (ch_uid (w_chans w c)))
             (account_channel_ids (a_channels x)))),
         (''connections_count'', VInt (int (length (a_connections x))))])"

section \<open>Channels\<close>

definition channel_to_json :: "env \<Rightarrow> (nat \<Rightarrow> bytes) \<Rightarrow> chan_id \<Rightarrow> world \<Rightarrow> json" where
  "channel_to_json E date x w =
     (let c = w_chans w x in
      JObj [(''uid'', JStr (c_str (uid_string E (ch_uid c)))),
            (''name'', JStr (c_str (ch_name c))),
            (''topic'', JStr (c_str (ch_topic c))),
            (''key'', JStr (c_str (ch_key c))),
            (''owner'', case ch_owner c of
               None \<Rightarrow> JNull
             | Some a \<Rightarrow> JStr (c_str (uid_string E (a_uid (w_accs w a))))),
            (''limit'', JInt (ch_limit c)),
            (''date_creation'', JStr (c_str (date (ch_creation c)))),
            (''members'', JArr (map (\<lambda>a. JStr (c_str (uid_string E (a_uid (w_accs w a)))))
               (ch_members c))),
            (''ban_masks'', JArr (map (\<lambda>m. JStr (c_str m)) (ch_bans c))),
            (''modes'', JStr (channel_modes_present (ch_modes c)))])"

definition channel_to_variantmap :: "env \<Rightarrow> (nat \<Rightarrow> bytes) \<Rightarrow> chan_id \<Rightarrow> world \<Rightarrow> (bytes \<times> qvariant) list" where
  "channel_to_variantmap E date x w =
     (let c = w_chans w x in
      qvariant_map
        [(''uid'', VBytes (uid_string E (ch_uid c))),
         (''name'', VStr (norm E (ch_name c))),
         (''topic'', VStr (norm E (ch_topic c))),
         (''key'', VStr (norm E (ch_key c))),
         (''owner'', case ch_owner c of None \<Rightarrow> VNull | Some a \<Rightarrow> VUuid (a_uid (w_accs w a))),
         (''limit'', VInt (ch_limit c)),
         (''date_creation'', VStr (date (ch_creation c))),
         (''members'', VList (map (\<lambda>a. VUuid (a_uid (w_accs w a))) (ch_members c))),
         (''ban_masks'', VList (map (\<lambda>m. VStr (norm E m)) (ch_bans c))),
         (''modes'', VStr (channel_modes_present (ch_modes c)))])"

section \<open>Fields\<close>

fun json_field :: "bytes \<Rightarrow> json \<Rightarrow> json option" where
  "json_field k (JObj kvs) = map_of kvs k"
| "json_field k _ = None"

lemma channel_key_shown: "json_field ''key'' (channel_to_json E date x w) = Some (JStr (c_str (ch_key (w_chans w x))))"
  by (simp add: channel_to_json_def Let_def)

end
