(* ===== verification/Objects.thy ===== *)
theory Objects
  imports Serialize
begin

text \<open>
  The remaining objects of the core and their caches in \<open>Ctx\<close>: servers (\<open>src/core/server.cpp\<close>),
  roles (\<open>role.cpp\<close>), uploads (\<open>upload.cpp\<close>) and permissions (\<open>permission.cpp\<close>). They are created
  from rows of the database (\<open>create_from_db\<close>), found again by UUID or name, and changed by
  setters under their own lock.
\<close>

section \<open>The state\<close>

record server_obj =
  sv_uid :: quuid
  sv_uid_str :: bytes
  sv_name :: bytes
  sv_owner :: "acc_id option"
  sv_channels :: "(quuid \<times> chan_id) list"
  sv_roles :: "(quuid \<times> nat) list"
  sv_accounts :: "(quuid \<times> acc_id) list"
  sv_creation :: nat
  sv_locked :: bool

record role =
  rl_uid :: quuid
  rl_uid_str :: bytes
  rl_name :: bytes
  rl_server_uid :: quuid
  rl_icon_uid :: quuid
  rl_color :: int
  rl_priority :: int
  rl_creation :: nat

record upload =
  up_uid :: quuid
  up_uid_str :: bytes
  up_owner_uid :: quuid
  up_path :: bytes
  up_type :: int
  up_variant :: int
  up_creation :: nat

record permission =
  pm_uid :: quuid
  pm_uid_str :: bytes
  pm_role_uid :: quuid
  pm_flags :: flags
  pm_creation :: nat

text \<open>
  A class with its heap and its members of \<open>Ctx\<close>: the set of objects and the lookup tables (the
  table of names is used by servers and roles only).
\<close>

record 'a registry =
  g_heap :: "nat \<Rightarrow> 'a"
  g_next :: nat
  g_objects :: "nat list"
  g_by_uuid :: "quuid \<rightharpoonup> nat"
  g_by_name :: "bytes \<rightharpoonup> nat"

definition allocate :: "'a \<Rightarrow> 'a registry \<Rightarrow> nat \<times> 'a registry" where
  "allocate obj g = (g_next g, g\<lparr>g_heap := (g_heap g)(g_next g := obj), g_next := g_next g + 1\<rparr>)"

definition modify :: "nat \<Rightarrow> ('a \<Rightarrow> 'a) \<Rightarrow> 'a registry \<Rightarrow> 'a registry" where
  "modify p f g = g\<lparr>g_heap := (g_heap g)(p := f (g_heap g p))\<rparr>"

lemma modify_simps [simp]:
  "g_heap (modify p f g) = (g_heap g)(p := f (g_heap g p))"
  "g_next (modify p f g) = g_next g"
  "g_objects (modify p f g) = g_objects g"
  "g_by_uuid (modify p f g) = g_by_uuid g"
  "g_by_name (modify p f g) = g_by_name g"
  by (simp_all add: modify_def)

section \<open>The caches\<close>

definition server_insert_cache :: "nat \<Rightarrow> server_obj registry \<Rightarrow> server_obj registry" where
  "server_insert_cache p g =
     (let g1 = g\<lparr>g_objects := List.insert p (g_objects g)\<rparr>;
          g2 = g1\<lparr>g_by_uuid := (g_by_uuid g1)(sv_uid (g_heap g p) \<mapsto> p)\<rparr>;
          name = sv_name (g_heap g p)
      in if name \<noteq> [] then g2\<lparr>g_by_name := (g_by_name g2)(name \<mapsto> p)\<rparr> else g2)"

definition server_remove_cache :: "nat \<Rightarrow> server_obj registry \<Rightarrow> server_obj registry" where
  "server_remove_cache p g =
     (let g1 = g\<lparr>g_objects := removeAll p (g_objects g)\<rparr>;
          g2 = g1\<lparr>g_by_uuid := (g_by_uuid g1)(sv_uid (g_heap g p) := None)\<rparr>;
          name = sv_name (g_heap g p)
      in if name \<noteq> [] then g2\<lparr>g_by_name := (g_by_name g2)(name := None)\<rparr> else g2)"

definition role_insert_cache :: "nat \<Rightarrow> role registry \<Rightarrow> role registry" where
  "role_insert_cache p g =
     (let g1 = g\<lparr>g_objects := List.insert p (g_objects g)\<rparr>;
          g2 = g1\<lparr>g_by_uuid := (g_by_uuid g1)(rl_uid (g_heap g p) \<mapsto> p)\<rparr>;
          name = rl_name (g_heap g p)
      in if name \<noteq> [] then g2\<lparr>g_by_name := (g_by_name g2)(name \<mapsto> p)\<rparr> else g2)"

definition role_remove_cache :: "nat \<Rightarrow> role registry \<Rightarrow> role registry" where
  "role_remove_cache p g =
     (let g1 = g\<lparr>g_objects := removeAll p (g_objects g)\<rparr>;
          g2 = g1\<lparr>g_by_uuid := (g_by_uuid g1)(rl_uid (g_heap g p) := None)\<rparr>;
          name = rl_name (g_heap g p)
      in if name \<noteq> [] then g2\<lparr>g_by_name := (g_by_name g2)(name := None)\<rparr> else g2)"

definition upload_insert_cache :: "nat \<Rightarrow> upload registry \<Rightarrow> upload registry" where
  "upload_insert_cache p g =
     (let g1 = g\<lparr>g_objects := List.insert p (g_objects g)\<rparr>
      in g1\<lparr>g_by_uuid := (g_by_uuid g1)(up_uid (g_heap g p) \<mapsto> p)\<rparr>)"

definition upload_remove_cache :: "nat \<Rightarrow> upload registry \<Rightarrow> upload registry" where
  "upload_remove_cache p g =
     (let g1 = g\<lparr>g_objects := removeAll p (g_objects g)\<rparr>
      in g1\<lparr>g_by_uuid := (g_by_uuid g1)(up_uid (g_heap g p) := None)\<rparr>)"

definition permission_insert_cache :: "nat \<Rightarrow> permission registry \<Rightarrow> permission registry" where
  "permission_insert_cache p g =
     (let g1 = g\<lparr>g_objects := List.insert p (g_objects g)\<rparr>
      in g1\<lparr>g_by_uuid := (g_by_uuid g1)(pm_uid (g_heap g p) \<mapsto> p)\<rparr>)"

definition permission_remove_cache :: "nat \<Rightarrow> permission registry \<Rightarrow> permission registry" where
  "permission_remove_cache p g =
     (let g1 = g\<lparr>g_objects := removeAll p (g_objects g)\<rparr>
      in g1\<lparr>g_by_uuid := (g_by_uuid g1)(pm_uid (g_heap g p) := None)\<rparr>)"

interpretation server_cache: named_cache
  server_insert_cache server_remove_cache "\<lambda>g. set (g_objects g)" g_by_uuid
  "\<lambda>g p. sv_uid (g_heap g p)" g_by_name "\<lambda>g p. sv_name (g_heap g p)"
  by unfold_locales (auto simp: server_insert_cache_def server_remove_cache_def Let_def)

interpretation role_cache: named_cache
  role_insert_cache role_remove_cache "\<lambda>g. set (g_objects g)" g_by_uuid
  "\<lambda>g p. rl_uid (g_heap g p)" g_by_name "\<lambda>g p. rl_name (g_heap g p)"
  by unfold_locales (auto simp: role_insert_cache_def role_remove_cache_def Let_def)

interpretation upload_cache: object_cache
  upload_insert_cache upload_remove_cache "\<lambda>g. set (g_objects g)" g_by_uuid
  "\<lambda>g p. up_uid (g_heap g p)"
  by unfold_locales (auto simp: upload_insert_cache_def upload_remove_cache_def Let_def)

interpretation permission_cache: object_cache
  permission_insert_cache permission_remove_cache "\<lambda>g. set (g_objects g)" g_by_uuid
  "\<lambda>g p. pm_uid (g_heap g p)"
  by unfold_locales (auto simp: permission_insert_cache_def permission_remove_cache_def Let_def)

text \<open>\<open>get_by_uid\<close> and \<open>get_by_name\<close> of the four classes.\<close>

definition server_get_by_uid :: "quuid \<Rightarrow> server_obj registry \<Rightarrow> nat option" where
  "server_get_by_uid u g = g_by_uuid g u"

definition server_get_by_name :: "bytes \<Rightarrow> server_obj registry \<Rightarrow> nat option" where
  "server_get_by_name n g = g_by_name g n"

definition role_get_by_uid :: "quuid \<Rightarrow> role registry \<Rightarrow> nat option" where
  "role_get_by_uid u g = g_by_uuid g u"

definition role_get_by_name :: "bytes \<Rightarrow> role registry \<Rightarrow> nat option" where
  "role_get_by_name n g = g_by_name g n"

definition upload_get_by_uid :: "quuid \<Rightarrow> upload registry \<Rightarrow> nat option" where
  "upload_get_by_uid u g = g_by_uuid g u"

definition permission_get_by_uid :: "quuid \<Rightarrow> permission registry \<Rightarrow> nat option" where
  "permission_get_by_uid u g = g_by_uuid g u"

section \<open>Setters\<close>

text \<open>A setter takes the write lock, which a thread that holds it waits for for ever.\<close>

definition server_write ::
    "nat \<Rightarrow> (server_obj \<Rightarrow> server_obj) \<Rightarrow> server_obj registry \<Rightarrow> server_obj registry res" where
  "server_write p f g = (if sv_locked (g_heap g p) then Inl Deadlock else Inr (modify p f g))"

definition server_set_uid :: "env \<Rightarrow> nat \<Rightarrow> quuid \<Rightarrow> server_obj registry \<Rightarrow> server_obj registry res" where
  "server_set_uid E p u = server_write p (\<lambda>s. s\<lparr>sv_uid := u, sv_uid_str := e_uuid_str E u\<rparr>)"

definition server_set_name :: "nat \<Rightarrow> bytes \<Rightarrow> server_obj registry \<Rightarrow> server_obj registry res" where
  "server_set_name p n = server_write p (\<lambda>s. s\<lparr>sv_name := n\<rparr>)"

definition server_set_owner :: "nat \<Rightarrow> acc_id option \<Rightarrow> server_obj registry \<Rightarrow> server_obj registry res" where
  "server_set_owner p a = server_write p (\<lambda>s. s\<lparr>sv_owner := a\<rparr>)"

definition role_set_uid :: "env \<Rightarrow> nat \<Rightarrow> quuid \<Rightarrow> role registry \<Rightarrow> role registry" where
  "role_set_uid E p u = modify p (\<lambda>r. r\<lparr>rl_uid := u, rl_uid_str := e_uuid_str E u\<rparr>)"

definition role_set_name :: "nat \<Rightarrow> bytes \<Rightarrow> role registry \<Rightarrow> role registry" where
  "role_set_name p n = modify p (\<lambda>r. r\<lparr>rl_name := n\<rparr>)"

definition role_set_server_uid :: "nat \<Rightarrow> quuid \<Rightarrow> role registry \<Rightarrow> role registry" where
  "role_set_server_uid p u = modify p (\<lambda>r. r\<lparr>rl_server_uid := u\<rparr>)"

definition role_set_icon_uid :: "nat \<Rightarrow> quuid \<Rightarrow> role registry \<Rightarrow> role registry" where
  "role_set_icon_uid p u = modify p (\<lambda>r. r\<lparr>rl_icon_uid := u\<rparr>)"

definition role_set_color :: "nat \<Rightarrow> int \<Rightarrow> role registry \<Rightarrow> role registry" where
  "role_set_color p n = modify p (\<lambda>r. r\<lparr>rl_color := n\<rparr>)"

definition role_set_priority :: "nat \<Rightarrow> int \<Rightarrow> role registry \<Rightarrow> role registry" where
  "role_set_priority p n = modify p (\<lambda>r. r\<lparr>rl_priority := n\<rparr>)"

definition upload_set_uid :: "env \<Rightarrow> nat \<Rightarrow> quuid \<Rightarrow> upload registry \<Rightarrow> upload registry" where
  "upload_set_uid E p u = modify p (\<lambda>r. r\<lparr>up_uid := u, up_uid_str := e_uuid_str E u\<rparr>)"

definition upload_set_owner_uid :: "nat \<Rightarrow> quuid \<Rightarrow> upload registry \<Rightarrow> upload registry" where
  "upload_set_owner_uid p u = modify p (\<lambda>r. r\<lparr>up_owner_uid := u\<rparr>)"

definition upload_set_path :: "nat \<Rightarrow> bytes \<Rightarrow> upload registry \<Rightarrow> upload registry" where
  "upload_set_path p s = modify p (\<lambda>r. r\<lparr>up_path := s\<rparr>)"

definition upload_set_type :: "nat \<Rightarrow> int \<Rightarrow> upload registry \<Rightarrow> upload registry" where
  "upload_set_type p n = modify p (\<lambda>r. r\<lparr>up_type := n\<rparr>)"

definition upload_set_variant :: "nat \<Rightarrow> int \<Rightarrow> upload registry \<Rightarrow> upload registry" where
  "upload_set_variant p n = modify p (\<lambda>r. r\<lparr>up_variant := n\<rparr>)"

definition permission_set_uid :: "env \<Rightarrow> nat \<Rightarrow> quuid \<Rightarrow> permission registry \<Rightarrow> permission registry" where
  "permission_set_uid E p u = modify p (\<lambda>r. r\<lparr>pm_uid := u, pm_uid_str := e_uuid_str E u\<rparr>)"

definition permission_set_role_uid :: "nat \<Rightarrow> quuid \<Rightarrow> permission registry \<Rightarrow> permission registry" where
  "permission_set_role_uid p u = modify p (\<lambda>r. r\<lparr>pm_role_uid := u\<rparr>)"

definition permission_set_flags :: "nat \<Rightarrow> flags \<Rightarrow> permission registry \<Rightarrow> permission registry" where
  "permission_set_flags p f = modify p (\<lambda>r. r\<lparr>pm_flags := f\<rparr>)"

section \<open>Creation\<close>

definition new_server_obj :: "bytes \<Rightarrow> server_obj" where
  "new_server_obj name =
     \<lparr>sv_uid = null_uuid, sv_uid_str = [], sv_name = name, sv_owner = None, sv_channels = [],
      sv_roles = [], sv_accounts = [], sv_creation = 0, sv_locked = False\<rparr>"

definition new_role :: "bytes \<Rightarrow> role" where
  "new_role name =
     \<lparr>rl_uid = null_uuid, rl_uid_str = [], rl_name = name, rl_server_uid = null_uuid,
      rl_icon_uid = null_uuid, rl_color = 0, rl_priority = 0, rl_creation = 0\<rparr>"

definition new_upload :: upload where
  "new_upload =
     \<lparr>up_uid = null_uuid, up_uid_str = [], up_owner_uid = null_uuid, up_path = [], up_type = 0,
      up_variant = 0, up_creation = 0\<rparr>"

definition new_permission :: permission where
  "new_permission =
     \<lparr>pm_uid = null_uuid, pm_uid_str = [], pm_role_uid = null_uuid, pm_flags = 0, pm_creation = 0\<rparr>"

text \<open>The rows, in the order of the parameters of \<open>create_from_db\<close>.\<close>

type_synonym server_row = "quuid \<times> bytes \<times> acc_id option \<times> nat"
type_synonym role_row = "quuid \<times> quuid \<times> bytes \<times> quuid \<times> int \<times> int \<times> nat"
type_synonym upload_row = "quuid \<times> quuid \<times> bytes \<times> int \<times> int \<times> nat"
type_synonym permission_row = "quuid \<times> quuid \<times> flags \<times> nat"

definition server_create_from_db ::
    "env \<Rightarrow> server_row \<Rightarrow> server_obj registry \<Rightarrow> (nat \<times> server_obj registry) res" where
  "server_create_from_db E row g =
     (let (id, name, owner, creation) = row in
      case server_get_by_uid id g of
        Some ptr \<Rightarrow> Inr (ptr, g)
      | None \<Rightarrow>
          let (p, g1) = allocate (new_server_obj name) g in
          bind_res (server_set_uid E p id g1) (\<lambda>g2.
          bind_res (server_set_name p name g2) (\<lambda>g3.
          bind_res (server_set_owner p owner g3) (\<lambda>g4.
          Inr (p, server_insert_cache p (modify p (\<lambda>s. s\<lparr>sv_creation := creation\<rparr>) g4))))))"

definition role_create_from_db :: "env \<Rightarrow> role_row \<Rightarrow> role registry \<Rightarrow> nat \<times> role registry" where
  "role_create_from_db E row g =
     (let (id, server_id, name, icon, color, priority, creation) = row in
      case role_get_by_uid id g of
        Some ptr \<Rightarrow> (ptr, g)
      | None \<Rightarrow>
          let (p, g1) = allocate (new_role name) g;
              g2 = role_set_uid E p id g1;
              g3 = role_set_server_uid p server_id g2;
              g4 = role_set_name p name g3;
              g5 = role_set_icon_uid p icon g4;
              g6 = role_set_color p color g5;
              g7 = role_set_priority p priority g6;
              g8 = modify p (\<lambda>r. r\<lparr>rl_creation := creation\<rparr>) g7
          in (p, role_insert_cache p g8))"

definition upload_create_from_db :: "env \<Rightarrow> upload_row \<Rightarrow> upload registry \<Rightarrow> nat \<times> upload registry" where
  "upload_create_from_db E row g =
     (let (id, owner, path, type, variant, creation) = row in
      case upload_get_by_uid id g of
        Some ptr \<Rightarrow> (ptr, g)
      | None \<Rightarrow>
          let (p, g1) = allocate new_upload g;
              g2 = upload_set_uid E p id g1;
              g3 = upload_set_owner_uid p owner g2;
              g4 = upload_set_path p path g3;
              g5 = upload_set_type p type g4;
              g6 = upload_set_variant p variant g5;
              g7 = modify p (\<lambda>r. r\<lparr>up_creation := creation\<rparr>) g6
          in (p, upload_insert_cache p g7))"

definition permission_create_from_db ::
    "env \<Rightarrow> permission_row \<Rightarrow> permission registry \<Rightarrow> nat \<times> permission registry" where
  "permission_create_from_db E row g =
     (let (id, role_id, bits, creation) = row in
      case permission_get_by_uid id g of
        Some ptr \<Rightarrow> (ptr, g)
      | None \<Rightarrow>
          let (p, g1) = allocate new_permission g;
              g2 = permission_set_uid E p id g1;
              g3 = permission_set_role_uid p role_id g2;
              g4 = permission_set_flags p bits g3;
              g5 = modify p (\<lambda>r. r\<lparr>pm_creation := creation\<rparr>) g4
          in (p, permission_insert_cache p g5))"

end
