(* ===== verification/Servers.thy ===== *)
theory Servers
  imports Objects Sample
begin

text \<open>
  What a server of the core holds (channels, roles, accounts) and the merge of two servers, the
  JSON values and variant maps of servers, roles, uploads and permissions, and what loading rows
  of the database with \<open>create_from_db\<close> amounts to, stated once for the four classes as the
  locale \<open>row_loader\<close>.
\<close>

section \<open>The contents of a server\<close>

definition server_create :: "server_obj registry \<Rightarrow> nat \<times> server_obj registry" where
  "server_create g = allocate (new_server_obj []) g"

definition role_create :: "role registry \<Rightarrow> nat \<times> role registry" where
  "role_create g = allocate (new_role []) g"

definition upload_create :: "upload registry \<Rightarrow> nat \<times> upload registry" where
  "upload_create g = allocate new_upload g"

definition permission_create :: "permission registry \<Rightarrow> nat \<times> permission registry" where
  "permission_create g = allocate new_permission g"

definition server_add_channel :: "world \<Rightarrow> nat \<Rightarrow> chan_id \<Rightarrow> server_obj registry \<Rightarrow> server_obj registry res" where
  "server_add_channel w p x =
     server_write p (\<lambda>s. s\<lparr>sv_channels := hash_put (ch_uid (w_chans w x)) x (sv_channels s)\<rparr>)"

definition server_remove_channel :: "world \<Rightarrow> nat \<Rightarrow> chan_id \<Rightarrow> server_obj registry \<Rightarrow> server_obj registry res" where
  "server_remove_channel w p x =
     server_write p (\<lambda>s. s\<lparr>sv_channels := hash_del (ch_uid (w_chans w x)) (sv_channels s)\<rparr>)"

definition server_add_role ::
    "role registry \<Rightarrow> nat \<Rightarrow> nat \<Rightarrow> server_obj registry \<Rightarrow> server_obj registry res" where
  "server_add_role R p r =
     server_write p (\<lambda>s. s\<lparr>sv_roles := hash_put (rl_uid (g_heap R r)) r (sv_roles s)\<rparr>)"

definition server_remove_role ::
    "role registry \<Rightarrow> nat \<Rightarrow> nat \<Rightarrow> server_obj registry \<Rightarrow> server_obj registry res" where
  "server_remove_role R p r =
     server_write p (\<lambda>s. s\<lparr>sv_roles := hash_del (rl_uid (g_heap R r)) (sv_roles s)\<rparr>)"

definition server_add_account ::
    "world \<Rightarrow> nat \<Rightarrow> acc_id option \<Rightarrow> server_obj registry \<Rightarrow> server_obj registry res" where
  "server_add_account w p acc g =
     (case acc of
        None \<Rightarrow> Inr g
      | Some a \<Rightarrow>
          server_write p (\<lambda>s. s\<lparr>sv_accounts := hash_put (a_uid (w_accs w a)) a (sv_accounts s)\<rparr>) g)"

definition server_remove_account :: "nat \<Rightarrow> quuid \<Rightarrow> server_obj registry \<Rightarrow> server_obj registry res" where
  "server_remove_account p u =
     server_write p (\<lambda>s. s\<lparr>sv_accounts := hash_del u (sv_accounts s)\<rparr>)"

definition server_all_channels :: "server_obj \<Rightarrow> chan_id list" where
  "server_all_channels s = map snd (sv_channels s)"

definition server_all_roles :: "server_obj \<Rightarrow> nat list" where
  "server_all_roles s = map snd (sv_roles s)"

definition server_all_accounts :: "server_obj \<Rightarrow> acc_id list" where
  "server_all_accounts s = map snd (sv_accounts s)"

definition server_role_by_name :: "role registry \<Rightarrow> bytes \<Rightarrow> server_obj \<Rightarrow> nat option" where
  "server_role_by_name R n s = find (\<lambda>r. rl_name (g_heap R r) = n) (server_all_roles s)"

definition server_is_owned_by :: "world \<Rightarrow> quuid \<Rightarrow> server_obj \<Rightarrow> bool" where
  "server_is_owned_by w u s \<longleftrightarrow> (case sv_owner s of None \<Rightarrow> False | Some a \<Rightarrow> a_uid (w_accs w a) = u)"

text \<open>
  \<open>merge\<close> holds the write lock of the server while it calls \<open>add_channel\<close> and \<open>add_role\<close>, which
  take it; \<open>server_remove_cache\<close> reads UUID and name of \<open>from\<close> under the lock of \<open>from\<close> (here \<open>src\<close>).
\<close>

definition server_merge ::
    "world \<Rightarrow> role registry \<Rightarrow> nat \<Rightarrow> nat \<Rightarrow> server_obj registry \<Rightarrow> server_obj registry res" where
  "server_merge w R p src g =
     bind_res (server_write p (\<lambda>s. s\<lparr>sv_locked := True\<rparr>) g) (\<lambda>g1.
     bind_res (fold_res (\<lambda>x. server_add_channel w p x) (server_all_channels (g_heap g1 src)) g1) (\<lambda>g2.
     bind_res (fold_res (\<lambda>r. server_add_role R p r) (server_all_roles (g_heap g2 src)) g2) (\<lambda>g3.
     let g4 = modify src (\<lambda>s. s\<lparr>sv_channels := [], sv_roles := []\<rparr>) g3
     in if sv_locked (g_heap g4 src) then Inl Deadlock
        else Inr (modify p (\<lambda>s. s\<lparr>sv_locked := False\<rparr>) (server_remove_cache src g4)))))"

section \<open>JSON and variant maps\<close>

definition server_to_json ::
    "env \<Rightarrow> (nat \<Rightarrow> bytes) \<Rightarrow> bool \<Rightarrow> bool \<Rightarrow> bool \<Rightarrow> world \<Rightarrow> role registry \<Rightarrow> server_obj \<Rightarrow> json" where
  "server_to_json E date include_channels include_roles include_accounts w R s =
     JObj ([(''uid'', JStr (c_str (sv_uid_str s))),
            (''name'', JStr (c_str (sv_name s))),
            (''owner_uid'', case sv_owner s of
               None \<Rightarrow> JStr []
             | Some a \<Rightarrow> JStr (c_str (uid_string E (a_uid (w_accs w a))))),
            (''creation_date'', JStr (c_str (date (sv_creation s))))] @
           (if include_channels then
              [(''channels'', JArr (map (\<lambda>x. JStr (c_str (uid_string E (ch_uid (w_chans w x)))))
                  (server_all_channels s)))]
            else []) @
           (if include_roles then
              [(''roles'', JArr (map (\<lambda>r. JStr (c_str (rl_uid_str (g_heap R r)))) (server_all_roles s)))]
            else []) @
           (if include_accounts then
              [(''accounts'', JArr (map (\<lambda>a. JStr (c_str (uid_string E (a_uid (w_accs w a)))))
                  (server_all_accounts s)))]
            else []))"

definition server_to_variantmap ::
    "env \<Rightarrow> (nat \<Rightarrow> bytes) \<Rightarrow> world \<Rightarrow> role registry \<Rightarrow> server_obj \<Rightarrow> (bytes \<times> qvariant) list" where
  "server_to_variantmap E date w R s =
     qvariant_map
       [(''uid'', VUuid (sv_uid s)),
        (''name'', VStr (norm E (sv_name s))),
        (''owner_uid'', case sv_owner s of None \<Rightarrow> VStr [] | Some a \<Rightarrow> VUuid (a_uid (w_accs w a))),
        (''creation_date'', VStr (date (sv_creation s))),
        (''channels'', VList (map (\<lambda>x. VUuid (ch_uid (w_chans w x))) (server_all_channels s))),
        (''roles'', VList (map (\<lambda>r. VUuid (rl_uid (g_heap R r))) (server_all_roles s))),
        (''accounts'', VList (map (\<lambda>a. VUuid (a_uid (w_accs w a))) (server_all_accounts s)))]"

definition role_to_json :: "env \<Rightarrow> (nat \<Rightarrow> bytes) \<Rightarrow> role \<Rightarrow> json" where
  "role_to_json E date r =
     JObj [(''uid'', JStr (c_str (rl_uid_str r))),
           (''name'', JStr (c_str (rl_name r))),
           (''server_uid'', JStr (c_str (e_uuid_str E (rl_server_uid r)))),
           (''icon_uid'', JStr (c_str (e_uuid_str E (rl_icon_uid r)))),
           (''color'', JInt (rl_color r)),
           (''priority'', JInt (rl_priority r)),
           (''creation_date'', JStr (c_str (date (rl_creation r))))]"

definition role_to_variantmap :: "env \<Rightarrow> (nat \<Rightarrow> bytes) \<Rightarrow> role \<Rightarrow> (bytes \<times> qvariant) list" where
  "role_to_variantmap E date r =
     qvariant_map
       [(''uid'', VUuid (rl_uid r)),
        (''name'', VStr (norm E (rl_name r))),
        (''server_uid'', VUuid (rl_server_uid r)),
        (''icon_uid'', VUuid (rl_icon_uid r)),
        (''color'', VInt (rl_color r)),
        (''priority'', VInt (rl_priority r)),
        (''creation_date'', VStr (date (rl_creation r)))]"

text \<open>The path of an upload is a \<open>QString\<close>, kept here as the bytes of its UTF-8 form.\<close>

definition upload_to_json :: "env \<Rightarrow> (nat \<Rightarrow> bytes) \<Rightarrow> upload \<Rightarrow> json" where
  "upload_to_json E date u =
     JObj [(''uid'', JStr (c_str (up_uid_str u))),
           (''owner_uid'', JStr (c_str (e_uuid_str E (up_owner_uid u)))),
           (''path'', JStr (c_str (up_path u))),
           (''type'', JInt (up_type u)),
           (''variant'', JInt (up_variant u)),
           (''creation_date'', JStr (c_str (date (up_creation u))))]"

definition upload_to_variantmap :: "(nat \<Rightarrow> bytes) \<Rightarrow> upload \<Rightarrow> (bytes \<times> qvariant) list" where
  "upload_to_variantmap date u =
     qvariant_map
       [(''uid'', VUuid (up_uid u)),
        (''owner_uid'', VUuid (up_owner_uid u)),
        (''path'', VStr (up_path u)),
        (''type'', VInt (up_type u)),
        (''variant'', VInt (up_variant u)),
        (''creation_date'', VStr (date (up_creation u)))]"

definition permission_to_json :: "env \<Rightarrow> (nat \<Rightarrow> bytes) \<Rightarrow> permission \<Rightarrow> json" where
  "permission_to_json E date p =
     JObj [(''uid'', JStr (c_str (pm_uid_str p))),
           (''role_uid'', JStr (c_str (e_uuid_str E (pm_role_uid p)))),
           (''flags'', JInt (sint (pm_flags p))),
           (''creation_date'', JStr (c_str (date (pm_creation p))))]"

definition permission_to_variantmap :: "(nat \<Rightarrow> bytes) \<Rightarrow> permission \<Rightarrow> (bytes \<times> qvariant) list" where
  "permission_to_variantmap date p =
     qvariant_map
       [(''uid'', VUuid (pm_uid p)),
        (''role_uid'', VUuid (pm_role_uid p)),
        (''flags'', VInt (sint (pm_flags p))),
        (''creation_date'', VStr (date (pm_creation p)))]"

section \<open>Loading rows\<close>

text \<open>
  \<open>get\<close> is what is found under a key (a UUID, or the name of a channel). A row whose key is known
  changes nothing; another one makes an object of its fields.
\<close>

locale row_loader =
  fixes load :: "'row \<Rightarrow> 's \<Rightarrow> 's"
    and wf :: "'s \<Rightarrow> bool"
    and get :: "'s \<Rightarrow> 'k \<Rightarrow> 'o option"
    and key :: "'row \<Rightarrow> 'k"
    and obj :: "'row \<Rightarrow> 'o"
  assumes wf_load: "wf s \<Longrightarrow> wf (load r s)"
    and get_load: "wf s \<Longrightarrow> get (load r s) u =
      (if get s u = None \<and> u = key r then Some (obj r) else get s u)"
begin

lemma wf_loads: "wf s \<Longrightarrow> wf (fold load rows s)"
  by (induction rows arbitrary: s) (simp_all add: wf_load)

lemma get_loads:
  "wf s \<Longrightarrow> get (fold load rows s) u =
     (case get s u of Some x \<Rightarrow> Some x | None \<Rightarrow> map_option obj (find (\<lambda>r. key r = u) rows))"
proof (induction rows arbitrary: s)
  case (Cons r rows)
  then show ?case by (auto simp: wf_load get_load split: option.splits)
qed (auto split: option.splits)

lemma load_twice: "wf s \<Longrightarrow> get (load r (load r s)) = get (load r s)"
  by (intro ext) (auto simp: wf_load get_load)

lemma loads_from_empty:
  "wf s \<Longrightarrow> get s = (\<lambda>_. None) \<Longrightarrow>
   get (fold load rows s) u = map_option obj (find (\<lambda>r. key r = u) rows)"
  by (simp add: get_loads)

end

definition registry_ok :: "'a registry \<Rightarrow> bool" where
  "registry_ok g \<longleftrightarrow> (\<forall>u p. g_by_uuid g u = Some p \<longrightarrow> p < g_next g)"

definition found :: "'a registry \<Rightarrow> quuid \<Rightarrow> 'a option" where
  "found g u = map_option (g_heap g) (g_by_uuid g u)"

definition empty_registry :: "'a \<Rightarrow> 'a registry" where
  "empty_registry x =
     \<lparr>g_heap = (\<lambda>_. x), g_next = 0, g_objects = [], g_by_uuid = Map.empty, g_by_name = Map.empty\<rparr>"

lemma empty_registry_ok: "registry_ok (empty_registry x)" "found (empty_registry x) = (\<lambda>_. None)"
  by (auto simp: registry_ok_def found_def empty_registry_def)

text \<open>An operation that adds one new object, known under one UUID.\<close>

lemma registered:
  assumes "registry_ok g" and "g_by_uuid g u = None"
    and "g_next g' = g_next g + 1" and "g_by_uuid g' = (g_by_uuid g)(u \<mapsto> g_next g)"
    and "g_heap g' = (g_heap g)(g_next g := x)"
  shows "registry_ok g'" and "found g' v = (if found g v = None \<and> v = u then Some x else found g v)"
proof -
  have less: "g_by_uuid g v = Some p \<Longrightarrow> p < g_next g" for v p
    using assms(1) by (auto simp: registry_ok_def)
  show "registry_ok g'" using less by (auto simp: registry_ok_def assms(3,4) less_Suc_eq)
  show "found g' v = (if found g v = None \<and> v = u then Some x else found g v)"
    using less [of v] assms(2) by (cases "g_by_uuid g v") (auto simp: found_def assms(4,5))
qed

definition server_of_row :: "env \<Rightarrow> server_row \<Rightarrow> server_obj" where
  "server_of_row E = (\<lambda>(id, name, owner, creation).
     (new_server_obj name)\<lparr>sv_uid := id, sv_uid_str := e_uuid_str E id, sv_owner := owner,
       sv_creation := creation\<rparr>)"

definition role_of_row :: "env \<Rightarrow> role_row \<Rightarrow> role" where
  "role_of_row E = (\<lambda>(id, server_id, name, icon, color, priority, creation).
     \<lparr>rl_uid = id, rl_uid_str = e_uuid_str E id, rl_name = name, rl_server_uid = server_id,
      rl_icon_uid = icon, rl_color = color, rl_priority = priority, rl_creation = creation\<rparr>)"

definition upload_of_row :: "env \<Rightarrow> upload_row \<Rightarrow> upload" where
  "upload_of_row E = (\<lambda>(id, owner, path, type, variant, creation).
     \<lparr>up_uid = id, up_uid_str = e_uuid_str E id, up_owner_uid = owner, up_path = path,
      up_type = type, up_variant = variant, up_creation = creation\<rparr>)"

definition permission_of_row :: "env \<Rightarrow> permission_row \<Rightarrow> permission" where
  "permission_of_row E = (\<lambda>(id, role_id, bits, creation).
     \<lparr>pm_uid = id, pm_uid_str = e_uuid_str E id, pm_role_uid = role_id, pm_flags = bits,
      pm_creation = creation\<rparr>)"

text \<open>A new object is not locked, so a server is created without a fault.\<close>

definition load_server :: "env \<Rightarrow> server_row \<Rightarrow> server_obj registry \<Rightarrow> server_obj registry" where
  "load_server E row g =
     (case g_by_uuid g (fst row) of
        Some _ \<Rightarrow> g
      | None \<Rightarrow> server_insert_cache (g_next g)
          (g\<lparr>g_next := g_next g + 1, g_heap := (g_heap g)(g_next g := server_of_row E row)\<rparr>))"

lemma server_create_from_db_eq:
  "server_create_from_db E row g =
     Inr (case g_by_uuid g (fst row) of Some p \<Rightarrow> p | None \<Rightarrow> g_next g, load_server E row g)"
  by (auto simp: server_create_from_db_def load_server_def server_get_by_uid_def allocate_def
      server_set_uid_def server_set_name_def server_set_owner_def server_write_def
      server_of_row_def new_server_obj_def modify_def split: option.split prod.split)

lemma server_cache_fields [simp]:
  "g_heap (server_insert_cache p g) = g_heap g" "g_next (server_insert_cache p g) = g_next g"
  by (simp_all add: server_insert_cache_def Let_def)

lemma role_cache_fields [simp]:
  "g_heap (role_insert_cache p g) = g_heap g" "g_next (role_insert_cache p g) = g_next g"
  by (simp_all add: role_insert_cache_def Let_def)

lemma upload_cache_fields [simp]:
  "g_heap (upload_insert_cache p g) = g_heap g" "g_next (upload_insert_cache p g) = g_next g"
  by (simp_all add: upload_insert_cache_def Let_def)

lemma permission_cache_fields [simp]:
  "g_heap (permission_insert_cache p g) = g_heap g" "g_next (permission_insert_cache p g) = g_next g"
  by (simp_all add: permission_insert_cache_def Let_def)

lemma loader_from_registered:
  fixes load :: "'row \<Rightarrow> 'a registry \<Rightarrow> 'a registry"
  assumes "\<And>r g. g_by_uuid g (key r) \<noteq> None \<Longrightarrow> load r g = g"
    and "\<And>r g. g_by_uuid g (key r) = None \<Longrightarrow>
      g_next (load r g) = g_next g + 1 \<and> g_by_uuid (load r g) = (g_by_uuid g)(key r \<mapsto> g_next g) \<and>
      g_heap (load r g) = (g_heap g)(g_next g := obj r)"
  shows "row_loader load registry_ok found key obj"
proof
  fix g :: "'a registry" and r u
  assume ok: "registry_ok g"
  show "registry_ok (load r g)"
  proof (cases "g_by_uuid g (key r)")
    case None
    then show ?thesis using registered(1) [OF ok None] assms(2) [OF None] by blast
  qed (simp add: assms(1) ok)
  show "found (load r g) u = (if found g u = None \<and> u = key r then Some (obj r) else found g u)"
  proof (cases "g_by_uuid g (key r)")
    case None
    then show ?thesis using registered(2) [OF ok None] assms(2) [OF None] by blast
  next
    case (Some p)
    then have "found g (key r) \<noteq> None" by (simp add: found_def)
    with Some show ?thesis by (auto simp: assms(1))
  qed
qed

interpretation server_rows: row_loader "load_server E" registry_ok found fst "server_of_row E"
  by (rule loader_from_registered)
    (auto simp: load_server_def server_cache.by_uuid_ins server_of_row_def split: prod.split)

lemmas role_setter_defs =
  role_set_uid_def role_set_server_uid_def role_set_name_def role_set_icon_uid_def
  role_set_color_def role_set_priority_def

lemmas upload_setter_defs =
  upload_set_uid_def upload_set_owner_uid_def upload_set_path_def upload_set_type_def
  upload_set_variant_def

lemmas permission_setter_defs =
  permission_set_uid_def permission_set_role_uid_def permission_set_flags_def

interpretation role_rows: row_loader "\<lambda>r g. snd (role_create_from_db E r g)" registry_ok found fst "role_of_row E"
  by (rule loader_from_registered)
    (auto simp: role_create_from_db_def role_get_by_uid_def allocate_def role_setter_defs
      role_cache.by_uuid_ins role_of_row_def new_role_def split: prod.split)

interpretation upload_rows: row_loader "\<lambda>r g. snd (upload_create_from_db E r g)" registry_ok found fst "upload_of_row E"
  by (rule loader_from_registered)
    (auto simp: upload_create_from_db_def upload_get_by_uid_def allocate_def upload_setter_defs
      upload_cache.by_uuid_ins upload_of_row_def new_upload_def split: prod.split)

interpretation permission_rows: row_loader "\<lambda>r g. snd (permission_create_from_db E r g)" registry_ok found fst
    "permission_of_row E"
  by (rule loader_from_registered)
    (auto simp: permission_create_from_db_def permission_get_by_uid_def allocate_def permission_setter_defs
      permission_cache.by_uuid_ins permission_of_row_def new_permission_def split: prod.split)

section \<open>What the operations promise\<close>

text \<open>
  C14: After any sequence of rows is loaded, the server, role, upload or permission found under a
  UUID is the one the first row with that UUID describes, field by field, and there is none
  when no row has it; loading servers never fails.
\<close>

theorem rows_loaded:
  "map_option (g_heap (fold (\<lambda>r g. snd (role_create_from_db E r g)) rs (empty_registry r0)))
     (role_get_by_uid u (fold (\<lambda>r g. snd (role_create_from_db E r g)) rs (empty_registry r0))) =
     map_option (role_of_row E) (find (\<lambda>r. fst r = u) rs) \<and>
   map_option (g_heap (fold (\<lambda>r g. snd (upload_create_from_db E r g)) us (empty_registry u0)))
     (upload_get_by_uid u (fold (\<lambda>r g. snd (upload_create_from_db E r g)) us (empty_registry u0))) =
     map_option (upload_of_row E) (find (\<lambda>r. fst r = u) us) \<and>
   map_option (g_heap (fold (\<lambda>r g. snd (permission_create_from_db E r g)) ps (empty_registry p0)))
     (permission_get_by_uid u (fold (\<lambda>r g. snd (permission_create_from_db E r g)) ps (empty_registry p0))) =
     map_option (permission_of_row E) (find (\<lambda>r. fst r = u) ps) \<and>
   (\<exists>g. fold_res (\<lambda>r g. bind_res (server_create_from_db E r g) (\<lambda>(_, g'). Inr g')) ss (empty_registry s0) = Inr g \<and>
     map_option (g_heap g) (server_get_by_uid u g) = map_option (server_of_row E) (find (\<lambda>r. fst r = u) ss))"
proof -
  have servers: "fold_res (\<lambda>r g. bind_res (server_create_from_db E r g) (\<lambda>(_, g'). Inr g')) ss g =
      Inr (fold (load_server E) ss g)" for g
    by (induction ss arbitrary: g) (simp_all add: server_create_from_db_eq)
  show ?thesis
    using role_rows.loads_from_empty [OF empty_registry_ok, of E rs r0 u]
      upload_rows.loads_from_empty [OF empty_registry_ok, of E us u0 u]
      permission_rows.loads_from_empty [OF empty_registry_ok, of E ps p0 u]
      server_rows.loads_from_empty [OF empty_registry_ok, of E ss s0 u]
    by (simp add: servers found_def role_get_by_uid_def upload_get_by_uid_def
        permission_get_by_uid_def server_get_by_uid_def)
qed

text \<open>
  Merging a server into another one stops the thread for ever as soon as the merged server
  has a channel or a role: \<open>merge\<close> calls \<open>add_channel\<close> and \<open>add_role\<close> with the lock they take.
\<close>

theorem merge_deadlocks:
  assumes "sv_channels (g_heap g src) \<noteq> [] \<or> sv_roles (g_heap g src) \<noteq> []"
  shows "server_merge w R p src g = Inl Deadlock"
proof (cases "sv_locked (g_heap g p)")
  case False
  let ?g = "modify p (\<lambda>s. s\<lparr>sv_locked := True\<rparr>) g"
  have locked: "server_write p f ?g = Inl Deadlock" for f by (simp add: server_write_def)
  have "fold_res (\<lambda>x. server_add_channel w p x) xs ?g = (if xs = [] then Inr ?g else Inl Deadlock)" for xs
    by (cases xs) (simp_all add: server_add_channel_def locked)
  moreover have "fold_res (\<lambda>r. server_add_role R p r) rs ?g = (if rs = [] then Inr ?g else Inl Deadlock)" for rs
    by (cases rs) (simp_all add: server_add_role_def locked)
  moreover have "server_write p (\<lambda>s. s\<lparr>sv_locked := True\<rparr>) g = Inr ?g"
    using False by (simp add: server_write_def)
  ultimately show ?thesis
    using assms by (auto simp: server_merge_def server_all_channels_def server_all_roles_def)
qed (simp add: server_merge_def server_write_def)

theorem merge_deadlocks_witness:
  "\<exists>g. sv_channels (g_heap g 1) = [(7, 0)] \<and> server_merge chat_world (empty_registry (new_role [])) 0 1 g = Inl Deadlock"
proof -
  let ?g = "modify 1 (\<lambda>s. s\<lparr>sv_channels := [(7, 0)]\<rparr>) (empty_registry (new_server_obj ''a''))"
  have "sv_channels (g_heap ?g 1) = [(7, 0)]" by (simp add: empty_registry_def)
  with merge_deadlocks [of ?g 1 chat_world "empty_registry (new_role [])" 0] show ?thesis
    by (intro exI [of _ ?g]) (simp del: One_nat_def)
qed

end
