(* ===== verification/Sessions.thy ===== *)
theory Sessions
  imports Rate_Limiter Servers
begin

text \<open>
  What the routes of the web API stand on: requests and responses (\<open>src/web/routes/utils.cpp\<close>)
  and the session store (\<open>src/web/sessionstore.cpp\<close>), with what a session promises: a token
  is accepted for as long as no hour passes without a use, and names the user who logged in.
\<close>

section \<open>What comes from outside\<close>

text \<open>
  Text is kept as the bytes of its UTF-8 form; \<open>norm\<close> is \<open>QString::fromUtf8\<close> followed by \<open>toUtf8\<close>,
  \<open>we_trim\<close> is \<open>QString::trimmed\<close>. \<open>we_address\<close> makes an address of a text and prints it again,
  \<open>we_random\<close> are the numbers between 33 and 126 drawn from the generator, \<open>we_sha256\<close> is the
  hexadecimal digest. \<open>we_login_json\<close> parses a body: \<open>None\<close> unless it is a JSON object, and then
  its fields \<open>username\<close> and \<open>password\<close> (empty when missing). \<open>we_text_type\<close> is the content type
  Qt gives a body sent without one. \<open>we_can_open\<close> says whether a path can be opened for writing.
\<close>

record web_env =
  we_trim :: "bytes \<Rightarrow> bytes"
  we_address :: "bytes \<Rightarrow> bytes"
  we_random :: "nat \<Rightarrow> char"
  we_sha256 :: "bytes \<Rightarrow> bytes"
  we_login_json :: "bytes \<Rightarrow> (bytes \<times> bytes) option"
  we_json :: "json \<Rightarrow> bytes"
  we_rapidjson :: "json \<Rightarrow> bytes"
  we_text_type :: "bytes \<Rightarrow> bytes"
  we_file_type :: "bytes \<Rightarrow> bytes"
  we_can_open :: "bytes \<Rightarrow> bool"
  we_date :: "nat \<Rightarrow> bytes"
  we_hash :: "bytes \<Rightarrow> nat"
  we_uuid_text :: "nat \<Rightarrow> bytes"
  we_mime_name :: "bytes \<Rightarrow> bytes option"

section \<open>Requests\<close>

record request =
  rq_headers :: "(bytes \<times> bytes) list"
  rq_body :: bytes
  rq_remote :: bytes

text \<open>\<open>QHttpHeaders::values\<close>: names are compared without case.\<close>

definition header_values :: "bytes \<Rightarrow> request \<Rightarrow> bytes list" where
  "header_values name rq = map snd (filter (\<lambda>(n, _). to_lower n = to_lower name) (rq_headers rq))"

definition header_value :: "bytes \<Rightarrow> request \<Rightarrow> bytes" where
  "header_value name rq = (case header_values name rq of [] \<Rightarrow> [] | v # _ \<Rightarrow> v)"

definition ip_from_request :: "env \<Rightarrow> web_env \<Rightarrow> request \<Rightarrow> bytes res" where
  "ip_from_request E W rq =
     (case header_values ''X-Forwarded-For'' rq of
        [] \<Rightarrow> Inr (rq_remote rq)
      | forwarded # _ \<Rightarrow>
          let parts = filter (\<lambda>p. p \<noteq> []) (qsplit (CHR '','') (norm E forwarded))
          in bind_res (list_at parts 0) (\<lambda>p. Inr (we_address W (we_trim W p))))"

text \<open>The token in one part of a cookie header, and the first one there is.\<close>

definition session_cookie :: "env \<Rightarrow> web_env \<Rightarrow> bytes \<Rightarrow> bytes option" where
  "session_cookie E W p =
     (case filter (\<lambda>x. x \<noteq> []) (qsplit (CHR ''='') (norm E p)) of
        [name, v] \<Rightarrow> if we_trim W name = ''session'' then Some (we_trim W v) else None
      | _ \<Rightarrow> None)"

fun first_cookie :: "env \<Rightarrow> web_env \<Rightarrow> bytes list \<Rightarrow> bytes" where
  "first_cookie E W [] = []"
| "first_cookie E W (p # ps) =
     (case session_cookie E W p of Some v \<Rightarrow> v | None \<Rightarrow> first_cookie E W ps)"

definition token_from_request :: "env \<Rightarrow> web_env \<Rightarrow> request \<Rightarrow> bytes" where
  "token_from_request E W rq =
     (case header_values ''Cookie'' rq of
        [] \<Rightarrow> []
      | c # _ \<Rightarrow> first_cookie E W (qsplit (CHR '';'') c))"

definition token_from_cookies :: "env \<Rightarrow> web_env \<Rightarrow> bytes list \<Rightarrow> bytes" where
  "token_from_cookies E W cookies =
     (case cookies of
        [] \<Rightarrow> []
      | c # _ \<Rightarrow> first_cookie E W (qsplit (CHR '';'') c))"

text \<open>\<open>sanitizePath\<close>: the path unless it holds two dots in a row.\<close>

definition sanitize_path :: "bytes \<Rightarrow> bytes option" where
  "sanitize_path path = (if index_of_str ''..'' path \<noteq> None then None else Some path)"

definition ends_with_ci :: "bytes \<Rightarrow> bytes \<Rightarrow> bool" where
  "ends_with_ci s suffix = (to_lower (drop (length s - length suffix) s) = to_lower suffix)"

definition detect_mime_type :: "web_env \<Rightarrow> bytes \<Rightarrow> bytes" where
  "detect_mime_type W path =
     (if ends_with_ci path ''.html'' then ''text/html; charset=utf-8''
      else (case we_mime_name W path of None \<Rightarrow> ''application/octet-stream'' | Some m \<Rightarrow> m))"

section \<open>The store\<close>

record session_entry =
  se_username :: bytes
  se_expires :: int

type_synonym session_store = "(bytes \<times> session_entry) list"

text \<open>The token of the \<open>n\<close>-th call, from 32 numbers drawn one after the other.\<close>

definition random_token :: "web_env \<Rightarrow> nat \<Rightarrow> bytes" where
  "random_token W n = we_sha256 W (map (\<lambda>i. we_random W (32 * n + i)) [0..<32])"

definition create_session :: "bytes \<Rightarrow> bytes \<Rightarrow> int \<Rightarrow> int \<Rightarrow> session_store \<Rightarrow> session_store" where
  "create_session token username ttl now s =
     hash_put token \<lparr>se_username = username, se_expires = now + ttl * 1000\<rparr> s"

text \<open>\<open>now\<close> and \<open>now'\<close> are the two readings of the clock.\<close>

definition validate_token :: "bytes \<Rightarrow> int \<Rightarrow> int \<Rightarrow> session_store \<Rightarrow> bool \<times> session_store" where
  "validate_token token now now' s =
     (case map_of s token of
        None \<Rightarrow> (False, s)
      | Some e \<Rightarrow>
          if se_expires e < now then (False, hash_del token s)
          else (True, hash_put token (e\<lparr>se_expires := now' + 3600 * 1000\<rparr>) s))"

definition username_for_token :: "bytes \<Rightarrow> session_store \<Rightarrow> bytes" where
  "username_for_token token s =
     (case map_of s token of None \<Rightarrow> [] | Some e \<Rightarrow> se_username e)"

definition destroy_session :: "bytes \<Rightarrow> session_store \<Rightarrow> session_store" where
  "destroy_session token s = hash_del token s"

definition get_user ::
    "env \<Rightarrow> web_env \<Rightarrow> request \<Rightarrow> int \<Rightarrow> int \<Rightarrow> world \<Rightarrow> session_store \<Rightarrow> acc_id option \<times> session_store" where
  "get_user E W rq now now' w s =
     (let token = token_from_request E W rq in
      if token = [] then (None, s)
      else
        let (valid, s1) = validate_token token now now' s in
        if \<not> valid then (None, s1)
        else
          let username = username_for_token token s1 in
          if username = [] then (None, s1)
          else (get_by_name w username, s1))"

section \<open>A session through time\<close>

text \<open>
  What happens to the store: sessions are created, validated and destroyed, at times that do
  not decrease.
\<close>

datatype session_op = Create bytes bytes int | Validate bytes | Destroy bytes

fun run_session_op :: "session_op \<times> int \<Rightarrow> session_store \<Rightarrow> session_store" where
  "run_session_op (Create token user ttl, t) s = create_session token user ttl t s"
| "run_session_op (Validate token, t) s = snd (validate_token token t t s)"
| "run_session_op (Destroy token, t) s = destroy_session token s"

text \<open>
  The specification looks at one token only: who holds it and until when, after a history
  (oldest first).
\<close>

fun session_spec :: "bytes \<Rightarrow> (session_op \<times> int) list \<Rightarrow> (bytes \<times> int) option \<Rightarrow> (bytes \<times> int) option" where
  "session_spec token [] h = h"
| "session_spec token ((Create tok user ttl, t) # ops) h =
     session_spec token ops (if tok = token then Some (user, t + ttl * 1000) else h)"
| "session_spec token ((Validate tok, t) # ops) h =
     session_spec token ops
       (case h of
          Some (user, expires) \<Rightarrow>
            if tok \<noteq> token then h
            else if expires < t then None else Some (user, t + 3600 * 1000)
        | None \<Rightarrow> None)"
| "session_spec token ((Destroy tok, t) # ops) h =
     session_spec token ops (if tok = token then None else h)"

definition held :: "session_store \<Rightarrow> bytes \<Rightarrow> (bytes \<times> int) option" where
  "held s token = map_option (\<lambda>e. (se_username e, se_expires e)) (map_of s token)"

lemma held_ops:
  "held (create_session tok user ttl t s) token =
     (if tok = token then Some (user, t + ttl * 1000) else held s token)"
  "held (destroy_session tok s) token = (if tok = token then None else held s token)"
  "held (snd (validate_token tok t t' s)) token =
     (case held s token of
        Some (user, expires) \<Rightarrow>
          if tok \<noteq> token then held s token
          else if expires < t then None else Some (user, t' + 3600 * 1000)
      | None \<Rightarrow> None)"
  by (auto simp: held_def create_session_def destroy_session_def validate_token_def split: option.splits)

lemma held_run: "held (fold run_session_op ops s) token = session_spec token ops (held s token)"
proof (induction ops arbitrary: s)
  case (Cons opt ops)
  obtain x t where o: "opt = (x, t)" by force
  show ?case using Cons.IH by (cases x) (simp_all add: o held_ops)
qed simp

lemma session_spec_kept:
  assumes "list_all (\<lambda>(x, t). (case x of Create tok _ _ \<Rightarrow> tok \<noteq> token | Destroy tok \<Rightarrow> tok \<noteq> token | Validate _ \<Rightarrow> True)) ops"
    and "list_all (\<lambda>(x, t). x = Validate token \<longrightarrow> t0 \<le> t) ops" and "sorted (map snd ops)"
    and "used = map snd (filter (\<lambda>(x, t). x = Validate token) ops)"
  shows "session_spec token ops (Some (user, t0 + 3600 * 1000)) =
    (if list_all (\<lambda>(a, b). b \<le> a + 3600 * 1000) (zip (t0 # used) used)
     then Some (user, last (t0 # used) + 3600 * 1000) else None)"
proof -
  have gone: "session_spec token ops None = None"
    if "list_all (\<lambda>(x, t). (case x of Create tok _ _ \<Rightarrow> tok \<noteq> token | Destroy tok \<Rightarrow> tok \<noteq> token | Validate _ \<Rightarrow> True)) ops" for ops
    using that
  proof (induction ops)
    case (Cons opt ops)
    then show ?case by (cases opt; cases "fst opt") auto
  qed simp
  show ?thesis using assms
  proof (induction ops arbitrary: t0 used)
    case (Cons opt ops)
    obtain x t where o: "opt = (x, t)" by force
    define used' where "used' = map snd (filter (\<lambda>(x, t). x = Validate token) ops)"
    have ops: "list_all (\<lambda>(x, t). (case x of Create tok _ _ \<Rightarrow> tok \<noteq> token | Destroy tok \<Rightarrow> tok \<noteq> token | Validate _ \<Rightarrow> True)) ops"
      "sorted (map snd ops)"
      using Cons.prems by simp_all
    have late: "list_all (\<lambda>(x, t'). x = Validate token \<longrightarrow> t \<le> t') ops"
      using Cons.prems(3) by (force simp: o list_all_iff)
    show ?case
    proof (cases "x = Validate token")
      case True
      then show ?thesis
        using Cons.IH [OF ops(1) late ops(2) used'_def] Cons.prems(4) gone [OF ops(1)]
        by (simp add: o used'_def)
    next
      case False
      then show ?thesis
        using Cons.IH [OF ops(1) _ ops(2) used'_def, of t0] Cons.prems(1,2,4)
        by (cases x) (simp_all add: o used'_def)
    qed
  qed simp
qed

text \<open>
  C11: A session lives exactly as long as it is used at least once an hour: after it is created
  at \<open>t0\<close> and other operations follow, none of which creates or destroys the same token, the
  store holds the token for its user if and only if no two successive uses (nor the creation and
  the first one) are more than an hour apart, and then until an hour after the last use.
\<close>

theorem session_lifetime:
  assumes "list_all (\<lambda>(x, t). (case x of Create tok _ _ \<Rightarrow> tok \<noteq> token | Destroy tok \<Rightarrow> tok \<noteq> token | Validate _ \<Rightarrow> True)) ops"
    and "sorted (t0 # map snd ops)" and "used = map snd (filter (\<lambda>(x, t). x = Validate token) ops)"
  shows "held (fold run_session_op ((Create token user 3600, t0) # ops) s) token =
    (if list_all (\<lambda>(a, b). b - a \<le> 3600 * 1000) (zip (t0 # used) used)
     then Some (user, last (t0 # used) + 3600 * 1000) else None)"
proof -
  have "list_all (\<lambda>(x, t). x = Validate token \<longrightarrow> t0 \<le> t) ops"
    using assms(2) by (force simp: list_all_iff)
  then show ?thesis
    using session_spec_kept [OF assms(1) _ _ assms(3), of t0 user] assms(2)
    by (simp add: held_run held_ops algebra_simps)
qed

theorem session_lifetime_witness:
  "held (fold run_session_op [(Create ''t'' ''bob'' 3600, 0), (Validate ''t'', 3000000), (Create ''u'' ''eve'' 3600, 3100000),
      (Validate ''t'', 6600000)] []) ''t'' = Some (''bob'', 10200000) \<and>
   held (fold run_session_op [(Create ''t'' ''bob'' 3600, 0), (Validate ''t'', 3600001)] []) ''t'' = None"
  using session_lifetime [of "''t''" "[(Validate ''t'', 3000000), (Create ''u'' ''eve'' 3600, 3100000), (Validate ''t'', 6600000)]" 0 _ "''bob''" "[]"]
    session_lifetime [of "''t''" "[(Validate ''t'', 3600001)]" 0 _ "''bob''" "[]"]
  by simp

end
