(* ===== verification/Web_Routes.thy ===== *)
theory Web_Routes
  imports Sessions
begin

text \<open>
  The routes of the web API (\<open>src/web/routes\<close>): login, users, channels, uploads and static
  files, as functions from a request to a response and the new state. Each runs to its end
  before the next one; what several of them share is the limiters, the sessions and the files.
\<close>

section \<open>State and responses\<close>

text \<open>\<open>wb_draws\<close> counts the tokens made, \<open>wb_uuids\<close> the UUIDs; files are path and contents.\<close>

record web =
  wb_sessions :: session_store
  wb_login_limiter :: rate_limiter
  wb_upload_limiter :: rate_limiter
  wb_web_limiter :: rate_limiter
  wb_files :: "(bytes \<times> bytes) list"
  wb_uploads_dir :: bytes
  wb_static_dir :: bytes
  wb_draws :: nat
  wb_uuids :: nat

text \<open>The constructor of \<open>WebServer\<close>.\<close>

definition new_web :: "bytes \<Rightarrow> bytes \<Rightarrow> web" where
  "new_web uploads static =
     \<lparr>wb_sessions = [], wb_login_limiter = new_rate_limiter 3 5, wb_upload_limiter = new_rate_limiter 3 5,
      wb_web_limiter = new_rate_limiter 10 1, wb_files = [], wb_uploads_dir = uploads,
      wb_static_dir = static, wb_draws = 0, wb_uuids = 0\<rparr>"

record response =
  rs_status :: nat
  rs_headers :: "(bytes \<times> bytes) list"
  rs_body :: bytes

definition text_response :: "web_env \<Rightarrow> bytes \<Rightarrow> nat \<Rightarrow> response" where
  "text_response W body status =
     \<lparr>rs_status = status, rs_headers = [(''Content-Type'', we_text_type W body)], rs_body = body\<rparr>"

definition typed_response :: "bytes \<Rightarrow> bytes \<Rightarrow> nat \<Rightarrow> response" where
  "typed_response mime body status =
     \<lparr>rs_status = status, rs_headers = [(''Content-Type'', mime)], rs_body = body\<rparr>"

definition file_response :: "web_env \<Rightarrow> bytes \<Rightarrow> bytes \<Rightarrow> response" where
  "file_response W path body =
     \<lparr>rs_status = 200, rs_headers = [(''Content-Type'', we_file_type W path)], rs_body = body\<rparr>"

text \<open>\<open>setHeaders\<close> replaces all headers, the content type of the constructor among them.\<close>

definition set_headers :: "(bytes \<times> bytes) list \<Rightarrow> response \<Rightarrow> response" where
  "set_headers hs r = r\<lparr>rs_headers := hs\<rparr>"

section \<open>Login\<close>

definition create_session_response :: "web_env \<Rightarrow> bytes \<Rightarrow> int \<Rightarrow> web \<Rightarrow> response \<times> web" where
  "create_session_response W username now wb =
     (let token = random_token W (wb_draws wb);
          wb1 = wb\<lparr>wb_sessions := create_session token username 3600 now (wb_sessions wb),
                   wb_draws := wb_draws wb + 1\<rparr>;
          json = we_json W (JObj [(''ok'', JBool True)]);
          headers = [(''Set-Cookie'', ''session='' @ token @ ''; Path=/; HttpOnly; SameSite=Lax'')]
      in (set_headers headers (typed_response ''application/json'' json 201), wb1))"

text \<open>What the handlers or the stored password say of the credentials.\<close>

definition credentials_ok :: "env \<Rightarrow> world \<Rightarrow> bytes \<Rightarrow> bytes \<Rightarrow> bytes \<Rightarrow> bool" where
  "credentials_ok E w ip username password =
     (if has_event_handler E AUTH_SASL_PLAIN then
        (case e_on_auth E \<lparr>ev_reason = [], ev_cancel = False, au_username = username,
                 au_password = password, au_ip = ip, au_from_system = False\<rparr> of
           Some result \<Rightarrow> \<not> ev_cancel result
         | None \<Rightarrow> False)
      else
        (case get_by_name w username of
           None \<Rightarrow> False
         | Some a \<Rightarrow> e_bcrypt E password (a_password (w_accs w a))))"

text \<open>\<open>now\<close>, \<open>now'\<close> are the clock as the limiter reads it, \<open>now''\<close> as the session store does.\<close>

definition login_route ::
    "env \<Rightarrow> web_env \<Rightarrow> request \<Rightarrow> int \<Rightarrow> int \<Rightarrow> int \<Rightarrow> world \<Rightarrow> web \<Rightarrow> (response \<times> web) res" where
  "login_route E W rq now now' now'' w wb =
     bind_res (ip_from_request E W rq) (\<lambda>ip.
       let (r, lim) = rate_check ip ''Too many logins, retry after %1 seconds'' now now' (wb_login_limiter wb);
           wb1 = wb\<lparr>wb_login_limiter := lim\<rparr>
       in
       if \<not> rr_allowed r then Inr (text_response W (rr_msg r) 429, wb1)
       else
         (case we_login_json W (rq_body rq) of
            None \<Rightarrow> Inr (text_response W ''invalid json'' 400, wb1)
          | Some (username, password) \<Rightarrow>
              if credentials_ok E w ip username password
              then Inr (create_session_response W username now'' wb1)
              else Inr (text_response W ''invalid credentials'' 401, wb1)))"

section \<open>Users and channels\<close>

definition users_route ::
    "env \<Rightarrow> web_env \<Rightarrow> request \<Rightarrow> int \<Rightarrow> int \<Rightarrow> world \<Rightarrow> web \<Rightarrow> response \<times> web" where
  "users_route E W rq now now' w wb =
     (let (user, sessions) = get_user E W rq now now' w (wb_sessions wb);
          wb1 = wb\<lparr>wb_sessions := sessions\<rparr>
      in (case user of
            None \<Rightarrow> (text_response W ''Unauthorized'' 401, wb1)
          | Some _ \<Rightarrow>
              let arr = JArr (map (\<lambda>a. account_to_json E (we_date W) False False a w) (get_accounts_ordered w))
              in (typed_response ''application/json'' (we_rapidjson W (JObj [(''users'', arr)])) 200, wb1)))"

text \<open>\<open>get_channels_ordered\<close>: by the hash of the name under which the channel is known.\<close>

definition get_channels_ordered :: "web_env \<Rightarrow> world \<Rightarrow> chan_id option list" where
  "get_channels_ordered W w = map snd (sort_key (\<lambda>(name, _). we_hash W name) (w_channels w))"

definition channels_json :: "env \<Rightarrow> web_env \<Rightarrow> world \<Rightarrow> json list" where
  "channels_json E W w =
     concat (map (\<lambda>p. case p of None \<Rightarrow> [] | Some x \<Rightarrow> [channel_to_json E (we_date W) x w])
       (get_channels_ordered W w))"

definition channels_route ::
    "env \<Rightarrow> web_env \<Rightarrow> request \<Rightarrow> int \<Rightarrow> int \<Rightarrow> world \<Rightarrow> web \<Rightarrow> response \<times> web" where
  "channels_route E W rq now now' w wb =
     (let (user, sessions) = get_user E W rq now now' w (wb_sessions wb);
          wb1 = wb\<lparr>wb_sessions := sessions\<rparr>
      in (case user of
            None \<Rightarrow> (text_response W ''Unauthorized'' 401, wb1)
          | Some _ \<Rightarrow>
              (typed_response ''application/json''
                 (we_rapidjson W (JObj [(''channels'', JArr (channels_json E W w))])) 200, wb1)))"

section \<open>Files\<close>

text \<open>\<open>QFileInfo::fileName\<close>: what follows the last slash.\<close>

definition file_name :: "bytes \<Rightarrow> bytes" where
  "file_name path = rev (takeWhile (\<lambda>c. c \<noteq> CHR ''/'') (rev path))"

definition name_char :: "char \<Rightarrow> bool" where
  "name_char c \<longleftrightarrow> c \<in> set ''ABCDEFGHIJKLMNOPQRSTUVWXYZabcdefghijklmnopqrstuvwxyz0123456789._-''"

text \<open>The pattern \<open>^[A-Za-z0-9._-]+$\<close>, whose \<open>$\<close> also matches in front of a last line feed.\<close>

definition valid_name :: "bytes \<Rightarrow> bool" where
  "valid_name s =
     (let core = (if s \<noteq> [] \<and> last s = LF then butlast s else s)
      in core \<noteq> [] \<and> list_all name_char core)"

definition accepted_types :: "bytes list" where
  "accepted_types = [''image/jpeg'', ''image/png'', ''image/gif'', ''video/mp4'', ''video/webm'', ''text/plain'']"

definition max_upload_size :: nat where
  "max_upload_size = 5 * 1024 * 1024"

text \<open>The name that is used, and how many UUIDs were taken.\<close>

definition safe_file_name :: "web_env \<Rightarrow> bytes \<Rightarrow> nat \<Rightarrow> bytes \<times> nat" where
  "safe_file_name W filename n =
     (let base = file_name filename
      in if valid_name base then (base, n) else (we_uuid_text W n, n + 1))"

text \<open>\<open>section(sep, 1)\<close>: what follows the first separator.\<close>

definition after_first :: "bytes \<Rightarrow> bytes \<Rightarrow> bytes" where
  "after_first sep s = (case index_of_str sep s of None \<Rightarrow> [] | Some n \<Rightarrow> drop (n + length sep) s)"

definition upload_name :: "web_env \<Rightarrow> bytes \<Rightarrow> nat \<Rightarrow> bytes \<times> nat" where
  "upload_name W disposition n =
     (if disposition \<noteq> [] \<and> index_of_str ''filename='' disposition \<noteq> None then
        safe_file_name W (removeAll (CHR 0x22) (we_trim W (after_first ''filename='' disposition))) n
      else safe_file_name W (we_uuid_text W n) (n + 1))"

definition upload_options_route :: response where
  "upload_options_route =
     \<lparr>rs_status = 204,
      rs_headers = [(''Allow'', ''OPTIONS, POST''), (''Accept-Post'', qjoin '', '' accepted_types)],
      rs_body = []\<rparr>"

definition upload_route ::
    "env \<Rightarrow> web_env \<Rightarrow> request \<Rightarrow> int \<Rightarrow> int \<Rightarrow> world \<Rightarrow> web \<Rightarrow> (response \<times> web) res" where
  "upload_route E W rq now now' w wb =
     bind_res (ip_from_request E W rq) (\<lambda>ip.
       let content_type = norm E (header_value ''Content-Type'' rq);
           disposition = norm E (header_value ''Content-Disposition'' rq);
           body = rq_body rq;
           (r, lim) = rate_check ip ''Too many requests, retry after %1 seconds'' now now' (wb_upload_limiter wb);
           wb1 = wb\<lparr>wb_upload_limiter := lim\<rparr>
       in
       if \<not> rr_allowed r then Inr (text_response W (rr_msg r) 429, wb1)
       else
         let (user, sessions) = get_user E W rq now now' w (wb_sessions wb1);
             wb2 = wb1\<lparr>wb_sessions := sessions\<rparr>
         in
         if user = None then Inr (text_response W ''Unauthorized'' 401, wb2)
         else if length body > max_upload_size then Inr (text_response W ''File too large'' 413, wb2)
         else if starts_with content_type ''multipart/form-data'' then
           Inr (text_response W ''Unsupported upload type multipart/form-data'' 415, wb2)
         else if content_type \<notin> set accepted_types then
           Inr (text_response W ''Unsupported media type'' 415, wb2)
         else if body = [] then Inr (text_response W ''empty body'' 400, wb2)
         else
           let (filename, n) = upload_name W disposition (wb_uuids wb2);
               wb3 = wb2\<lparr>wb_uuids := n\<rparr>;
               path = wb_uploads_dir wb3 @ ''/'' @ filename
           in
           if \<not> we_can_open W path then Inr (text_response W ''failed to write file'' 500, wb3)
           else
             let url = ''/files/'' @ filename;
                 json = we_json W (JObj [(''url'', JStr url)])
             in Inr (set_headers [(''Location'', url)] (typed_response ''application/json'' json 201),
                     wb3\<lparr>wb_files := hash_put path body (wb_files wb3)\<rparr>))"

definition get_file_route :: "web_env \<Rightarrow> bytes \<Rightarrow> web \<Rightarrow> response" where
  "get_file_route W arg wb =
     (case sanitize_path arg of
        None \<Rightarrow> text_response W ''Invalid filename'' 400
      | Some safe_path \<Rightarrow>
          let safe_file = file_name safe_path in
          if \<not> valid_name safe_file then text_response W ''Invalid filename'' 400
          else
            let path = wb_uploads_dir wb @ ''/'' @ safe_file
            in (case map_of (wb_files wb) path of
                  None \<Rightarrow> text_response W ''Not Found'' 404
                | Some body \<Rightarrow> file_response W path body))"

definition head_file_route :: "web_env \<Rightarrow> bytes \<Rightarrow> web \<Rightarrow> response" where
  "head_file_route W arg wb =
     (case sanitize_path arg of
        None \<Rightarrow> text_response W ''Invalid filename'' 400
      | Some safe_path \<Rightarrow>
          let path = wb_uploads_dir wb @ ''/'' @ file_name safe_path
          in (case map_of (wb_files wb) path of
                None \<Rightarrow> text_response W ''Not Found'' 404
              | Some body \<Rightarrow>
                  \<lparr>rs_status = 200, rs_headers = [(''Content-Length'', dec (length body))], rs_body = []\<rparr>))"

definition static_route :: "env \<Rightarrow> web_env \<Rightarrow> bytes \<Rightarrow> request \<Rightarrow> int \<Rightarrow> int \<Rightarrow> web \<Rightarrow> (response \<times> web) res" where
  "static_route E W url_path rq now now' wb =
     bind_res (ip_from_request E W rq) (\<lambda>ip.
       let (r, lim) = rate_check ip ''Too many requests, retry after %1 seconds'' now now' (wb_upload_limiter wb);
           wb1 = wb\<lparr>wb_upload_limiter := lim\<rparr>
       in
       if \<not> rr_allowed r then Inr (text_response W (rr_msg r) 429, wb1)
       else
         (case sanitize_path url_path of
            None \<Rightarrow> Inr (text_response W ''Invalid path'' 400, wb1)
          | Some safe_path \<Rightarrow>
              let path = wb_static_dir wb1 @ ''/'' @ safe_path
              in (case map_of (wb_files wb1) path of
                    None \<Rightarrow> Inr (text_response W ''Not Found'' 404, wb1)
                  | Some body \<Rightarrow> Inr (file_response W path body, wb1))))"

end
