(* ===== verification/Web_Safety.thy ===== *)
theory Web_Safety
  imports Web_Routes Messaging
begin

text \<open>
  What the routes of the web API guarantee: who gets a session and what it is good for, where
  uploaded files end up and how they come back; and what the forwarded address of a request
  does to the limiters.
\<close>

section \<open>Login\<close>

text \<open>
  C10: Login answers 201 exactly when the limiter lets the address in, the body is a JSON object
  and its credentials are accepted; only then is there a new session, for the user who logged
  in and for an hour, and no other session is touched. Otherwise the sessions stay as they are.
\<close>

theorem login_exact:
  assumes "ip_from_request E W rq = Inr ip" and "login_route E W rq now now' now'' w wb = Inr (r, wb')"
  shows "(rs_status r = 201 \<longleftrightarrow>
      rr_allowed (fst (rate_check ip ''Too many logins, retry after %1 seconds'' now now' (wb_login_limiter wb))) \<and>
      (\<exists>username password. we_login_json W (rq_body rq) = Some (username, password) \<and>
         credentials_ok E w ip username password)) \<and>
    (if rs_status r = 201
     then \<exists>username password. we_login_json W (rq_body rq) = Some (username, password) \<and>
       held (wb_sessions wb') = (held (wb_sessions wb))
         (random_token W (wb_draws wb) \<mapsto> (username, now'' + 3600000))
     else wb_sessions wb' = wb_sessions wb)"
proof -
  obtain res lim where lim: "rate_check ip ''Too many logins, retry after %1 seconds'' now now'
      (wb_login_limiter wb) = (res, lim)" by force
  have "held (create_session tok user ttl t s) = (held s)(tok \<mapsto> (user, t + ttl * 1000))" for tok user ttl t s
    by (rule ext) (simp add: held_ops)
  then show ?thesis
    using assms
    by (auto simp: login_route_def lim Let_def create_session_response_def set_headers_def typed_response_def
        text_response_def split: if_splits option.splits)
qed

definition sample_web :: web_env where
  "sample_web =
     \<lparr>we_trim = trimmed, we_address = (\<lambda>s. s), we_random = (\<lambda>n. char_of (33 + n mod 94)),
      we_sha256 = (\<lambda>_. ''0123abcd''), we_login_json = (\<lambda>s. if s = ''good'' then Some (''bob'', ''secret'') else None),
      we_json = (\<lambda>_. ''{}''), we_rapidjson = (\<lambda>_. ''{}''), we_text_type = (\<lambda>_. ''text/plain''),
      we_file_type = (\<lambda>_. ''text/plain''), we_can_open = (\<lambda>_. True), we_date = (\<lambda>_. ''1989''),
      we_hash = length, we_uuid_text = (\<lambda>_. ''uuid''), we_mime_name = (\<lambda>_. None)\<rparr>"

text \<open>A world in which the account 1 is the registered user bob.\<close>

definition bob_world :: world where
  "bob_world = chat_world\<lparr>w_lookup_name := [''bob'' \<mapsto> 1],
     w_accs := (w_accs chat_world)(1 := (person 2 ''bob'' 1)\<lparr>a_name := ''bob'', a_password := ''secret''\<rparr>)\<rparr>"

definition login_request :: request where
  "login_request = \<lparr>rq_headers = [], rq_body = ''good'', rq_remote = ''10.0.0.1''\<rparr>"

lemma bob_logs_in:
  "ip_from_request sample_env sample_web login_request = Inr ''10.0.0.1''"
  "we_login_json sample_web (rq_body login_request) = Some (''bob'', ''secret'')"
  "credentials_ok sample_env bob_world ip ''bob'' ''secret''"
  by (simp_all add: ip_from_request_def header_values_def login_request_def sample_web_def credentials_ok_def
      sample_no_handler get_by_name_def bob_world_def sample_env_def)

lemma first_check: "\<exists>lim. rate_check ip msg now now' (wb_login_limiter (new_web u s)) = (allowed_result, lim)"
  by (simp add: rate_check_def new_web_def new_rate_limiter_def)

lemma bob_login:
  "\<exists>r wb. login_route sample_env sample_web login_request 0 0 0 bob_world (new_web ''up'' ''static'') = Inr (r, wb) \<and>
     rs_status r = 201"
proof -
  obtain lim where lim: "rate_check ''10.0.0.1'' ''Too many logins, retry after %1 seconds'' 0 0
      (wb_login_limiter (new_web ''up'' ''static'')) = (allowed_result, lim)" using first_check by blast
  have ok: "rr_allowed allowed_result" by (simp add: allowed_result_def)
  show ?thesis
    unfolding login_route_def bob_logs_in(1,2) bind_res_simps lim Let_def prod.case option.case
    by (simp add: ok bob_logs_in(3) create_session_response_def set_headers_def typed_response_def Let_def)
qed

theorem login_exact_witness:
  "\<exists>r wb. login_route sample_env sample_web login_request 0 0 0 bob_world (new_web ''up'' ''static'') = Inr (r, wb) \<and>
     rs_status r = 201 \<and> held (wb_sessions wb) ''0123abcd'' = Some (''bob'', 3600000)"
proof -
  obtain r wb where run: "login_route sample_env sample_web login_request 0 0 0 bob_world (new_web ''up'' ''static'') =
      Inr (r, wb)" and made: "rs_status r = 201" using bob_login by blast
  have token: "random_token sample_web n = ''0123abcd''" for n by (simp add: random_token_def sample_web_def)
  have "held (wb_sessions wb) ''0123abcd'' = Some (''bob'', 3600000)"
    using login_exact [OF bob_logs_in(1) run] made unfolding token bob_logs_in(2) by auto
  with run made show ?thesis by blast
qed

section \<open>The cookie\<close>

text \<open>
  What the code relies on: a digest is not empty and consists of hexadecimal digits, decoding
  ASCII does not change it, and \<open>QString::trimmed\<close> leaves it alone but for the blanks around it.
\<close>

definition hex_digit :: "char \<Rightarrow> bool" where
  "hex_digit c \<longleftrightarrow> c \<in> set ''0123456789abcdef''"

definition digests_ok :: "web_env \<Rightarrow> bool" where
  "digests_ok W \<longleftrightarrow> (\<forall>s. we_sha256 W s \<noteq> [] \<and> list_all hex_digit (we_sha256 W s))"

definition ascii_text_ok :: "env \<Rightarrow> web_env \<Rightarrow> bool" where
  "ascii_text_ok E W \<longleftrightarrow>
     (\<forall>s. list_all (\<lambda>c. of_char c < (128 :: nat)) s \<longrightarrow> norm E s = s \<and> we_trim W s = trimmed s)"

lemma hex_digits_text:
  assumes "list_all hex_digit s"
  shows "list_all (\<lambda>c. of_char c < (128 :: nat)) s" and "CHR ''='' \<notin> set s" and "CHR '';'' \<notin> set s"
    and "trimmed s = s"
proof -
  have "\<forall>c \<in> set ''0123456789abcdef''. of_char c < (128 :: nat) \<and> c \<noteq> CHR ''='' \<and> c \<noteq> CHR '';'' \<and> \<not> is_space c"
    by (simp add: is_space_def)
  then have c: "of_char c < (128 :: nat) \<and> c \<noteq> CHR ''='' \<and> c \<noteq> CHR '';'' \<and> \<not> is_space c"
    if "c \<in> set s" for c
    using that assms unfolding list_all_iff hex_digit_def by blast
  show "list_all (\<lambda>c. of_char c < (128 :: nat)) s" "CHR ''='' \<notin> set s" "CHR '';'' \<notin> set s"
    using c by (auto simp: list_all_iff)
  show "trimmed s = s"
    using c [of "hd s"] c [of "last s"] by (cases "s = []") (simp_all add: trimmed_id, simp add: trimmed_def)
qed

lemma session_cookie_token:
  assumes "ascii_text_ok E W" and "list_all hex_digit token" and "token \<noteq> []"
  shows "session_cookie E W (''session='' @ token) = Some token"
proof -
  note tok = hex_digits_text [OF assms(2)]
  have "norm E (''session='' @ token) = ''session='' @ token"
    using assms(1) tok(1) by (auto simp: ascii_text_ok_def)
  moreover have "qsplit (CHR ''='') (''session='' @ token) = [''session'', token]"
    using tok(2) qsplit_append [of "CHR ''=''" "''session''" token] qsplit_single [of "CHR ''=''" token] by simp
  moreover have "we_trim W ''session'' = ''session''"
    using assms(1) by (simp add: ascii_text_ok_def trimmed_def is_space_def)
  moreover have "we_trim W token = token" using assms(1) tok(1,4) by (simp add: ascii_text_ok_def)
  ultimately show ?thesis using assms(3) by (simp add: session_cookie_def)
qed

text \<open>
  C26: Who sends back the cookie of a successful login within the hour is recognised as the
  account that has the user name of the login, by every route that asks for a user, and the
  session is good for another hour.
\<close>

theorem login_cookie_recognised:
  assumes "digests_ok W" and "ascii_text_ok E W"
    and "login_route E W rq now now' t w wb = Inr (r, wb')" and "rs_status r = 201"
    and "we_login_json W (rq_body rq) = Some (username, password)" and "username \<noteq> []"
    and "header_values ''Cookie'' rq' = map (\<lambda>(_, v). takeWhile (\<lambda>c. c \<noteq> CHR '';'') v) (rs_headers r)"
    and "t' \<le> t + 3600000"
  shows "get_user E W rq' t' t'' w (wb_sessions wb') =
    (get_by_name w username,
     hash_put (random_token W (wb_draws wb)) \<lparr>se_username = username, se_expires = t'' + 3600000\<rparr> (wb_sessions wb'))"
proof -
  let ?token = "random_token W (wb_draws wb)"
  have token: "?token \<noteq> []" "list_all hex_digit ?token"
    using assms(1) by (auto simp: digests_ok_def random_token_def)
  obtain ip where ip: "ip_from_request E W rq = Inr ip"
    using assms(3) by (cases "ip_from_request E W rq") (simp_all add: login_route_def)
  obtain res lim where lim: "rate_check ip ''Too many logins, retry after %1 seconds'' now now'
      (wb_login_limiter wb) = (res, lim)" by force
  have made: "rs_headers r = [(''Set-Cookie'', ''session='' @ ?token @ ''; Path=/; HttpOnly; SameSite=Lax'')] \<and>
      wb_sessions wb' = create_session ?token username 3600 t (wb_sessions wb)"
    using assms(3-5)
    by (auto simp: login_route_def ip lim Let_def create_session_response_def set_headers_def
        text_response_def split: if_splits)
  have clean: "\<forall>c \<in> set (''session='' @ ?token). c \<noteq> CHR '';''"
    using hex_digits_text(3) [OF token(2)] by auto
  have "header_values ''Cookie'' rq' = [''session='' @ ?token]"
    using assms(7) made takeWhile_append2 [of "''session='' @ ?token" "\<lambda>c. c \<noteq> CHR '';''"] clean by simp
  moreover have "qsplit (CHR '';'') (''session='' @ ?token) = [''session='' @ ?token]"
    by (rule qsplit_single) (use clean in auto)
  ultimately have "token_from_request E W rq' = ?token"
    using session_cookie_token [OF assms(2) token(2,1)] by (simp add: token_from_request_def)
  moreover have "map_of (wb_sessions wb') ?token = Some \<lparr>se_username = username, se_expires = t + 3600000\<rparr>"
    using made by (simp add: create_session_def)
  ultimately show ?thesis
    using token(1) assms(6,8) by (simp add: get_user_def validate_token_def Let_def username_for_token_def)
qed

lemma sample_text: "digests_ok sample_web" "ascii_text_ok sample_env sample_web"
  by (simp_all add: digests_ok_def ascii_text_ok_def sample_web_def hex_digit_def norm_def sample_env_def
      ascii_unicode_def)

theorem login_cookie_recognised_witness:
  "\<exists>r wb. login_route sample_env sample_web login_request 0 0 0 bob_world (new_web ''up'' ''static'') = Inr (r, wb) \<and>
     fst (get_user sample_env sample_web
       \<lparr>rq_headers = map (\<lambda>(_, v). (''cookie'', takeWhile (\<lambda>c. c \<noteq> CHR '';'') v)) (rs_headers r),
        rq_body = [], rq_remote = ''10.0.0.9''\<rparr> 3600000 3600000 bob_world (wb_sessions wb)) = Some 1"
proof -
  obtain r wb where run: "login_route sample_env sample_web login_request 0 0 0 bob_world (new_web ''up'' ''static'') =
      Inr (r, wb)" and made: "rs_status r = 201" using bob_login by blast
  let ?rq = "\<lparr>rq_headers = map (\<lambda>(_, v). (''cookie'', takeWhile (\<lambda>c. c \<noteq> CHR '';'') v)) (rs_headers r),
    rq_body = [], rq_remote = ''10.0.0.9''\<rparr>"
  have lower: "to_lower ''cookie'' = to_lower ''Cookie''" by code_simp
  have "header_values ''Cookie'' ?rq = map (\<lambda>(_, v). takeWhile (\<lambda>c. c \<noteq> CHR '';'') v) (rs_headers r)"
    by (simp add: header_values_def filter_map comp_def case_prod_beta lower del: One_nat_def)
  from login_cookie_recognised [OF sample_text run made bob_logs_in(2) _ this, of 3600000 3600000] run
  show ?thesis by (auto simp: get_by_name_def bob_world_def)
qed

section \<open>Files\<close>

lemma file_name_no_slash: "CHR ''/'' \<notin> set (file_name path)"
  by (auto simp: file_name_def dest: set_takeWhileD)

lemma file_name_id:
  assumes "CHR ''/'' \<notin> set s"
  shows "file_name s = s"
proof -
  have "takeWhile (\<lambda>c. c \<noteq> CHR ''/'') (rev s) = rev s"
    using assms by (intro takeWhile_eq_all_conv [THEN iffD2]) auto
  then show ?thesis by (simp only: file_name_def rev_rev_ident)
qed

lemma safe_file_name_no_slash:
  "\<forall>n. CHR ''/'' \<notin> set (we_uuid_text W n) \<Longrightarrow> CHR ''/'' \<notin> set (fst (safe_file_name W f n))"
  by (simp add: safe_file_name_def Let_def file_name_no_slash)

lemma upload_name_no_slash:
  "\<forall>n. CHR ''/'' \<notin> set (we_uuid_text W n) \<Longrightarrow> CHR ''/'' \<notin> set (fst (upload_name W d n))"
  by (simp add: upload_name_def safe_file_name_no_slash)

text \<open>
  C25: An upload that is answered 201 comes from a user with a session and is not empty nor larger
  than 5 MiB; its body is written to one file directly in the directory of uploads (the name has
  no slash, whatever the client asked for, given that UUIDs have none), and no other file is
  touched. Any other answer leaves all files alone.
\<close>

theorem upload_confined:
  assumes "\<forall>n. CHR ''/'' \<notin> set (we_uuid_text W n)"
    and "upload_route E W rq now now' w wb = Inr (r, wb')"
  shows "(rs_status r = 201 \<longrightarrow>
      fst (get_user E W rq now now' w (wb_sessions wb)) \<noteq> None \<and> rq_body rq \<noteq> [] \<and>
      length (rq_body rq) \<le> 5242880 \<and>
      (\<exists>name. CHR ''/'' \<notin> set name \<and> rs_headers r = [(''Location'', ''/files/'' @ name)] \<and>
         wb_files wb' = hash_put (wb_uploads_dir wb @ ''/'' @ name) (rq_body rq) (wb_files wb))) \<and>
    (rs_status r \<noteq> 201 \<longrightarrow> wb_files wb' = wb_files wb)"
proof -
  obtain ip where ip: "ip_from_request E W rq = Inr ip"
    using assms(2) by (cases "ip_from_request E W rq") (simp_all add: upload_route_def)
  obtain res lim where lim: "rate_check ip ''Too many requests, retry after %1 seconds'' now now'
      (wb_upload_limiter wb) = (res, lim)" by force
  obtain user sessions where user: "get_user E W rq now now' w (wb_sessions wb) = (user, sessions)" by force
  obtain name n where name: "upload_name W (norm E (header_value ''Content-Disposition'' rq)) (wb_uuids wb) = (name, n)"
    by force
  have "CHR ''/'' \<notin> set name" using upload_name_no_slash [OF assms(1)] name by (metis fst_conv)
  then show ?thesis
    using assms(2)
    by (auto simp: upload_route_def ip lim user name Let_def set_headers_def typed_response_def
        text_response_def max_upload_size_def split: if_splits)
qed

text \<open>
  An upload comes back unchanged from \<open>GET /files\<close> under the name its answer gives, unless
  the name has two dots in a row: such a file is stored but never served.
\<close>

theorem upload_round_trip:
  assumes "\<forall>n. CHR ''/'' \<notin> set (we_uuid_text W n) \<and> valid_name (we_uuid_text W n)"
    and "upload_route E W rq now now' w wb = Inr (r, wb')" and "rs_status r = 201"
    and "rs_headers r = [(''Location'', ''/files/'' @ name)]" and "index_of_str ''..'' name = None"
  shows "rs_status (get_file_route W name wb') = 200 \<and> rs_body (get_file_route W name wb') = rq_body rq"
proof -
  have valid: "valid_name (fst (safe_file_name W f n))" for f n
    using assms(1) by (simp add: safe_file_name_def Let_def)
  obtain ip where ip: "ip_from_request E W rq = Inr ip"
    using assms(2) by (cases "ip_from_request E W rq") (simp_all add: upload_route_def)
  obtain res lim where lim: "rate_check ip ''Too many requests, retry after %1 seconds'' now now'
      (wb_upload_limiter wb) = (res, lim)" by force
  obtain user sessions where user: "get_user E W rq now now' w (wb_sessions wb) = (user, sessions)" by force
  obtain name' n where name: "upload_name W (norm E (header_value ''Content-Disposition'' rq)) (wb_uuids wb) = (name', n)"
    by force
  have "valid_name name'" using valid name by (metis fst_conv upload_name_def)
  moreover have "CHR ''/'' \<notin> set name'" using upload_name_no_slash [of W] assms(1) name by (metis fst_conv)
  moreover have "name' = name \<and> map_of (wb_files wb') (wb_uploads_dir wb' @ ''/'' @ name) = Some (rq_body rq)"
    using assms(2-4)
    by (auto simp: upload_route_def ip lim user name Let_def set_headers_def typed_response_def
        text_response_def split: if_splits)
  ultimately show ?thesis
    using assms(5) by (simp add: get_file_route_def sanitize_path_def file_name_id file_response_def)
qed

text \<open>An upload of bob's, with a path in the name he asks for.\<close>

definition upload_request :: request where
  "upload_request =
     \<lparr>rq_headers = [(''Cookie'', ''session=0123abcd''), (''Content-Type'', ''text/plain''),
        (''Content-Disposition'', ''attachment; filename='' @ [CHR 0x22] @ ''../../etc/notes'' @ [CHR 0x22])],
      rq_body = ''hi'', rq_remote = ''10.0.0.1''\<rparr>"

definition bob_web :: web where
  "bob_web = (new_web ''up'' ''static'')\<lparr>wb_sessions := [(''0123abcd'', \<lparr>se_username = ''bob'', se_expires = 100\<rparr>)]\<rparr>"

lemma header_names:
  "to_lower ''Cookie'' = ''cookie''" "to_lower ''Content-Type'' = ''content-type''"
  "to_lower ''Content-Disposition'' = ''content-disposition''" "to_lower ''X-Forwarded-For'' = ''x-forwarded-for''"
  by code_simp+

lemma upload_request_facts:
  "ip_from_request sample_env sample_web upload_request = Inr ''10.0.0.1''"
  "header_values ''Cookie'' upload_request = [''session=0123abcd'']"
  "norm sample_env (header_value ''Content-Type'' upload_request) = ''text/plain''"
  "norm sample_env (header_value ''Content-Disposition'' upload_request) =
     ''attachment; filename='' @ [CHR 0x22] @ ''../../etc/notes'' @ [CHR 0x22]"
  "rq_body upload_request = ''hi''"
  by (simp_all add: ip_from_request_def header_value_def header_values_def upload_request_def header_names
      norm_def sample_env_def ascii_unicode_def)

lemma bob_is_user: "fst (get_user sample_env sample_web upload_request 0 0 bob_world (wb_sessions bob_web)) = Some 1"
proof -
  have "session_cookie sample_env sample_web (''session='' @ ''0123abcd'') = Some ''0123abcd''"
    by (rule session_cookie_token [OF sample_text(2)]) (simp_all add: hex_digit_def)
  then have "token_from_request sample_env sample_web upload_request = ''0123abcd''"
    by (simp add: token_from_request_def upload_request_facts)
  then show ?thesis
    by (simp add: get_user_def validate_token_def bob_web_def username_for_token_def get_by_name_def bob_world_def)
qed

lemma bob_upload:
  "\<exists>r wb. upload_route sample_env sample_web upload_request 0 0 bob_world bob_web = Inr (r, wb) \<and>
     rs_status r = 201 \<and> rs_headers r = [(''Location'', ''/files/notes'')]"
proof -
  obtain sessions where user: "get_user sample_env sample_web upload_request 0 0 bob_world (wb_sessions bob_web) =
      (Some 1, sessions)" using bob_is_user by (metis prod.collapse)
  obtain lim where lim: "rate_check ''10.0.0.1'' ''Too many requests, retry after %1 seconds'' 0 0
      (wb_upload_limiter bob_web) = (allowed_result, lim)"
    by (simp add: bob_web_def new_web_def rate_check_def new_rate_limiter_def)
  have name: "upload_name sample_web (''attachment; filename='' @ [CHR 0x22] @ ''../../etc/notes'' @ [CHR 0x22]) n =
      (''notes'', n)" for n
    by (simp add: upload_name_def after_first_def safe_file_name_def file_name_def valid_name_def
        name_char_def sample_web_def trimmed_def is_space_def)
  have ok: "rr_allowed allowed_result" by (simp add: allowed_result_def)
  have can_open: "we_can_open sample_web p" for p by (simp add: sample_web_def)
  have kind: "''text/plain'' \<in> set accepted_types" "\<not> starts_with ''text/plain'' ''multipart/form-data''"
    by (simp_all add: accepted_types_def)
  show ?thesis
    unfolding upload_route_def upload_request_facts bind_res_simps lim Let_def prod.case name
    by (simp add: ok user kind can_open max_upload_size_def set_headers_def typed_response_def del: One_nat_def)
qed

lemma sample_uuid_text: "\<forall>n. CHR ''/'' \<notin> set (we_uuid_text sample_web n) \<and> valid_name (we_uuid_text sample_web n)"
  by (simp add: sample_web_def valid_name_def name_char_def)

theorem upload_confined_witness:
  "\<exists>r wb. upload_route sample_env sample_web upload_request 0 0 bob_world bob_web = Inr (r, wb) \<and>
     wb_files wb = [(''up/notes'', ''hi'')]"
proof -
  obtain r wb where run: "upload_route sample_env sample_web upload_request 0 0 bob_world bob_web = Inr (r, wb)"
    "rs_status r = 201" "rs_headers r = [(''Location'', ''/files/notes'')]" using bob_upload by blast
  have "\<forall>n. CHR ''/'' \<notin> set (we_uuid_text sample_web n)" using sample_uuid_text by blast
  from upload_confined [OF this run(1)] run show ?thesis
    by (auto simp: upload_request_facts bob_web_def new_web_def)
qed

theorem upload_round_trip_witness:
  "\<exists>r wb. upload_route sample_env sample_web upload_request 0 0 bob_world bob_web = Inr (r, wb) \<and>
     rs_body (get_file_route sample_web ''notes'' wb) = ''hi''"
proof -
  obtain r wb where run: "upload_route sample_env sample_web upload_request 0 0 bob_world bob_web = Inr (r, wb)"
    "rs_status r = 201" "rs_headers r = [(''Location'', ''/files/notes'')]" using bob_upload by blast
  have "rs_headers r = [(''Location'', ''/files/'' @ ''notes'')]" using run(3) by simp
  from upload_round_trip [OF sample_uuid_text run(1,2) this] run(1) show ?thesis
    by (auto simp: upload_request_facts)
qed

section \<open>The forwarded address\<close>

text \<open>
  The address the limiters count is the one the client writes into its \<open>X-Forwarded-For\<close>
  header, so a client that never repeats itself is never limited; and a header without an
  address in it (empty, or commas only) reads the first element of an empty list.
\<close>

theorem forwarded_for_trusted:
  "(\<forall>ip. map_of (rl_table (wb_login_limiter wb)) ip = None \<and> ip_from_request E W rq = Inr ip \<longrightarrow>
      (\<forall>r wb'. login_route E W rq now now' now'' w wb = Inr (r, wb') \<longrightarrow> rs_status r \<noteq> 429)) \<and>
   (header_values ''X-Forwarded-For'' rq = v # vs \<and> list_all (\<lambda>c. c = CHR '','') (norm E v) \<longrightarrow>
      login_route E W rq now now' now'' w wb = Inl OutOfRange \<and>
      upload_route E W rq now now' w wb = Inl OutOfRange \<and>
      static_route E W path rq now now' wb = Inl OutOfRange)"
proof (intro conjI impI allI)
  fix ip r wb'
  assume new: "map_of (rl_table (wb_login_limiter wb)) ip = None \<and> ip_from_request E W rq = Inr ip"
    and run: "login_route E W rq now now' now'' w wb = Inr (r, wb')"
  obtain lim where "rate_check ip ''Too many logins, retry after %1 seconds'' now now' (wb_login_limiter wb) =
      (allowed_result, lim)" using new by (simp add: rate_check_def)
  then show "rs_status r \<noteq> 429"
    using new run
    by (auto simp: login_route_def Let_def allowed_result_def create_session_response_def set_headers_def
        typed_response_def text_response_def split: if_splits option.splits)
next
  assume commas: "header_values ''X-Forwarded-For'' rq = v # vs \<and> list_all (\<lambda>c. c = CHR '','') (norm E v)"
  have "list_all (\<lambda>c. c = CHR '','') s \<Longrightarrow> filter (\<lambda>p. p \<noteq> []) (qsplit (CHR '','') s) = []" for s
    by (induction s) (auto split: list.splits)
  with commas have "ip_from_request E W rq = Inl OutOfRange"
    by (simp add: ip_from_request_def list_at_def)
  then show "login_route E W rq now now' now'' w wb = Inl OutOfRange"
    "upload_route E W rq now now' w wb = Inl OutOfRange" "static_route E W path rq now now' wb = Inl OutOfRange"
    by (simp_all add: login_route_def upload_route_def static_route_def)
qed

theorem forwarded_for_trusted_witness:
  "login_route sample_env sample_web \<lparr>rq_headers = [(''X-Forwarded-For'', '','')], rq_body = [], rq_remote = []\<rparr>
     0 0 0 bob_world bob_web = Inl OutOfRange"
  using forwarded_for_trusted [where rq = "\<lparr>rq_headers = [(''X-Forwarded-For'', '','')], rq_body = [], rq_remote = []\<rparr>"
      and E = sample_env and W = sample_web and v = "'',''" and vs = "[]" and wb = bob_web and now = 0 and now' = 0
      and now'' = 0 and w = bob_world]
  by (simp add: header_values_def norm_def sample_env_def ascii_unicode_def)

end
