(* ===== verification/Framing.thy ===== *)
theory Framing
  imports Messaging
begin

text \<open>
  From bytes to lines: what \<open>onReadyRead\<close> does with the chunks a socket delivers. Its two loops
  are compared with a reference that splits the whole input at its line feeds, and its bound on
  the buffer is stated.
\<close>

section \<open>The reference\<close>

definition set_buffer :: "conn_id \<Rightarrow> bytes \<Rightarrow> world \<Rightarrow> world" where
  "set_buffer i b = upd_conn i (\<lambda>c. c\<lparr>c_buffer := b\<rparr>)"

text \<open>
  The complete lines are parsed in order, less a carriage return at their end; meanwhile the
  buffer holds what is still to come.
\<close>

fun feed :: "env \<Rightarrow> conn_id \<Rightarrow> bytes list \<Rightarrow> bytes \<Rightarrow> world \<Rightarrow> world res" where
  "feed E i [] rest w = Inr w"
| "feed E i (l # ls) rest w =
     bind_res (parse_incoming E i (chop_cr l) (set_buffer i (qjoin [LF] (ls @ [rest])) w)) (feed E i ls rest)"

text \<open>No line of the run authenticates a connection whose account is anonymous.\<close>

fun safe_lines :: "env \<Rightarrow> conn_id \<Rightarrow> bytes list \<Rightarrow> bytes \<Rightarrow> world \<Rightarrow> bool" where
  "safe_lines E i [] rest w = True"
| "safe_lines E i (l # ls) rest w =
     (let w0 = set_buffer i (qjoin [LF] (ls @ [rest])) w in
      (command_of E i (chop_cr l) w0 = Some ''AUTHENTICATE'' \<longrightarrow> auth_safe i w0) \<and>
      (case parse_incoming E i (chop_cr l) w0 of Inl _ \<Rightarrow> True | Inr w1 \<Rightarrow> safe_lines E i ls rest w1))"

section \<open>Reading\<close>

lemma append_chunks_fit:
  "\<forall>c \<in> set chunks. c \<noteq> [] \<Longrightarrow> length (b @ concat chunks) \<le> max_buffer_size \<Longrightarrow>
   append_chunks chunks b = Some (b @ concat chunks)"
  by (induction chunks arbitrary: b) (simp_all add: Let_def)

lemma append_chunks_overflow:
  "\<forall>c \<in> set chunks. c \<noteq> [] \<Longrightarrow> chunks \<noteq> [] \<Longrightarrow> length (b @ concat chunks) > max_buffer_size \<Longrightarrow>
   append_chunks chunks b = None"
proof (induction chunks arbitrary: b)
  case (Cons c chunks)
  then show ?case by (cases "chunks = []") (simp_all add: Let_def)
qed simp

section \<open>Draining\<close>

lemma parse_buffer:
  assumes "reachable w" and "c_alive (w_conns w i)"
    and "command_of E i l w = Some ''AUTHENTICATE'' \<Longrightarrow> auth_safe i w" and "parse_incoming E i l w = Inr w'"
  shows "c_buffer (w_conns w' i) = c_buffer (w_conns w i)"
proof -
  have "holds w (parse_incoming E i l w)"
    by (rule holds_parse_incoming [OF reachable_world_ok [OF assms(1)] assms(2)]) (rule assms(3))
  with assms(4) have "sockets w' = sockets w" by (simp add: holds_def)
  then have "fixed (w_conns w' i) = fixed (w_conns w i)" using sockets_fields(1) by blast
  then show ?thesis by (simp add: fixed_def)
qed

lemma index_of_qsplit:
  "(case index_of c s of None \<Rightarrow> qsplit c s = [s]
    | Some n \<Rightarrow> n < length s \<and> qsplit c s = take n s # qsplit c (drop (Suc n) s))"
  by (induction s) (auto split: option.splits)

lemma qsplit_parts: "\<exists>ls rest. qsplit c s = ls @ [rest]"
  using qsplit_not_Nil by (metis append_butlast_last_id)

lemma reachable_set_buffer:
  "reachable w \<Longrightarrow> reachable (set_buffer i b w)" "w_conns (set_buffer i b w) i = (w_conns w i)\<lparr>c_buffer := b\<rparr>"
  by (auto simp: set_buffer_def intro: reachable.step server_step.buffered)

lemma drain_feed:
  assumes "reachable w" and "c_alive (w_conns w i)" and "qsplit LF (c_buffer (w_conns w i)) = ls @ [rest]"
    and "safe_lines E i ls rest w" and "length (c_buffer (w_conns w i)) \<le> fuel"
  shows "drain_buffer fuel E i w = feed E i ls rest w \<and>
    (\<forall>w'. feed E i ls rest w = Inr w' \<longrightarrow> c_buffer (w_conns w' i) = rest)"
  using assms
proof (induction fuel arbitrary: w ls)
  case 0
  then show ?case by simp
next
  case (Suc fuel)
  let ?b = "c_buffer (w_conns w i)"
  show ?case
  proof (cases "index_of LF ?b")
    case None
    then have "ls = []" "rest = ?b" using index_of_qsplit [of LF ?b] Suc.prems(3) by (cases ls; auto)+
    then show ?thesis by (simp add: None)
  next
    case (Some n)
    then have n: "n < length ?b" "qsplit LF ?b = take n ?b # qsplit LF (drop (Suc n) ?b)"
      using index_of_qsplit [of LF ?b] by simp_all
    obtain ls' rest' where parts: "qsplit LF (drop (Suc n) ?b) = ls' @ [rest']" using qsplit_parts by blast
    with n(2) Suc.prems(3) have all: "ls @ [rest] = (take n ?b # ls') @ [rest']" by simp
    have ls: "ls = take n ?b # ls'" and r: "rest' = rest"
      using arg_cong [OF all, of butlast] arg_cong [OF all, of last] by simp_all
    have rest_buffer: "qjoin [LF] (ls' @ [rest]) = drop (Suc n) ?b"
      using qjoin_qsplit [of LF "drop (Suc n) ?b"] unfolding parts r .
    let ?w0 = "set_buffer i (drop (Suc n) ?b) w"
    have same: "upd_conn i (\<lambda>c. c\<lparr>c_buffer := drop (Suc n) (c_buffer c)\<rparr>) w = ?w0"
      by (simp add: set_buffer_def upd_conn_def)
    note w0 = reachable_set_buffer(1) [OF Suc.prems(1), of i "drop (Suc n) ?b"] reachable_set_buffer(2) [of i "drop (Suc n) ?b" w]
    have alive: "c_alive (w_conns ?w0 i)" using Suc.prems(2) w0(2) by simp
    have auth: "command_of E i (chop_cr (take n ?b)) ?w0 = Some ''AUTHENTICATE'' \<Longrightarrow> auth_safe i ?w0"
      using Suc.prems(4) by (simp add: ls rest_buffer Let_def)
    show ?thesis
    proof (cases "parse_incoming E i (chop_cr (take n ?b)) ?w0")
      case (Inl e)
      then show ?thesis by (simp add: Some same ls rest_buffer)
    next
      case (Inr w1)
      have w1: "reachable w1" "c_alive (w_conns w1 i)"
        using reachable_parse [OF w0(1) alive auth Inr] by blast+
      have b1: "c_buffer (w_conns w1 i) = drop (Suc n) ?b"
        using parse_buffer [OF w0(1) alive auth Inr] w0(2) by simp
      have safe: "safe_lines E i ls' rest w1" using Suc.prems(4) by (simp add: ls rest_buffer Let_def Inr)
      have "length (c_buffer (w_conns w1 i)) \<le> fuel" using n(1) Suc.prems(5) unfolding b1 by simp
      from Suc.IH [OF w1 _ safe this] parts
      have "drain_buffer fuel E i w1 = feed E i ls' rest w1 \<and>
          (\<forall>w'. feed E i ls' rest w1 = Inr w' \<longrightarrow> c_buffer (w_conns w' i) = rest)"
        unfolding b1 r by blast
      then show ?thesis by (simp add: Some same ls rest_buffer Inr)
    qed
  qed
qed



text \<open>
  When the bytes that arrived at once do not fit the buffer, the connection is ended without
  parsing any of them, however short the lines they hold.
\<close>

theorem overflow_ends_connection:
  assumes "\<forall>c \<in> set chunks. c \<noteq> []" and "chunks \<noteq> []"
    and "length (c_buffer (w_conns w i) @ concat chunks) > 1024"
  shows "on_ready_read E i chunks w = Inr (on_socket_disconnected E i (set_buffer i [] w))"
  using append_chunks_overflow [OF assms(1,2), of "c_buffer (w_conns w i)"] assms(3)
  by (simp add: on_ready_read_def set_buffer_def max_buffer_size_def)

theorem overflow_ends_connection_witness:
  "on_ready_read sample_env 0 (replicate 2 (concat (replicate 100 (''PONG a'' @ [LF])))) first_client =
     Inr (on_socket_disconnected sample_env 0 (set_buffer 0 [] first_client))"
proof (rule overflow_ends_connection)
  have len: "length (concat (replicate n (''PONG a'' @ [LF]))) = 7 * n" for n
    by (induction n) simp_all
  show "1024 < length (c_buffer (w_conns first_client 0) @ concat (replicate 2 (concat (replicate 100 (''PONG a'' @ [LF])))))"
    using len [of 100] by (simp add: numeral_2_eq_2)
  show "\<forall>c \<in> set (replicate 2 (concat (replicate 100 (''PONG a'' @ [LF])))). c \<noteq> []"
    using len [of 100] by auto
qed simp

end
