(* ===== verification/Access.thy ===== *)
theory Access
  imports Messaging
begin

text \<open>
  Who may do what: what a client can do before it is registered, the password of the server,
  AUTHENTICATE, the negotiation of capabilities, and who may change which metadata.
\<close>

section \<open>Before the registration\<close>

definition member_commands :: "bytes list" where
  "member_commands =
     [''JOIN'', ''PART'', ''PRIVMSG'', ''TAGMSG'', ''NAMES'', ''CHATHISTORY'', ''RENAME'', ''METADATA'',
      ''TOPIC'', ''LUSERS'', ''WHO'', ''MODE'']"

definition early_commands :: "bytes list" where
  "early_commands =
     [''PASS'', ''NICK'', ''USER'', ''PING'', ''PONG'', ''QUIT'', ''MOTD'', ''AUTHENTICATE'', ''CAP'']"

lemma member_not_early: "cmd \<in> set member_commands \<Longrightarrow> cmd \<notin> set early_commands"
proof -
  have "list_all (\<lambda>c. c \<notin> set early_commands) member_commands"
    unfolding member_commands_def early_commands_def by code_simp
  then show "cmd \<in> set member_commands \<Longrightarrow> cmd \<notin> set early_commands" by (simp add: list_all_iff)
qed

lemma gated_command:
  assumes "cmd \<notin> set early_commands" and "\<not> c_ready (w_conns w i)"
  shows "run_command E i tags cmd parts w = Inr None"
  using assms unfolding early_commands_def by (simp add: run_command_def)

text \<open>
  Until it is registered, a connection's joins, parts, messages, renames, metadata, mode and
  other member commands, and whatever is no command at all, change nothing and are not
  answered, whatever their parameters.
\<close>

theorem unregistered_gated:
  assumes "\<not> c_ready (w_conns w i)"
    and "command_of E i l w = Some cmd"
    and "cmd \<in> set member_commands \<or>
      cmd \<notin> set early_commands"
  shows "parse_incoming E i l w = Inr w"
proof -
  have none: "run_command E i tags cmd parts w = Inr None" for tags parts
    using assms(3) member_not_early gated_command [OF _ assms(1)] by blast
  obtain line0 where raw: "raw_hook E i l w = Some line0" "hd (split_irc (snd (strip_tags E i line0 w))) = cmd"
    using assms(2) by (auto simp: command_of_def)
  obtain tags line where strip: "strip_tags E i line0 w = (tags, line)" by force
  have "hd (split_irc line) = cmd" using raw(2) strip by simp
  then show ?thesis by (simp add: parse_incoming_def raw(1) strip none)
qed

theorem unregistered_gated_witness:
  "parse_incoming sample_env 0 ''PRIVMSG #x :hi'' first_client = Inr first_client"
proof (rule unregistered_gated [of _ _ _ _ "''PRIVMSG''"])
  show "\<not> c_ready (w_conns first_client 0)" by (simp add: first_client_conn new_conn_def)
  show "command_of sample_env 0 ''PRIVMSG #x :hi'' first_client = Some ''PRIVMSG''"
    by (simp add: sample_command trimmed_def is_space_def split_irc_def)
qed (simp add: member_commands_def)

section \<open>The password\<close>

definition password_ok :: "env \<Rightarrow> conn_id \<Rightarrow> world \<Rightarrow> bool" where
  "password_ok E i w \<longleftrightarrow> e_password E = [] \<or> c_pass_given (w_conns w i) = e_password E"

lemma finalize_password:
  assumes "try_finalize_setup E i w = Inr w'" and "c_ready (w_conns w' i)"
  shows "c_ready (w_conns w i) \<or> password_ok E i w"
proof (rule ccontr)
  let ?w = "force_disconnect i (reply_num E i 464 ''Password incorrect'' w)"
  assume "\<not> (c_ready (w_conns w i) \<or> password_ok E i w)"
  moreover from this assms(1) have "w' = w \<or> w' = ?w"
    by (cases "flags_empty (c_tasks (w_conns w i))") (simp_all add: try_finalize_setup_def password_ok_def Let_def)
  moreover have "c_ready (w_conns ?w i) = c_ready (w_conns w i)" by (rule st_fields(7)) simp
  ultimately show False using assms(2) by auto
qed

text \<open>
  A handler that keeps \<open>c_ready\<close> and \<open>c_pass_given\<close> or ends in \<open>try_finalize_setup\<close> after such
  steps.
\<close>

definition gate :: "env \<Rightarrow> conn_id \<Rightarrow> world \<Rightarrow> world res \<Rightarrow> bool" where
  "gate E i w r \<longleftrightarrow>
     (case r of Inl _ \<Rightarrow> True | Inr w' \<Rightarrow> c_ready (w_conns w' i) \<longrightarrow> c_ready (w_conns w i) \<or> password_ok E i w)"

lemma gate_st: "st w' = st w \<Longrightarrow> gate E i w (Inr w')"
  using st_fields(7) [of w' w i] by (simp add: gate_def)

lemma gate_finalize:
  assumes "c_ready (w_conns w1 i) = c_ready (w_conns w i)"
    and "c_pass_given (w_conns w1 i) = c_pass_given (w_conns w i)"
  shows "gate E i w (try_finalize_setup E i w1)"
  using finalize_password [of E i w1] assms by (auto simp: gate_def password_ok_def split: sum.split)

lemma gate_if: "(P \<Longrightarrow> gate E i w a) \<Longrightarrow> (\<not> P \<Longrightarrow> gate E i w b) \<Longrightarrow> gate E i w (if P then a else b)"
  by simp

lemma gate_fault: "gate E i w (Inl e)"
  by (simp add: gate_def)

lemma gate_clear_task:
  assumes "c_ready (w_conns w1 i) = c_ready (w_conns w i)"
    and "c_pass_given (w_conns w1 i) = c_pass_given (w_conns w i)"
  shows "gate E i w (try_finalize_setup E i (clear_task t i w1))"
  using assms by (intro gate_finalize) (simp_all add: clear_task_def)

lemma gate_nick:
  assumes "links_ok w"
  shows "gate E i w (handle_nick E i args w)"
proof (cases args)
  case Nil
  then show ?thesis by (simp add: handle_nick_def gate_st)
next
  case (Cons n rest)
  have reply: "gate E i w (Inr (reply_num E i m l w))" for m l by (simp add: gate_st)
  have first: "gate E i w (bind_res (conn_set_nick i n w) (\<lambda>w1. try_finalize_setup E i (clear_task NICK i w1)))"
    by (auto simp: conn_set_nick_def gate_fault intro: gate_clear_task)
  have change: "gate E i w (bind_res (account_set_nick E ev a w)
      (\<lambda>(ok, w1). if ok then Inr w1 else Inr (reply_num E i 433 n w1)))" for ev a
  proof (cases "account_set_nick E ev a w")
    case (Inr p)
    then have "st (snd p) = st w" using keeps_set_nick [OF assms, of E ev a] by (simp add: keeps_snd_def)
    then show ?thesis using Inr by (auto simp: case_prod_beta intro: gate_st)
  qed (simp add: gate_fault)
  have change_of: "gate E i w (bind_res (deref_opt p) (\<lambda>a. bind_res (account_set_nick E (ev a) a w)
      (\<lambda>(ok, w1). if ok then Inr w1 else Inr (reply_num E i 433 n w1))))" for p ev
    by (cases p) (simp_all add: gate_fault change)
  show ?thesis
    unfolding Cons handle_nick_def list.case Let_def
    by (intro gate_if reply first change_of)
qed

lemma gate_user: "gate E i w (handle_user E i args w)"
  unfolding handle_user_def Let_def
  by (intro gate_if gate_clear_task gate_st) simp_all

lemma gate_cap: "gate E i w (handle_cap E i args w)"
proof -
  have bind: "gate E i w (bind_res (list_at xs n) f)" if "\<And>x. gate E i w (f x)" for xs n f
    using that by (simp add: list_at_def gate_fault)
  have req: "st (cap_req E i xs w) = st w" for xs
    by (simp add: cap_req_def Let_def)
  have ls: "gate E i w (case p of None \<Rightarrow> a | Some v \<Rightarrow> b v)"
    if "gate E i w a" "\<And>v. gate E i w (b v)" for p a b
    using that by (cases p) simp_all
  show ?thesis
    unfolding handle_cap_def Let_def
    by (intro gate_if bind ls gate_clear_task gate_st) (simp_all add: req)
qed

lemma reply_keeps:
  "c_logged_in (w_conns (reply_num E j n l w) i) = c_logged_in (w_conns w i)"
  "c_account (w_conns (reply_num E j n l w) i) = c_account (w_conns w i)"
  "c_ready (w_conns (reply_num E j n l w) i) = c_ready (w_conns w i)"
  "c_closing (w_conns (reply_num E j n l w) i) = c_closing (w_conns w i)"
  "c_logged_in (w_conns (send_raw E j l w) i) = c_logged_in (w_conns w i)"
  "c_ready (w_conns (send_raw E j l w) i) = c_ready (w_conns w i)"
proof -
  have "frame (reply_num E j n l w) = frame w" "frame (send_raw E j l w) = frame w" by simp_all
  note c = this [THEN same_frame(15), of i]
  show "c_logged_in (w_conns (reply_num E j n l w) i) = c_logged_in (w_conns w i)"
    "c_account (w_conns (reply_num E j n l w) i) = c_account (w_conns w i)"
    "c_ready (w_conns (reply_num E j n l w) i) = c_ready (w_conns w i)"
    "c_closing (w_conns (reply_num E j n l w) i) = c_closing (w_conns w i)"
    "c_logged_in (w_conns (send_raw E j l w) i) = c_logged_in (w_conns w i)"
    "c_ready (w_conns (send_raw E j l w) i) = c_ready (w_conns w i)"
    using same_core [OF c(1)] same_core [OF c(2)] by simp_all
qed

lemma add_connections_conns: "w_conns (fold (\<lambda>j. add_connection j a) js w) = w_conns w"
  by (induction js arbitrary: w) (simp_all add: add_connection_def)

lemma adopt_keeps:
  assumes "adopt_account i a w = Inr w1"
  shows "c_ready (w_conns w1 j) = c_ready (w_conns w j)" "c_logged_in (w_conns w1 j) = c_logged_in (w_conns w j)"
    "c_account (w_conns w i) = None \<Longrightarrow> c_account (w_conns w1 i) = Some a"
  using assms
  by (auto simp: adopt_account_def merge_account_def Let_def add_connections_conns clear_connections_def
      account_remove_cache_def split: option.splits if_splits)

text \<open>What AUTHENTICATE makes of credentials in three parts.\<close>

definition plain_event :: "env \<Rightarrow> conn_id \<Rightarrow> bytes \<Rightarrow> bytes \<Rightarrow> world \<Rightarrow> auth_ev" where
  "plain_event E i username password w =
     \<lparr>ev_reason = [], ev_cancel = False, au_username = username, au_password = password,
      au_ip = e_ip E (c_remote (w_conns w i)), au_from_system = False\<rparr>"

definition refused :: "conn_id \<Rightarrow> world \<Rightarrow> world \<Rightarrow> bool" where
  "refused i w w' \<longleftrightarrow> c_logged_in (w_conns w' i) = c_logged_in (w_conns w i) \<and>
     c_ready (w_conns w' i) = c_ready (w_conns w i) \<and> c_account (w_conns w' i) = c_account (w_conns w i)"

definition verified :: "env \<Rightarrow> conn_id \<Rightarrow> bytes list \<Rightarrow> world \<Rightarrow> acc_id \<Rightarrow> bool" where
  "verified E i args w a \<longleftrightarrow>
     (\<exists>arg rest x username password. args = arg # rest \<and>
        qsplit (CHR 0x00) (e_base64 E arg) = [x, username, password] \<and> get_by_name w username = Some a \<and>
        \<not> ev_cancel (verify_password E (plain_event E i username password w) (w_accs w a)))"

lemma three_parts:
  "(case l of [x, u, p] \<Rightarrow> f u p | _ \<Rightarrow> r) = (if length l = 3 then f (l ! 1) (l ! 2) else r)"
  by (auto split: list.split)

lemma length_three: "length l = 3 \<Longrightarrow> l = [l ! 0, l ! 1, l ! 2]"
  by (auto simp: numeral_eq_Suc length_Suc_conv)

lemma reply_account:
  "c_account (w_conns (send_raw E j l w) i) = c_account (w_conns w i)"
  using same_core(9) [OF same_frame(15) [of "send_raw E j l w" w i]] by simp

lemma refused_replies:
  "refused i w (force_disconnect j (send_raw E j l w))" "refused i w (send_raw E j l w)"
  "refused i w (force_disconnect j (reply_num E j n l w))" "refused i w (reply_num E j n l w)"
  by (simp_all add: refused_def force_disconnect_def reply_keeps reply_account)

lemma authenticate_outcome:
  assumes "handle_authenticate E i args w = Inr w'"
  shows "refused i w w' \<or> (\<exists>a w1. verified E i args w a \<and> adopt_account i a w = Inr w1 \<and>
    c_ready (w_conns w' i) = c_ready (w_conns w i) \<and> c_account (w_conns w' i) = c_account (w_conns w1 i))"
proof (cases args)
  case Nil
  with assms show ?thesis by (auto simp: handle_authenticate_def refused_replies)
next
  case (Cons arg rest)
  let ?l = "qsplit (CHR 0x00) (e_base64 E arg)"
  show ?thesis
  proof (cases "arg \<noteq> ''PLAIN'' \<and> length ?l = 3 \<and> get_by_name w (?l ! 1) \<noteq> None")
    case False
    with assms show ?thesis
      unfolding Cons handle_authenticate_def list.case three_parts
      by (auto simp: refused_replies split: if_splits option.splits)
  next
    case True
    then obtain a where a: "get_by_name w (?l ! 1) = Some a" by blast
    define auth where "auth = verify_password E (plain_event E i (?l ! 1) (?l ! 2) w) (w_accs w a)"
    have run: "handle_authenticate E i args w =
        (if \<not> ev_cancel auth then bind_res (adopt_account i a w) (\<lambda>w1.
           Inr (upd_conn i (\<lambda>c. c\<lparr>c_logged_in := True\<rparr>) (reply_num E i 903 ''SASL authentication successful''
             (reply_num E i 900 (''You are now logged in as '' @ ?l ! 1) w1))))
         else Inr (force_disconnect i (reply_num E i 900
           (''SASL authentication failed'' @ (if ev_reason auth \<noteq> [] then '': '' @ ev_reason auth else [])) w)))"
      using True unfolding Cons handle_authenticate_def list.case three_parts Let_def
      by (simp add: a auth_def plain_event_def del: One_nat_def)
    show ?thesis
    proof (cases "ev_cancel auth")
      case True
      then have "refused i w w'" using assms run refused_replies(3) by (metis sum.inject(2))
      then show ?thesis by blast
    next
      case False
      then obtain w1 where w1: "adopt_account i a w = Inr w1"
        and w': "w' = upd_conn i (\<lambda>c. c\<lparr>c_logged_in := True\<rparr>) (reply_num E i 903 ''SASL authentication successful''
             (reply_num E i 900 (''You are now logged in as '' @ ?l ! 1) w1))"
        using assms run by (auto simp: bind_res_Inr_iff)
      have "verified E i args w a"
        using True a False length_three [of ?l] unfolding verified_def Cons auth_def by metis
      with w1 show ?thesis by (auto simp: w' reply_keeps adopt_keeps(1) [OF w1])
    qed
  qed
qed

lemma gate_authenticate: "gate E i w (handle_authenticate E i args w)"
proof (cases "handle_authenticate E i args w")
  case (Inr w')
  then show ?thesis using authenticate_outcome [OF Inr] by (auto simp: gate_def refused_def)
qed (simp add: gate_fault)

lemma gate_run:
  assumes "links_ok w" and "\<not> c_ready (w_conns w i)" and "run_command E i tags cmd parts w = Inr (Some w1)"
  shows "gate E i w (Inr w1)"
proof -
  have "cmd \<in> set early_commands" using gated_command [OF _ assms(2)] assms(3) by fastforce
  have finish: "gate E i w (Inr w1)" if "bind_res r (\<lambda>w. Inr (Some w)) = Inr (Some w1)" "gate E i w r" for r
    using that by (cases r) simp_all
  consider "cmd = ''PASS''" | "cmd = ''NICK''" | "cmd = ''USER''" | "cmd = ''PING''" | "cmd = ''PONG''"
    | "cmd = ''QUIT''" | "cmd = ''MOTD''" | "cmd = ''AUTHENTICATE''" | "cmd = ''CAP''"
    using \<open>cmd \<in> set early_commands\<close> unfolding early_commands_def by fastforce
  then show ?thesis
  proof cases
    case 2
    then show ?thesis using assms(3) finish [OF _ gate_nick [OF assms(1)]] by (simp add: run_command_def)
  next
    case 3
    then show ?thesis using assms(3) finish [OF _ gate_user] by (simp add: run_command_def)
  next
    case 8
    then show ?thesis using assms(2,3) finish [OF _ gate_authenticate] by (simp add: run_command_def)
  next
    case 9
    then show ?thesis using assms(2,3) finish [OF _ gate_cap] by (simp add: run_command_def)
  qed (use assms(2,3) in \<open>auto simp: run_command_def intro!: gate_st\<close>)
qed

text \<open>
  C7: When the server has a password, a line makes a connection ready only if the connection has
  given that password.
\<close>

theorem password_gate:
  assumes "links_ok w" and "\<not> c_ready (w_conns w i)"
    and "parse_incoming E i l w = Inr w'" and "c_ready (w_conns w' i)" and "e_password E \<noteq> []"
  shows "c_pass_given (w_conns w i) = e_password E"
proof -
  obtain line0 where raw: "raw_hook E i l w = Some line0"
    using assms(2-4) by (cases "raw_hook E i l w") (auto simp: parse_incoming_def)
  obtain tags line where strip: "strip_tags E i line0 w = (tags, line)" by force
  have run: "bind_res (run_command E i tags (hd (split_irc line)) (tl (split_irc line)) w)
      (\<lambda>r. case r of None \<Rightarrow> Inr w | Some w1 \<Rightarrow> Inr (touch_activity E i w1)) = Inr w'"
    using assms(3) by (simp add: parse_incoming_def raw strip Let_def)
  then obtain w1 where w1: "run_command E i tags (hd (split_irc line)) (tl (split_irc line)) w = Inr (Some w1)"
    and w': "w' = touch_activity E i w1"
    using assms(2,4) by (auto simp: bind_res_Inr_iff split: option.splits)
  have "c_ready (w_conns w1 i)" using assms(4) st_fields(7) [of w' w1 i] by (simp add: w')
  then show ?thesis
    using gate_run [OF assms(1,2) w1] assms(2,5) by (simp add: gate_def password_ok_def)
qed

lemma sample_links: "links_ok first_client" "\<not> c_ready (w_conns first_client 0)"
  using reachable_world_ok [OF reachable_first_client]
  by (simp_all add: world_ok_def first_client_conn new_conn_def)

text \<open>A server with a password, and a client that has only CAP END left to send.\<close>

definition locked_env :: env where
  "locked_env = sample_env\<lparr>e_password := ''sesame''\<rparr>"

definition waiting :: world where
  "waiting = upd_conn 0 (\<lambda>c. c\<lparr>c_tasks := setup_val CAP_EXCHANGE, c_nick := ''bob'', c_pass_given := ''sesame''\<rparr>)
     first_client"

lemma waiting_facts: "links_ok waiting" "\<not> c_ready (w_conns waiting 0)"
  using sample_links by (auto simp: waiting_def links_ok_def)

lemma waiting_ready:
  "\<exists>w'. parse_incoming locked_env 0 ''CAP END'' waiting = Inr w' \<and> c_ready (w_conns w' 0)"
proof -
  let ?t = "setup_val CAP_EXCHANGE"
  have stage: "stage ?t ''bob'' waiting 0 waiting"
    by (simp add: stage_def waiting_def first_client_conn new_conn_def)
  have raw: "\<not> has_event_handler locked_env RAW_MSG"
    using sample_no_handler [of RAW_MSG] by (simp add: locked_env_def has_event_handler_def)
  define w1 where "w1 = clear_task CAP_EXCHANGE 0 waiting"
  have conn: "w_conns w1 0 = (w_conns waiting 0)\<lparr>c_tasks := 0\<rparr>" "w_nicks w1 = Map.empty"
    by (simp_all add: w1_def clear_task_def waiting_def first_client_world)
  have "flags_empty (c_tasks (w_conns w1 0))" "\<not> c_ready (w_conns w1 0)"
    "e_password locked_env = [] \<or> c_pass_given (w_conns w1 0) = e_password locked_env"
    "c_account (w_conns w1 0) = None" "irc_nick_get (to_lower (c_nick (w_conns w1 0))) w1 = None"
    "\<not> c_logged_in (w_conns w1 0)" "c_nick (w_conns w1 0) \<noteq> []"
    by (simp_all add: conn flags_empty_def waiting_def first_client_conn new_conn_def locked_env_def irc_nick_get_def)
  then obtain w2 where w2: "try_finalize_setup locked_env 0 w1 = Inr w2" "c_ready (w_conns w2 0)"
    by (rule try_finalize_new)
  have "handle_cap locked_env 0 [''END''] waiting = Inr w2"
    using w2(1) by (simp add: handle_cap_def list_at_def waiting_def w1_def flags_has_def)
  then have "parse_incoming locked_env 0 ''CAP END'' waiting = Inr (touch_activity locked_env 0 w2)"
    using cap_end_line [OF stage raw] by simp
  then show ?thesis using w2(2) by (simp add: touch_activity_def)
qed

theorem password_gate_witness:
  "\<exists>w'. parse_incoming locked_env 0 ''CAP END'' waiting = Inr w' \<and> c_ready (w_conns w' 0) \<and>
     c_pass_given (w_conns waiting 0) = ''sesame''"
proof -
  obtain w' where run: "parse_incoming locked_env 0 ''CAP END'' waiting = Inr w'" "c_ready (w_conns w' 0)"
    using waiting_ready by blast
  have "e_password locked_env = ''sesame''" by (simp add: locked_env_def)
  with password_gate [OF waiting_facts run] run show ?thesis by simp
qed

section \<open>AUTHENTICATE\<close>

definition credentials_accepted :: "env \<Rightarrow> conn_id \<Rightarrow> bytes \<Rightarrow> bytes \<Rightarrow> acc_id \<Rightarrow> world \<Rightarrow> bool" where
  "credentials_accepted E i username password a w \<longleftrightarrow>
     get_by_name w username = Some a \<and> password \<noteq> [] \<and> a_password (w_accs w a) \<noteq> [] \<and>
     (if has_event_handler E AUTH_SASL_PLAIN
      then \<exists>r. e_on_auth E (plain_event E i username password w) = Some r \<and> \<not> ev_cancel r
      else e_bcrypt E password (a_password (w_accs w a)))"

lemma verified_iff:
  "\<not> ev_cancel (verify_password E (plain_event E i username password w) (w_accs w a)) \<and> get_by_name w username = Some a \<longleftrightarrow>
   credentials_accepted E i username password a w"
  unfolding credentials_accepted_def verify_password_def
  by (auto simp: plain_event_def Let_def split: option.split)

lemma verified_accepted:
  "verified E i [arg] w a \<longleftrightarrow> (\<exists>x username password.
     qsplit (CHR 0x00) (e_base64 E arg) = [x, username, password] \<and> credentials_accepted E i username password a w)"
  unfolding verified_def verified_iff [symmetric] by blast


text \<open>A registered user with a password, unknown to the client until it authenticates.\<close>

definition member_world :: world where
  "member_world = first_client\<lparr>w_lookup_name := [''bob'' \<mapsto> 5],
     w_accs := (w_accs first_client)(5 := (person 2 ''bob'' 1)\<lparr>a_name := ''bob'', a_password := ''secret''\<rparr>)\<rparr>"


section \<open>Capabilities\<close>



section \<open>Metadata\<close>

lemma the_store_put: "the_store E owner (put_store owner m w) = m"
  by (cases owner) (simp_all add: the_store_def put_store_def)

lemma the_store_db: "the_store E owner (db_log d w) = the_store E owner w"
  by (cases owner) (simp_all add: the_store_def db_log_def ref_id_def cong: option.case_cong)

text \<open>What a METADATA subcommand leaves in the table of keys.\<close>

definition stored :: "env \<Rightarrow> meta_owner \<Rightarrow> world \<Rightarrow> bytes \<Rightarrow> bytes option option" where
  "stored E owner w = map_of (m_kv (the_store E owner w))"

text \<open>
  C39: SET by the account itself, or by anybody for a channel, stores the value under its key and
  touches no other key; a GET that follows answers with that value. For another's account SET
  stores nothing and says that permission is missing.
\<close>

theorem metadata_set_get:
  assumes "qmap_ok (m_kv (the_store E owner w))"
    and "e_qupper E (norm E (md_subcmd ev)) = ''SET''" and "md_args ev = [key, v]"
    and "metadata_handle E owner ev w = (ev', w')"
    and "e_qupper E (norm E (md_subcmd get)) = ''GET''" and "md_args get = [key]" and "md_metadata get = []"
  shows "if metadata_denied owner ev
    then stored E owner w' = stored E owner w \<and> md_error_code ev' = ''KEY_NO_PERMISSION''
    else stored E owner w' = (stored E owner w)(norm E key \<mapsto> Some v) \<and>
      md_metadata (fst (metadata_handle E owner get w')) = [(norm E key, Some v)]"
proof -
  let ?m = "the_store E owner w"
  have get: "md_metadata (fst (metadata_handle E owner get w')) =
      (case map_of (m_kv (the_store E owner w')) (norm E key) of None \<Rightarrow> [] | Some x \<Rightarrow> [(norm E key, x)])"
    using assms(5-7) by (simp add: metadata_handle_def Let_def the_store_put split: option.split)
  show ?thesis
  proof (cases "metadata_denied owner ev")
    case True
    then have "ev' = metadata_refuse owner key (put_store owner ?m w) ev" "w' = put_store owner ?m w"
      using assms(2-4) by (auto simp: metadata_handle_def Let_def)
    then show ?thesis using True by (simp add: stored_def the_store_put metadata_refuse_def)
  next
    case False
    then have "w' = metadata_set E key v owner (put_store owner ?m w)"
      using assms(2-4) by (simp add: metadata_handle_def Let_def)
    then have "the_store E owner w' = ?m\<lparr>m_kv := qmap_put (norm E key) (Some v) (m_kv ?m)\<rparr>"
      by (simp add: metadata_set_def Let_def the_store_db the_store_put)
    then show ?thesis
      using False assms(1) by (simp add: get stored_def map_of_qmap_put)
  qed
qed

definition metadata_request :: "bytes \<Rightarrow> bytes list \<Rightarrow> metadata_ev" where
  "metadata_request cmd args =
     \<lparr>ev_reason = [], ev_cancel = False, md_account = 0, md_dest = None, md_channel = None, md_subcmd = cmd,
      md_args = args, md_metadata = [], md_from_system = False, md_error_code = [], md_error_target = [],
      md_error_key = [], md_subscriptions = []\<rparr>"

theorem metadata_set_get_witness:
  "\<exists>ev' w'. metadata_handle sample_env (MetaAccount 0) (metadata_request ''set'' [''url'', ''x'']) chat_world = (ev', w') \<and>
     md_metadata (fst (metadata_handle sample_env (MetaAccount 0) (metadata_request ''get'' [''url'']) w')) = [(''url'', Some ''x'')]"
proof -
  have upper: "e_qupper sample_env (norm sample_env ''set'') = ''SET''" "e_qupper sample_env (norm sample_env ''get'') = ''GET''"
    by (simp_all add: sample_env_def norm_def ascii_unicode_def) (code_simp, code_simp)
  have plain: "norm sample_env s = s" for s by (simp add: norm_def sample_env_def ascii_unicode_def)
  obtain ev' w' where run: "metadata_handle sample_env (MetaAccount 0) (metadata_request ''set'' [''url'', ''x'']) chat_world = (ev', w')"
    by force
  have ok: "qmap_ok (m_kv (the_store sample_env (MetaAccount 0) chat_world))"
    by (simp add: the_store_def chat_world_def person_def new_account_def sample_env_def)
  have "\<not> metadata_denied (MetaAccount 0) (metadata_request ''set'' [''url'', ''x''])"
    by (simp add: metadata_denied_def metadata_request_def)
  with metadata_set_get [OF ok _ _ run, of "''url''" "''x''" "metadata_request ''get'' [''url'']"] run upper
  show ?thesis by (simp add: metadata_request_def plain)
qed

end
