(* ===== verification/Database.thy ===== *)
theory Database
  imports Prelude
begin

text \<open>
  The database of \<open>lib/sql.cpp\<close>: the tables \<open>create_schema\<close> makes, with their keys and
  foreign keys, and the statements the code executes, by the documented behaviour of SQL as
  PostgreSQL has it: an insertion that violates a constraint or names an unknown column fails
  (\<open>None\<close>, an \<open>exec\<close> that returns false), a comparison with NULL is not true, and
  \<open>ON CONFLICT\<close> with a target needs a unique constraint on exactly the columns of the target.
  The connection is taken to be up. The order of the rows of a table is the order a query
  without \<open>ORDER BY\<close> finds them in; it does not change between two queries without a write.
\<close>

section \<open>Values and tables\<close>

datatype sqlval = SNull | SUuid quuid | SText bytes | SBytes bytes | SInt int | STime nat

datatype table_name =
    T_accounts | T_servers | T_server_members | T_channels | T_uploads | T_roles
    | T_account_channels | T_account_roles | T_permissions | T_logins | T_events
    | T_messages | T_metadata | T_metadata_subs

datatype col =
    C_id | C_username | C_password | C_creation_date | C_name | C_account_owner_id
    | C_account_id | C_server_id | C_join_date | C_topic | C_path | C_type | C_variant
    | C_icon | C_color | C_priority | C_channel_id | C_role_id | C_permission_bits | C_ip
    | C_login_date | C_recipient_id | C_event_type | C_data | C_reply_to | C_display_name
    | C_sender_id | C_text | C_raw | C_tags | C_nick | C_host | C_targets | C_from_system
    | C_tag_msg | C_key | C_value | C_ref_id | C_ref_type | C_created_at | C_modified_at
    | C_metadata_id

type_synonym row = "col \<Rightarrow> sqlval"
type_synonym db = "table_name \<Rightarrow> row list"

datatype col_default = NoDefault | Always sqlval | Now

datatype on_delete = CASCADE | SET_NULL

datatype col_type = UUID | TEXT | BYTEA | INTEGER | TIMESTAMP | REF_TYPE

record column_def =
  co_name :: col
  co_type :: col_type
  co_not_null :: bool
  co_default :: col_default

record foreign_key_def =
  fk_column :: col
  fk_table :: table_name
  fk_delete :: on_delete

text \<open>The first key is the primary key; a foreign key refers to the column \<open>id\<close>.\<close>

record table =
  tb_columns :: "column_def list"
  tb_keys :: "col list list"
  tb_foreign :: "foreign_key_def list"

definition column :: "col \<Rightarrow> col_type \<Rightarrow> bool \<Rightarrow> col_default \<Rightarrow> column_def" where
  "column c ty n d = \<lparr>co_name = c, co_type = ty, co_not_null = n, co_default = d\<rparr>"

definition foreign_key :: "col \<Rightarrow> table_name \<Rightarrow> on_delete \<Rightarrow> foreign_key_def" where
  "foreign_key c t d = \<lparr>fk_column = c, fk_table = t, fk_delete = d\<rparr>"

section \<open>The schema\<close>

definition accounts_table :: table where
  "accounts_table =
     \<lparr>tb_columns = [
        column C_id UUID True NoDefault,
        column C_username TEXT True NoDefault,
        column C_password TEXT True NoDefault,
        column C_creation_date TIMESTAMP False Now],
      tb_keys = [[C_id], [C_username]],
      tb_foreign = []\<rparr>"

definition servers_table :: table where
  "servers_table =
     \<lparr>tb_columns = [
        column C_id UUID True NoDefault,
        column C_name TEXT True NoDefault,
        column C_account_owner_id UUID True NoDefault,
        column C_creation_date TIMESTAMP False Now],
      tb_keys = [[C_id]],
      tb_foreign = [foreign_key C_account_owner_id T_accounts CASCADE]\<rparr>"

definition server_members_table :: table where
  "server_members_table =
     \<lparr>tb_columns = [
        column C_account_id UUID True NoDefault,
        column C_server_id UUID True NoDefault,
        column C_join_date TIMESTAMP False Now],
      tb_keys = [[C_account_id, C_server_id]],
      tb_foreign = [foreign_key C_account_id T_accounts CASCADE,
        foreign_key C_server_id T_servers CASCADE]\<rparr>"

definition channels_table :: table where
  "channels_table =
     \<lparr>tb_columns = [
        column C_id UUID True NoDefault,
        column C_server_id UUID True NoDefault,
        column C_name TEXT True NoDefault,
        column C_topic TEXT False NoDefault,
        column C_account_owner_id UUID False NoDefault,
        column C_creation_date TIMESTAMP False Now],
      tb_keys = [[C_id], [C_server_id, C_name]],
      tb_foreign = [foreign_key C_server_id T_servers CASCADE,
        foreign_key C_account_owner_id T_accounts SET_NULL]\<rparr>"

definition uploads_table :: table where
  "uploads_table =
     \<lparr>tb_columns = [
        column C_id UUID True NoDefault,
        column C_account_owner_id UUID True NoDefault,
        column C_path TEXT True NoDefault,
        column C_type INTEGER True NoDefault,
        column C_variant INTEGER True NoDefault,
        column C_creation_date TIMESTAMP False Now],
      tb_keys = [[C_id]],
      tb_foreign = [foreign_key C_account_owner_id T_accounts CASCADE]\<rparr>"

definition roles_table :: table where
  "roles_table =
     \<lparr>tb_columns = [
        column C_id UUID True NoDefault,
        column C_server_id UUID True NoDefault,
        column C_name TEXT True NoDefault,
        column C_icon UUID False NoDefault,
        column C_color INTEGER False NoDefault,
        column C_priority INTEGER False (Always (SInt 0)),
        column C_creation_date TIMESTAMP False Now],
      tb_keys = [[C_id], [C_server_id, C_name]],
      tb_foreign = [foreign_key C_server_id T_servers CASCADE,
        foreign_key C_icon T_uploads SET_NULL]\<rparr>"

definition account_channels_table :: table where
  "account_channels_table =
     \<lparr>tb_columns = [
        column C_account_id UUID True NoDefault,
        column C_channel_id UUID True NoDefault],
      tb_keys = [[C_account_id, C_channel_id]],
      tb_foreign = [foreign_key C_account_id T_accounts CASCADE,
        foreign_key C_channel_id T_channels CASCADE]\<rparr>"

definition account_roles_table :: table where
  "account_roles_table =
     \<lparr>tb_columns = [
        column C_account_id UUID True NoDefault,
        column C_role_id UUID True NoDefault],
      tb_keys = [[C_account_id, C_role_id]],
      tb_foreign = [foreign_key C_account_id T_accounts CASCADE,
        foreign_key C_role_id T_roles CASCADE]\<rparr>"

definition permissions_table :: table where
  "permissions_table =
     \<lparr>tb_columns = [
        column C_id UUID True NoDefault,
        column C_role_id UUID True NoDefault,
        column C_permission_bits INTEGER True (Always (SInt 0))],
      tb_keys = [[C_id]],
      tb_foreign = [foreign_key C_role_id T_roles CASCADE]\<rparr>"

definition logins_table :: table where
  "logins_table =
     \<lparr>tb_columns = [
        column C_id UUID True NoDefault,
        column C_account_id UUID True NoDefault,
        column C_ip TEXT True NoDefault,
        column C_login_date TIMESTAMP False Now],
      tb_keys = [[C_id]],
      tb_foreign = [foreign_key C_account_id T_accounts CASCADE]\<rparr>"

definition events_table :: table where
  "events_table =
     \<lparr>tb_columns = [
        column C_id UUID True NoDefault,
        column C_account_id UUID True NoDefault,
        column C_channel_id UUID False NoDefault,
        column C_recipient_id UUID False NoDefault,
        column C_event_type INTEGER True NoDefault,
        column C_data TEXT True NoDefault,
        column C_reply_to UUID False NoDefault,
        column C_display_name TEXT False NoDefault,
        column C_creation_date TIMESTAMP False Now],
      tb_keys = [[C_id]],
      tb_foreign = [foreign_key C_account_id T_accounts CASCADE,
        foreign_key C_channel_id T_channels SET_NULL,
        foreign_key C_recipient_id T_accounts SET_NULL,
        foreign_key C_reply_to T_events SET_NULL]\<rparr>"

definition messages_table :: table where
  "messages_table =
     \<lparr>tb_columns = [
        column C_id UUID True NoDefault,
        column C_sender_id UUID True NoDefault,
        column C_channel_id UUID False NoDefault,
        column C_text TEXT True NoDefault,
        column C_raw BYTEA False NoDefault,
        column C_tags TEXT False NoDefault,
        column C_nick TEXT False NoDefault,
        column C_host TEXT False NoDefault,
        column C_username TEXT False NoDefault,
        column C_targets TEXT False NoDefault,
        column C_from_system INTEGER False (Always (SInt 0)),
        column C_tag_msg INTEGER False (Always (SInt 0)),
        column C_creation_date TIMESTAMP False Now],
      tb_keys = [[C_id]],
      tb_foreign = [foreign_key C_sender_id T_accounts CASCADE,
        foreign_key C_channel_id T_channels SET_NULL]\<rparr>"

definition metadata_table :: table where
  "metadata_table =
     \<lparr>tb_columns = [
        column C_id UUID True NoDefault,
        column C_key TEXT True NoDefault,
        column C_value BYTEA True NoDefault,
        column C_ref_id UUID True NoDefault,
        column C_ref_type REF_TYPE True NoDefault,
        column C_created_at TIMESTAMP False Now,
        column C_modified_at TIMESTAMP False Now],
      tb_keys = [[C_id], [C_ref_id, C_key]],
      tb_foreign = []\<rparr>"

definition metadata_subs_table :: table where
  "metadata_subs_table =
     \<lparr>tb_columns = [
        column C_id UUID True NoDefault,
        column C_metadata_id UUID True NoDefault,
        column C_account_id UUID True NoDefault],
      tb_keys = [[C_id]],
      tb_foreign = [foreign_key C_metadata_id T_metadata CASCADE,
        foreign_key C_account_id T_accounts CASCADE]\<rparr>"

fun create_schema :: "table_name \<Rightarrow> table" where
  "create_schema T_accounts = accounts_table"
| "create_schema T_servers = servers_table"
| "create_schema T_server_members = server_members_table"
| "create_schema T_channels = channels_table"
| "create_schema T_uploads = uploads_table"
| "create_schema T_roles = roles_table"
| "create_schema T_account_channels = account_channels_table"
| "create_schema T_account_roles = account_roles_table"
| "create_schema T_permissions = permissions_table"
| "create_schema T_logins = logins_table"
| "create_schema T_events = events_table"
| "create_schema T_messages = messages_table"
| "create_schema T_metadata = metadata_table"
| "create_schema T_metadata_subs = metadata_subs_table"

lemmas schema_defs =
  accounts_table_def servers_table_def server_members_table_def channels_table_def uploads_table_def
  roles_table_def account_channels_table_def account_roles_table_def permissions_table_def
  logins_table_def events_table_def messages_table_def metadata_table_def metadata_subs_table_def
  column_def foreign_key_def

section \<open>Statements\<close>

definition sql_eq :: "sqlval \<Rightarrow> sqlval \<Rightarrow> bool" where
  "sql_eq a b \<longleftrightarrow> a \<noteq> SNull \<and> a = b"

definition conflict :: "col list \<Rightarrow> row \<Rightarrow> row \<Rightarrow> bool" where
  "conflict key r r' = list_all (\<lambda>c. sql_eq (r c) (r' c)) key"

definition default_value :: "nat \<Rightarrow> col_default \<Rightarrow> sqlval" where
  "default_value now d = (case d of NoDefault \<Rightarrow> SNull | Always v \<Rightarrow> v | Now \<Rightarrow> STime now)"

definition table_cols :: "table \<Rightarrow> col list" where
  "table_cols tb = map co_name (tb_columns tb)"

definition build_row :: "table \<Rightarrow> nat \<Rightarrow> (col \<times> sqlval) list \<Rightarrow> row" where
  "build_row tb now vals c =
     (case map_of vals c of
        Some v \<Rightarrow> v
      | None \<Rightarrow>
          (case find (\<lambda>d. co_name d = c) (tb_columns tb) of
             Some d \<Rightarrow> default_value now (co_default d)
           | None \<Rightarrow> SNull))"

definition known_columns :: "table \<Rightarrow> (col \<times> sqlval) list \<Rightarrow> bool" where
  "known_columns tb vals = list_all (\<lambda>(c, v). c \<in> set (table_cols tb)) vals"

text \<open>\<open>REF_TYPE\<close> is the type \<open>ref_type_enum\<close>.\<close>

definition has_type :: "col_type \<Rightarrow> sqlval \<Rightarrow> bool" where
  "has_type ty v =
     (case v of
        SNull \<Rightarrow> True
      | SUuid _ \<Rightarrow> ty = UUID
      | SText s \<Rightarrow> ty = TEXT \<or> (ty = REF_TYPE \<and> s \<in> set [''channel'', ''account''])
      | SBytes _ \<Rightarrow> ty = BYTEA
      | SInt i \<Rightarrow> ty = INTEGER \<and> - 2147483648 \<le> i \<and> i < 2147483648
      | STime _ \<Rightarrow> ty = TIMESTAMP)"

definition columns_ok :: "table \<Rightarrow> row \<Rightarrow> bool" where
  "columns_ok tb r =
     list_all (\<lambda>d. (co_not_null d \<longrightarrow> r (co_name d) \<noteq> SNull) \<and> has_type (co_type d) (r (co_name d)))
       (tb_columns tb)"

definition keys_free :: "table \<Rightarrow> row list \<Rightarrow> row \<Rightarrow> bool" where
  "keys_free tb rows r = list_all (\<lambda>key. \<not> list_ex (conflict key r) rows) (tb_keys tb)"

definition references :: "db \<Rightarrow> table \<Rightarrow> row \<Rightarrow> bool" where
  "references D tb r =
     list_all (\<lambda>f. r (fk_column f) = SNull \<or> list_ex (\<lambda>p. p C_id = r (fk_column f)) (D (fk_table f)))
       (tb_foreign tb)"

definition exec_insert :: "nat \<Rightarrow> table_name \<Rightarrow> (col \<times> sqlval) list \<Rightarrow> db \<Rightarrow> db option" where
  "exec_insert now t vals D =
     (let tb = create_schema t; r = build_row tb now vals in
      if known_columns tb vals \<and> columns_ok tb r \<and> keys_free tb (D t) r \<and> references D tb r
      then Some (D(t := D t @ [r])) else None)"

text \<open>\<open>ON CONFLICT DO NOTHING\<close>, with a target (\<open>Some\<close>) or without one.\<close>

definition has_key :: "table \<Rightarrow> col list \<Rightarrow> bool" where
  "has_key tb cols = list_ex (\<lambda>key. set key = set cols) (tb_keys tb)"

definition exec_insert_or_nothing ::
    "nat \<Rightarrow> table_name \<Rightarrow> col list option \<Rightarrow> (col \<times> sqlval) list \<Rightarrow> db \<Rightarrow> db option" where
  "exec_insert_or_nothing now t target vals D =
     (let tb = create_schema t; r = build_row tb now vals in
      if \<not> known_columns tb vals \<or> \<not> columns_ok tb r then None
      else
        (case target of
           None \<Rightarrow> if \<not> keys_free tb (D t) r then Some D else exec_insert now t vals D
         | Some cols \<Rightarrow>
             if \<not> has_key tb cols then None
             else if list_ex (conflict cols r) (D t) then Some D
             else exec_insert now t vals D))"

text \<open>\<open>ON CONFLICT (cols) DO UPDATE\<close>.\<close>

definition exec_upsert ::
    "nat \<Rightarrow> table_name \<Rightarrow> col list \<Rightarrow> (row \<Rightarrow> row \<Rightarrow> row) \<Rightarrow> (col \<times> sqlval) list \<Rightarrow> db \<Rightarrow> db option" where
  "exec_upsert now t cols upd vals D =
     (let tb = create_schema t; r = build_row tb now vals in
      if \<not> known_columns tb vals \<or> \<not> columns_ok tb r \<or> \<not> has_key tb cols then None
      else if list_ex (conflict cols r) (D t)
      then Some (D(t := map (\<lambda>r'. if conflict cols r r' then upd r r' else r') (D t)))
      else exec_insert now t vals D)"

definition exec_update :: "table_name \<Rightarrow> (row \<Rightarrow> bool) \<Rightarrow> (row \<Rightarrow> row) \<Rightarrow> db \<Rightarrow> db" where
  "exec_update t P upd D = D(t := map (\<lambda>r. if P r then upd r else r) (D t))"

definition select :: "table_name \<Rightarrow> (row \<Rightarrow> bool) \<Rightarrow> db \<Rightarrow> row list" where
  "select t P D = filter P (D t)"

text \<open>
  \<open>DELETE\<close> with the cascade to the tables that refer to this one, one step deep: the code deletes
  from \<open>metadata\<close>, \<open>metadata_subs\<close> and \<open>account_channels\<close> only.
\<close>

definition referring :: "table_name \<Rightarrow> sqlval list \<Rightarrow> on_delete \<Rightarrow> table \<Rightarrow> row \<Rightarrow> col list" where
  "referring t ids d tb r =
     map fk_column (filter (\<lambda>f. fk_table f = t \<and> fk_delete f = d \<and> r (fk_column f) \<in> set ids) (tb_foreign tb))"

definition exec_delete :: "table_name \<Rightarrow> (row \<Rightarrow> bool) \<Rightarrow> db \<Rightarrow> db" where
  "exec_delete t P D =
     (let ids = map (\<lambda>r. r C_id) (filter (\<lambda>r. P r \<and> r C_id \<noteq> SNull) (D t));
          D1 = D(t := filter (\<lambda>r. \<not> P r) (D t))
      in (\<lambda>u. map (\<lambda>r c. if c \<in> set (referring t ids SET_NULL (create_schema u) r) then SNull else r c)
                (filter (\<lambda>r. referring t ids CASCADE (create_schema u) r = []) (D1 u))))"

section \<open>The constraints\<close>

definition keys_apart :: "table \<Rightarrow> row list \<Rightarrow> bool" where
  "keys_apart tb rows \<longleftrightarrow>
     list_all (\<lambda>key. sorted_wrt (\<lambda>r r'. \<not> conflict key r' r) rows) (tb_keys tb)"

definition constraints :: "db \<Rightarrow> bool" where
  "constraints D \<longleftrightarrow>
     (\<forall>t. keys_apart (create_schema t) (D t) \<and>
        (\<forall>r \<in> set (D t). columns_ok (create_schema t) r \<and> references D (create_schema t) r))"

lemma constraints_columns: "constraints D \<Longrightarrow> r \<in> set (D t) \<Longrightarrow> columns_ok (create_schema t) r"
  by (simp add: constraints_def)

lemma constraints_keys: "constraints D \<Longrightarrow> keys_apart (create_schema t) (D t)"
  by (simp add: constraints_def)

lemma sql_eq_simps [simp]:
  "sql_eq a (SUuid u) \<longleftrightarrow> a = SUuid u" "sql_eq a (SText s) \<longleftrightarrow> a = SText s"
  "\<not> sql_eq a SNull" "\<not> sql_eq SNull b"
  by (auto simp: sql_eq_def)

lemma conflict_iff: "conflict key r r' \<longleftrightarrow> (\<forall>c \<in> set key. r c \<noteq> SNull \<and> r c = r' c)"
  by (simp add: conflict_def list_all_iff sql_eq_def)

lemma conflict_sym: "conflict key r r' \<longleftrightarrow> conflict key r' r"
  by (auto simp: conflict_iff)

lemma keys_apart_append:
  "keys_apart tb rows \<Longrightarrow> keys_free tb rows r \<Longrightarrow> keys_apart tb (rows @ [r])"
  by (auto simp: keys_apart_def keys_free_def list_all_iff list_ex_iff sorted_wrt_append)

lemma keys_apart_filter: "keys_apart tb rows \<Longrightarrow> keys_apart tb (filter P rows)"
  by (auto simp: keys_apart_def list_all_iff sorted_wrt_filter)

lemma references_mono:
  assumes "references D tb r" "\<And>t. set (D t) \<subseteq> set (D' t)"
  shows "references D' tb r"
  using assms by (fastforce simp: references_def list_all_iff list_ex_iff)

text \<open>An insertion that succeeds keeps every constraint of every table.\<close>

lemma constraints_insert:
  assumes "constraints D" "exec_insert now t vals D = Some D'"
  shows "constraints D'"
proof -
  define r where "r = build_row (create_schema t) now vals"
  have r: "columns_ok (create_schema t) r" "keys_free (create_schema t) (D t) r"
    "references D (create_schema t) r" "D' = D(t := D t @ [r])"
    using assms(2) by (auto simp: exec_insert_def Let_def r_def split: if_splits)
  have mono: "set (D u) \<subseteq> set (D' u)" for u by (auto simp: r(4))
  show ?thesis
    unfolding constraints_def
  proof (intro allI conjI ballI)
    fix u show "keys_apart (create_schema u) (D' u)"
      using assms(1) r by (auto simp: constraints_def intro: keys_apart_append)
    fix x assume "x \<in> set (D' u)"
    then have "x \<in> set (D u) \<or> (u = t \<and> x = r)" by (auto simp: r(4) split: if_splits)
    then have "columns_ok (create_schema u) x \<and> references D (create_schema u) x"
      using assms(1) r by (auto simp: constraints_def)
    then show "columns_ok (create_schema u) x" "references D' (create_schema u) x"
      by (auto intro: references_mono [OF _ mono])
  qed
qed

lemma constraints_insert_or_nothing:
  "constraints D \<Longrightarrow> exec_insert_or_nothing now t target vals D = Some D' \<Longrightarrow> constraints D'"
  by (auto simp: exec_insert_or_nothing_def Let_def constraints_insert split: if_splits option.splits)

text \<open>An update that leaves keys, references and the identity alone and writes values of the right types.\<close>

definition plain_columns :: "table_name \<Rightarrow> col set \<Rightarrow> bool" where
  "plain_columns t cs \<longleftrightarrow>
     C_id \<notin> cs \<and> (\<forall>key \<in> set (tb_keys (create_schema t)). set key \<inter> cs = {}) \<and>
     (\<forall>f \<in> set (tb_foreign (create_schema t)). fk_column f \<notin> cs)"

lemma constraints_map:
  assumes "constraints D" "plain_columns t cs"
    and "\<And>r c. c \<notin> cs \<Longrightarrow> upd r c = r c"
    and "\<And>r. r \<in> set (D t) \<Longrightarrow> columns_ok (create_schema t) (upd r)"
  shows "constraints (D(t := map upd (D t)))"
proof -
  let ?D = "D(t := map upd (D t))"
  have conf: "conflict key (upd r) (upd r') = conflict key r r'"
    if key: "key \<in> set (tb_keys (create_schema t))" for key r r'
  proof -
    have "upd q c = q c" if "c \<in> set key" for q c
      using assms(2) key that by (intro assms(3)) (auto simp: plain_columns_def)
    then show ?thesis by (simp add: conflict_iff)
  qed
  have id: "upd r C_id = r C_id" for r using assms(2,3) by (auto simp: plain_columns_def)
  have refs: "references ?D tb r" if "references D tb r" for tb r
    using that by (auto simp: references_def list_all_iff list_ex_iff id)
  show ?thesis
    unfolding constraints_def
  proof (intro allI conjI ballI)
    fix u show "keys_apart (create_schema u) (?D u)"
      using assms(1) conf by (auto simp: constraints_def keys_apart_def list_all_iff sorted_wrt_map)
    fix x assume x: "x \<in> set (?D u)"
    show "references ?D (create_schema u) x"
    proof (cases "u = t")
      case True
      then obtain r where r: "r \<in> set (D t)" "x = upd r" using x by auto
      have "x (fk_column f) = r (fk_column f)" if "f \<in> set (tb_foreign (create_schema t))" for f
        using that assms(2,3) r(2) by (auto simp: plain_columns_def)
      moreover have "references ?D (create_schema t) r"
        using assms(1) r by (intro refs) (auto simp: constraints_def)
      ultimately show ?thesis using True by (auto simp: references_def list_all_iff)
    next
      case False
      then show ?thesis using x assms(1) by (intro refs) (auto simp: constraints_def)
    qed
    show "columns_ok (create_schema u) x"
    proof (cases "u = t")
      case True
      then obtain r where r: "r \<in> set (D t)" "x = upd r" using x by auto
      then show ?thesis using True r assms(4) by auto
    next
      case False
      then show ?thesis using x assms(1) by (auto simp: constraints_def)
    qed
  qed
qed

lemma constraints_upsert:
  assumes "constraints D" "exec_upsert now t key upd vals D = Some D'" "plain_columns t cs"
    and "\<And>q r c. c \<notin> cs \<Longrightarrow> upd q r c = r c"
    and "\<And>q r. columns_ok (create_schema t) q \<Longrightarrow> r \<in> set (D t) \<Longrightarrow> columns_ok (create_schema t) (upd q r)"
  shows "constraints D'"
proof -
  define q where "q = build_row (create_schema t) now vals"
  show ?thesis
  proof (cases "list_ex (conflict key q) (D t)")
    case True
    then have "columns_ok (create_schema t) q"
      and D': "D' = D(t := map (\<lambda>r. if conflict key q r then upd q r else r) (D t))"
      using assms(2) by (simp_all add: exec_upsert_def Let_def flip: q_def cong: if_cong split: if_split_asm)
    then show ?thesis
      unfolding D'
      by (intro constraints_map [OF assms(1,3)])
        (auto simp: assms(4) intro: assms(5) constraints_columns [OF assms(1)])
  next
    case False
    then have "exec_insert now t vals D = Some D'"
      using assms(2) by (simp add: exec_upsert_def Let_def flip: q_def split: if_split_asm)
    with assms(1) show ?thesis by (rule constraints_insert)
  qed
qed

text \<open>The three deletions of the code.\<close>

lemma referring_leaf:
  "t = T_metadata_subs \<or> t = T_account_channels \<Longrightarrow> referring t ids d (create_schema u) r = []"
  by (cases u) (auto simp: referring_def schema_defs)

lemma referring_metadata:
  "referring T_metadata ids SET_NULL (create_schema u) r = []"
  "referring T_metadata ids CASCADE (create_schema u) r =
     (if u = T_metadata_subs \<and> r C_metadata_id \<in> set ids then [C_metadata_id] else [])"
  by (cases u; simp add: referring_def schema_defs)+

lemma exec_delete_leaf:
  "t = T_metadata_subs \<or> t = T_account_channels \<Longrightarrow>
     exec_delete t P D = D(t := filter (\<lambda>r. \<not> P r) (D t))"
  by (rule ext) (simp add: exec_delete_def referring_leaf Let_def)

definition ids_of :: "row list \<Rightarrow> sqlval set" where
  "ids_of rows = {r C_id | r. r \<in> set rows \<and> r C_id \<noteq> SNull}"

lemma exec_delete_metadata:
  "exec_delete T_metadata P D =
     D(T_metadata := filter (\<lambda>r. \<not> P r) (D T_metadata),
       T_metadata_subs := filter (\<lambda>s. s C_metadata_id \<notin> ids_of (filter P (D T_metadata))) (D T_metadata_subs))"
proof
  fix u
  have "set (map (\<lambda>r. r C_id) (filter (\<lambda>r. P r \<and> r C_id \<noteq> SNull) (D T_metadata))) =
      ids_of (filter P (D T_metadata))"
    by (auto simp: ids_of_def)
  then show "exec_delete T_metadata P D u =
     (D(T_metadata := filter (\<lambda>r. \<not> P r) (D T_metadata),
       T_metadata_subs := filter (\<lambda>s. s C_metadata_id \<notin> ids_of (filter P (D T_metadata)))
         (D T_metadata_subs))) u"
    by (cases "u = T_metadata_subs") (simp_all add: exec_delete_def referring_metadata Let_def if_distrib [of "\<lambda>l. l = []"] cong: if_cong)
qed

lemma not_referred:
  "t = T_metadata_subs \<or> t = T_account_channels \<Longrightarrow> f \<in> set (tb_foreign (create_schema u)) \<Longrightarrow> fk_table f \<noteq> t"
  "f \<in> set (tb_foreign (create_schema u)) \<Longrightarrow> fk_table f = T_metadata \<Longrightarrow> u = T_metadata_subs \<and> fk_column f = C_metadata_id"
  by (cases u; auto simp: schema_defs)+

lemma constraints_delete_leaf:
  assumes "constraints D" "t = T_metadata_subs \<or> t = T_account_channels"
  shows "constraints (exec_delete t P D)"
proof -
  have "references (D(t := X)) (create_schema u) r = references D (create_schema u) r" for X u r
    using not_referred(1) [OF assms(2)] by (auto simp: references_def list_all_iff)
  then show ?thesis
    using assms by (auto simp: exec_delete_leaf constraints_def keys_apart_filter)
qed

lemma constraints_delete_metadata:
  assumes D: "constraints D"
  shows "constraints (exec_delete T_metadata P D)"
  unfolding constraints_def
proof (intro allI conjI ballI)
  fix u
  show "keys_apart (create_schema u) (exec_delete T_metadata P D u)"
    using constraints_keys [OF D]
    by (simp add: exec_delete_metadata keys_apart_filter del: create_schema.simps)
  fix r assume r: "r \<in> set (exec_delete T_metadata P D u)"
  then have old: "r \<in> set (D u)" by (auto simp: exec_delete_metadata split: if_splits)
  with D show "columns_ok (create_schema u) r" by (rule constraints_columns)
  have refs: "references D (create_schema u) r" using D old by (simp add: constraints_def)
  show "references (exec_delete T_metadata P D) (create_schema u) r"
    unfolding references_def list_all_iff
  proof
    fix f assume f: "f \<in> set (tb_foreign (create_schema u))"
    consider "r (fk_column f) = SNull" | p where "r (fk_column f) \<noteq> SNull" "p \<in> set (D (fk_table f))" "p C_id = r (fk_column f)"
      using refs f by (auto simp: references_def list_all_iff list_ex_iff)
    then show "r (fk_column f) = SNull \<or>
        list_ex (\<lambda>p. p C_id = r (fk_column f)) (exec_delete T_metadata P D (fk_table f))"
    proof cases
      case (2 p)
      have other: "fk_table f \<noteq> T_metadata_subs" using not_referred(1) [OF _ f] by blast
      show ?thesis
      proof (cases "fk_table f = T_metadata")
        case True
        then have "u = T_metadata_subs" "fk_column f = C_metadata_id" using not_referred(2) [OF f] by simp_all
        with r 2 have "\<not> P p" by (auto simp: exec_delete_metadata ids_of_def True)
        with 2 True show ?thesis by (auto simp: exec_delete_metadata list_ex_iff)
      next
        case False
        with 2 other show ?thesis by (auto simp: exec_delete_metadata list_ex_iff)
      qed
    qed simp
  qed
qed

end
