(* ===== verification/Sql_Metadata.thy ===== *)
theory Sql_Metadata
  imports Database Metadata_Store Sample
begin

text \<open>
  The metadata functions of \<open>lib/sql.cpp\<close> on the tables \<open>metadata\<close> and \<open>metadata_subs\<close>, and how
  the stores in memory (\<open>core/metadata.cpp\<close>) are written through to them.

  A statement is executed at a time \<open>now\<close>; \<open>uuid\<close> is the next \<open>QUuid::createUuid()\<close>. What the
  driver does with a parameter is documented by Qt where the types agree; two things are
  parameters here: the text a \<open>QByteArray\<close> becomes when it is bound for a TEXT column, and the
  value a null \<open>QUuid\<close> is bound as. \<open>q_tags_json\<close> is Qt's compact JSON of a tag map.
\<close>

section \<open>Binding values\<close>

record sql_driver =
  q_bytes_text :: "bytes \<Rightarrow> bytes"
  q_null_uuid :: sqlval
  q_tags_json :: "tag_map \<Rightarrow> bytes"

definition bind_uuid :: "sql_driver \<Rightarrow> quuid \<Rightarrow> sqlval" where
  "bind_uuid Q u = (if u = null_uuid then q_null_uuid Q else SUuid u)"

definition bind_string :: "env \<Rightarrow> bytes \<Rightarrow> sqlval" where
  "bind_string E s = SText (norm E s)"

definition bind_bytes_text :: "sql_driver \<Rightarrow> bytes \<Rightarrow> sqlval" where
  "bind_bytes_text Q s = SText (q_bytes_text Q s)"

definition to_text :: "sqlval \<Rightarrow> bytes" where
  "to_text v = (case v of SText s \<Rightarrow> s | _ \<Rightarrow> [])"

definition to_uuid :: "sqlval \<Rightarrow> quuid" where
  "to_uuid v = (case v of SUuid u \<Rightarrow> u | _ \<Rightarrow> null_uuid)"

definition to_bytes :: "sqlval \<Rightarrow> bytes option" where
  "to_bytes v = (case v of SBytes s \<Rightarrow> Some s | SText s \<Rightarrow> Some s | _ \<Rightarrow> None)"

definition ref_type_str :: "ref_type \<Rightarrow> bytes" where
  "ref_type_str ty = (case ty of RefChannel \<Rightarrow> ''channel'' | RefAccount \<Rightarrow> ''account'')"

fun fold_opt :: "('a \<Rightarrow> 's \<Rightarrow> 's option) \<Rightarrow> 'a list \<Rightarrow> 's \<Rightarrow> 's option" where
  "fold_opt f [] s = Some s"
| "fold_opt f (x # xs) s = (case f x s of None \<Rightarrow> None | Some s1 \<Rightarrow> fold_opt f xs s1)"

section \<open>Keys and values\<close>

definition metadata_row ::
    "env \<Rightarrow> sql_driver \<Rightarrow> quuid \<Rightarrow> bytes \<Rightarrow> bytes \<Rightarrow> quuid \<Rightarrow> ref_type \<Rightarrow> (col \<times> sqlval) list" where
  "metadata_row E Q uuid key value ref ty =
     [(C_id, bind_uuid Q uuid), (C_key, bind_string E key), (C_value, SBytes value),
      (C_ref_id, bind_uuid Q ref), (C_ref_type, SText (ref_type_str ty))]"

definition sql_metadata_create ::
    "env \<Rightarrow> sql_driver \<Rightarrow> nat \<Rightarrow> quuid \<Rightarrow> bytes \<Rightarrow> bytes \<Rightarrow> quuid \<Rightarrow> ref_type \<Rightarrow> db \<Rightarrow> quuid \<times> db" where
  "sql_metadata_create E Q now uuid key value ref ty D =
     (case exec_insert now T_metadata (metadata_row E Q uuid key value ref ty) D of
        None \<Rightarrow> (null_uuid, D)
      | Some D1 \<Rightarrow> (uuid, D1))"

text \<open>The rows of the join: each metadata row with its subscriptions, or with NULL when it has none.\<close>

definition left_join_subs :: "row list \<Rightarrow> db \<Rightarrow> (row \<times> sqlval) list" where
  "left_join_subs ms D =
     concat (map (\<lambda>m.
       let subs = select T_metadata_subs (\<lambda>s. sql_eq (s C_metadata_id) (m C_id)) D
       in if subs = [] then [(m, SNull)] else map (\<lambda>s. (m, s C_account_id)) subs) ms)"

definition metadata_result :: "world \<Rightarrow> row \<times> sqlval \<Rightarrow> metadata \<Rightarrow> metadata" where
  "metadata_result w = (\<lambda>(m, account_id) result.
     let key = to_text (m C_key);
         result1 = result\<lparr>m_kv := qmap_put key (to_bytes (m C_value)) (m_kv result)\<rparr>
     in if to_uuid account_id = null_uuid then result1
        else
          (case w_lookup_uuid w (to_uuid account_id) of
             None \<Rightarrow> result1
           | Some a \<Rightarrow> result1\<lparr>m_subscribers := subs_insert key a (m_subscribers result1)\<rparr>))"

definition sql_metadata_get :: "sql_driver \<Rightarrow> world \<Rightarrow> quuid \<Rightarrow> db \<Rightarrow> metadata" where
  "sql_metadata_get Q w ref D =
     fold (metadata_result w)
       (left_join_subs (select T_metadata (\<lambda>m. sql_eq (m C_ref_id) (bind_uuid Q ref)) D) D)
       \<lparr>m_kv = [], m_subscribers = []\<rparr>"

text \<open>\<open>metadata_remove\<close> binds the key as it is, the other functions as a string.\<close>

definition sql_metadata_remove :: "sql_driver \<Rightarrow> bytes \<Rightarrow> quuid \<Rightarrow> db \<Rightarrow> bool \<times> db" where
  "sql_metadata_remove Q key ref D =
     (True, exec_delete T_metadata
        (\<lambda>m. sql_eq (m C_ref_id) (bind_uuid Q ref) \<and> sql_eq (m C_key) (bind_bytes_text Q key)) D)"

definition sql_metadata_modify :: "env \<Rightarrow> sql_driver \<Rightarrow> nat \<Rightarrow> quuid \<Rightarrow> bytes \<Rightarrow> bytes \<Rightarrow> db \<Rightarrow> bool \<times> db" where
  "sql_metadata_modify E Q now ref key new_value D =
     (True, exec_update T_metadata
        (\<lambda>m. sql_eq (m C_ref_id) (bind_uuid Q ref) \<and> sql_eq (m C_key) (bind_string E key))
        (\<lambda>m. m(C_value := SBytes new_value, C_modified_at := STime now)) D)"

definition sql_metadata_upsert ::
    "env \<Rightarrow> sql_driver \<Rightarrow> nat \<Rightarrow> quuid \<Rightarrow> bytes \<Rightarrow> bytes \<Rightarrow> quuid \<Rightarrow> ref_type \<Rightarrow> db \<Rightarrow> bool \<times> db" where
  "sql_metadata_upsert E Q now uuid key value ref ty D =
     (case exec_upsert now T_metadata [C_ref_id, C_key]
             (\<lambda>excluded m. m(C_value := excluded C_value, C_modified_at := STime now))
             (metadata_row E Q uuid key value ref ty) D of
        None \<Rightarrow> (False, D)
      | Some D1 \<Rightarrow> (True, D1))"

section \<open>Subscriptions\<close>

definition subscribe_row :: "sql_driver \<Rightarrow> quuid \<Rightarrow> sqlval \<Rightarrow> quuid \<Rightarrow> (col \<times> sqlval) list" where
  "subscribe_row Q uuid metadata_id account_id =
     [(C_id, bind_uuid Q uuid), (C_metadata_id, metadata_id), (C_account_id, bind_uuid Q account_id)]"

definition insert_sub :: "sql_driver \<Rightarrow> nat \<Rightarrow> quuid \<Rightarrow> sqlval \<Rightarrow> quuid \<Rightarrow> db \<Rightarrow> db option" where
  "insert_sub Q now uuid metadata_id account_id =
     exec_insert_or_nothing now T_metadata_subs (Some [C_metadata_id, C_account_id])
       (subscribe_row Q uuid metadata_id account_id)"

definition sql_metadata_subscribe ::
    "env \<Rightarrow> sql_driver \<Rightarrow> nat \<Rightarrow> quuid \<Rightarrow> quuid \<Rightarrow> bytes \<Rightarrow> quuid \<Rightarrow> db \<Rightarrow> bool \<times> db" where
  "sql_metadata_subscribe E Q now uuid ref key account_id D =
     (case select T_metadata (\<lambda>m. sql_eq (m C_ref_id) (bind_uuid Q ref) \<and> sql_eq (m C_key) (bind_string E key)) D of
        [] \<Rightarrow> (False, D)
      | m # _ \<Rightarrow>
          (case insert_sub Q now uuid (bind_uuid Q (to_uuid (m C_id))) account_id D of
             None \<Rightarrow> (False, D)
           | Some D1 \<Rightarrow> (True, D1)))"

text \<open>The ids of the keys of a bulk request, as the query finds them.\<close>

definition resolve_keys :: "env \<Rightarrow> sql_driver \<Rightarrow> quuid \<Rightarrow> bytes list \<Rightarrow> db \<Rightarrow> (bytes \<times> quuid) list" where
  "resolve_keys E Q ref keys D =
     fold (\<lambda>m. qmap_put (to_text (m C_key)) (to_uuid (m C_id)))
       (select T_metadata (\<lambda>m. sql_eq (m C_ref_id) (bind_uuid Q ref)
          \<and> list_ex (\<lambda>k. sql_eq (m C_key) (bind_string E k)) keys) D) []"

text \<open>
  \<open>flush\<close> runs the batch collected so far, row by row; batches of 500 in one transaction come
  to the same as one. \<open>ids\<close> are the next UUIDs.
\<close>

definition insert_batch_size :: nat where "insert_batch_size = 500"

definition flush_subs :: "sql_driver \<Rightarrow> nat \<Rightarrow> (quuid \<times> quuid \<times> quuid) list \<Rightarrow> db \<Rightarrow> db option" where
  "flush_subs Q now batch =
     fold_opt (\<lambda>(uuid, metadata_id, account_id). insert_sub Q now uuid (bind_uuid Q metadata_id) account_id) batch"

fun insert_subs ::
    "sql_driver \<Rightarrow> nat \<Rightarrow> (nat \<Rightarrow> quuid) \<Rightarrow> (bytes \<times> quuid) list \<Rightarrow> quuid \<Rightarrow> bytes list \<Rightarrow> nat \<Rightarrow>
      (quuid \<times> quuid \<times> quuid) list \<Rightarrow> db \<Rightarrow> db option" where
  "insert_subs Q now ids resolved account_id [] num batch D = flush_subs Q now batch D"
| "insert_subs Q now ids resolved account_id (k # keys) num batch D =
     (let metadata_id = (case map_of resolved k of None \<Rightarrow> null_uuid | Some u \<Rightarrow> u) in
      if metadata_id = null_uuid then insert_subs Q now ids resolved account_id keys num batch D
      else
        let batch1 = batch @ [(ids num, metadata_id, account_id)]; num1 = num + 1 in
        if num1 mod insert_batch_size = 0 then
          (case flush_subs Q now batch1 D of
             None \<Rightarrow> None
           | Some D1 \<Rightarrow> insert_subs Q now ids resolved account_id keys num1 [] D1)
        else insert_subs Q now ids resolved account_id keys num1 batch1 D)"

definition sql_metadata_subscribe_bulk ::
    "env \<Rightarrow> sql_driver \<Rightarrow> nat \<Rightarrow> (nat \<Rightarrow> quuid) \<Rightarrow> quuid \<Rightarrow> bytes list \<Rightarrow> quuid \<Rightarrow> db \<Rightarrow> bool \<times> db" where
  "sql_metadata_subscribe_bulk E Q now ids ref keys account_id D =
     (if keys = [] then (False, D)
      else
        let resolved = resolve_keys E Q ref keys D in
        if resolved = [] then (False, D)
        else
          (case insert_subs Q now ids resolved account_id keys 0 [] D of
             None \<Rightarrow> (False, D)
           | Some D1 \<Rightarrow> (True, D1)))"

definition sql_metadata_unsubscribe_bulk ::
    "env \<Rightarrow> sql_driver \<Rightarrow> quuid \<Rightarrow> bytes list \<Rightarrow> quuid \<Rightarrow> db \<Rightarrow> bool \<times> db" where
  "sql_metadata_unsubscribe_bulk E Q ref keys account_id D =
     (if keys = [] then (False, D)
      else
        let resolved = resolve_keys E Q ref keys D in
        if resolved = [] then (False, D)
        else
          (True, exec_delete T_metadata_subs
             (\<lambda>s. sql_eq (s C_account_id) (bind_uuid Q account_id)
                \<and> list_ex (\<lambda>(k, u). sql_eq (s C_metadata_id) (bind_uuid Q u)) resolved) D))"

definition sql_metadata_unsubscribe :: "env \<Rightarrow> sql_driver \<Rightarrow> quuid \<Rightarrow> bytes \<Rightarrow> quuid \<Rightarrow> db \<Rightarrow> bool \<times> db" where
  "sql_metadata_unsubscribe E Q ref key account_id D =
     (case select T_metadata (\<lambda>m. sql_eq (m C_ref_id) (bind_uuid Q ref) \<and> sql_eq (m C_key) (bind_string E key)) D of
        [] \<Rightarrow> (False, D)
      | m # _ \<Rightarrow>
          (True, exec_delete T_metadata_subs
             (\<lambda>s. sql_eq (s C_metadata_id) (bind_uuid Q (to_uuid (m C_id)))
                \<and> sql_eq (s C_account_id) (bind_uuid Q account_id)) D))"

section \<open>What is stored\<close>

definition stored :: "db \<Rightarrow> quuid \<Rightarrow> bytes \<Rightarrow> bytes option option" where
  "stored D u k =
     map_option (\<lambda>m. to_bytes (m C_value))
       (find (\<lambda>m. m C_ref_id = SUuid u \<and> m C_key = SText k) (D T_metadata))"

lemma keys_unique:
  assumes "constraints D" "key \<in> set (tb_keys (create_schema t))" "r \<in> set (D t)" "r' \<in> set (D t)"
    and "conflict key r r'"
  shows "r = r'"
proof -
  have s: "sorted_wrt (\<lambda>r r'. \<not> conflict key r' r) (D t)"
    using constraints_keys [OF assms(1), of t] assms(2) by (auto simp: keys_apart_def list_all_iff)
  obtain i j where ij: "i < length (D t)" "j < length (D t)" "r = D t ! i" "r' = D t ! j"
    using assms(3,4) by (auto simp: in_set_conv_nth)
  then show ?thesis
    using s assms(5) conflict_sym [of key r r']
    by (metis linorder_neqE_nat sorted_wrt_iff_nth_less)
qed

lemma metadata_key: "[C_ref_id, C_key] \<in> set (tb_keys (create_schema T_metadata))"
  by (simp add: schema_defs)

lemma stored_Some_iff:
  assumes "constraints D"
  shows "stored D u k = Some v \<longleftrightarrow>
    (\<exists>m \<in> set (D T_metadata). m C_ref_id = SUuid u \<and> m C_key = SText k \<and> to_bytes (m C_value) = v)"
proof
  assume "stored D u k = Some v"
  then show "\<exists>m \<in> set (D T_metadata). m C_ref_id = SUuid u \<and> m C_key = SText k \<and> to_bytes (m C_value) = v"
    by (auto simp: stored_def find_Some_iff)
next
  assume "\<exists>m \<in> set (D T_metadata). m C_ref_id = SUuid u \<and> m C_key = SText k \<and> to_bytes (m C_value) = v"
  then obtain m where m: "m \<in> set (D T_metadata)" "m C_ref_id = SUuid u" "m C_key = SText k" "to_bytes (m C_value) = v"
    by blast
  then obtain m' where m': "find (\<lambda>m. m C_ref_id = SUuid u \<and> m C_key = SText k) (D T_metadata) = Some m'"
    by (cases "find (\<lambda>m. m C_ref_id = SUuid u \<and> m C_key = SText k) (D T_metadata)") (auto simp: find_None_iff)
  then have "m' \<in> set (D T_metadata)" "m' C_ref_id = SUuid u" "m' C_key = SText k"
    by (auto simp: find_Some_iff)
  with m have "m = m'"
    by (intro keys_unique [OF assms metadata_key]) (simp_all add: conflict_iff)
  with m m' show "stored D u k = Some v" by (simp add: stored_def)
qed

lemma option_eqI: "(\<And>v. x = Some v \<longleftrightarrow> y = Some v) \<Longrightarrow> x = y"
  by (cases x; cases y) auto

lemma stored_eqI:
  assumes "constraints D" "\<And>k v. (f k = Some v) =
    (\<exists>m \<in> set (D T_metadata). m C_ref_id = SUuid u \<and> m C_key = SText k \<and> to_bytes (m C_value) = v)"
  shows "stored D u = f"
proof
  fix k show "stored D u k = f k"
  proof (rule option_eqI)
    fix v show "stored D u k = Some v \<longleftrightarrow> f k = Some v"
      by (simp only: stored_Some_iff [OF assms(1)] assms(2))
  qed
qed

lemma m_kv_results:
  "m_kv (fold (metadata_result w) xs r) =
     fold (\<lambda>(k, v). qmap_put k v) (map (\<lambda>(m, a). (to_text (m C_key), to_bytes (m C_value))) xs) (m_kv r)"
proof (induction xs arbitrary: r)
  case (Cons x xs)
  have "m_kv (metadata_result w x r) = qmap_put (to_text (fst x C_key)) (to_bytes (fst x C_value)) (m_kv r)"
    by (simp add: metadata_result_def Let_def split: prod.split option.split)
  with Cons show ?case by (simp add: case_prod_beta)
qed simp

lemma fst_left_join: "fst ` set (left_join_subs ms D) = set ms"
proof -
  define f where "f m = (let subs = select T_metadata_subs (\<lambda>s. sql_eq (s C_metadata_id) (m C_id)) D
       in if subs = [] then [(m, SNull)] else map (\<lambda>s. (m, s C_account_id)) subs)" for m :: row
  have "fst ` set (f m) = {m}" for m
    by (cases "select T_metadata_subs (\<lambda>s. sql_eq (s C_metadata_id) (m C_id)) D")
      (auto simp: f_def Let_def image_def)
  moreover have "left_join_subs ms D = concat (map f ms)"
    unfolding left_join_subs_def by (rule arg_cong [of _ _ concat], rule map_cong) (simp_all add: f_def)
  ultimately show ?thesis by (simp add: image_UN)
qed

lemma map_of_rev_unique:
  assumes "(k, v) \<in> set kvs" "\<And>v'. (k, v') \<in> set kvs \<Longrightarrow> v' = v"
  shows "map_of (rev kvs) k = Some v"
  using assms weak_map_of_SomeI [of k v "rev kvs"] by (metis map_of_SomeD set_rev)

lemma metadata_key_text:
  assumes "constraints D" "m \<in> set (D T_metadata)"
  obtains k where "m C_key = SText k"
proof -
  have "m C_key \<noteq> SNull" "has_type TEXT (m C_key)"
    using constraints_columns [OF assms] by (simp_all add: schema_defs columns_ok_def)
  with that show thesis by (cases "m C_key") (simp_all add: has_type_def)
qed

text \<open>The query gives what is stored.\<close>

lemma map_of_metadata_get:
  assumes "constraints D" "u \<noteq> null_uuid"
  shows "map_of (m_kv (sql_metadata_get Q w u D)) = stored D u"
proof (rule sym, rule stored_eqI [OF assms(1)])
  fix k v
  let ?ms = "select T_metadata (\<lambda>m. sql_eq (m C_ref_id) (bind_uuid Q u)) D"
  let ?kvs = "map (\<lambda>(m, a). (to_text (m C_key), to_bytes (m C_value))) (left_join_subs ?ms D)"
  have sel: "m \<in> set ?ms \<longleftrightarrow> m \<in> set (D T_metadata) \<and> m C_ref_id = SUuid u" for m
    using assms(2) by (auto simp: select_def sql_eq_def bind_uuid_def)
  have "set ?kvs = (\<lambda>m. (to_text (m C_key), to_bytes (m C_value))) ` (fst ` set (left_join_subs ?ms D))"
    by (simp only: set_map image_image case_prod_unfold)
  then have kvs: "(k, v) \<in> set ?kvs \<longleftrightarrow> (\<exists>m \<in> set ?ms. to_text (m C_key) = k \<and> to_bytes (m C_value) = v)" for k v
    by (simp only: fst_left_join) blast
  have key: "to_text (m C_key) = k \<longleftrightarrow> m C_key = SText k" if "m \<in> set (D T_metadata)" for m k
    by (rule metadata_key_text [OF assms(1) that]) (simp add: to_text_def)
  have in_kvs: "(k, v) \<in> set ?kvs \<longleftrightarrow>
      (\<exists>m \<in> set (D T_metadata). m C_ref_id = SUuid u \<and> m C_key = SText k \<and> to_bytes (m C_value) = v)" for k v
  proof -
    have "(k, v) \<in> set ?kvs \<longleftrightarrow> (\<exists>m. m \<in> set (D T_metadata) \<and> m C_ref_id = SUuid u
        \<and> to_text (m C_key) = k \<and> to_bytes (m C_value) = v)"
      by (simp only: kvs Bex_def sel conj_assoc)
    also have "\<dots> \<longleftrightarrow> (\<exists>m. m \<in> set (D T_metadata) \<and> m C_ref_id = SUuid u
        \<and> m C_key = SText k \<and> to_bytes (m C_value) = v)"
      by (rule arg_cong [of _ _ Ex], rule ext) (simp add: key cong: conj_cong)
    finally show ?thesis by (simp only: Bex_def)
  qed
  have unique: "v' = v" if "(k, v) \<in> set ?kvs" "(k, v') \<in> set ?kvs" for k v v'
  proof -
    have "stored D u k = Some v" "stored D u k = Some v'"
      using that unfolding in_kvs stored_Some_iff [OF assms(1)] by simp_all
    then show ?thesis by simp
  qed
  have "map_of (m_kv (sql_metadata_get Q w u D)) k = map_of (rev ?kvs) k"
    using qmap.fold_put [of "[]" ?kvs k]
    by (simp add: sql_metadata_get_def m_kv_results split: option.split)
  moreover have "map_of (rev ?kvs) k = Some v \<longleftrightarrow> (k, v) \<in> set ?kvs"
  proof
    assume "map_of (rev ?kvs) k = Some v"
    then show "(k, v) \<in> set ?kvs" using map_of_SomeD [of "rev ?kvs" k v] by (simp only: set_rev)
  next
    assume kv: "(k, v) \<in> set ?kvs"
    show "map_of (rev ?kvs) k = Some v" by (rule map_of_rev_unique [OF kv unique [OF kv]])
  qed
  ultimately show "(map_of (m_kv (sql_metadata_get Q w u D)) k = Some v) =
    (\<exists>m \<in> set (D T_metadata). m C_ref_id = SUuid u \<and> m C_key = SText k \<and> to_bytes (m C_value) = v)"
    by (simp only: in_kvs)
qed

section \<open>What the writes do\<close>

lemma find_map: "find P (map f xs) = map_option f (find (\<lambda>x. P (f x)) xs)"
  by (induction xs) auto

lemma find_snoc:
  "find P (xs @ [x]) = (case find P xs of None \<Rightarrow> (if P x then Some x else None) | Some y \<Rightarrow> Some y)"
  by (induction xs) auto

lemma find_filter_other: "(\<And>x. P x \<Longrightarrow> Q x) \<Longrightarrow> find P (filter Q xs) = find P xs"
  by (induction xs) auto

lemma find_filter_none: "(\<And>x. P x \<Longrightarrow> \<not> Q x) \<Longrightarrow> find P (filter Q xs) = None"
  by (induction xs) auto

lemma find_cong_pred: "(\<And>x. P x = Q x) \<Longrightarrow> find P xs = find Q xs"
  by (induction xs) auto

lemma metadata_plain: "plain_columns T_metadata {C_value, C_modified_at}"
  by (simp add: plain_columns_def schema_defs)

lemma columns_ok_upd:
  "columns_ok tb r \<Longrightarrow>
     (\<And>d. d \<in> set (tb_columns tb) \<Longrightarrow> co_name d = c \<Longrightarrow> (co_not_null d \<longrightarrow> v \<noteq> SNull) \<and> has_type (co_type d) v) \<Longrightarrow>
     columns_ok tb (r(c := v))"
  by (auto simp: columns_ok_def list_all_iff)

lemma columns_ok_new_value:
  assumes "columns_ok (create_schema T_metadata) q" "columns_ok (create_schema T_metadata) r"
  shows "columns_ok (create_schema T_metadata) (r(C_value := q C_value, C_modified_at := STime now))"
proof (intro columns_ok_upd)
  show "columns_ok (create_schema T_metadata) r" by (rule assms(2))
next
  fix d assume "d \<in> set (tb_columns (create_schema T_metadata))" "co_name d = C_value"
  then show "(co_not_null d \<longrightarrow> q C_value \<noteq> SNull) \<and> has_type (co_type d) (q C_value)"
    using assms(1) by (auto simp: columns_ok_def list_all_iff simp del: create_schema.simps)
next
  fix d assume "d \<in> set (tb_columns (create_schema T_metadata))" "co_name d = C_modified_at"
  then show "(co_not_null d \<longrightarrow> STime now \<noteq> SNull) \<and> has_type (co_type d) (STime now)"
    by (auto simp: schema_defs has_type_def)
qed

text \<open>The row a creation or an upsert would insert.\<close>

lemma new_metadata_row:
  assumes "uuid \<noteq> null_uuid" "ref \<noteq> null_uuid"
    and r0: "r0 = build_row (create_schema T_metadata) now (metadata_row E Q uuid key val ref ty)"
  shows "r0 C_id = SUuid uuid" "r0 C_ref_id = SUuid ref" "r0 C_key = SText (norm E key)"
    "r0 C_value = SBytes val" "columns_ok (create_schema T_metadata) r0"
    "known_columns (create_schema T_metadata) (metadata_row E Q uuid key val ref ty)"
    "references D (create_schema T_metadata) r0"
proof -
  show "r0 C_id = SUuid uuid" "r0 C_ref_id = SUuid ref" "r0 C_key = SText (norm E key)" "r0 C_value = SBytes val"
    using assms by (simp_all add: build_row_def metadata_row_def bind_uuid_def bind_string_def)
  show "columns_ok (create_schema T_metadata) r0"
    using assms by (cases ty) (simp_all add: columns_ok_def build_row_def metadata_row_def bind_uuid_def bind_string_def
        default_value_def has_type_def ref_type_str_def schema_defs)
  show "known_columns (create_schema T_metadata) (metadata_row E Q uuid key val ref ty)"
    by (simp add: known_columns_def metadata_row_def table_cols_def schema_defs)
  show "references D (create_schema T_metadata) r0"
    by (simp add: references_def schema_defs)
qed

definition fresh_id :: "table_name \<Rightarrow> quuid \<Rightarrow> db \<Rightarrow> bool" where
  "fresh_id t u D = list_all (\<lambda>r. r C_id \<noteq> SUuid u) (D t)"

lemma upsert_stored:
  assumes D: "constraints D" and fresh: "fresh_id T_metadata uuid D"
    and ids: "uuid \<noteq> null_uuid" "ref \<noteq> null_uuid"
  obtains D' where "sql_metadata_upsert E Q now uuid key val ref ty D = (True, D')"
    "constraints D'" "\<forall>u. stored D' u = (if u = ref then (stored D u)(norm E key \<mapsto> Some val) else stored D u)"
proof -
  define r0 where "r0 = build_row (create_schema T_metadata) now (metadata_row E Q uuid key val ref ty)"
  note r0 = new_metadata_row [OF ids r0_def]
  define upd :: "row \<Rightarrow> row" where "upd m = (if conflict [C_ref_id, C_key] r0 m
      then m(C_value := SBytes val, C_modified_at := STime now) else m)" for m
  define D' where "D' = (if list_ex (conflict [C_ref_id, C_key] r0) (D T_metadata)
      then D(T_metadata := map upd (D T_metadata)) else D(T_metadata := D T_metadata @ [r0]))"
  have conf: "conflict [C_ref_id, C_key] r0 m \<longleftrightarrow> m C_ref_id = SUuid ref \<and> m C_key = SText (norm E key)" for m
    by (auto simp: conflict_iff r0)
  have free: "keys_free (create_schema T_metadata) (D T_metadata) r0"
    if "\<not> list_ex (conflict [C_ref_id, C_key] r0) (D T_metadata)"
    using that fresh by (auto simp: keys_free_def schema_defs fresh_id_def list_all_iff list_ex_iff conflict_iff r0)
  have "has_key (create_schema T_metadata) [C_ref_id, C_key]" by (simp add: has_key_def schema_defs)
  then have run: "exec_upsert now T_metadata [C_ref_id, C_key]
      (\<lambda>excluded m. m(C_value := excluded C_value, C_modified_at := STime now))
      (metadata_row E Q uuid key val ref ty) D = Some D'"
    using free r0(5-7)
    by (simp add: exec_upsert_def exec_insert_def Let_def D'_def upd_def [abs_def] r0(4) flip: r0_def cong: if_cong
        del: create_schema.simps)
  have "constraints D'"
    by (rule constraints_upsert [OF D run metadata_plain])
      (simp_all add: columns_ok_new_value constraints_columns [OF D] del: create_schema.simps)
  moreover have "stored D' u k = (if u = ref then (stored D u)(norm E key \<mapsto> Some val) else stored D u) k" for u k
  proof (cases "list_ex (conflict [C_ref_id, C_key] r0) (D T_metadata)")
    case True
    have "(upd m C_ref_id = SUuid u \<and> upd m C_key = SText k) = (m C_ref_id = SUuid u \<and> m C_key = SText k)" for m
      by (simp add: upd_def)
    then have new: "stored D' u k = map_option (\<lambda>m. to_bytes (upd m C_value))
        (find (\<lambda>m. m C_ref_id = SUuid u \<and> m C_key = SText k) (D T_metadata))"
      by (simp add: stored_def D'_def True find_map option.map_comp comp_def)
    show ?thesis
    proof (cases "find (\<lambda>m. m C_ref_id = SUuid u \<and> m C_key = SText k) (D T_metadata)")
      case None
      then have "\<not> (u = ref \<and> k = norm E key)"
        using True by (auto simp: find_None_iff list_ex_iff conf)
      then show ?thesis using None by (auto simp: new stored_def [of D])
    next
      case (Some m)
      then have m: "m C_ref_id = SUuid u" "m C_key = SText k" by (auto simp: find_Some_iff)
      then show ?thesis using Some by (auto simp: new stored_def [of D] upd_def conf to_bytes_def)
    qed
  next
    case False
    then have none: "find (\<lambda>m. m C_ref_id = SUuid ref \<and> m C_key = SText (norm E key)) (D T_metadata) = None"
      by (auto simp: find_None_iff list_ex_iff conf)
    have new: "stored D' u k = map_option (\<lambda>m. to_bytes (m C_value))
        (find (\<lambda>m. m C_ref_id = SUuid u \<and> m C_key = SText k) (D T_metadata @ [r0]))"
      using False by (simp add: stored_def D'_def)
    show ?thesis
      by (auto simp: new none find_snoc stored_def [of D] r0 to_bytes_def split: option.split)
  qed
  ultimately show thesis
    using run by (intro that [of D']) (auto simp: sql_metadata_upsert_def)
qed

lemma remove_stored:
  assumes "ref \<noteq> null_uuid"
  shows "stored (snd (sql_metadata_remove Q key ref D)) u =
    (if u = ref then (stored D u)(q_bytes_text Q key := None) else stored D u)"
proof
  fix k
  let ?P = "\<lambda>m :: row. m C_ref_id = SUuid ref \<and> m C_key = SText (q_bytes_text Q key)"
  have rows: "snd (sql_metadata_remove Q key ref D) T_metadata = filter (\<lambda>m. \<not> ?P m) (D T_metadata)"
    using assms by (simp add: sql_metadata_remove_def exec_delete_metadata bind_uuid_def bind_bytes_text_def)
  show "stored (snd (sql_metadata_remove Q key ref D)) u k =
    (if u = ref then (stored D u)(q_bytes_text Q key := None) else stored D u) k"
  proof (cases "u = ref \<and> k = q_bytes_text Q key")
    case True
    then have "find (\<lambda>m. m C_ref_id = SUuid u \<and> m C_key = SText k) (filter (\<lambda>m. \<not> ?P m) (D T_metadata)) = None"
      by (intro find_filter_none) simp
    with True show ?thesis by (simp only: stored_def rows) simp
  next
    case False
    then have "find (\<lambda>m. m C_ref_id = SUuid u \<and> m C_key = SText k) (filter (\<lambda>m. \<not> ?P m) (D T_metadata)) =
        find (\<lambda>m. m C_ref_id = SUuid u \<and> m C_key = SText k) (D T_metadata)"
      by (intro find_filter_other) auto
    then have "stored (snd (sql_metadata_remove Q key ref D)) u k = stored D u k"
      by (simp only: stored_def rows)
    with False show ?thesis by auto
  qed
qed

lemma constraints_remove: "constraints D \<Longrightarrow> constraints (snd (sql_metadata_remove Q key ref D))"
  by (simp add: sql_metadata_remove_def constraints_delete_metadata)

section \<open>No subscription is stored\<close>

text \<open>
  \<open>metadata_subs\<close> has no unique constraint on \<open>(metadata_id, account_id)\<close>, the target of the
  \<open>ON CONFLICT\<close> clause.
\<close>

lemma insert_sub_fails: "insert_sub Q now uuid metadata_id account_id D = None"
  by (simp add: insert_sub_def exec_insert_or_nothing_def has_key_def schema_defs Let_def)

lemma flush_subs_eq: "flush_subs Q now batch D = (if batch = [] then Some D else None)"
  by (cases batch) (auto simp: flush_subs_def insert_sub_fails)

lemma insert_subs_keeps: "insert_subs Q now ids resolved account_id keys n batch D = Some D1 \<Longrightarrow> D1 = D"
  by (induction keys arbitrary: n batch D) (auto simp: flush_subs_eq Let_def split: if_splits)

text \<open>C37: Subscribing to metadata, one key or several at once, never changes the database; for one
  key it always reports a failure.\<close>

theorem no_subscription_stored:
  "sql_metadata_subscribe E Q now uuid ref key account_id D = (False, D) \<and>
   snd (sql_metadata_subscribe_bulk E Q now ids ref keys account_id D) = D"
  by (auto simp: sql_metadata_subscribe_def sql_metadata_subscribe_bulk_def insert_sub_fails Let_def
      dest: insert_subs_keeps split: list.split option.split)

section \<open>Messages\<close>

definition message_values :: "sql_driver \<Rightarrow> message_ev \<Rightarrow> (col \<times> sqlval) list" where
  "message_values Q msg =
     [(C_text, bind_bytes_text Q (me_text msg)), (C_raw, SBytes (me_raw msg)),
      (C_tags, bind_bytes_text Q (q_tags_json Q (me_tags msg))), (C_nick, bind_bytes_text Q (me_nick msg)),
      (C_host, bind_bytes_text Q (me_host msg)), (C_username, bind_bytes_text Q (me_user msg)),
      (C_targets, SText (qjoin '','' (me_targets msg))),
      (C_from_system, SInt (if me_from_system msg then 1 else 0)),
      (C_tag_msg, SInt (if me_tag_msg msg then 1 else 0))]"

definition sql_insert_message ::
    "sql_driver \<Rightarrow> nat \<Rightarrow> quuid \<Rightarrow> quuid \<Rightarrow> quuid \<Rightarrow> message_ev \<Rightarrow> db \<Rightarrow> quuid \<times> db" where
  "sql_insert_message Q now uuid sender channel msg D =
     (case exec_insert now T_messages
             ([(C_id, bind_uuid Q uuid), (C_sender_id, bind_uuid Q sender), (C_channel_id, bind_uuid Q channel)]
              @ message_values Q msg) D of
        None \<Rightarrow> (null_uuid, D)
      | Some D1 \<Rightarrow> (uuid, D1))"

text \<open>
  \<open>insert_messages\<close> collects batches of 1000 and ignores the result of \<open>execBatch\<close>, which stops
  at the first row that fails; it names a column \<open>account_id\<close>, which \<open>messages\<close> does not have.
\<close>

definition insert_messages_row :: "sql_driver \<Rightarrow> quuid \<Rightarrow> quuid \<times> quuid \<times> message_ev \<Rightarrow> (col \<times> sqlval) list" where
  "insert_messages_row Q uuid = (\<lambda>(account, channel, msg).
     [(C_id, bind_uuid Q uuid), (C_account_id, bind_uuid Q account), (C_channel_id, bind_uuid Q channel)]
     @ message_values Q msg)"

fun exec_batch :: "nat \<Rightarrow> table_name \<Rightarrow> (col \<times> sqlval) list list \<Rightarrow> db \<Rightarrow> db" where
  "exec_batch now t [] D = D"
| "exec_batch now t (vals # batch) D =
     (case exec_insert now t vals D of None \<Rightarrow> D | Some D1 \<Rightarrow> exec_batch now t batch D1)"

fun insert_messages_loop ::
    "sql_driver \<Rightarrow> nat \<Rightarrow> (nat \<Rightarrow> quuid) \<Rightarrow> (quuid \<times> quuid \<times> message_ev) list \<Rightarrow> nat \<Rightarrow>
      (col \<times> sqlval) list list \<Rightarrow> db \<Rightarrow> db" where
  "insert_messages_loop Q now ids [] n batch D = exec_batch now T_messages batch D"
| "insert_messages_loop Q now ids (msg # msgs) n batch D =
     (let batch1 = batch @ [insert_messages_row Q (ids n) msg]; n1 = n + 1 in
      if n1 mod 1000 = 0
      then insert_messages_loop Q now ids msgs n1 [] (exec_batch now T_messages batch1 D)
      else insert_messages_loop Q now ids msgs n1 batch1 D)"

definition sql_insert_messages ::
    "sql_driver \<Rightarrow> nat \<Rightarrow> (nat \<Rightarrow> quuid) \<Rightarrow> (quuid \<times> quuid \<times> message_ev) list \<Rightarrow> db \<Rightarrow> db" where
  "sql_insert_messages Q now ids msgs D =
     (if msgs = [] then D else insert_messages_loop Q now ids msgs 0 [] D)"

lemma insert_messages_row_fails: "exec_insert now T_messages (insert_messages_row Q uuid m) D = None"
  by (cases m) (simp add: exec_insert_def insert_messages_row_def known_columns_def table_cols_def
      schema_defs Let_def)

lemma insert_messages_loop_keeps:
  "set batch \<subseteq> range (\<lambda>(u, m). insert_messages_row Q u m) \<Longrightarrow>
     insert_messages_loop Q now ids msgs n batch D = D"
proof (induction msgs arbitrary: n batch)
  case Nil
  then show ?case by (cases batch) (auto simp: insert_messages_row_fails)
next
  case (Cons m msgs)
  have batch: "set (batch @ [insert_messages_row Q (ids n) m]) \<subseteq> range (\<lambda>(u, m). insert_messages_row Q u m)"
    using Cons.prems by force
  have "exec_batch now T_messages (batch @ [insert_messages_row Q (ids n) m]) D = D"
    using batch by (cases batch) (auto simp: insert_messages_row_fails)
  then show ?case using Cons.IH [OF batch] Cons.IH [of "[]"] by (simp add: Let_def)
qed

lemma insert_messages_keeps: "sql_insert_messages Q now ids msgs D = D"
  by (simp add: sql_insert_messages_def insert_messages_loop_keeps)

section \<open>The calls of the server\<close>

text \<open>What the database calls the IRC side makes (\<open>w_db\<close>) come to; \<open>ids\<close> are the UUIDs a call creates.\<close>

fun run_db_op :: "env \<Rightarrow> sql_driver \<Rightarrow> nat \<Rightarrow> (nat \<Rightarrow> quuid) \<Rightarrow> db_op \<Rightarrow> db \<Rightarrow> db" where
  "run_db_op E Q now ids (InsertMessage uuid sender channel msg) D =
     snd (sql_insert_message Q now uuid sender channel msg D)"
| "run_db_op E Q now ids (MetadataUpsert key value ref ty) D =
     snd (sql_metadata_upsert E Q now (ids 0) key value ref ty D)"
| "run_db_op E Q now ids (MetadataRemove key ref) D = snd (sql_metadata_remove Q key ref D)"
| "run_db_op E Q now ids (MetadataSubscribe ref keys account) D =
     snd (sql_metadata_subscribe_bulk E Q now ids ref keys account D)"
| "run_db_op E Q now ids (MetadataUnsubscribe ref keys account) D =
     snd (sql_metadata_unsubscribe_bulk E Q ref keys account D)"

definition mirrored :: "env \<Rightarrow> world \<Rightarrow> meta_owner \<Rightarrow> db \<Rightarrow> bool" where
  "mirrored E w owner D \<longleftrightarrow> map_of (m_kv (the_store E owner w)) = stored D (ref_id owner w)"

lemma ref_id_simps [simp]:
  "ref_id owner (put_store owner m w) = ref_id owner w" "ref_id owner (db_log d w) = ref_id owner w"
  by (cases owner; simp add: put_store_def ref_id_def db_log_def upd_acc_def upd_chan_def)+

lemma db_log_simps [simp]:
  "w_accs (db_log d w) = w_accs w" "w_chans (db_log d w) = w_chans w" "last (w_db (db_log d w)) = d"
  by (simp_all add: db_log_def)

lemma put_store_simps [simp]:
  "the_store E owner (put_store owner m w) = m" "the_store E owner (db_log d w) = the_store E owner w"
proof -
  show "the_store E owner (db_log d w) = the_store E owner w"
    by (cases owner) (simp_all add: the_store_def split: option.split)
  show "the_store E owner (put_store owner m w) = m"
    by (cases owner) (simp_all add: the_store_def put_store_def upd_acc_def upd_chan_def)
qed

lemma upd_none_eq:
  "f(a := None) = f(b := None) \<longleftrightarrow> a = b \<or> (f a = None \<and> f b = None)"
proof
  assume eq: "f(a := None) = f(b := None)"
  from fun_cong [OF eq, of a] fun_cong [OF eq, of b]
  show "a = b \<or> (f a = None \<and> f b = None)" by (auto split: if_splits)
qed (auto simp: fun_eq_iff)

text \<open>C17: The key-value store of an account or channel and its rows in the database stay the same
  map when a key is set, so that a later start reads the value back; after a key is cleared they are
  the same map exactly if the key is bound as the text it was stored under, or neither of the two
  texts was a stored key. The constraints of the database are kept.\<close>

theorem metadata_written_through:
  fixes key val :: bytes and now :: nat and Q :: sql_driver and w' :: world
  assumes D: "constraints D" and mirror: "mirrored E w owner D" and sorted: "qmap_ok (m_kv (the_store E owner w))"
    and ids: "ref_id owner w \<noteq> null_uuid" "ids 0 \<noteq> null_uuid" "fresh_id T_metadata (ids 0) D"
  defines "w1 \<equiv> metadata_set E key val owner w"
    and "w2 \<equiv> snd (metadata_remove E key owner w)"
  defines "D1 \<equiv> run_db_op E Q now ids (last (w_db w1)) D"
    and "D2 \<equiv> run_db_op E Q now ids (last (w_db w2)) D"
  shows "constraints D1 \<and> mirrored E w1 owner D1 \<and>
      map_of (m_kv (sql_metadata_get Q w' (ref_id owner w) D1)) (norm E key) = Some (Some val) \<and>
    constraints D2 \<and>
      (mirrored E w2 owner D2 \<longleftrightarrow>
         q_bytes_text Q key = norm E key \<or>
         (stored D (ref_id owner w) (q_bytes_text Q key) = None \<and> stored D (ref_id owner w) (norm E key) = None))"
proof -
  obtain D' where up: "sql_metadata_upsert E Q now (ids 0) key val (ref_id owner w) (ref_type_of owner) D = (True, D')"
    and D': "constraints D'" "\<forall>u. stored D' u = (if u = ref_id owner w then (stored D u)(norm E key \<mapsto> Some val) else stored D u)"
    by (rule upsert_stored [OF D ids(3,2,1), where E = E and Q = Q and now = now and key = key
        and val = val and ty = "ref_type_of owner"])
  have D1: "D1 = D'" by (simp add: D1_def w1_def metadata_set_def Let_def up)
  have D2: "D2 = snd (sql_metadata_remove Q key (ref_id owner w) D)"
    by (simp add: D2_def w2_def metadata_remove_def Let_def)
  have "mirrored E w1 owner D1"
    using mirror by (simp add: mirrored_def w1_def metadata_set_def Let_def D1 D'(2) [rule_format] map_of_qmap_put [OF sorted])
  moreover have "mirrored E w2 owner D2 \<longleftrightarrow>
      (stored D (ref_id owner w))(norm E key := None) = (stored D (ref_id owner w))(q_bytes_text Q key := None)"
    using mirror by (simp add: mirrored_def w2_def metadata_remove_def Let_def D2 remove_stored [OF ids(1)])
  ultimately show ?thesis
    using D' constraints_remove [OF D] ids(1)
    by (auto simp: D1 D2 map_of_metadata_get remove_stored upd_none_eq)
qed

definition sample_driver :: sql_driver where
  "sample_driver = \<lparr>q_bytes_text = (\<lambda>s. s), q_null_uuid = SNull, q_tags_json = (\<lambda>_. ''{}'')\<rparr>"

lemma constraints_empty: "constraints (\<lambda>t. [])"
  by (simp add: constraints_def keys_apart_def list_all_iff)

lemma metadata_written_through_witness:
  "map_of (m_kv (sql_metadata_get sample_driver chat_world 1
     (run_db_op sample_env sample_driver 5 (\<lambda>n. 7)
       (last (w_db (metadata_set sample_env ''url'' ''x'' (MetaAccount 0) chat_world))) (\<lambda>t. [])))) ''url'' = Some (Some ''x'')"
  using metadata_written_through [where key = "''url''" and val = "''x''" and now = 5 and D = "\<lambda>t. []"
      and E = sample_env and w = chat_world and owner = "MetaAccount 0" and ids = "\<lambda>n. 7"
      and Q = sample_driver and w' = chat_world]
  by (simp add: constraints_empty mirrored_def stored_def the_store_def ref_id_def fresh_id_def norm_def
      sample_driver_def sample_defs fun_eq_iff)

end
