(* ===== verification/Cipher_Modes.thy ===== *)
theory Cipher_Modes
  imports Blowfish
begin

text \<open>
  The block modes of \<open>lib/bcrypt/blowfish.cpp\<close>: word arrays (\<open>blf_enc\<close>, \<open>blf_dec\<close>) and byte
  buffers in ECB and CBC mode. What they need of the cipher is the locale \<open>block_cipher\<close>: each
  direction undoes the other; the round trips of the modes are proved in it and hold for
  Blowfish by its interpretation.
\<close>

unbundle bit_operations_syntax

section \<open>Blocks in buffers\<close>

definition load32 :: "8 word list \<Rightarrow> 32 word" where
  "load32 d = push_bit 24 (ucast (d ! 0)) OR push_bit 16 (ucast (d ! 1))
     OR push_bit 8 (ucast (d ! 2)) OR ucast (d ! 3)"

definition store32 :: "32 word \<Rightarrow> 8 word list" where
  "store32 w = [ucast (drop_bit 24 w AND 0xFF), ucast (drop_bit 16 w AND 0xFF),
     ucast (drop_bit 8 w AND 0xFF), ucast (w AND 0xFF)]"

definition load_block :: "8 word list \<Rightarrow> block" where
  "load_block d = (load32 d, load32 (drop 4 d))"

definition store_block :: "block \<Rightarrow> 8 word list" where
  "store_block b = store32 (fst b) @ store32 (snd b)"

definition xor8 :: "8 word list \<Rightarrow> 8 word list \<Rightarrow> 8 word list" where
  "xor8 a b = map2 (XOR) a b"

lemma length_store [simp]: "length (store32 w) = 4" "length (store_block b) = 8"
  by (simp_all add: store32_def store_block_def)

lemma and_byte: "x AND 0xFF = take_bit 8 (x :: 32 word)"
  by (simp add: take_bit_eq_mask mask_eq_exp_minus_1)

lemma bit_load32:
  "bit (load32 d) n =
     (if n < 8 then bit (d ! 3) n
      else if n < 16 then bit (d ! 2) (n - 8)
      else if n < 24 then bit (d ! 1) (n - 16)
      else n < 32 \<and> bit (d ! 0) (n - 24))"
  by (auto simp: load32_def bit_simps dest: bit_imp_le_length)

lemma load32_store32 [simp]: "load32 (store32 w @ r) = w"
proof (rule bit_word_eqI)
  fix n assume "n < LENGTH(32)"
  then have n: "n < 32" by simp
  then show "bit (load32 (store32 w @ r)) n = bit w n"
    by (auto simp: bit_load32 store32_def and_byte bit_simps)
qed

lemma list_4: "length d = 4 \<Longrightarrow> d = [d ! 0, d ! 1, d ! 2, d ! 3]"
  by (auto simp: numeral_eq_Suc length_Suc_conv)

lemma store32_load32:
  assumes "length d = 4"
  shows "store32 (load32 d) = d"
proof -
  have "ucast (drop_bit 24 (load32 d) AND 0xFF) = d ! 0"
    "ucast (drop_bit 16 (load32 d) AND 0xFF) = d ! 1"
    "ucast (drop_bit 8 (load32 d) AND 0xFF) = d ! 2"
    "ucast (load32 d AND 0xFF) = d ! 3"
    by (rule bit_word_eqI; simp add: and_byte bit_simps bit_load32)+
  then show ?thesis
    using list_4 [OF assms] by (simp add: store32_def)
qed

lemma load_store_block [simp]: "load_block (store_block b @ r) = b"
  by (simp add: load_block_def store_block_def)

lemma store_load_block: "length d = 8 \<Longrightarrow> store_block (load_block d) = d"
proof -
  assume d: "length d = 8"
  have "load32 d = load32 (take 4 d)" by (simp add: load32_def d)
  then show ?thesis
    by (simp add: store_block_def load_block_def store32_load32 d)
qed

lemma load_block_take: "length d \<ge> 8 \<Longrightarrow> load_block (take 8 d) = load_block d"
  by (simp add: load_block_def load32_def)

lemma xor8_xor8 [simp]: "length a = length b \<Longrightarrow> xor8 (xor8 a b) b = a"
  by (induction a b rule: list_induct2) (simp_all add: xor8_def)

lemma length_xor8 [simp]: "length (xor8 a b) = min (length a) (length b)"
  by (simp add: xor8_def)

section \<open>The modes\<close>

text \<open>
  The loops over an ECB and a CBC buffer, for \<open>n\<close> blocks; \<open>data += 8\<close> is \<open>drop 8\<close>, and the block
  \<open>iv\<close> points to is the previous one of the buffer after the first round.
\<close>

fun word_blocks :: "(block \<Rightarrow> block) \<Rightarrow> nat \<Rightarrow> 32 word list \<Rightarrow> 32 word list" where
  "word_blocks f (Suc n) (l # r # d) = (let b = f (l, r) in fst b # snd b # word_blocks f n d)"
| "word_blocks f n d = d"

fun ecb_blocks :: "(block \<Rightarrow> block) \<Rightarrow> nat \<Rightarrow> 8 word list \<Rightarrow> 8 word list" where
  "ecb_blocks f 0 data = data"
| "ecb_blocks f (Suc n) data = store_block (f (load_block data)) @ ecb_blocks f n (drop 8 data)"

fun cbc_up :: "(block \<Rightarrow> block) \<Rightarrow> nat \<Rightarrow> 8 word list \<Rightarrow> 8 word list \<Rightarrow> 8 word list" where
  "cbc_up f 0 iv data = data"
| "cbc_up f (Suc n) iv data =
     (let b = store_block (f (load_block (xor8 (take 8 data) iv)))
      in b @ cbc_up f n b (drop 8 data))"

text \<open>
  Decryption in CBC mode walks down from the last block at \<open>i\<close>, each block read with the
  one before it, and ends with the given vector.
\<close>

definition cbc_block :: "(block \<Rightarrow> block) \<Rightarrow> 8 word list \<Rightarrow> nat \<Rightarrow> 8 word list \<Rightarrow> 8 word list" where
  "cbc_block f iv i data =
     take i data @ xor8 (store_block (f (load_block (drop i data)))) iv @ drop (i + 8) data"

function cbc_down :: "(block \<Rightarrow> block) \<Rightarrow> 8 word list \<Rightarrow> nat \<Rightarrow> 8 word list \<Rightarrow> 8 word list" where
  "cbc_down f iva i data =
     (if i \<ge> 8 then cbc_down f iva (i - 8) (cbc_block f (take 8 (drop (i - 8) data)) i data)
      else cbc_block f iva i data)"
  by pat_completeness auto
termination
  by (relation "measure (\<lambda>(f, iva, i, data). i)") auto

declare cbc_down.simps [simp del]

text \<open>The same plaintext from the front.\<close>

fun cbc_plain :: "(block \<Rightarrow> block) \<Rightarrow> nat \<Rightarrow> 8 word list \<Rightarrow> 8 word list \<Rightarrow> 8 word list" where
  "cbc_plain f 0 iv data = data"
| "cbc_plain f (Suc n) iv data =
     xor8 (store_block (f (load_block data))) iv @ cbc_plain f n (take 8 data) (drop 8 data)"

lemma length_cbc_plain:
  "8 * n \<le> length data \<Longrightarrow> length iv = 8 \<Longrightarrow> length (cbc_plain f n iv data) = length data"
  by (induction n arbitrary: iv data) simp_all

lemma cbc_plain_last:
  assumes "8 * Suc (Suc n) \<le> length data" "length iv = 8"
  shows "cbc_plain f (Suc n) iv (cbc_block f (take 8 (drop (8 * n) data)) (8 * Suc n) data) =
     cbc_plain f (Suc (Suc n)) iv data"
  using assms
proof (induction n arbitrary: iv data)
  case 0
  have "load_block (take 8 data @ r) = load_block data" for r
    using 0 load_block_take [of "take 8 data @ r"] load_block_take [of data] by simp
  then show ?case using 0 by (simp add: cbc_block_def)
next
  case (Suc n)
  let ?d = "drop 8 data"
  have step: "cbc_block f (take 8 (drop (8 * Suc n) data)) (8 * Suc (Suc n)) data =
      take 8 data @ cbc_block f (take 8 (drop (8 * n) ?d)) (8 * Suc n) ?d"
    using Suc.prems by (simp add: cbc_block_def min_def add.commute flip: take_add)
  have "load_block (take 8 data @ r) = load_block data" for r
    using Suc.prems load_block_take [of "take 8 data @ r"] load_block_take [of data] by simp
  then show ?case
    using Suc.IH [of ?d "take 8 data"] Suc.prems by (subst step) simp
qed

lemma cbc_down_plain:
  "8 * Suc n \<le> length data \<Longrightarrow> length iv = 8 \<Longrightarrow>
     cbc_down f iv (8 * n) data = cbc_plain f (Suc n) iv data"
proof (induction n arbitrary: data)
  case 0
  then show ?case by (simp add: cbc_down.simps cbc_block_def)
next
  case (Suc n)
  let ?d = "cbc_block f (take 8 (drop (8 * n) data)) (8 * Suc n) data"
  have "length ?d = length data" using Suc.prems by (simp add: cbc_block_def)
  with Suc.prems have "cbc_down f iv (8 * n) ?d = cbc_plain f (Suc n) iv ?d" by (intro Suc.IH) simp_all
  moreover have "cbc_down f iv (8 * Suc n) data = cbc_down f iv (8 * n) ?d"
    by (subst cbc_down.simps) simp
  ultimately show ?case using cbc_plain_last [of n data iv f] Suc.prems by simp
qed

section \<open>What a mode needs of a cipher\<close>

locale block_cipher =
  fixes enc dec :: "block \<Rightarrow> block"
  assumes dec_enc: "dec (enc b) = b"
begin

lemma words: "2 * n \<le> length d \<Longrightarrow> word_blocks dec n (word_blocks enc n d) = d"
proof (induction n arbitrary: d)
  case (Suc n)
  then obtain l r d' where "d = l # r # d'"
    by (cases d; cases "tl d") auto
  with Suc show ?case by (simp add: Let_def dec_enc)
qed simp

lemma ecb: "8 * n \<le> length data \<Longrightarrow> ecb_blocks dec n (ecb_blocks enc n data) = data"
proof (induction n arbitrary: data)
  case (Suc n)
  have "store_block (load_block data) = take 8 data"
    using Suc.prems store_load_block [of "take 8 data"] load_block_take [of data] by simp
  with Suc show ?case by (simp add: dec_enc)
qed simp

lemma cbc_front:
  "8 * n \<le> length data \<Longrightarrow> length iv = 8 \<Longrightarrow> cbc_plain dec n iv (cbc_up enc n iv data) = data"
proof (induction n arbitrary: iv data)
  case (Suc n)
  let ?x = "xor8 (take 8 data) iv"
  have "store_block (dec (enc (load_block ?x))) = ?x"
    using Suc.prems store_load_block [of ?x] by (simp add: dec_enc)
  with Suc show ?case by (simp add: Let_def)
qed simp

lemma length_cbc_up: "8 * n \<le> length data \<Longrightarrow> length (cbc_up enc n iv data) = length data"
  by (induction n arbitrary: iv data) (simp_all add: Let_def)

lemma cbc:
  assumes "8 * Suc n \<le> length data" "length iv = 8"
  shows "cbc_down dec iv (8 * n) (cbc_up enc (Suc n) iv data) = data"
proof -
  have "length (cbc_up enc (Suc n) iv data) = length data" by (rule length_cbc_up [OF assms(1)])
  with assms show ?thesis
    using cbc_down_plain [of n "cbc_up enc (Suc n) iv data" iv dec] cbc_front [OF assms] by simp
qed

end

section \<open>Blowfish\<close>

definition blf_enc :: "blf_ctx \<Rightarrow> 32 word list \<Rightarrow> nat \<Rightarrow> 32 word list res" where
  "blf_enc c data blocks =
     (if length data < 2 * blocks then Inl OutOfRange
      else Inr (word_blocks (Blowfish_encipher c) blocks data))"

definition blf_dec :: "blf_ctx \<Rightarrow> 32 word list \<Rightarrow> nat \<Rightarrow> 32 word list res" where
  "blf_dec c data blocks =
     (if length data < 2 * blocks then Inl OutOfRange
      else Inr (word_blocks (Blowfish_decipher c) blocks data))"

text \<open>\<open>for (i = 0; i < len; i += 8)\<close>: a last incomplete block is taken whole.\<close>

definition blocks_of :: "nat \<Rightarrow> nat" where
  "blocks_of len = (len + 7) div 8"

definition blf_ecb_encrypt :: "blf_ctx \<Rightarrow> 8 word list \<Rightarrow> nat \<Rightarrow> 8 word list res" where
  "blf_ecb_encrypt c data len =
     (if length data < 8 * blocks_of len then Inl OutOfRange
      else Inr (ecb_blocks (Blowfish_encipher c) (blocks_of len) data))"

definition blf_ecb_decrypt :: "blf_ctx \<Rightarrow> 8 word list \<Rightarrow> nat \<Rightarrow> 8 word list res" where
  "blf_ecb_decrypt c data len =
     (if length data < 8 * blocks_of len then Inl OutOfRange
      else Inr (ecb_blocks (Blowfish_decipher c) (blocks_of len) data))"

definition blf_cbc_encrypt :: "blf_ctx \<Rightarrow> 8 word list \<Rightarrow> 8 word list \<Rightarrow> nat \<Rightarrow> 8 word list res" where
  "blf_cbc_encrypt c iv data len =
     (if length data < 8 * blocks_of len \<or> (len \<noteq> 0 \<and> length iv < 8) then Inl OutOfRange
      else Inr (cbc_up (Blowfish_encipher c) (blocks_of len) (take 8 iv) data))"

text \<open>With less than a block \<open>data + len - 8\<close> lies before the buffer.\<close>

definition blf_cbc_decrypt :: "blf_ctx \<Rightarrow> 8 word list \<Rightarrow> 8 word list \<Rightarrow> nat \<Rightarrow> 8 word list res" where
  "blf_cbc_decrypt c iva data len =
     (if len < 8 \<or> length data < len \<or> length iva < 8 then Inl OutOfRange
      else Inr (cbc_down (Blowfish_decipher c) (take 8 iva) (len - 8) data))"

interpretation blowfish: block_cipher "Blowfish_encipher c" "Blowfish_decipher c"
  by unfold_locales (rule decipher_encipher)

interpretation blowfish_back: block_cipher "Blowfish_decipher c" "Blowfish_encipher c"
  by unfold_locales (rule encipher_decipher)

lemma length_ecb_blocks: "8 * n \<le> length data \<Longrightarrow> length (ecb_blocks f n data) = length data"
  by (induction n arbitrary: data) simp_all

lemma length_word_blocks [simp]: "length (word_blocks f n d) = length d"
  by (induction f n d rule: word_blocks.induct) (simp_all add: Let_def)

lemma blocks_of_mult [simp]: "blocks_of (8 * n) = n"
  by (simp add: blocks_of_def)

text \<open>C21: Whatever the key, the CBC mode of the cipher is undone by its decryption, for every
  vector of eight bytes and every buffer of whole blocks; so are the cipher itself in both
  directions and the modes on words and on ECB buffers.\<close>

theorem cipher_round_trip:
  "Blowfish_decipher c (Blowfish_encipher c x) = x \<and> Blowfish_encipher c (Blowfish_decipher c x) = x \<and>
   (length w = 2 * n \<longrightarrow> bind_res (blf_enc c w n) (\<lambda>w'. blf_dec c w' n) = Inr w) \<and>
   (length data = 8 * n \<longrightarrow>
      bind_res (blf_ecb_encrypt c data (8 * n)) (\<lambda>d. blf_ecb_decrypt c d (8 * n)) = Inr data) \<and>
   (length data = 8 * n \<and> n > 0 \<and> length iv = 8 \<longrightarrow>
      bind_res (blf_cbc_encrypt c iv data (8 * n)) (\<lambda>d. blf_cbc_decrypt c iv d (8 * n)) = Inr data)"
proof (intro conjI impI; (elim conjE)?)
  assume "length w = 2 * n"
  then show "bind_res (blf_enc c w n) (\<lambda>w'. blf_dec c w' n) = Inr w"
    by (simp add: blf_enc_def blf_dec_def blowfish.words)
next
  assume "length data = 8 * n"
  then show "bind_res (blf_ecb_encrypt c data (8 * n)) (\<lambda>d. blf_ecb_decrypt c d (8 * n)) = Inr data"
    by (simp add: blf_ecb_encrypt_def blf_ecb_decrypt_def length_ecb_blocks blowfish.ecb)
next
  assume d: "length data = 8 * n" "n > 0" "length iv = 8"
  then obtain m where n: "n = Suc m" by (cases n) simp_all
  have "8 * Suc m - 8 = 8 * m" by simp
  then show "bind_res (blf_cbc_encrypt c iv data (8 * n)) (\<lambda>d. blf_cbc_decrypt c iv d (8 * n)) = Inr data"
    using d blowfish.cbc [of m data iv c] blowfish.length_cbc_up [of n data c iv]
    by (simp add: blf_cbc_encrypt_def blf_cbc_decrypt_def n del: cbc_up.simps mult_Suc_right)
qed (rule decipher_encipher encipher_decipher)+

lemma cipher_round_trip_witness:
  "bind_res (blf_cbc_encrypt Blowfish_initstate [1, 2, 3, 4, 5, 6, 7, 8] (replicate 16 7) 16)
     (\<lambda>d. blf_cbc_decrypt Blowfish_initstate [1, 2, 3, 4, 5, 6, 7, 8] d 16) = Inr (replicate 16 7)"
  using cipher_round_trip [of Blowfish_initstate "(0, 0)" "[]" 2 "replicate 16 7" "[1, 2, 3, 4, 5, 6, 7, 8]"]
  by simp

end
