(* ===== verification/Bcrypt.thy ===== *)
theory Bcrypt
  imports Cipher_Modes Sample
begin

text \<open>
  The password hashes of \<open>lib/bcrypt/bcrypt.cpp\<close> and the two functions \<open>sql.cpp\<close> wraps
  around them: the base64 variant of the hash strings, the generation of salts, the parser of
  a salt or hash with its error exits, and the hash itself.

  A \<open>const char *\<close> is the list of its characters up to the terminating NUL of \<open>c_str()\<close>, which
  is character number \<open>length\<close>; reading past it is the fault \<open>OutOfRange\<close>. The bytes of a local
  array before its first assignment are a parameter \<open>stack\<close>.
\<close>

unbundle bit_operations_syntax

section \<open>C strings\<close>

abbreviation NUL :: char where "NUL \<equiv> CHR 0x00"

definition char_at :: "bytes \<Rightarrow> nat \<Rightarrow> char res" where
  "char_at s i = list_at (s @ [NUL]) i"

definition c_strlen :: "bytes \<Rightarrow> nat" where
  "c_strlen s = length (takeWhile (\<lambda>c. c \<noteq> NUL) s)"

definition atoi :: "bytes \<Rightarrow> int" where
  "atoi s =
     (let t = dropWhile is_space s;
          neg = starts_with t ''-'';
          u = (if neg \<or> starts_with t ''+'' then drop 1 t else t);
          n = digits_val (takeWhile is_digit u)
      in if neg then - n else n)"

text \<open>A \<open>char\<close> is signed.\<close>

definition schar :: "char \<Rightarrow> int" where
  "schar c = sint (of_char c :: 8 word)"

text \<open>\<open>\%2.2u\<close> of a number below 100.\<close>

definition two_digits :: "nat \<Rightarrow> bytes" where
  "two_digits n = [digit_char (n div 10), digit_char (n mod 10)]"

text \<open>What \<open>resize(n)\<close> leaves of a zeroed string after a C string was written over it.\<close>

definition resized :: "nat \<Rightarrow> bytes \<Rightarrow> bytes" where
  "resized n s = take n (s @ replicate n NUL)"

section \<open>Base64\<close>

definition Base64Code :: bytes where
  "Base64Code = ''./ABCDEFGHIJKLMNOPQRSTUVWXYZabcdefghijklmnopqrstuvwxyz0123456789''"

definition index_64 :: "8 word list" where
  "index_64 = [
    255, 255, 255, 255, 255, 255, 255, 255, 255, 255,
    255, 255, 255, 255, 255, 255, 255, 255, 255, 255,
    255, 255, 255, 255, 255, 255, 255, 255, 255, 255,
    255, 255, 255, 255, 255, 255, 255, 255, 255, 255,
    255, 255, 255, 255, 255, 255, 0, 1, 54, 55,
    56, 57, 58, 59, 60, 61, 62, 63, 255, 255,
    255, 255, 255, 255, 255, 2, 3, 4, 5, 6,
    7, 8, 9, 10, 11, 12, 13, 14, 15, 16,
    17, 18, 19, 20, 21, 22, 23, 24, 25, 26, 27,
    255, 255, 255, 255, 255, 255, 28, 29, 30,
    31, 32, 33, 34, 35, 36, 37, 38, 39, 40,
    41, 42, 43, 44, 45, 46, 47, 48, 49, 50,
    51, 52, 53, 255, 255, 255, 255, 255]"

definition CHAR64 :: "char \<Rightarrow> 8 word" where
  "CHAR64 c = (if (of_char c :: nat) > 127 then 255 else index_64 ! of_char c)"

definition code64 :: "8 word \<Rightarrow> char" where
  "code64 w = Base64Code ! unat w"

fun encode_base64 :: "8 word list \<Rightarrow> bytes" where
  "encode_base64 [] = []"
| "encode_base64 [c1] =
     [code64 (drop_bit 2 c1), code64 (push_bit 4 (c1 AND 0x03))]"
| "encode_base64 [c1, c2] =
     [code64 (drop_bit 2 c1), code64 (push_bit 4 (c1 AND 0x03) OR drop_bit 4 c2 AND 0x0F),
      code64 (push_bit 2 (c2 AND 0x0F))]"
| "encode_base64 (c1 # c2 # c3 # data) =
     [code64 (drop_bit 2 c1), code64 (push_bit 4 (c1 AND 0x03) OR drop_bit 4 c2 AND 0x0F),
      code64 (push_bit 2 (c2 AND 0x0F) OR drop_bit 6 c3 AND 0x03), code64 (c3 AND 0x3F)]
     @ encode_base64 data"

text \<open>The bytes written before the end of the buffer or the first invalid character.\<close>

fun decode_base64 :: "nat \<Rightarrow> bytes \<Rightarrow> 8 word list res" where
  "decode_base64 len data =
     (if len = 0 then Inr []
      else
        case char_at data 0 of Inl e \<Rightarrow> Inl e | Inr x1 \<Rightarrow>
        case char_at data 1 of Inl e \<Rightarrow> Inl e | Inr x2 \<Rightarrow>
        let c1 = CHAR64 x1; c2 = CHAR64 x2; b1 = push_bit 2 c1 OR drop_bit 4 (c2 AND 0x30) in
        if c1 = 255 \<or> c2 = 255 then Inr []
        else if len = 1 then Inr [b1]
        else
          case char_at data 2 of Inl e \<Rightarrow> Inl e | Inr x3 \<Rightarrow>
          let c3 = CHAR64 x3; b2 = push_bit 4 (c2 AND 0x0F) OR drop_bit 2 (c3 AND 0x3C) in
          if c3 = 255 then Inr [b1]
          else if len = 2 then Inr [b1, b2]
          else
            case char_at data 3 of Inl e \<Rightarrow> Inl e | Inr x4 \<Rightarrow>
            let c4 = CHAR64 x4; b3 = push_bit 6 (c3 AND 0x03) OR c4 in
            if c4 = 255 then Inr [b1, b2]
            else
              case decode_base64 (len - 3) (drop 4 data) of Inl e \<Rightarrow> Inl e
              | Inr r \<Rightarrow> Inr ([b1, b2, b3] @ r))"

declare decode_base64.simps [simp del]

lemma CHAR64_Base64Code: "list_all (\<lambda>n. CHAR64 (Base64Code ! n) = of_nat n) [0..<64]"
  by code_simp

lemma byte_eqI:
  fixes a b :: "8 word"
  assumes "bit a 0 = bit b 0" "bit a 1 = bit b 1" "bit a 2 = bit b 2" "bit a 3 = bit b 3"
    "bit a 4 = bit b 4" "bit a 5 = bit b 5" "bit a 6 = bit b 6" "bit a 7 = bit b 7"
  shows "a = b"
proof (rule bit_word_eqI)
  fix n assume "n < LENGTH(8)"
  then have "n \<in> {0, 1, 2, 3, 4, 5, 6, 7}" by auto
  with assms show "bit a n = bit b n" by auto
qed

lemma CHAR64_code64:
  assumes "take_bit 6 w = w"
  shows "CHAR64 (code64 w) = w" "code64 w \<in> set Base64Code"
proof -
  have "w = word_of_nat (unat (take_bit 6 w))" using assms by simp
  moreover have "unat (take_bit 6 w) < 64"
    using take_bit_nat_less_exp [of 6 "unat w"] by (simp add: unsigned_take_bit_eq)
  ultimately have w: "unat w < 64" by (simp add: assms)
  then show "CHAR64 (code64 w) = w"
    using CHAR64_Base64Code by (auto simp: list_all_iff code64_def)
  have "length Base64Code = 64" by (simp add: Base64Code_def)
  with w show "code64 w \<in> set Base64Code" by (simp add: code64_def)
qed

lemma no_high_bit [simp]: "\<not> bit (c :: 8 word) 8" "\<not> bit (c :: 8 word) 9"
  by (auto dest: bit_imp_le_length)

text \<open>The six-bit groups of three bytes, and the bytes made of them again.\<close>

lemma sextets:
  fixes c1 c2 c3 :: "8 word"
  shows "take_bit 6 (drop_bit 2 c1) = drop_bit 2 c1"
    "take_bit 6 (push_bit 4 (c1 AND 0x03)) = push_bit 4 (c1 AND 0x03)"
    "take_bit 6 (push_bit 4 (c1 AND 0x03) OR drop_bit 4 c2 AND 0x0F) =
       push_bit 4 (c1 AND 0x03) OR drop_bit 4 c2 AND 0x0F"
    "take_bit 6 (push_bit 2 (c2 AND 0x0F)) = push_bit 2 (c2 AND 0x0F)"
    "take_bit 6 (push_bit 2 (c2 AND 0x0F) OR drop_bit 6 c3 AND 0x03) =
       push_bit 2 (c2 AND 0x0F) OR drop_bit 6 c3 AND 0x03"
    "take_bit 6 (c3 AND 0x3F) = c3 AND 0x3F"
  by (rule byte_eqI; simp add: bit_simps)+

lemma regrouped:
  fixes c1 c2 c3 :: "8 word"
  shows "push_bit 2 (drop_bit 2 c1) OR drop_bit 4 ((push_bit 4 (c1 AND 0x03) OR drop_bit 4 c2 AND 0x0F) AND 0x30) = c1"
    "push_bit 2 (drop_bit 2 c1) OR drop_bit 4 (push_bit 4 (c1 AND 0x03) AND 0x30) = c1"
    "push_bit 4 ((push_bit 4 (c1 AND 0x03) OR drop_bit 4 c2 AND 0x0F) AND 0x0F)
       OR drop_bit 2 ((push_bit 2 (c2 AND 0x0F) OR drop_bit 6 c3 AND 0x03) AND 0x3C) = c2"
    "push_bit 4 ((push_bit 4 (c1 AND 0x03) OR drop_bit 4 c2 AND 0x0F) AND 0x0F)
       OR drop_bit 2 (push_bit 2 (c2 AND 0x0F) AND 0x3C) = c2"
    "push_bit 6 ((push_bit 2 (c2 AND 0x0F) OR drop_bit 6 c3 AND 0x03) AND 0x03) OR c3 AND 0x3F = c3"
  by (rule byte_eqI; simp add: bit_simps)+

lemma sextet_not_255: "take_bit 6 w = w \<Longrightarrow> w \<noteq> (255 :: 8 word)"
  by auto

lemma char_at_simps [simp]:
  "char_at (c # s) 0 = Inr c" "char_at (c1 # c2 # s) 1 = Inr c2"
  "char_at (c1 # c2 # c3 # s) 2 = Inr c3" "char_at (c1 # c2 # c3 # c4 # s) 3 = Inr c4"
  by (simp_all add: char_at_def list_at_def)

lemma decode_base64_0 [simp]: "decode_base64 0 s = Inr []"
  by (simp add: decode_base64.simps)

lemma decode_one:
  assumes "take_bit 6 s1 = s1" "take_bit 6 s2 = s2"
  shows "decode_base64 1 (code64 s1 # code64 s2 # r) = Inr [push_bit 2 s1 OR drop_bit 4 (s2 AND 0x30)]"
  using assms [THEN sextet_not_255] assms [THEN CHAR64_code64(1)]
  by (simp add: decode_base64.simps Let_def del: One_nat_def)

lemma decode_two:
  assumes "take_bit 6 s1 = s1" "take_bit 6 s2 = s2" "take_bit 6 s3 = s3"
  shows "decode_base64 2 (code64 s1 # code64 s2 # code64 s3 # r) =
    Inr [push_bit 2 s1 OR drop_bit 4 (s2 AND 0x30), push_bit 4 (s2 AND 0x0F) OR drop_bit 2 (s3 AND 0x3C)]"
  using assms [THEN sextet_not_255] assms [THEN CHAR64_code64(1)]
  by (simp add: decode_base64.simps Let_def del: One_nat_def)

lemma decode_three:
  assumes "take_bit 6 s1 = s1" "take_bit 6 s2 = s2" "take_bit 6 s3 = s3" "take_bit 6 s4 = s4"
  shows "decode_base64 (n + 3) (code64 s1 # code64 s2 # code64 s3 # code64 s4 # s) =
    (case decode_base64 n s of Inl e \<Rightarrow> Inl e
     | Inr r \<Rightarrow> Inr ([push_bit 2 s1 OR drop_bit 4 (s2 AND 0x30),
         push_bit 4 (s2 AND 0x0F) OR drop_bit 2 (s3 AND 0x3C), push_bit 6 (s3 AND 0x03) OR s4] @ r))"
  using assms [THEN sextet_not_255] assms [THEN CHAR64_code64(1)]
  by (subst decode_base64.simps) (simp add: Let_def del: One_nat_def push_bit_and drop_bit_and)

text \<open>What follows the encoded bytes does not matter.\<close>

lemma decode_encode: "decode_base64 (length d) (encode_base64 d @ r) = Inr d"
proof (induction d rule: encode_base64.induct)
  case (2 c1)
  then show ?case
    using decode_one [OF sextets(1) sextets(2), of c1 c1 r] by (simp only: regrouped) simp
next
  case (3 c1 c2)
  then show ?case
    using decode_two [OF sextets(1) sextets(3) sextets(4), of c1 c1 c2 c2 r]
    by (simp only: regrouped) (simp add: numeral_2_eq_2 del: push_bit_and drop_bit_and)
next
  case (4 c1 c2 c3 data)
  then show ?case
    using decode_three [OF sextets(1) sextets(3) sextets(5) sextets(6), of "length data" c1 c1 c2 c2 c3 c3 "encode_base64 data @ r"]
    by (simp only: regrouped) (simp add: numeral_3_eq_3 del: push_bit_and drop_bit_and)
qed simp

lemma set_encode_base64: "set (encode_base64 d) \<subseteq> set Base64Code"
  by (induction d rule: encode_base64.induct) (simp_all add: sextets [THEN CHAR64_code64(2)] del: push_bit_and drop_bit_and)

lemma length_encode_base64: "length (encode_base64 d) = (4 * length d + 2) div 3"
  by (induction d rule: encode_base64.induct) simp_all

section \<open>Salts\<close>

definition BCRYPT_MAXSALT :: nat where "BCRYPT_MAXSALT = 16"
definition BCRYPT_BLOCKS :: nat where "BCRYPT_BLOCKS = 6"
definition BCRYPT_MINROUNDS :: nat where "BCRYPT_MINROUNDS = 16"
definition BCRYPT_VERSION :: char where "BCRYPT_VERSION = CHR ''2''"

definition encode_salt :: "8 word list \<Rightarrow> char \<Rightarrow> nat \<Rightarrow> 8 word \<Rightarrow> bytes" where
  "encode_salt csalt minor clen logr =
     ''$'' @ [BCRYPT_VERSION] @ [minor] @ ''$'' @ two_digits (unat (logr AND 0x1F)) @ ''$''
     @ encode_base64 (take clen csalt)"

definition bcrypt_gensalt :: "char \<Rightarrow> 8 word \<Rightarrow> 8 word list \<Rightarrow> bytes" where
  "bcrypt_gensalt minor log_rounds seed =
     (let log_rounds = (if log_rounds < 4 then 4 else if log_rounds > 31 then 31 else log_rounds)
      in encode_salt seed minor BCRYPT_MAXSALT log_rounds)"

section \<open>The hash\<close>

definition bcrypt_error :: bytes where "bcrypt_error = '':''"

definition ciphertext0 :: "8 word list" where
  "ciphertext0 = map of_char (''OrpheanBeholderScryDoubt'' @ [NUL])"

text \<open>The state of the cipher after \<open>rounds\<close> rounds of the expensive key schedule.\<close>

definition bcrypt_state ::
    "nat \<Rightarrow> 8 word list \<Rightarrow> 8 word list \<Rightarrow> nat \<Rightarrow> blf_ctx" where
  "bcrypt_state rounds csalt key key_len =
     ((\<lambda>state. Blowfish_expand0state csalt BCRYPT_MAXSALT (Blowfish_expand0state key key_len state))
        ^^ rounds)
       (Blowfish_expandstate csalt BCRYPT_MAXSALT key key_len Blowfish_initstate)"

fun stream_words :: "nat \<Rightarrow> 8 word list \<Rightarrow> nat \<Rightarrow> nat \<Rightarrow> 32 word list" where
  "stream_words 0 data databytes j = []"
| "stream_words (Suc n) data databytes j =
     (let (x, j') = Blowfish_stream2word data databytes j in x # stream_words n data databytes j')"

definition bcrypt_ciphertext :: "blf_ctx \<Rightarrow> 8 word list res" where
  "bcrypt_ciphertext state =
     bind_res (fold_res (\<lambda>k cdata. blf_enc state cdata (BCRYPT_BLOCKS div 2)) [0..<64]
                 (stream_words BCRYPT_BLOCKS ciphertext0 (4 * BCRYPT_BLOCKS) 0))
       (\<lambda>cdata. Inr (concat (map store32 cdata) @ drop (4 * BCRYPT_BLOCKS) ciphertext0))"

text \<open>\<open>minor\<close> is 0 where the salt has none; \<open>key_len\<close> is cut to eight bits up to version \<open>a\<close>.\<close>

definition bcrypt_key_len :: "nat \<Rightarrow> nat \<Rightarrow> nat" where
  "bcrypt_key_len minor key_len =
     (if minor \<le> 97 then (key_len + (if minor \<ge> 97 then 1 else 0)) mod 2 ^ 8
      else (if key_len > 72 then 72 else key_len) + 1)"

definition bcrypt_output :: "nat \<Rightarrow> nat \<Rightarrow> 8 word list \<Rightarrow> 8 word list \<Rightarrow> bytes" where
  "bcrypt_output minor logr csalt ciphertext =
     ''$'' @ [BCRYPT_VERSION] @ (if minor \<noteq> 0 then [char_of minor] else []) @ ''$''
     @ two_digits logr @ ''$'' @ encode_base64 csalt @ encode_base64 (take (4 * BCRYPT_BLOCKS - 1) ciphertext)"

text \<open>
  The part of \<open>node_bcrypt\<close> after the version: \<open>p\<close> is where \<open>salt\<close> points after
  \<open>salt += 2\<close>, at the number of rounds.
\<close>

definition bcrypt_rounds_and_salt ::
    "8 word list \<Rightarrow> 8 word list \<Rightarrow> nat \<Rightarrow> nat \<Rightarrow> bytes \<Rightarrow> nat \<Rightarrow> bytes res" where
  "bcrypt_rounds_and_salt stack key key_len minor salt p =
     bind_res (char_at salt (p + 2)) (\<lambda>x.
       if x \<noteq> CHR ''$'' then Inr bcrypt_error
       else
         let n = atoi (drop p salt) in
         if n > 31 \<or> n < 0 then Inr bcrypt_error
         else
           let logr = nat n; rounds = 2 ^ logr in
           if rounds < BCRYPT_MINROUNDS then Inr bcrypt_error
           else
             let rest = drop (p + 3) salt in
             if c_strlen rest * 3 div 4 < BCRYPT_MAXSALT then Inr bcrypt_error
             else
               bind_res (decode_base64 BCRYPT_MAXSALT rest) (\<lambda>decoded.
                 let csalt = take BCRYPT_MAXSALT (decoded @ drop (length decoded) stack);
                     state = bcrypt_state rounds csalt key (bcrypt_key_len minor key_len)
                 in bind_res (bcrypt_ciphertext state) (\<lambda>ciphertext.
                      Inr (bcrypt_output minor logr csalt ciphertext))))"

definition node_bcrypt :: "8 word list \<Rightarrow> bytes \<Rightarrow> bytes \<Rightarrow> bytes res" where
  "node_bcrypt stack password salt =
     (let key = map of_char (password @ [NUL]); key_len = length password in
      bind_res (char_at salt 1) (\<lambda>version.
        if schar version > schar BCRYPT_VERSION then Inr bcrypt_error
        else bind_res (char_at salt 2) (\<lambda>m.
          if m \<noteq> CHR ''$'' then
            if m = CHR ''a'' \<or> m = CHR ''b''
            then bcrypt_rounds_and_salt stack key key_len (of_char m) salt 4
            else Inr bcrypt_error
          else bcrypt_rounds_and_salt stack key key_len 0 salt 3)))"

text \<open>\<open>draws\<close> are the values of \<open>rand()\<close>, sixteen of which are the seed.\<close>

definition arc4random_buf :: "(nat \<Rightarrow> int) \<Rightarrow> nat \<Rightarrow> 8 word list" where
  "arc4random_buf draws nbytes = map (\<lambda>n. word_of_int (draws n mod 256)) [0..<nbytes]"

definition generateHash :: "8 word list \<Rightarrow> (nat \<Rightarrow> int) \<Rightarrow> bytes \<Rightarrow> 32 word \<Rightarrow> bytes res" where
  "generateHash stack draws password rounds =
     (let seed = arc4random_buf draws 16 @ [0];
          salt = bcrypt_gensalt (CHR ''b'') (ucast rounds) seed
      in bind_res (node_bcrypt stack password salt) (\<lambda>hash. Inr (resized 60 hash)))"

definition validatePassword :: "8 word list \<Rightarrow> bytes \<Rightarrow> bytes \<Rightarrow> bool res" where
  "validatePassword stack password hash =
     bind_res (node_bcrypt stack password hash) (\<lambda>got. Inr (hash = resized 60 got))"

text \<open>The logarithm of the rounds of a hash; \<open>None\<close> is the null pointer.\<close>

definition bcrypt_get_rounds :: "bytes option \<Rightarrow> 32 word" where
  "bcrypt_get_rounds hash =
     (case hash of None \<Rightarrow> 0
      | Some h \<Rightarrow>
          (case takeWhile (\<lambda>c. c \<noteq> NUL) h of
             d # v # s \<Rightarrow>
               let s1 = (if s \<noteq> [] \<and> hd s \<noteq> CHR ''$'' then tl s else s)
               in if d \<noteq> CHR ''$'' then 0
                  else if s1 = [] \<or> hd s1 \<noteq> CHR ''$'' then 0 else word_of_int (atoi (tl s1))
           | _ \<Rightarrow> 0))"

text \<open>\<open>sql::hashPasswordBcrypt\<close> and \<open>sql::validatePasswordBcrypt\<close>.\<close>

definition hashPasswordBcrypt :: "8 word list \<Rightarrow> (nat \<Rightarrow> int) \<Rightarrow> bytes \<Rightarrow> bytes res" where
  "hashPasswordBcrypt stack draws password = generateHash stack draws password 12"

definition validatePasswordBcrypt :: "8 word list \<Rightarrow> bytes \<Rightarrow> bytes \<Rightarrow> bool res" where
  "validatePasswordBcrypt stack password hash = validatePassword stack password hash"

section \<open>Reading back what was written\<close>

lemma digit_char_facts:
  assumes "k < 10"
  shows "is_digit (digit_char k)" "\<not> is_space (digit_char k)" "digit_char k \<noteq> CHR ''-''"
    "digit_char k \<noteq> CHR ''+''" "digit_char k \<noteq> NUL" "of_char (digit_char k) = (48 + k :: nat)"
proof -
  show n: "of_char (digit_char k) = (48 + k :: nat)" using assms by (simp add: digit_char_def)
  then show "is_digit (digit_char k)" using assms by (simp add: is_digit_def)
  show "\<not> is_space (digit_char k)" "digit_char k \<noteq> CHR ''-''" "digit_char k \<noteq> CHR ''+''" "digit_char k \<noteq> NUL"
    by (simp_all add: is_space_def n flip: of_char_eq_iff [where 'a = nat])
qed

lemma atoi_two_digits:
  assumes "n < 100"
  shows "atoi (two_digits n @ ''$'' @ r) = int n"
proof -
  have "n div 10 < 10" "n mod 10 < 10" using assms by simp_all
  note d = this [THEN digit_char_facts(1)] this [THEN digit_char_facts(2)] this [THEN digit_char_facts(3)]
    this [THEN digit_char_facts(4)] this [THEN digit_char_facts(6)]
  have "int (of_char (digit_char k)) = (of_char (digit_char k) :: int)" for k by (simp add: of_nat_of_char)
  moreover have "10 * int (n div 10) + int (n mod 10) = int n" by presburger
  ultimately show ?thesis
    using d by (simp add: atoi_def two_digits_def digits_val_def Let_def is_digit_def)
qed

lemma no_NUL_encoded: "x \<in> set (encode_base64 d) \<Longrightarrow> x \<noteq> NUL"
proof -
  have "NUL \<notin> set Base64Code" by code_simp
  moreover assume "x \<in> set (encode_base64 d)"
  ultimately show "x \<noteq> NUL" using set_encode_base64 [of d] by blast
qed

lemma c_strlen_encoded: "length (encode_base64 d) \<le> c_strlen (encode_base64 d @ r)"
  by (simp add: c_strlen_def no_NUL_encoded takeWhile_append2)

lemma length_stream_words [simp]: "length (stream_words n d k j) = n"
  by (induction n d k j rule: stream_words.induct) (simp_all add: Let_def split: prod.split)

lemma fold_blf_enc:
  "2 * n \<le> length cdata \<Longrightarrow> \<exists>d. fold_res (\<lambda>k d. blf_enc st d n) ks cdata = Inr d \<and> length d = length cdata"
proof (induction ks arbitrary: cdata)
  case (Cons k ks)
  then show ?case
    using Cons.IH [of "word_blocks (Blowfish_encipher st) n cdata"]
    by (auto simp: bind_res_def blf_enc_def)
qed simp

lemma length_concat_store32: "length (concat (map store32 ws)) = 4 * length ws"
  by (induction ws) simp_all

lemma bcrypt_ciphertext_ok: "\<exists>ct. bcrypt_ciphertext st = Inr ct \<and> length ct = 25"
  using fold_blf_enc [of "BCRYPT_BLOCKS div 2" "stream_words BCRYPT_BLOCKS ciphertext0 (4 * BCRYPT_BLOCKS) 0" st "[0..<64]"]
  by (auto simp: bcrypt_ciphertext_def bind_res_def length_concat_store32 BCRYPT_BLOCKS_def ciphertext0_def)

text \<open>The hash of a password under parameters, and that every salt or hash that carries them gives it.\<close>

definition bcrypt_hash :: "bytes \<Rightarrow> nat \<Rightarrow> 8 word list \<Rightarrow> bytes res" where
  "bcrypt_hash password logr csalt =
     bind_res (bcrypt_ciphertext (bcrypt_state (2 ^ logr) csalt (map of_char (password @ [NUL]))
       (bcrypt_key_len 98 (length password)))) (\<lambda>ct. Inr (bcrypt_output 98 logr csalt ct))"

lemma node_bcrypt_eq:
  assumes "4 \<le> n" "n \<le> 31" "length cs = 16"
  shows "node_bcrypt stack password (''$2b$'' @ two_digits n @ ''$'' @ encode_base64 cs @ r) =
    bcrypt_hash password n cs"
proof -
  have salt: "atoi (two_digits n @ ''$'' @ encode_base64 cs @ r) = int n"
    by (rule atoi_two_digits) (use assms in simp)
  have strlen: "\<not> c_strlen (encode_base64 cs @ r) * 3 div 4 < 16"
    using c_strlen_encoded [of cs r] length_encode_base64 [of cs] assms(3) by simp
  have "(16 :: nat) \<le> 2 ^ n" using power_increasing [of 4 n "2 :: nat"] assms by simp
  moreover have "decode_base64 16 (encode_base64 cs @ r) = Inr cs"
    using decode_encode [of cs r] assms(3) by simp
  moreover have "char_at (''$2b$'' @ two_digits n @ ''$'' @ encode_base64 cs @ r) 6 = Inr (CHR ''$'')"
    "char_at (''$2b$'' @ two_digits n @ ''$'' @ encode_base64 cs @ r) 2 = Inr (CHR ''b'')"
    "char_at (''$2b$'' @ two_digits n @ ''$'' @ encode_base64 cs @ r) 1 = Inr (CHR ''2'')"
    by (simp_all add: char_at_def list_at_def two_digits_def)
  moreover have "drop 4 (''$2b$'' @ two_digits n @ ''$'' @ encode_base64 cs @ r) =
      two_digits n @ ''$'' @ encode_base64 cs @ r"
    "drop 7 (''$2b$'' @ two_digits n @ ''$'' @ encode_base64 cs @ r) = encode_base64 cs @ r"
    by (simp_all add: two_digits_def)
  ultimately show ?thesis
    using assms(1,2) salt strlen
    by (simp add: assms(3) node_bcrypt_def bcrypt_rounds_and_salt_def bcrypt_hash_def BCRYPT_VERSION_def
        BCRYPT_MINROUNDS_def BCRYPT_MAXSALT_def bind_res_def Let_def not_less
        split: sum.split)
qed

lemma bcrypt_hash_ok:
  assumes "4 \<le> n" "n \<le> 31" "length cs = 16"
  obtains h r where "bcrypt_hash password n cs = Inr h" "length h = 60"
    "h = ''$2b$'' @ two_digits n @ ''$'' @ encode_base64 cs @ r"
proof -
  let ?st = "bcrypt_state (2 ^ n) cs (map of_char (password @ [NUL])) (bcrypt_key_len 98 (length password))"
  obtain ct where ct: "bcrypt_ciphertext ?st = Inr ct" "length ct = 25"
    using bcrypt_ciphertext_ok by blast
  have "bcrypt_hash password n cs = Inr (bcrypt_output 98 n cs ct)"
    by (simp add: bcrypt_hash_def ct bind_res_def del: map_append)
  moreover have b: "char_of (98 :: nat) = CHR ''b''"
    by (simp flip: of_char_eq_iff [where 'a = nat])
  have "bcrypt_output 98 n cs ct = ''$2b$'' @ two_digits n @ ''$'' @ encode_base64 cs @ encode_base64 (take 23 ct)"
    by (simp add: bcrypt_output_def BCRYPT_VERSION_def BCRYPT_BLOCKS_def b)
  moreover from this have "length (bcrypt_output 98 n cs ct) = 60"
    by (simp add: length_encode_base64 assms ct two_digits_def)
  ultimately show thesis using that by simp
qed

text \<open>The rounds can be read from a hash.\<close>

lemma bcrypt_get_rounds_eq:
  assumes "n < 100"
  shows "bcrypt_get_rounds (Some (''$2b$'' @ two_digits n @ ''$'' @ r)) = of_nat n"
proof -
  have "n div 10 < 10" "n mod 10 < 10" using assms by simp_all
  note d = this [THEN digit_char_facts(5)]
  have "takeWhile (\<lambda>c. c \<noteq> NUL) (''$2b$'' @ two_digits n @ ''$'' @ r) =
      ''$2b$'' @ two_digits n @ ''$'' @ takeWhile (\<lambda>c. c \<noteq> NUL) r"
    using d by (simp add: two_digits_def)
  then show ?thesis
    using atoi_two_digits [OF assms, of "takeWhile (\<lambda>c. c \<noteq> NUL) r"]
    by (simp add: bcrypt_get_rounds_def)
qed

lemma gensalt_eq:
  assumes "length seed \<ge> 16"
  obtains n where "4 \<le> n" "n \<le> 31"
    "bcrypt_gensalt (CHR ''b'') lr seed = ''$2b$'' @ two_digits n @ ''$'' @ encode_base64 (take 16 seed) @ []"
proof -
  define l where "l = (if lr < 4 then 4 else if lr > 31 then 31 else lr)"
  have b: "4 \<le> unat l" "unat l \<le> 31"
    by (auto simp: l_def word_less_nat_alt word_le_nat_alt not_less)
  have "l AND 0x1F = take_bit 5 l" by (simp add: take_bit_eq_mask mask_eq_exp_minus_1)
  also have "take_bit 5 l = l"
    using b by (intro word_unat_eq_iff [THEN iffD2])
      (simp add: unsigned_take_bit_eq take_bit_nat_eq_self_iff)
  finally have l: "l AND 0x1F = l" .
  show thesis
    by (rule that [OF b]) (simp add: bcrypt_gensalt_def encode_salt_def BCRYPT_VERSION_def
        BCRYPT_MAXSALT_def Let_def flip: l_def add: l)
qed

lemma bcrypt_hash_resized:
  assumes "4 \<le> n" "n \<le> 31" "length cs = 16"
  shows "bind_res (bcrypt_hash password n cs) (\<lambda>h. Inr (resized 60 h)) = bcrypt_hash password n cs"
proof -
  obtain h r where "bcrypt_hash password n cs = Inr h" "length h = 60"
    by (rule bcrypt_hash_ok [OF assms])
  then show ?thesis by (simp add: bind_res_def resized_def)
qed

text \<open>The salt is drawn and the rounds are cut before the password is looked at.\<close>

lemma generateHash_eq:
  obtains n cs where "4 \<le> n" "n \<le> 31" "length cs = 16"
    "\<forall>password. generateHash stack draws password rounds = bcrypt_hash password n cs"
proof -
  let ?seed = "arc4random_buf draws 16 @ [0]"
  have seed: "length ?seed \<ge> 16" "length (take 16 ?seed) = 16" by (simp_all add: arc4random_buf_def)
  obtain n where n: "4 \<le> n" "n \<le> 31" and salt: "bcrypt_gensalt (CHR ''b'') (ucast rounds) ?seed =
      ''$2b$'' @ two_digits n @ ''$'' @ encode_base64 (take 16 ?seed) @ []"
    using gensalt_eq [OF seed(1)] by blast
  have "generateHash stack draws password rounds = bcrypt_hash password n (take 16 ?seed)" for password
    by (simp only: generateHash_def Let_def salt node_bcrypt_eq [OF n seed(2)]
        bcrypt_hash_resized [OF n seed(2)])
  then show thesis using that [OF n seed(2)] by blast
qed

lemma generateHash_total: "\<exists>h. generateHash stack draws password rounds = Inr h"
  using generateHash_eq [of stack draws rounds] bcrypt_hash_ok by metis

lemma validatePassword_eq:
  assumes "bcrypt_hash p n cs = Inr h" "4 \<le> n" "n \<le> 31" "length cs = 16"
  shows "validatePassword stack q h = bind_res (bcrypt_hash q n cs) (\<lambda>g. Inr (h = g))"
proof -
  obtain r where h: "h = ''$2b$'' @ two_digits n @ ''$'' @ encode_base64 cs @ r"
    using bcrypt_hash_ok [OF assms(2-4), of p] assms(1) by (metis Inr_inject)
  obtain g where g: "bcrypt_hash q n cs = Inr g" "length g = 60"
    by (rule bcrypt_hash_ok [OF assms(2-4)])
  have "node_bcrypt stack q h = Inr g"
    by (simp only: h node_bcrypt_eq [OF assms(2-4)] g)
  then show ?thesis using g by (simp add: validatePassword_def bind_res_def resized_def)
qed

text \<open>C9: A hash made of a password has sixty characters and accepts the password, whatever the
  number of rounds asked for, the draws of the random generator and the contents of the stack.\<close>

theorem hash_verifies:
  "\<exists>hash. generateHash stack draws password rounds = Inr hash \<and> length hash = 60
     \<and> validatePassword stack' password hash = Inr True"
proof -
  obtain n cs where p: "4 \<le> n" "n \<le> 31" "length cs = 16"
    "\<forall>password. generateHash stack draws password rounds = bcrypt_hash password n cs"
    by (rule generateHash_eq [of stack draws rounds])
  obtain h r where h: "bcrypt_hash password n cs = Inr h" "length h = 60"
    by (rule bcrypt_hash_ok [OF p(1-3)])
  show ?thesis
    using validatePassword_eq [OF h(1) p(1-3), of stack' password] h by (simp add: p(4) bind_res_def)
qed

text \<open>An empty stored hash is read past its end: \<open>salt++\<close> steps over the terminator.\<close>

lemma empty_hash_out_of_range: "validatePassword stack password [] = Inl OutOfRange"
  by (simp add: validatePassword_def node_bcrypt_def char_at_def list_at_def bind_res_def Let_def)

section \<open>The first 72 bytes\<close>

lemma stream2word_below:
  assumes "\<forall>i < m. data ! i = data' ! i" "j + 4 \<le> m" "m \<le> kb"
  shows "Blowfish_stream2word data kb j = Blowfish_stream2word data' kb j"
    "snd (Blowfish_stream2word data kb j) = j + 4"
proof -
  have "j < kb" "j + 1 < kb" "j + 2 < kb" "j + 3 < kb" using assms by simp_all
  moreover have "data ! j = data' ! j" "data ! (j + 1) = data' ! (j + 1)"
    "data ! (j + 2) = data' ! (j + 2)" "data ! (j + 3) = data' ! (j + 3)" using assms by simp_all
  moreover have "f ^^ 4 = f \<circ> f \<circ> f \<circ> f" for f :: "32 word \<times> nat \<Rightarrow> 32 word \<times> nat"
    by (simp add: numeral_eq_Suc comp_assoc)
  ultimately show "Blowfish_stream2word data kb j = Blowfish_stream2word data' kb j"
    "snd (Blowfish_stream2word data kb j) = j + 4"
    by (simp_all add: Blowfish_stream2word_def stream_byte_def Let_def numeral_3_eq_3)
qed

lemma mix_key_below:
  assumes "\<forall>i < 72. key ! i = key' ! i" "72 \<le> kb"
  shows "mix_key key kb c = mix_key key' kb c"
proof -
  let ?f = "\<lambda>key i (c, j). let (temp, j') = Blowfish_stream2word key kb j
       in (c\<lparr>blf_P := (blf_P c)[i := blf_P c ! i XOR temp]\<rparr>, j')"
  have "fold (?f key) [0..<n] (c, 0) = fold (?f key') [0..<n] (c, 0)
      \<and> snd (fold (?f key) [0..<n] (c, 0)) = 4 * n" if "n \<le> 18" for n
    using that
  proof (induction n)
    case (Suc n)
    then show ?case
      using stream2word_below [of 72 key key' "4 * n" kb] assms
      by (auto simp: Let_def split: prod.splits)
  qed simp
  from this [of 18] show ?thesis by (simp add: mix_key_def)
qed

lemma bcrypt_state_below:
  assumes "\<forall>i < 72. key ! i = key' ! i" "72 \<le> kb"
  shows "bcrypt_state n cs key kb = bcrypt_state n cs key' kb"
  using mix_key_below [OF assms]
  by (simp add: bcrypt_state_def Blowfish_expand0state_def Blowfish_expandstate_def)

lemma key_of_prefix:
  assumes "take 72 p = take 72 q" "72 \<le> length p" "72 \<le> length q" "i < 72"
  shows "map of_char (p @ [NUL]) ! i = (map of_char (q @ [NUL]) ! i :: 8 word)"
proof -
  have "p ! i = q ! i" using assms by (metis nth_take)
  then show ?thesis using assms by (simp add: nth_append)
qed

text \<open>A password counts up to its 72nd byte: two passwords that agree up to there have the same
  hash, so each is accepted for the other.\<close>

theorem first_72_bytes_count:
  assumes "take 72 p = take 72 q" "72 \<le> length p" "72 \<le> length q"
  shows "generateHash stack draws p rounds = generateHash stack draws q rounds \<and>
    (\<exists>hash. generateHash stack draws p rounds = Inr hash \<and> validatePassword stack q hash = Inr True)"
proof -
  have "bcrypt_hash p n cs = bcrypt_hash q n cs" for n cs
  proof -
    have len: "bcrypt_key_len 98 (length p) = 73" "bcrypt_key_len 98 (length q) = 73"
      using assms by (simp_all add: bcrypt_key_len_def)
    show ?thesis
      using bcrypt_state_below [of "map of_char (p @ [NUL])" "map of_char (q @ [NUL])" 73 "2 ^ n" cs]
        key_of_prefix [OF assms]
      by (simp only: bcrypt_hash_def len) simp
  qed
  moreover obtain n cs where n: "4 \<le> n" "n \<le> 31" "length cs = 16"
    "\<forall>password. generateHash stack draws password rounds = bcrypt_hash password n cs"
    by (rule generateHash_eq [of stack draws rounds])
  moreover obtain h r where h: "bcrypt_hash p n cs = Inr h"
    by (rule bcrypt_hash_ok [OF n(1-3)])
  ultimately show ?thesis
    using validatePassword_eq [OF h n(1-3), of stack q] by (simp add: bind_res_def)
qed

lemma first_72_bytes_count_witness:
  "generateHash [] (\<lambda>n. 7) (replicate 80 (CHR ''a'')) 12 = generateHash [] (\<lambda>n. 7) (replicate 72 (CHR ''a'')) 12"
  using first_72_bytes_count [of "replicate 80 (CHR ''a'')" "replicate 72 (CHR ''a'')" "[]" "\<lambda>n. 7" 12] by simp

section \<open>The login\<close>

text \<open>
  \<open>Account::verifyPassword\<close> and the web login take the verdict of the hash from a parameter of
  the model; \<open>uses_bcrypt\<close> says that it is the one modelled here, wherever this one returns.
\<close>

definition uses_bcrypt :: "8 word list \<Rightarrow> env \<Rightarrow> bool" where
  "uses_bcrypt stack E \<longleftrightarrow>
     (\<forall>password hash ok. validatePasswordBcrypt stack password hash = Inr ok \<longrightarrow> e_bcrypt E password hash = ok)"

text \<open>An account whose stored hash was made of a non-empty password accepts that password, when no
  Python module decides about it.\<close>

theorem stored_hash_accepts_password:
  assumes "uses_bcrypt stack E" "\<not> has_event_handler E AUTH_SASL_PLAIN"
    and "hashPasswordBcrypt stack' draws (au_password auth) = Inr (a_password acc)"
    and "au_password auth \<noteq> []"
  shows "\<not> ev_cancel (verify_password E auth acc)"
proof -
  obtain n cs where p: "4 \<le> n" "n \<le> 31" "length cs = 16"
    "\<forall>password. generateHash stack' draws password 12 = bcrypt_hash password n cs"
    by (rule generateHash_eq [of stack' draws 12])
  obtain h r where h: "bcrypt_hash (au_password auth) n cs = Inr h" "length h = 60"
    by (rule bcrypt_hash_ok [OF p(1-3)])
  have a: "a_password acc = h" using assms(3) by (simp add: hashPasswordBcrypt_def p(4) h)
  have "validatePasswordBcrypt stack (au_password auth) h = Inr True"
    using validatePassword_eq [OF h(1) p(1-3), of stack "au_password auth"]
    by (simp add: validatePasswordBcrypt_def h bind_res_def)
  then have "e_bcrypt E (au_password auth) h" using assms(1) by (auto simp: uses_bcrypt_def)
  with a h(2) assms(2,4) show ?thesis by (auto simp: verify_password_def)
qed

lemma stored_hash_accepts_password_witness:
  "\<not> ev_cancel (verify_password
     (sample_env\<lparr>e_bcrypt := \<lambda>p h. validatePasswordBcrypt [] p h = Inr True\<rparr>)
     \<lparr>ev_reason = [], ev_cancel = False, au_username = ''bob'', au_password = ''pw'', au_ip = [], au_from_system = False\<rparr>
     ((person 2 ''bob'' 1)\<lparr>a_password := projr (hashPasswordBcrypt [] (\<lambda>n. 7) ''pw'')\<rparr>))"
proof (rule stored_hash_accepts_password [of "[]" _ "[]" "\<lambda>n. 7"])
  show "uses_bcrypt [] (sample_env\<lparr>e_bcrypt := \<lambda>p h. validatePasswordBcrypt [] p h = Inr True\<rparr>)"
    by (simp add: uses_bcrypt_def)
  show "\<not> has_event_handler (sample_env\<lparr>e_bcrypt := \<lambda>p h. validatePasswordBcrypt [] p h = Inr True\<rparr>) AUTH_SASL_PLAIN"
    by (simp add: sample_env_def has_event_handler_def flags_has_def)
qed (use generateHash_total [of "[]" "\<lambda>n. 7" "''pw''" 12] in \<open>auto simp: hashPasswordBcrypt_def\<close>)

end
