(* ===== verification/Sql_Accounts.thy ===== *)
theory Sql_Accounts
  imports Sql_Metadata Servers Bcrypt
begin

text \<open>
  The account functions of \<open>lib/sql.cpp\<close>: looking an account up or creating it, its password hash
  (\<open>lib/bcrypt\<close>), the recorded logins, and loading all accounts page by page.
\<close>

section \<open>The state\<close>

text \<open>
  The database and the objects in memory that the functions fill. \<open>se_clock\<close> is the database's
  \<open>CURRENT_TIMESTAMP\<close>; the draws of \<open>rand()\<close> and the stack contents that a hash meets are numbered
  by the UUIDs created so far.
\<close>

record store =
  st_db :: db
  st_world :: world
  st_servers :: "server_obj registry"
  st_roles :: "role registry"
  st_uploads :: "upload registry"
  st_permissions :: "permission registry"

record sql_env =
  se_env :: env
  se_driver :: sql_driver
  se_clock :: nat
  se_stack :: "nat \<Rightarrow> 8 word list"
  se_draws :: "nat \<Rightarrow> nat \<Rightarrow> int"

definition create_uuid :: "sql_env \<Rightarrow> store \<Rightarrow> quuid \<times> store" where
  "create_uuid S s =
     (let w = st_world s
      in (e_uuid (se_env S) (w_uuids w), s\<lparr>st_world := w\<lparr>w_uuids := w_uuids w + 1\<rparr>\<rparr>))"

definition to_time :: "sqlval \<Rightarrow> nat" where
  "to_time v = (case v of STime n \<Rightarrow> n | _ \<Rightarrow> 0)"

section \<open>Accounts\<close>

definition account_of_row :: "env \<Rightarrow> row \<Rightarrow> world \<Rightarrow> acc_id \<times> world" where
  "account_of_row E r =
     account_create_from_db E (to_uuid (r C_id)) (to_text (r C_username)) (to_text (r C_password))
       (to_time (r C_creation_date))"

text \<open>The UUID is bound as its string, which PostgreSQL reads as a UUID.\<close>

definition account_values :: "env \<Rightarrow> quuid \<Rightarrow> bytes \<Rightarrow> bytes \<Rightarrow> (col \<times> sqlval) list" where
  "account_values E uuid username hashed =
     [(C_id, SUuid uuid), (C_username, bind_string E username), (C_password, SText hashed)]"

definition sql_account_get_or_create ::
    "sql_env \<Rightarrow> bytes \<Rightarrow> bytes \<Rightarrow> store \<Rightarrow> (acc_id option \<times> store) res" where
  "sql_account_get_or_create S username password s =
     (let E = se_env S; w = st_world s in
      case w_lookup_name w username of
        Some a \<Rightarrow> Inr (Some a, s)
      | None \<Rightarrow>
          (case select T_accounts (\<lambda>r. sql_eq (r C_username) (bind_string E username)) (st_db s) of
             r # _ \<Rightarrow> let (a, w1) = account_of_row E r w in Inr (Some a, s\<lparr>st_world := w1\<rparr>)
           | [] \<Rightarrow>
               let (uuid, s1) = create_uuid S s in
               bind_res (hashPasswordBcrypt (se_stack S (w_uuids w)) (se_draws S (w_uuids w)) (norm E password))
                 (\<lambda>hash.
                   let hashed = norm E hash in
                   case exec_insert (se_clock S) T_accounts (account_values E uuid username hashed) (st_db s1) of
                     None \<Rightarrow> Inr (None, s1)
                   | Some D1 \<Rightarrow>
                       let (a, w1) = account_create_from_db E uuid username hashed (e_now E) (st_world s1)
                       in Inr (Some a, s1\<lparr>st_db := D1, st_world := w1\<rparr>))))"

definition sql_account_exists :: "sql_env \<Rightarrow> bytes \<Rightarrow> store \<Rightarrow> bool" where
  "sql_account_exists S username s \<longleftrightarrow>
     w_lookup_name (st_world s) username \<noteq> None \<or>
     select T_accounts (\<lambda>r. sql_eq (r C_username) (bind_bytes_text (se_driver S) username)) (st_db s) \<noteq> []"

section \<open>Logins\<close>

datatype login_result = Success | AccountNotFound | InvalidPassword | DatabaseError

text \<open>The result comes with \<open>rtnAccountID\<close>, which is assigned on success only.\<close>

definition insertAccount ::
    "sql_env \<Rightarrow> bytes \<Rightarrow> bytes \<Rightarrow> bytes \<Rightarrow> store \<Rightarrow> (login_result \<times> quuid option \<times> store) res" where
  "insertAccount S username password ip s =
     (case select T_accounts (\<lambda>r. sql_eq (r C_username) (SText username)) (st_db s) of
        [] \<Rightarrow> Inr (AccountNotFound, None, s)
      | r # _ \<Rightarrow>
          let accountId = to_uuid (r C_id); storedHash = to_text (r C_password) in
          bind_res (validatePasswordBcrypt (se_stack S (w_uuids (st_world s))) password storedHash) (\<lambda>ok.
            if \<not> ok then Inr (InvalidPassword, None, s)
            else
              let (uuid, s1) = create_uuid S s in
              case exec_insert (se_clock S) T_logins
                     [(C_id, bind_uuid (se_driver S) uuid), (C_account_id, bind_uuid (se_driver S) accountId),
                      (C_ip, SText ip)] (st_db s1) of
                None \<Rightarrow> Inr (DatabaseError, None, s1)
              | Some D1 \<Rightarrow> Inr (Success, Some accountId, s1\<lparr>st_db := D1\<rparr>)))"

section \<open>All rows of a table\<close>

text \<open>\<open>getAccounts\<close>, \<open>getChannels\<close> and \<open>getLogins\<close>: variant maps are sorted by key.\<close>

definition getAccounts :: "db \<Rightarrow> (bytes \<times> sqlval) list list" where
  "getAccounts D =
     map (\<lambda>r. [(''creation_date'', r C_creation_date), (''id'', r C_id), (''password'', r C_password),
       (''username'', r C_username)]) (select T_accounts (\<lambda>_. True) D)"

definition getChannels :: "db \<Rightarrow> (bytes \<times> sqlval) list list" where
  "getChannels D =
     map (\<lambda>r. [(''creation_date'', r C_creation_date), (''id'', r C_id), (''name'', r C_name)])
       (select T_channels (\<lambda>_. True) D)"

definition getLogins :: "db \<Rightarrow> (bytes \<times> sqlval) list list" where
  "getLogins D =
     concat (map (\<lambda>l. map (\<lambda>a.
         [(''account_id'', l C_account_id), (''id'', l C_id), (''ip'', l C_ip),
          (''login_date'', l C_login_date), (''username'', a C_username)])
       (select T_accounts (\<lambda>a. sql_eq (a C_id) (l C_account_id)) D)) (select T_logins (\<lambda>_. True) D))"

section \<open>Loading page by page\<close>

text \<open>
  The loop of \<open>account_get_all\<close> and \<open>channel_get_all\<close>: \<open>LIMIT 100 OFFSET offset\<close> until a page is
  not full. Loading a row writes no row. The offset is an \<open>int\<close>; it stays below \<open>2 ^ 31\<close> for tables of fewer
  rows.
\<close>

definition batch_size :: nat where "batch_size = 100"

function load_pages :: "('r \<Rightarrow> 's \<Rightarrow> 's res) \<Rightarrow> 'r list \<Rightarrow> nat \<Rightarrow> 's \<Rightarrow> 's res" where
  "load_pages f rows offset s =
     (let page = take batch_size (drop offset rows) in
      case fold_res f page s of
        Inl e \<Rightarrow> Inl e
      | Inr s1 \<Rightarrow>
          if length page < batch_size then Inr s1 else load_pages f rows (offset + batch_size) s1)"
  by pat_completeness auto
termination
  by (relation "measure (\<lambda>(f, rows, offset, s). length rows - offset)") (auto simp: batch_size_def)

declare load_pages.simps [simp del]

definition sql_account_get_all :: "sql_env \<Rightarrow> store \<Rightarrow> (acc_id list \<times> store) res" where
  "sql_account_get_all S s =
     bind_res (load_pages (\<lambda>r (accounts, w).
         let (a, w1) = account_of_row (se_env S) r w in Inr (accounts @ [a], w1))
       (select T_accounts (\<lambda>_. True) (st_db s)) 0 ([], st_world s))
     (\<lambda>(accounts, w). Inr (accounts, s\<lparr>st_world := w\<rparr>))"

lemma load_pages_from: "load_pages f rows offset s = fold_res f (drop offset rows) s"
proof (induction f rows offset s rule: load_pages.induct)
  case (1 f rows offset s)
  let ?page = "take batch_size (drop offset rows)"
  have rows: "drop offset rows = ?page @ drop (offset + batch_size) rows"
    by (metis append_take_drop_id drop_drop add.commute)
  show ?case
  proof (cases "fold_res f ?page s")
    case (Inl e)
    then show ?thesis by (subst rows) (simp add: load_pages.simps [of f] fold_res_append bind_res_def)
  next
    case (Inr s1)
    have "drop (offset + batch_size) rows = []" if "length ?page < batch_size"
      using that by simp
    with 1 [OF refl Inr] Inr show ?thesis
      by (subst rows) (auto simp: load_pages.simps [of f rows offset] fold_res_append bind_res_def Let_def)
  qed
qed

text \<open>The loop over pages ends for every table, and it loads what loading all rows of the table
  in one pass would load: no row is skipped at the end of a page and none is loaded twice.\<close>

theorem load_pages_all: "load_pages f rows 0 s = fold_res f rows s"
  by (simp add: load_pages_from)

section \<open>The accounts in memory\<close>

definition account_object :: "env \<Rightarrow> quuid \<Rightarrow> bytes \<Rightarrow> bytes \<Rightarrow> nat \<Rightarrow> account" where
  "account_object E uid username password creation =
     (new_account E username)\<lparr>a_uid := uid, a_password := password, a_creation := creation\<rparr>"

definition row_account :: "env \<Rightarrow> row \<Rightarrow> account" where
  "row_account E r = account_object E (to_uuid (r C_id)) (to_text (r C_username)) (to_text (r C_password))
     (to_time (r C_creation_date))"

definition found_account :: "world \<Rightarrow> bytes \<Rightarrow> account option" where
  "found_account w n = map_option (w_accs w) (w_lookup_name w n)"

definition names_below :: "world \<Rightarrow> bool" where
  "names_below w \<longleftrightarrow> (\<forall>n a. w_lookup_name w n = Some a \<longrightarrow> a < w_next_acc w)"

lemma insert_cache_fields:
  "w_accs (account_insert_cache p w) = w_accs w" "w_next_acc (account_insert_cache p w) = w_next_acc w"
  "w_lookup_uuid (account_insert_cache p w) = (w_lookup_uuid w)(a_uid (w_accs w p) \<mapsto> p)"
  "w_lookup_name (account_insert_cache p w) =
     (if a_name (w_accs w p) = [] then w_lookup_name w else (w_lookup_name w)(a_name (w_accs w p) \<mapsto> p))"
  "w_uuids (account_insert_cache p w) = w_uuids w"
  by (simp_all add: account_insert_cache_def Let_def)

lemma nicks_insert_fields:
  "w_accs (irc_nicks_insert_cache k p w) = w_accs w" "w_next_acc (irc_nicks_insert_cache k p w) = w_next_acc w"
  "w_lookup_uuid (irc_nicks_insert_cache k p w) = w_lookup_uuid w"
  "w_lookup_name (irc_nicks_insert_cache k p w) = w_lookup_name w"
  "w_uuids (irc_nicks_insert_cache k p w) = w_uuids w"
  by (simp_all add: irc_nicks_insert_cache_def)

lemma account_create_from_db_new:
  fixes n pw :: bytes
  assumes "w_lookup_name w n = None" "account_create_from_db E uid n pw t w = (a, w')"
  shows "a = w_next_acc w" "w_next_acc w' = w_next_acc w + 1"
    "w_accs w' = (w_accs w)(w_next_acc w := account_object E uid n pw t)"
    "w_lookup_name w' = (if n = [] then w_lookup_name w else (w_lookup_name w)(n \<mapsto> w_next_acc w))"
    "w_lookup_uuid w' = (w_lookup_uuid w)(uid \<mapsto> w_next_acc w)" "w_uuids w' = w_uuids w"
proof -
  have a: "a = fst (account_create_from_db E uid n pw t w)"
    and w': "w' = snd (account_create_from_db E uid n pw t w)" using assms(2) by simp_all
  note defs = account_create_from_db_def get_by_name_def Let_def account_set_uid_def account_set_name_def
    account_set_password_def insert_cache_fields nicks_insert_fields account_object_def new_account_def
  show "a = w_next_acc w" by (simp add: a assms(1) defs)
  show "w_next_acc w' = w_next_acc w + 1" by (simp add: w' assms(1) defs)
  show "w_accs w' = (w_accs w)(w_next_acc w := account_object E uid n pw t)" by (simp add: w' assms(1) defs)
  show "w_lookup_name w' = (if n = [] then w_lookup_name w else (w_lookup_name w)(n \<mapsto> w_next_acc w))"
    by (simp add: w' assms(1) defs)
  show "w_lookup_uuid w' = (w_lookup_uuid w)(uid \<mapsto> w_next_acc w)" by (simp add: w' assms(1) defs)
  show "w_uuids w' = w_uuids w" by (simp add: w' assms(1) defs)
qed

lemma account_create_from_db_known:
  "w_lookup_name w n = Some a \<Longrightarrow> account_create_from_db E uid n pw t w = (a, w)"
  by (simp add: account_create_from_db_def get_by_name_def)

lemma found_after_create:
  assumes "names_below w"
  shows "names_below (snd (account_create_from_db E uid n pw t w))"
    and "m \<noteq> [] \<Longrightarrow> found_account (snd (account_create_from_db E uid n pw t w)) m =
      (if found_account w m = None \<and> m = n then Some (account_object E uid n pw t) else found_account w m)"
proof -
  have less: "w_lookup_name w k = Some b \<Longrightarrow> b < w_next_acc w" for k b
    using assms by (simp add: names_below_def)
  show "names_below (snd (account_create_from_db E uid n pw t w))"
  proof (cases "w_lookup_name w n")
    case None
    obtain a w' where run: "account_create_from_db E uid n pw t w = (a, w')" by fastforce
    note new = account_create_from_db_new [OF None run]
    show ?thesis using less by (auto simp: run names_below_def new less_Suc_eq)
  qed (simp add: account_create_from_db_known assms)
  show "found_account (snd (account_create_from_db E uid n pw t w)) m =
      (if found_account w m = None \<and> m = n then Some (account_object E uid n pw t) else found_account w m)"
    if "m \<noteq> []"
  proof (cases "w_lookup_name w n")
    case None
    obtain a w' where run: "account_create_from_db E uid n pw t w = (a, w')" by fastforce
    note new = account_create_from_db_new [OF None run]
    show ?thesis
      using that None less [of m] by (cases "w_lookup_name w m") (auto simp: run found_account_def new)
  next
    case (Some a)
    then show ?thesis by (auto simp: account_create_from_db_known found_account_def)
  qed
qed

definition load_accounts :: "env \<Rightarrow> row list \<Rightarrow> world \<Rightarrow> world" where
  "load_accounts E rows w = fold (\<lambda>r w. snd (account_of_row E r w)) rows w"

lemma found_after_loads:
  assumes "names_below w" "n \<noteq> []"
  shows "found_account (load_accounts E rows w) n =
    (case found_account w n of
       Some x \<Rightarrow> Some x
     | None \<Rightarrow> map_option (row_account E) (find (\<lambda>r. to_text (r C_username) = n) rows))"
  using assms(1)
proof (induction rows arbitrary: w)
  case (Cons r rows)
  note step = found_after_create [OF Cons.prems, where E = E and uid = "to_uuid (r C_id)"
      and n = "to_text (r C_username)" and pw = "to_text (r C_password)" and t = "to_time (r C_creation_date)"]
  from Cons.IH [OF step(1)] show ?case
    by (auto simp: load_accounts_def account_of_row_def step(2) [OF assms(2)] row_account_def split: option.split)
qed (simp add: load_accounts_def split: option.split)

lemma account_get_all_eq:
  "\<exists>accounts. sql_account_get_all S s =
     Inr (accounts, s\<lparr>st_world := load_accounts (se_env S) (st_db s T_accounts) (st_world s)\<rparr>)"
proof -
  have "\<exists>accounts. fold_res (\<lambda>r (accounts, w).
         let (a, w1) = account_of_row E r w in Inr (accounts @ [a], w1)) rows (l, w) =
      Inr (accounts, load_accounts E rows w)" for E rows l w
    by (induction rows arbitrary: l w) (auto simp: load_accounts_def split: prod.split)
  then obtain accounts where
    "fold_res (\<lambda>r (accounts, w). let (a, w1) = account_of_row (se_env S) r w in Inr (accounts @ [a], w1))
       (st_db s T_accounts) ([], st_world s) = Inr (accounts, load_accounts (se_env S) (st_db s T_accounts) (st_world s))"
    by blast
  then show ?thesis by (simp add: sql_account_get_all_def load_pages_from select_def)
qed

text \<open>After all accounts are loaded into an empty cache, the account found under a name is the
  one the row with that username describes, with its UUID, stored hash and creation date; there is
  none when there is no such row.\<close>

theorem accounts_reloaded:
  assumes "w_lookup_name (st_world s) = Map.empty" "n \<noteq> []"
  shows "\<exists>accounts s'. sql_account_get_all S s = Inr (accounts, s') \<and> st_db s' = st_db s \<and>
    map_option (w_accs (st_world s')) (w_lookup_name (st_world s') n) =
      map_option (row_account (se_env S)) (find (\<lambda>r. to_text (r C_username) = n) (st_db s T_accounts))"
proof -
  obtain accounts where "sql_account_get_all S s =
     Inr (accounts, s\<lparr>st_world := load_accounts (se_env S) (st_db s T_accounts) (st_world s)\<rparr>)"
    using account_get_all_eq by blast
  moreover have "names_below (st_world s)" "found_account (st_world s) n = None"
    using assms(1) by (simp_all add: names_below_def found_account_def)
  ultimately show ?thesis
    using found_after_loads [OF _ assms(2), of "st_world s" "se_env S" "st_db s T_accounts"]
    by (simp add: found_account_def)
qed

definition sample_sql :: sql_env where
  "sample_sql =
     \<lparr>se_env = sample_env, se_driver = sample_driver, se_clock = 9, se_stack = (\<lambda>_. []), se_draws = (\<lambda>_ _. 7)\<rparr>"

definition empty_store :: "world \<Rightarrow> store" where
  "empty_store w =
     \<lparr>st_db = (\<lambda>_. []), st_world = w, st_servers = empty_registry (new_server_obj []),
      st_roles = empty_registry (new_role []), st_uploads = empty_registry new_upload,
      st_permissions = empty_registry new_permission\<rparr>"

definition sample_account_row :: row where
  "sample_account_row = build_row accounts_table 4 (account_values sample_env 8 ''bob'' ''hash'')"

lemma accounts_reloaded_witness:
  "\<exists>accounts s'. sql_account_get_all sample_sql
       ((empty_store initial_world)\<lparr>st_db := (\<lambda>_. [])(T_accounts := [sample_account_row])\<rparr>) = Inr (accounts, s') \<and>
     map_option (w_accs (st_world s')) (w_lookup_name (st_world s') ''bob'') =
       Some (account_object sample_env 8 ''bob'' ''hash'' 4)"
proof -
  have row: "row_account sample_env sample_account_row = account_object sample_env 8 ''bob'' ''hash'' 4"
    "to_text (sample_account_row C_username) = ''bob''"
    by (simp_all add: row_account_def sample_account_row_def build_row_def account_values_def bind_string_def
        norm_def sample_env_def ascii_unicode_def schema_defs to_uuid_def to_text_def to_time_def default_value_def)
  then show ?thesis
    using accounts_reloaded [of "(empty_store initial_world)\<lparr>st_db := (\<lambda>_. [])(T_accounts := [sample_account_row])\<rparr>"
        "''bob''" sample_sql]
    by (fastforce simp: empty_store_def initial_world_def sample_sql_def)
qed

section \<open>A password that was stored\<close>

lemma ascii_encode_base64: "c \<in> set (encode_base64 d) \<Longrightarrow> of_char c < (128 :: nat)"
proof -
  have "list_all (\<lambda>c. of_char c < (128 :: nat)) Base64Code" by (simp add: Base64Code_def)
  moreover assume "c \<in> set (encode_base64 d)"
  ultimately show ?thesis using set_encode_base64 [of d] by (auto simp: list_all_iff)
qed

definition ascii :: "bytes \<Rightarrow> bool" where
  "ascii s \<longleftrightarrow> list_all (\<lambda>c. of_char c < (128 :: nat)) s"

lemma ascii_two_digits: "n < 100 \<Longrightarrow> ascii (two_digits n)"
  using digit_char_facts(6) [of "n div 10"] digit_char_facts(6) [of "n mod 10"]
  by (simp add: ascii_def two_digits_def less_mult_imp_div_less)

lemma generateHash_ascii:
  assumes "generateHash stack draws password rounds = Inr h"
  shows "ascii h"
proof -
  obtain n cs where p: "4 \<le> n" "n \<le> 31" "length cs = 16"
    "\<forall>password. generateHash stack draws password rounds = bcrypt_hash password n cs"
    by (rule generateHash_eq [of stack draws rounds])
  have h: "bcrypt_hash password n cs = Inr h" using assms p(4) by simp
  obtain ct where ct: "h = bcrypt_output 98 n cs ct"
    using h by (auto simp: bcrypt_hash_def bind_res_Inr_iff)
  have "char_of (98 :: nat) = CHR ''b''" by (simp flip: of_char_eq_iff [where 'a = nat])
  then show ?thesis
    using ascii_two_digits [of n] p(2) ascii_encode_base64
    by (auto simp: ct bcrypt_output_def BCRYPT_VERSION_def ascii_def list_all_iff)
qed

lemma hash_accepted:
  obtains h where "hashPasswordBcrypt stack draws password = Inr h" "ascii h"
    "\<forall>stack'. validatePasswordBcrypt stack' password h = Inr True"
proof -
  obtain n cs where p: "4 \<le> n" "n \<le> 31" "length cs = 16"
    "\<forall>password. generateHash stack draws password 12 = bcrypt_hash password n cs"
    by (rule generateHash_eq [of stack draws 12])
  obtain h r where h: "bcrypt_hash password n cs = Inr h" "length h = 60"
    by (rule bcrypt_hash_ok [OF p(1-3)])
  then have "generateHash stack draws password 12 = Inr h" by (simp add: p(4))
  then show thesis
    using that [of h] generateHash_ascii h validatePassword_eq [OF h(1) p(1-3)]
    by (simp add: hashPasswordBcrypt_def validatePasswordBcrypt_def bind_res_def)
qed

lemma exec_insert_ok:
  assumes "r = build_row (create_schema t) now vals" "known_columns (create_schema t) vals"
    and "columns_ok (create_schema t) r" "keys_free (create_schema t) (D t) r" "references D (create_schema t) r"
  shows "exec_insert now t vals D = Some (D(t := D t @ [r]))"
  using assms by (simp add: exec_insert_def Let_def del: create_schema.simps)

lemma insert_account_row:
  assumes "list_all (\<lambda>r. r C_username \<noteq> SText (norm E username)) (D T_accounts)" "fresh_id T_accounts uuid D"
  obtains r where "exec_insert now T_accounts (account_values E uuid username hashed) D =
      Some (D(T_accounts := D T_accounts @ [r]))"
    "r C_id = SUuid uuid" "r C_username = SText (norm E username)" "r C_password = SText hashed"
    "r C_creation_date = STime now"
proof -
  define r where "r = build_row (create_schema T_accounts) now (account_values E uuid username hashed)"
  have vals: "r C_id = SUuid uuid" "r C_username = SText (norm E username)" "r C_password = SText hashed"
    "r C_creation_date = STime now"
    by (simp_all add: r_def build_row_def account_values_def bind_string_def schema_defs default_value_def)
  have "columns_ok (create_schema T_accounts) r"
    using vals by (simp add: columns_ok_def has_type_def schema_defs)
  moreover have "keys_free (create_schema T_accounts) (D T_accounts) r"
    using assms vals
    by (auto simp: keys_free_def schema_defs fresh_id_def list_all_iff list_ex_iff conflict_iff)
  moreover have "known_columns (create_schema T_accounts) (account_values E uuid username hashed)"
    by (simp add: known_columns_def account_values_def table_cols_def schema_defs)
  moreover have "references D (create_schema T_accounts) r" by (simp add: references_def schema_defs)
  ultimately have "exec_insert now T_accounts (account_values E uuid username hashed) D =
      Some (D(T_accounts := D T_accounts @ [r]))"
    by (intro exec_insert_ok [OF r_def])
  with vals show thesis using that by blast
qed

lemma insert_login_row:
  assumes "r \<in> set (D T_accounts)" "r C_id = SUuid account" "uuid \<noteq> null_uuid" "account \<noteq> null_uuid"
    "fresh_id T_logins uuid D"
  obtains D' where "exec_insert now T_logins [(C_id, bind_uuid Q uuid), (C_account_id, bind_uuid Q account),
      (C_ip, SText ip)] D = Some D'"
proof -
  define l where "l = build_row (create_schema T_logins) now [(C_id, bind_uuid Q uuid),
      (C_account_id, bind_uuid Q account), (C_ip, SText ip)]"
  have vals: "l C_id = SUuid uuid" "l C_account_id = SUuid account" "l C_ip = SText ip"
    "l C_login_date = STime now"
    using assms by (simp_all add: l_def build_row_def bind_uuid_def schema_defs default_value_def)
  have "columns_ok (create_schema T_logins) l" "references D (create_schema T_logins) l"
    "keys_free (create_schema T_logins) (D T_logins) l"
    using vals assms
    by (auto simp: columns_ok_def has_type_def schema_defs references_def keys_free_def fresh_id_def
        list_all_iff list_ex_iff conflict_iff)
  moreover have "known_columns (create_schema T_logins) [(C_id, bind_uuid Q uuid),
      (C_account_id, bind_uuid Q account), (C_ip, SText ip)]"
    by (simp add: known_columns_def table_cols_def schema_defs)
  ultimately show thesis by (intro that [OF exec_insert_ok [OF l_def]])
qed

text \<open>C16: An account created with a user name and a password is the one every later request for that
  name gives, and logging in with the same password succeeds with its UUID, as long as the
  name was free and the new UUIDs are new; the constraints of the database are kept.\<close>

theorem created_account_logs_in:
  fixes S :: sql_env and s :: store and username password ip :: bytes and E :: env and uuid login :: quuid
  defines "E \<equiv> se_env S" and "uuid \<equiv> e_uuid E (w_uuids (st_world s))"
    and "login \<equiv> e_uuid E (w_uuids (st_world s) + 1)"
  assumes D: "constraints (st_db s)" and name: "username \<noteq> []" "w_lookup_name (st_world s) username = None"
      "list_all (\<lambda>r. r C_username \<noteq> SText (norm E username)) (st_db s T_accounts)"
    and new: "uuid \<noteq> null_uuid" "login \<noteq> null_uuid" "fresh_id T_accounts uuid (st_db s)"
      "fresh_id T_logins login (st_db s)"
    and ascii: "\<And>t. ascii t \<Longrightarrow> norm E t = t"
  shows "\<exists>a s' s''. sql_account_get_or_create S username password s = Inr (Some a, s') \<and>
    constraints (st_db s') \<and> a_uid (w_accs (st_world s') a) = uuid \<and>
    sql_account_get_or_create S username other s' = Inr (Some a, s') \<and>
    insertAccount S (norm E username) (norm E password) ip s' = Inr (Success, Some uuid, s'')"
proof -
  let ?w = "st_world s"
  obtain h where h: "hashPasswordBcrypt (se_stack S (w_uuids ?w)) (se_draws S (w_uuids ?w)) (norm E password) = Inr h"
    "norm E h = h" "\<forall>stack'. validatePasswordBcrypt stack' (norm E password) h = Inr True"
    using hash_accepted ascii by metis
  obtain r where r: "exec_insert (se_clock S) T_accounts (account_values E uuid username h) (st_db s) =
      Some ((st_db s)(T_accounts := st_db s T_accounts @ [r]))"
    "r C_id = SUuid uuid" "r C_username = SText (norm E username)" "r C_password = SText h"
    by (rule insert_account_row [OF name(3) new(3)])
  define D1 where "D1 = (st_db s)(T_accounts := st_db s T_accounts @ [r])"
  obtain D2 where D2: "exec_insert (se_clock S) T_logins [(C_id, bind_uuid (se_driver S) login),
      (C_account_id, bind_uuid (se_driver S) uuid), (C_ip, SText ip)] D1 = Some D2"
    by (rule insert_login_row [of r D1 uuid login]) (use r new in \<open>simp_all add: D1_def fresh_id_def\<close>)
  obtain a w1 where a: "account_create_from_db E uuid username h (e_now E) (?w\<lparr>w_uuids := w_uuids ?w + 1\<rparr>) = (a, w1)"
    by fastforce
  note w1 = account_create_from_db_new [OF _ a]
  have none: "select T_accounts (\<lambda>r. sql_eq (r C_username) (bind_string E username)) (st_db s) = []"
    using name(3) by (simp add: select_def bind_string_def filter_empty_conv list_all_iff)
  then have one: "select T_accounts (\<lambda>r. r C_username = SText (norm E username)) D1 = [r]"
    by (simp add: D1_def select_def r bind_string_def)
  have create: "sql_account_get_or_create S username password s = Inr (Some a, s\<lparr>st_db := D1, st_world := w1\<rparr>)"
    using a r(1) by (simp add: sql_account_get_or_create_def Let_def name(2) none create_uuid_def h
        flip: E_def uuid_def D1_def)
  have again: "sql_account_get_or_create S username other (s\<lparr>st_db := D1, st_world := w1\<rparr>) =
      Inr (Some a, s\<lparr>st_db := D1, st_world := w1\<rparr>)"
    using w1 name by (simp add: sql_account_get_or_create_def)
  have login: "e_uuid (se_env S) (Suc (w_uuids ?w)) = login" by (simp add: login_def E_def)
  have "insertAccount S (norm E username) (norm E password) ip (s\<lparr>st_db := D1, st_world := w1\<rparr>) =
      Inr (Success, Some uuid, (snd (create_uuid S (s\<lparr>st_db := D1, st_world := w1\<rparr>)))\<lparr>st_db := D2\<rparr>)"
    using w1(6) name(2) D2 h(3)
    by (simp add: insertAccount_def one r to_uuid_def to_text_def Let_def create_uuid_def login)
  moreover have "constraints D1" using constraints_insert [OF D r(1)] by (simp add: D1_def)
  moreover have "a_uid (w_accs w1 a) = uuid" using w1 name(2) by (simp add: account_object_def)
  ultimately show ?thesis using create again by fastforce
qed

lemma created_account_logs_in_witness:
  "\<exists>a s' s''. sql_account_get_or_create sample_sql ''bob'' ''pw'' (empty_store initial_world) = Inr (Some a, s') \<and>
     insertAccount sample_sql ''bob'' ''pw'' ''127.0.0.1'' s' = Inr (Success, Some 1, s'')"
proof -
  have plain: "norm sample_env t = t" for t by (simp add: norm_def sample_env_def ascii_unicode_def)
  have start: "se_env sample_sql = sample_env" "st_db (empty_store initial_world) = (\<lambda>_. [])"
    "w_lookup_name (st_world (empty_store initial_world)) = Map.empty"
    "w_uuids (st_world (empty_store initial_world)) = 0" "e_uuid sample_env 0 = 1" "e_uuid sample_env (Suc 0) = 2"
    by (simp_all add: sample_sql_def empty_store_def initial_world_def sample_env_def)
  show ?thesis
    using created_account_logs_in [where s = "empty_store initial_world" and username = "''bob''" and S = sample_sql
        and password = "''pw''" and ip = "''127.0.0.1''" and other = "[]"]
    by (simp add: start plain constraints_empty fresh_id_def) blast
qed

end
