(* ===== verification/Sql_Channels.thy ===== *)
theory Sql_Channels
  imports Sql_Accounts
begin

text \<open>
  The channel functions of \<open>lib/sql.cpp\<close>: looking a channel up or creating it, loading all
  channels, and the memberships in \<open>account_channels\<close>. The rows of a join come in the order of the
  memberships.
\<close>

section \<open>Channels\<close>

definition account_by_uuid :: "store \<Rightarrow> sqlval \<Rightarrow> acc_id option" where
  "account_by_uuid s v = (if to_uuid v = null_uuid then None else get_by_uid (st_world s) (to_uuid v))"

definition server_by_uuid :: "store \<Rightarrow> sqlval \<Rightarrow> nat option" where
  "server_by_uuid s v = (if to_uuid v = null_uuid then None else server_get_by_uid (to_uuid v) (st_servers s))"

definition channel_of_row :: "row \<Rightarrow> store \<Rightarrow> (chan_id option \<times> store) res" where
  "channel_of_row r s =
     bind_res (channel_create_from_db (to_uuid (r C_id)) (to_text (r C_name)) (to_text (r C_topic))
         (account_by_uuid s (r C_account_owner_id)) (server_by_uuid s (r C_server_id))
         (to_time (r C_creation_date)) (st_world s))
       (\<lambda>(p, w1). Inr (p, s\<lparr>st_world := w1\<rparr>))"

definition channel_values ::
    "sql_env \<Rightarrow> quuid \<Rightarrow> bytes \<Rightarrow> bytes \<Rightarrow> acc_id option \<Rightarrow> nat \<Rightarrow> store \<Rightarrow> (col \<times> sqlval) list" where
  "channel_values S uuid name topic owner server s =
     (let Q = se_driver S in
      [(C_id, bind_uuid Q uuid), (C_name, bind_bytes_text Q name), (C_topic, bind_bytes_text Q topic),
       (C_account_owner_id,
          case owner of None \<Rightarrow> SNull | Some a \<Rightarrow> bind_uuid Q (a_uid (w_accs (st_world s) a))),
       (C_server_id, bind_uuid Q (sv_uid (g_heap (st_servers s) server)))])"

definition sql_channel_get_or_create ::
    "sql_env \<Rightarrow> bytes \<Rightarrow> bytes \<Rightarrow> acc_id option \<Rightarrow> nat option \<Rightarrow> store \<Rightarrow> (chan_id option \<times> store) res" where
  "sql_channel_get_or_create S name topic owner server s =
     (case channel_get name (st_world s) of
        Some x \<Rightarrow> Inr (Some x, s)
      | None \<Rightarrow>
          (case select T_channels (\<lambda>r. sql_eq (r C_name) (bind_bytes_text (se_driver S) name)) (st_db s) of
             r # _ \<Rightarrow> channel_of_row r s
           | [] \<Rightarrow>
               (case server of
                  None \<Rightarrow> Inr (None, s)
                | Some p \<Rightarrow>
                    let (uuid, s1) = create_uuid S s in
                    (case exec_insert (se_clock S) T_channels (channel_values S uuid name topic owner p s1) (st_db s1) of
                       None \<Rightarrow> Inr (None, s1)
                     | Some D1 \<Rightarrow>
                         bind_res (channel_create_from_db uuid name topic owner server (e_now (se_env S)) (st_world s1))
                           (\<lambda>(x, w1). Inr (x, s1\<lparr>st_db := D1, st_world := w1\<rparr>))))))"

definition sql_channel_exists :: "sql_env \<Rightarrow> bytes \<Rightarrow> store \<Rightarrow> bool" where
  "sql_channel_exists S name s \<longleftrightarrow>
     name \<in> fst ` set (w_channels (st_world s)) \<or>
     select T_channels (\<lambda>r. sql_eq (r C_name) (bind_bytes_text (se_driver S) name)) (st_db s) \<noteq> []"

definition load_channel :: "row \<Rightarrow> chan_id option list \<times> store \<Rightarrow> (chan_id option list \<times> store) res" where
  "load_channel r = (\<lambda>(channels, s).
     bind_res (channel_of_row r s) (\<lambda>(x, s1). Inr (channels @ [x], s1)))"

definition sql_channel_get_all :: "store \<Rightarrow> (chan_id option list \<times> store) res" where
  "sql_channel_get_all s = load_pages load_channel (select T_channels (\<lambda>_. True) (st_db s)) 0 ([], s)"

text \<open>\<open>insertChannel\<close> gives a name only.\<close>

definition insertChannel :: "sql_env \<Rightarrow> bytes \<Rightarrow> db \<Rightarrow> bool \<times> db" where
  "insertChannel S name D =
     (case exec_insert (se_clock S) T_channels [(C_name, SText name)] D of
        None \<Rightarrow> (False, D)
      | Some D1 \<Rightarrow> (True, D1))"

section \<open>Members\<close>

definition member_rows :: "db \<Rightarrow> quuid \<Rightarrow> sql_driver \<Rightarrow> row list" where
  "member_rows D channel_id Q =
     concat (map (\<lambda>ac. select T_accounts (\<lambda>a. sql_eq (a C_id) (ac C_account_id)) D)
       (select T_account_channels (\<lambda>ac. sql_eq (ac C_channel_id) (bind_uuid Q channel_id)) D))"

definition load_member :: "env \<Rightarrow> row \<Rightarrow> acc_id list \<times> world \<Rightarrow> acc_id list \<times> world" where
  "load_member E r = (\<lambda>(members, w). let (a, w1) = account_of_row E r w in (members @ [a], w1))"

definition sql_channel_get_members :: "sql_env \<Rightarrow> quuid \<Rightarrow> store \<Rightarrow> acc_id list \<times> store" where
  "sql_channel_get_members S channel_id s =
     (if channel_id = null_uuid then ([], s)
      else
        let (members, w1) = fold (load_member (se_env S))
          (member_rows (st_db s) channel_id (se_driver S)) ([], st_world s)
        in (members, s\<lparr>st_world := w1\<rparr>))"

definition member_values :: "sql_driver \<Rightarrow> quuid \<Rightarrow> quuid \<Rightarrow> (col \<times> sqlval) list" where
  "member_values Q account_id channel_id =
     [(C_account_id, bind_uuid Q account_id), (C_channel_id, bind_uuid Q channel_id)]"

definition sql_channel_add_member :: "sql_env \<Rightarrow> quuid \<Rightarrow> quuid \<Rightarrow> db \<Rightarrow> bool \<times> db" where
  "sql_channel_add_member S account_id channel_id D =
     (case exec_insert_or_nothing (se_clock S) T_account_channels None
             (member_values (se_driver S) account_id channel_id) D of
        None \<Rightarrow> (False, D)
      | Some D1 \<Rightarrow> (True, D1))"

definition sql_channel_remove_member :: "sql_env \<Rightarrow> quuid \<Rightarrow> quuid \<Rightarrow> db \<Rightarrow> bool \<times> db" where
  "sql_channel_remove_member S account_id channel_id D =
     (let P = (\<lambda>r :: row. sql_eq (r C_account_id) (bind_uuid (se_driver S) account_id)
          \<and> sql_eq (r C_channel_id) (bind_uuid (se_driver S) channel_id))
      in (select T_account_channels P D \<noteq> [], exec_delete T_account_channels P D))"

definition sql_account_get_channels :: "sql_env \<Rightarrow> quuid \<Rightarrow> store \<Rightarrow> (chan_id option list \<times> store) res" where
  "sql_account_get_channels S account_id s =
     fold_res load_channel
       (concat (map (\<lambda>ac. select T_channels (\<lambda>c. sql_eq (c C_id) (ac C_channel_id)) (st_db s))
          (select T_account_channels (\<lambda>ac. sql_eq (ac C_account_id) (bind_uuid (se_driver S) account_id)) (st_db s))))
       ([], s)"

text \<open>Creating a channel from its name alone always fails and changes nothing: the row would
  have neither UUID nor server.\<close>

theorem insertChannel_fails: "insertChannel S name D = (False, D)"
  by (simp add: insertChannel_def exec_insert_def build_row_def columns_ok_def schema_defs default_value_def)

section \<open>Memberships\<close>

definition member_of :: "db \<Rightarrow> quuid \<Rightarrow> quuid \<Rightarrow> bool" where
  "member_of D a c \<longleftrightarrow> list_ex (\<lambda>r. r C_account_id = SUuid a \<and> r C_channel_id = SUuid c) (D T_account_channels)"

definition has_row :: "table_name \<Rightarrow> quuid \<Rightarrow> db \<Rightarrow> bool" where
  "has_row t u D = list_ex (\<lambda>r. r C_id = SUuid u) (D t)"

lemma member_exists:
  assumes "constraints D" "member_of D a c"
  shows "has_row T_accounts a D" "has_row T_channels c D"
proof -
  obtain r where r: "r \<in> set (D T_account_channels)" "r C_account_id = SUuid a" "r C_channel_id = SUuid c"
    using assms(2) by (auto simp: member_of_def list_ex_iff)
  then have "references D (create_schema T_account_channels) r"
    using assms(1) unfolding constraints_def by blast
  then show "has_row T_accounts a D" "has_row T_channels c D"
    using r by (simp_all add: references_def schema_defs has_row_def)
qed

lemma add_member_eq:
  assumes "constraints D" "a \<noteq> null_uuid" "c \<noteq> null_uuid"
  obtains r where "sql_channel_add_member S a c D =
    (if member_of D a c then (True, D)
     else if has_row T_accounts a D \<and> has_row T_channels c D
     then (True, D(T_account_channels := D T_account_channels @ [r])) else (False, D))"
    "r C_account_id = SUuid a" "r C_channel_id = SUuid c"
proof -
  define r where "r = build_row (create_schema T_account_channels) (se_clock S) (member_values (se_driver S) a c)"
  have vals: "r C_account_id = SUuid a" "r C_channel_id = SUuid c"
    using assms by (simp_all add: r_def build_row_def member_values_def bind_uuid_def)
  have known: "known_columns (create_schema T_account_channels) (member_values (se_driver S) a c)"
    by (simp add: known_columns_def member_values_def table_cols_def schema_defs)
  have cols: "columns_ok (create_schema T_account_channels) r"
    using vals by (simp add: columns_ok_def has_type_def schema_defs)
  have free: "keys_free (create_schema T_account_channels) (D T_account_channels) r \<longleftrightarrow> \<not> member_of D a c"
    using vals by (auto simp: keys_free_def schema_defs member_of_def conflict_iff list_all_iff list_ex_iff)
  have refs: "references D (create_schema T_account_channels) r \<longleftrightarrow> has_row T_accounts a D \<and> has_row T_channels c D"
    using vals by (simp add: references_def schema_defs has_row_def)
  show thesis
    by (rule that [OF _ vals])
      (simp add: sql_channel_add_member_def exec_insert_or_nothing_def exec_insert_def Let_def known cols free refs
        flip: r_def del: create_schema.simps)
qed

lemma remove_member_eq:
  assumes "a \<noteq> null_uuid" "c \<noteq> null_uuid"
  shows "sql_channel_remove_member S a c D =
    (member_of D a c, D(T_account_channels :=
       filter (\<lambda>r. \<not> (r C_account_id = SUuid a \<and> r C_channel_id = SUuid c)) (D T_account_channels)))"
  using assms
  by (auto simp: sql_channel_remove_member_def Let_def exec_delete_leaf bind_uuid_def member_of_def select_def
      filter_empty_conv list_ex_iff)

text \<open>C36: A membership can be stored exactly when the account and the channel are, and then it is in the
  database besides the ones that were there; removing one reports whether it was there and leaves the
  others; storing and removing keep the constraints of the database.\<close>

theorem memberships_stored:
  fixes a c a' c' :: quuid and S :: sql_env and D :: db
  assumes D: "constraints D" and ids: "a \<noteq> null_uuid" "c \<noteq> null_uuid"
  defines "added \<equiv> sql_channel_add_member S a c D" and "removed \<equiv> sql_channel_remove_member S a c D"
  shows "constraints (snd added) \<and> constraints (snd removed) \<and>
    (fst added \<longleftrightarrow> has_row T_accounts a D \<and> has_row T_channels c D) \<and>
    (member_of (snd added) a' c' \<longleftrightarrow> member_of D a' c' \<or> (fst added \<and> a' = a \<and> c' = c)) \<and>
    (fst removed \<longleftrightarrow> member_of D a c) \<and>
    (member_of (snd removed) a' c' \<longleftrightarrow> member_of D a' c' \<and> (a', c') \<noteq> (a, c))"
proof -
  obtain r where r: "added = (if member_of D a c then (True, D)
     else if has_row T_accounts a D \<and> has_row T_channels c D
     then (True, D(T_account_channels := D T_account_channels @ [r])) else (False, D))"
    "r C_account_id = SUuid a" "r C_channel_id = SUuid c"
    unfolding added_def by (rule add_member_eq [OF D ids])
  note removed = remove_member_eq [OF ids, of S D, folded removed_def]
  have "constraints (snd added)"
    using D by (auto simp: added_def sql_channel_add_member_def intro: constraints_insert_or_nothing split: option.split)
  moreover have "constraints (snd removed)"
    by (simp add: removed_def sql_channel_remove_member_def Let_def constraints_delete_leaf D)
  moreover have "fst added \<longleftrightarrow> has_row T_accounts a D \<and> has_row T_channels c D"
    using member_exists [OF D, of a c] by (auto simp: r(1))
  moreover have "member_of (snd added) a' c' \<longleftrightarrow> member_of D a' c' \<or> (fst added \<and> a' = a \<and> c' = c)"
    using r(2,3) by (auto simp: r(1) member_of_def)
  moreover have "fst removed \<longleftrightarrow> member_of D a c"
    "member_of (snd removed) a' c' \<longleftrightarrow> member_of D a' c' \<and> (a', c') \<noteq> (a, c)"
    by (auto simp: removed member_of_def list_ex_iff)
  ultimately show ?thesis by blast
qed

definition sample_db :: db where
  "sample_db = (\<lambda>_. [])
     (T_accounts := [build_row accounts_table 4 (account_values sample_env 8 ''bob'' ''hash'')],
      T_servers := [build_row servers_table 4 [(C_id, SUuid 9), (C_name, SText ''home''), (C_account_owner_id, SUuid 8)]],
      T_channels := [build_row channels_table 4
        [(C_id, SUuid 10), (C_server_id, SUuid 9), (C_name, SText ''x''), (C_account_owner_id, SUuid 8)]])"

lemma constraints_sample_db: "constraints sample_db"
  unfolding constraints_def
proof
  fix t show "keys_apart (create_schema t) (sample_db t) \<and>
      (\<forall>r \<in> set (sample_db t). columns_ok (create_schema t) r \<and> references sample_db (create_schema t) r)"
    by (cases t) (simp_all add: sample_db_def keys_apart_def columns_ok_def references_def has_type_def build_row_def
        account_values_def bind_string_def schema_defs default_value_def)
qed

lemma memberships_stored_witness:
  "member_of (snd (sql_channel_add_member sample_sql 8 10 sample_db)) 8 10 \<and>
   \<not> member_of (snd (sql_channel_remove_member sample_sql 8 10 sample_db)) 8 10"
  using memberships_stored [OF constraints_sample_db, where a = 8 and c = 10 and a' = 8 and c' = 10 and S = sample_sql]
  by (simp add: has_row_def) (simp add: sample_db_def build_row_def account_values_def)

end
