(* ===== verification/Sql_Servers.thy ===== *)
theory Sql_Servers
  imports Sql_Channels
begin

text \<open>
  The functions of \<open>lib/sql.cpp\<close> for uploads, permissions, roles and servers: each looks a row up,
  or inserts it, and loads it into memory with \<open>create_from_db\<close>.
\<close>

section \<open>Uploads and permissions\<close>

definition to_int :: "sqlval \<Rightarrow> int" where
  "to_int v = (case v of SInt i \<Rightarrow> i | _ \<Rightarrow> 0)"

definition upload_load :: "env \<Rightarrow> upload_row \<Rightarrow> store \<Rightarrow> nat \<times> store" where
  "upload_load E row s =
     (let (p, g) = upload_create_from_db E row (st_uploads s) in (p, s\<lparr>st_uploads := g\<rparr>))"

definition upload_get_or_create ::
    "sql_env \<Rightarrow> quuid \<Rightarrow> bytes \<Rightarrow> int \<Rightarrow> int \<Rightarrow> store \<Rightarrow> nat option \<times> store" where
  "upload_get_or_create S account_id path type variant s =
     (let E = se_env S; owner = bind_uuid (se_driver S) account_id in
      case select T_uploads (\<lambda>r. sql_eq (r C_account_owner_id) owner \<and> sql_eq (r C_path) (SText path)) (st_db s) of
        r # _ \<Rightarrow>
          let (p, s1) = upload_load E (to_uuid (r C_id), to_uuid (r C_account_owner_id), to_text (r C_path),
                to_int (r C_type), to_int (r C_variant), to_time (r C_creation_date)) s
          in (Some p, s1)
      | [] \<Rightarrow>
          let (uuid, s1) = create_uuid S s in
          (case exec_insert (se_clock S) T_uploads
                  [(C_id, bind_uuid (se_driver S) uuid), (C_account_owner_id, owner), (C_path, SText path),
                   (C_type, SInt type), (C_variant, SInt variant)] (st_db s1) of
             None \<Rightarrow> (None, s1)
           | Some D1 \<Rightarrow>
               let (p, s2) = upload_load E (uuid, account_id, path, type, variant, e_now E) (s1\<lparr>st_db := D1\<rparr>)
               in (Some p, s2)))"

definition permission_load :: "env \<Rightarrow> permission_row \<Rightarrow> store \<Rightarrow> nat \<times> store" where
  "permission_load E row s =
     (let (p, g) = permission_create_from_db E row (st_permissions s) in (p, s\<lparr>st_permissions := g\<rparr>))"

definition permission_get_or_create :: "sql_env \<Rightarrow> quuid \<Rightarrow> flags \<Rightarrow> store \<Rightarrow> nat option \<times> store" where
  "permission_get_or_create S role_id bits s =
     (let E = se_env S; role = bind_uuid (se_driver S) role_id in
      case select T_permissions (\<lambda>r. sql_eq (r C_role_id) role) (st_db s) of
        r # _ \<Rightarrow>
          let (p, s1) = permission_load E (to_uuid (r C_id), to_uuid (r C_role_id),
                word_of_int (to_int (r C_permission_bits)), e_now E) s
          in (Some p, s1)
      | [] \<Rightarrow>
          let (uuid, s1) = create_uuid S s in
          (case exec_insert (se_clock S) T_permissions
                  [(C_id, bind_uuid (se_driver S) uuid), (C_role_id, role), (C_permission_bits, SInt (sint bits))]
                  (st_db s1) of
             None \<Rightarrow> (None, s1)
           | Some D1 \<Rightarrow>
               let (p, s2) = permission_load E (uuid, role_id, bits, e_now E) (s1\<lparr>st_db := D1\<rparr>)
               in (Some p, s2)))"

section \<open>Roles\<close>

definition role_row_of :: "row \<Rightarrow> role_row" where
  "role_row_of r = (to_uuid (r C_id), to_uuid (r C_server_id), to_text (r C_name), to_uuid (r C_icon),
     to_int (r C_color), to_int (r C_priority), to_time (r C_creation_date))"

text \<open>\<open>Role::create_from_db\<close>, then \<open>server->add_role\<close>.\<close>

definition enter_role :: "env \<Rightarrow> nat \<Rightarrow> row \<Rightarrow> store \<Rightarrow> (nat \<times> store) res" where
  "enter_role E server r s =
     (let (p, R) = role_create_from_db E (role_row_of r) (st_roles s) in
      bind_res (server_add_role R server p (st_servers s)) (\<lambda>g.
        Inr (p, s\<lparr>st_roles := R, st_servers := g\<rparr>)))"

definition account_role_values :: "sql_driver \<Rightarrow> quuid \<Rightarrow> quuid \<Rightarrow> (col \<times> sqlval) list" where
  "account_role_values Q account_id role_id =
     [(C_account_id, bind_uuid Q account_id), (C_role_id, bind_uuid Q role_id)]"

definition insert_account_role :: "sql_env \<Rightarrow> quuid \<Rightarrow> quuid \<Rightarrow> db \<Rightarrow> bool \<times> db" where
  "insert_account_role S account_id role_id D =
     (case exec_insert_or_nothing (se_clock S) T_account_roles None
             (account_role_values (se_driver S) account_id role_id) D of
        None \<Rightarrow> (False, D)
      | Some D1 \<Rightarrow> (True, D1))"

definition role_values :: "sql_env \<Rightarrow> quuid \<Rightarrow> quuid \<Rightarrow> bytes \<Rightarrow> int \<Rightarrow> quuid \<Rightarrow> (col \<times> sqlval) list" where
  "role_values S uuid server_id name priority icon =
     [(C_id, bind_uuid (se_driver S) uuid), (C_server_id, bind_uuid (se_driver S) server_id),
      (C_name, SText name), (C_priority, SInt priority), (C_icon, if icon = null_uuid then SNull else SUuid icon)]"

definition create_role_for_server ::
    "sql_env \<Rightarrow> nat option \<Rightarrow> bytes \<Rightarrow> int \<Rightarrow> quuid \<Rightarrow> bool \<Rightarrow> flags \<Rightarrow> store \<Rightarrow> (nat option \<times> store) res" where
  "create_role_for_server S server role_name priority icon assign_to_members permissions s =
     (case server of
        None \<Rightarrow> Inr (None, s)
      | Some p \<Rightarrow>
          let E = se_env S; Q = se_driver S; server_id = sv_uid (g_heap (st_servers s) p) in
          if server_id = null_uuid then Inr (None, s)
          else
            (case select T_roles (\<lambda>r. sql_eq (r C_server_id) (bind_uuid Q server_id) \<and> sql_eq (r C_name) (SText role_name)) (st_db s) of
               r # _ \<Rightarrow> bind_res (enter_role E p r s) (\<lambda>(role, s1). Inr (Some role, s1))
             | [] \<Rightarrow>
                 let (uuid, s1) = create_uuid S s in
                 (case exec_insert (se_clock S) T_roles (role_values S uuid server_id role_name priority icon) (st_db s1) of
                    None \<Rightarrow> Inr (None, s1)
                  | Some D1 \<Rightarrow>
                      (case select T_roles (\<lambda>r. sql_eq (r C_id) (bind_uuid Q uuid)) D1 of
                         [] \<Rightarrow> Inr (None, s1\<lparr>st_db := D1\<rparr>)
                       | r # _ \<Rightarrow>
                           bind_res (enter_role E p r (s1\<lparr>st_db := D1\<rparr>)) (\<lambda>(role, s2).
                             let s3 = snd (permission_get_or_create S (rl_uid (g_heap (st_roles s2) role)) permissions s2);
                                 members = server_all_accounts (g_heap (st_servers s3) p)
                             in Inr (Some role,
                                  if assign_to_members
                                  then s3\<lparr>st_db := fold (\<lambda>m D. snd (insert_account_role S (a_uid (w_accs (st_world s3) m)) uuid D))
                                         members (st_db s3)\<rparr>
                                  else s3))))))"

definition assign_role_to_account :: "sql_env \<Rightarrow> quuid \<Rightarrow> nat option \<Rightarrow> store \<Rightarrow> bool \<times> store" where
  "assign_role_to_account S account_id role s =
     (case role of
        None \<Rightarrow> (False, s)
      | Some r \<Rightarrow>
          if account_id = null_uuid then (False, s)
          else
            let (ok, D1) = insert_account_role S account_id (rl_uid (g_heap (st_roles s) r)) (st_db s)
            in (ok, s\<lparr>st_db := D1\<rparr>))"

section \<open>Servers\<close>

definition everyone :: bytes where "everyone = ''@everyone''"

definition server_add_member :: "sql_env \<Rightarrow> quuid \<Rightarrow> quuid \<Rightarrow> store \<Rightarrow> (bool \<times> store) res" where
  "server_add_member S account_id server_id s =
     (let Q = se_driver S in
      if account_id = null_uuid \<or> server_id = null_uuid then Inr (False, s)
      else if select T_server_members (\<lambda>r. sql_eq (r C_account_id) (bind_uuid Q account_id)
                \<and> sql_eq (r C_server_id) (bind_uuid Q server_id)) (st_db s) \<noteq> []
      then Inr (True, s)
      else
        (case exec_insert (se_clock S) T_server_members
                [(C_account_id, bind_uuid Q account_id), (C_server_id, bind_uuid Q server_id)] (st_db s) of
           None \<Rightarrow> Inr (False, s)
         | Some D1 \<Rightarrow>
             let s1 = s\<lparr>st_db := D1\<rparr> in
             (case server_get_by_uid server_id (st_servers s1) of
                None \<Rightarrow> Inr (True, s1)
              | Some p \<Rightarrow>
                  bind_res (server_add_account (st_world s1) p (get_by_uid (st_world s1) account_id) (st_servers s1)) (\<lambda>g.
                    let s2 = s1\<lparr>st_servers := g\<rparr>;
                        role = server_role_by_name (st_roles s2) everyone (g_heap g p)
                    in Inr (True, if role = None then s2 else snd (assign_role_to_account S account_id role s2))))))"

definition server_load :: "env \<Rightarrow> server_row \<Rightarrow> store \<Rightarrow> (nat \<times> store) res" where
  "server_load E row s =
     bind_res (server_create_from_db E row (st_servers s)) (\<lambda>(p, g). Inr (p, s\<lparr>st_servers := g\<rparr>))"

text \<open>The row of the server, found or inserted, as an object.\<close>

definition server_find_or_insert ::
    "sql_env \<Rightarrow> bytes \<Rightarrow> acc_id \<Rightarrow> store \<Rightarrow> (nat option \<times> store) res" where
  "server_find_or_insert S name owner s =
     (let E = se_env S; Q = se_driver S in
      case select T_servers (\<lambda>r. sql_eq (r C_name) (bind_bytes_text Q name)) (st_db s) of
        r # _ \<Rightarrow>
          bind_res (server_load E (to_uuid (r C_id), to_text (r C_name),
              get_by_uid (st_world s) (to_uuid (r C_account_owner_id)), to_time (r C_creation_date)) s)
            (\<lambda>(p, s1). Inr (Some p, s1))
      | [] \<Rightarrow>
          let (uuid, s1) = create_uuid S s in
          (case exec_insert (se_clock S) T_servers
                  [(C_id, bind_uuid Q uuid), (C_name, bind_bytes_text Q name),
                   (C_account_owner_id, bind_uuid Q (a_uid (w_accs (st_world s1) owner)))] (st_db s1) of
             None \<Rightarrow> Inr (None, s1)
           | Some D1 \<Rightarrow>
               bind_res (server_load E (uuid, name, Some owner, e_now E) (s1\<lparr>st_db := D1\<rparr>))
                 (\<lambda>(p, s2). Inr (Some p, s2))))"

definition load_server_members :: "sql_env \<Rightarrow> nat \<Rightarrow> store \<Rightarrow> store res" where
  "load_server_members S p s =
     fold_res (\<lambda>r s.
         case w_lookup_uuid (st_world s) (to_uuid (r C_account_id)) of
           None \<Rightarrow> Inr s
         | Some a \<Rightarrow>
             bind_res (server_add_account (st_world s) p (Some a) (st_servers s)) (\<lambda>g. Inr (s\<lparr>st_servers := g\<rparr>)))
       (select T_server_members
          (\<lambda>r. sql_eq (r C_server_id) (bind_uuid (se_driver S) (sv_uid (g_heap (st_servers s) p)))) (st_db s)) s"

definition server_get_or_create :: "sql_env \<Rightarrow> bytes \<Rightarrow> acc_id option \<Rightarrow> store \<Rightarrow> (nat option \<times> store) res" where
  "server_get_or_create S name owner s =
     (case owner of
        None \<Rightarrow> Inr (None, s)
      | Some a \<Rightarrow>
          (case server_get_by_name name (st_servers s) of
             Some p \<Rightarrow> Inr (Some p, s)
           | None \<Rightarrow>
               bind_res (server_find_or_insert S name a s) (\<lambda>(server, s1).
                 case server of
                   None \<Rightarrow> Inr (None, s1)
                 | Some p \<Rightarrow>
                     bind_res (create_role_for_server S (Some p) everyone 0 null_uuid True 0 s1) (\<lambda>(_, s2).
                     bind_res (server_add_member S (a_uid (w_accs (st_world s2) a)) (sv_uid (g_heap (st_servers s2) p)) s2) (\<lambda>(_, s3).
                     bind_res (server_add_account (st_world s3) p (Some a) (st_servers s3)) (\<lambda>g.
                     bind_res (load_server_members S p (s3\<lparr>st_servers := g\<rparr>)) (\<lambda>s4.
                     Inr (Some p, s4))))))))"

section \<open>One role per name\<close>

lemma exec_insert_other: "exec_insert now t vals D = Some D' \<Longrightarrow> u \<noteq> t \<Longrightarrow> D' u = D u"
  by (auto simp: exec_insert_def Let_def split: if_splits)

lemma exec_insert_or_nothing_other:
  "exec_insert_or_nothing now t target vals D = Some D' \<Longrightarrow> u \<noteq> t \<Longrightarrow> D' u = D u"
  by (auto simp: exec_insert_or_nothing_def Let_def exec_insert_other split: if_splits option.splits)

lemma exec_insert_row:
  assumes "exec_insert now t vals D = Some D'"
  obtains r where "r = build_row (create_schema t) now vals" "D' = D(t := D t @ [r])"
    "columns_ok (create_schema t) r" "keys_free (create_schema t) (D t) r" "references D (create_schema t) r"
  using assms by (auto simp: exec_insert_def Let_def split: if_splits)

lemma permission_get_or_create_frame:
  assumes "permission_get_or_create S role_id bits s = (p, s1)" "constraints (st_db s)"
  shows "st_roles s1 = st_roles s" "st_servers s1 = st_servers s" "st_db s1 T_roles = st_db s T_roles"
    "constraints (st_db s1)"
  using assms
  by (auto simp: permission_get_or_create_def permission_load_def create_uuid_def Let_def exec_insert_other
      constraints_insert split: list.splits option.splits prod.splits)

lemma insert_account_roles_frame:
  "constraints D \<Longrightarrow> constraints (fold (\<lambda>m D. snd (insert_account_role S (f m) role D)) ms D) \<and>
     fold (\<lambda>m D. snd (insert_account_role S (f m) role D)) ms D T_roles = D T_roles"
proof (induction ms arbitrary: D)
  case (Cons m ms)
  have "constraints (snd (insert_account_role S (f m) role D)) \<and> snd (insert_account_role S (f m) role D) T_roles = D T_roles"
    using Cons.prems
    by (auto simp: insert_account_role_def constraints_insert_or_nothing exec_insert_or_nothing_other split: option.split)
  with Cons.IH [of "snd (insert_account_role S (f m) role D)"] show ?case by simp
qed simp

lemma role_create_found:
  "role_create_from_db E row R = (p, R1) \<Longrightarrow> g_by_uuid R1 (fst row) = Some p"
  "g_by_uuid R (fst row) = Some p \<Longrightarrow> role_create_from_db E row R = (p, R)"
  by (cases row; auto simp: role_create_from_db_def role_get_by_uid_def allocate_def role_setter_defs
      role_cache.by_uuid_ins Let_def split: option.splits)+

lemma enter_role_found:
  assumes "enter_role E p r s = Inr (role, s1)"
  shows "g_by_uuid (st_roles s1) (to_uuid (r C_id)) = Some role" "st_db s1 = st_db s"
    "\<not> sv_locked (g_heap (st_servers s1) p)" "sv_uid (g_heap (st_servers s1) p) = sv_uid (g_heap (st_servers s) p)"
proof -
  obtain R where R: "role_create_from_db E (role_row_of r) (st_roles s) = (role, R)" "st_roles s1 = R"
    and g: "server_add_role R p role (st_servers s) = Inr (st_servers s1)" and db: "st_db s1 = st_db s"
    using assms by (auto simp: enter_role_def bind_res_Inr_iff Let_def split: prod.splits)
  show "g_by_uuid (st_roles s1) (to_uuid (r C_id)) = Some role"
    using role_create_found(1) [OF R(1)] R(2) by (simp add: role_row_of_def)
  show "st_db s1 = st_db s" by (rule db)
  show "\<not> sv_locked (g_heap (st_servers s1) p)" "sv_uid (g_heap (st_servers s1) p) = sv_uid (g_heap (st_servers s) p)"
    using g by (auto simp: server_add_role_def server_write_def simp flip: \<open>st_roles s1 = R\<close> split: if_splits
        dest!: sym [of "modify p _ _"])
qed

lemma enter_role_again:
  assumes "g_by_uuid (st_roles s) (to_uuid (r C_id)) = Some role" "\<not> sv_locked (g_heap (st_servers s) p)"
  shows "\<exists>s1. enter_role E p r s = Inr (role, s1) \<and> st_db s1 = st_db s"
  using assms role_create_found(2) [of "st_roles s" "role_row_of r" role E]
  by (simp add: enter_role_def role_row_of_def server_add_role_def server_write_def)

text \<open>Asking for a role of a server that was created or found before gives the same role and changes
  no row, whatever the other parameters of the request are; the constraints of the database, and so
  the uniqueness of the name among the roles of a server, are kept.\<close>

theorem role_created_once:
  fixes priority priority' :: int and icon icon' :: quuid and assign assign' :: bool and flags flags' :: flags
  assumes D: "constraints (st_db s)"
    and first: "create_role_for_server S (Some p) name priority icon assign flags s = Inr (Some role, s1)"
  shows "constraints (st_db s1) \<and>
    (\<exists>s2. create_role_for_server S (Some p) name priority' icon' assign' flags' s1 = Inr (Some role, s2) \<and>
       st_db s2 = st_db s1)"
proof -
  let ?sid = "sv_uid (g_heap (st_servers s) p)"
  let ?named = "\<lambda>r :: row. r C_server_id = SUuid ?sid \<and> r C_name = SText name"
  have sid: "?sid \<noteq> null_uuid" using first by (auto simp: create_role_for_server_def Let_def split: if_splits)
  have again: ?thesis
    if "constraints (st_db s1)" "filter ?named (st_db s1 T_roles) = r # rs"
      "g_by_uuid (st_roles s1) (to_uuid (r C_id)) = Some role"
      "\<not> sv_locked (g_heap (st_servers s1) p)" "sv_uid (g_heap (st_servers s1) p) = ?sid" for r rs
    using that sid enter_role_again [where s = s1 and r = r and p = p and E = "se_env S", OF that(3,4)]
    by (auto simp: create_role_for_server_def Let_def select_def bind_uuid_def)
  show ?thesis
  proof (cases "filter ?named (st_db s T_roles)")
    case (Cons r rs)
    then have "enter_role (se_env S) p r s = Inr (role, s1)"
      using first sid by (auto simp: create_role_for_server_def Let_def select_def bind_uuid_def bind_res_Inr_iff)
    note found = enter_role_found [OF this]
    show ?thesis using again [of r rs] found D Cons by simp
  next
    case Nil
    define uuid where "uuid = fst (create_uuid S s)"
    define s0 where "s0 = snd (create_uuid S s)"
    have s0: "create_uuid S s = (uuid, s0)" "st_db s0 = st_db s" "st_servers s0 = st_servers s"
      by (simp_all add: uuid_def s0_def create_uuid_def Let_def)
    obtain D1 where ins: "exec_insert (se_clock S) T_roles (role_values S uuid ?sid name priority icon) (st_db s) = Some D1"
      using first sid Nil
      by (auto simp: create_role_for_server_def Let_def select_def bind_uuid_def s0 split: option.splits)
    obtain q where q: "q = build_row (create_schema T_roles) (se_clock S) (role_values S uuid ?sid name priority icon)"
      "D1 = (st_db s)(T_roles := st_db s T_roles @ [q])" "columns_ok (create_schema T_roles) q"
      "keys_free (create_schema T_roles) (st_db s T_roles) q"
      by (rule exec_insert_row [OF ins])
    have cells: "q C_id = bind_uuid (se_driver S) uuid" "?named q"
      using sid by (simp_all add: q(1) build_row_def role_values_def bind_uuid_def)
    have "q C_id \<noteq> SNull" using q(3) by (simp add: columns_ok_def schema_defs)
    then have "filter (\<lambda>r. sql_eq (r C_id) (q C_id)) (D1 T_roles) = [q]"
      using q(2,4) by (auto simp: keys_free_def schema_defs list_ex_iff conflict_iff sql_eq_def filter_empty_conv)
    then have fetch: "select T_roles (\<lambda>r. sql_eq (r C_id) (bind_uuid (se_driver S) uuid)) D1 = [q]"
      by (simp add: select_def cells(1))
    obtain s2 where s2: "enter_role (se_env S) p q (s0\<lparr>st_db := D1\<rparr>) = Inr (role, s2)"
      and s1: "let s3 = snd (permission_get_or_create S (rl_uid (g_heap (st_roles s2) role)) flags s2) in
        s1 = (if assign then s3\<lparr>st_db := fold (\<lambda>m D. snd (insert_account_role S (a_uid (w_accs (st_world s3) m)) uuid D))
            (server_all_accounts (g_heap (st_servers s3) p)) (st_db s3)\<rparr> else s3)"
      using first sid Nil
      by (auto simp: create_role_for_server_def Let_def select_def bind_uuid_def
          s0 ins fetch [unfolded select_def bind_uuid_def] bind_res_Inr_iff)
    note found = enter_role_found [OF s2]
    obtain pr s3 where perm: "permission_get_or_create S (rl_uid (g_heap (st_roles s2) role)) flags s2 = (pr, s3)"
      by fastforce
    have D1: "constraints D1" using constraints_insert [OF D ins] .
    then have D2: "constraints (st_db s2)" using found(2) by simp
    note frame = permission_get_or_create_frame [OF perm D2]
    have s1': "constraints (st_db s1) \<and> st_db s1 T_roles = D1 T_roles \<and> st_roles s1 = st_roles s2 \<and>
        st_servers s1 = st_servers s2"
      using s1 frame found(2) insert_account_roles_frame [OF frame(4), where f = "\<lambda>m. a_uid (w_accs (st_world s3) m)"
          and S = S and role = uuid and ms = "server_all_accounts (g_heap (st_servers s3) p)"]
      by (simp add: perm Let_def)
    have "filter ?named (st_db s1 T_roles) = [q]" using s1' Nil cells(2) by (simp add: q(2))
    then show ?thesis using again [of q "[]"] found(1,3,4) s1' s0(3) by simp
  qed
qed

definition sample_role_store :: store where
  "sample_role_store = (empty_store initial_world)
     \<lparr>st_db := sample_db(T_roles := [build_row roles_table 4
        [(C_id, SUuid 11), (C_server_id, SUuid 9), (C_name, SText everyone)]]),
      st_servers := (empty_registry (new_server_obj []))\<lparr>g_heap := (\<lambda>_. (new_server_obj ''home'')\<lparr>sv_uid := 9\<rparr>), g_next := 1\<rparr>\<rparr>"

lemma constraints_sample_role: "constraints (st_db sample_role_store)"
  unfolding constraints_def
proof
  fix t show "keys_apart (create_schema t) (st_db sample_role_store t) \<and>
      (\<forall>r \<in> set (st_db sample_role_store t). columns_ok (create_schema t) r \<and>
         references (st_db sample_role_store) (create_schema t) r)"
    by (cases t) (simp_all add: sample_role_store_def empty_store_def sample_db_def keys_apart_def columns_ok_def
        references_def has_type_def build_row_def account_values_def bind_string_def schema_defs default_value_def)
qed

lemma role_created_once_witness:
  "\<exists>role s1 s2. create_role_for_server sample_sql (Some 0) everyone 0 null_uuid True 0 sample_role_store = Inr (Some role, s1) \<and>
     create_role_for_server sample_sql (Some 0) everyone 5 null_uuid False 1 s1 = Inr (Some role, s2) \<and> st_db s2 = st_db s1"
proof -
  define r where "r = build_row roles_table 4 [(C_id, SUuid 11), (C_server_id, SUuid 9), (C_name, SText everyone)]"
  have "filter (\<lambda>q. q C_server_id = SUuid 9 \<and> q C_name = SText everyone) [r] = [r]"
    by (simp add: r_def build_row_def)
  moreover have "sv_uid (g_heap (st_servers sample_role_store) 0) = 9" "st_db sample_role_store T_roles = [r]"
    "\<not> sv_locked (g_heap (st_servers sample_role_store) 0)"
    by (simp_all add: sample_role_store_def new_server_obj_def r_def)
  ultimately have "\<exists>role s1. create_role_for_server sample_sql (Some 0) everyone 0 null_uuid True 0 sample_role_store = Inr (Some role, s1)"
    by (simp add: create_role_for_server_def Let_def select_def bind_uuid_def enter_role_def server_add_role_def
        server_write_def split: prod.split)
  then show ?thesis using role_created_once [OF constraints_sample_role] by blast
qed

end
