(* ===== verification/Startup.thy ===== *)
theory Startup
  imports Sql_Servers
begin

text \<open>
  The start of the program: \<open>preload_from_file\<close> of \<open>lib/sql.cpp\<close>, which creates the accounts, servers
  and channels of a JSON file, and the part of \<open>Ctx::Ctx\<close> (\<open>ctx.cpp\<close>) that loads the channels,
  their members and the accounts from the database.
\<close>

section \<open>The preload file\<close>

text \<open>The values of \<open>QJsonValue\<close> that have another type than the one asked for.\<close>

definition qjson_object :: "json \<Rightarrow> (bytes \<times> json) list" where
  "qjson_object v = (case v of JObj kvs \<Rightarrow> kvs | _ \<Rightarrow> [])"

definition qjson_field :: "json \<Rightarrow> bytes \<Rightarrow> json" where
  "qjson_field v k = (case map_of (qjson_object v) k of Some x \<Rightarrow> x | None \<Rightarrow> JNull)"

definition qjson_array :: "json \<Rightarrow> json list" where
  "qjson_array v = (case v of JArr xs \<Rightarrow> xs | _ \<Rightarrow> [])"

definition qjson_string :: "json \<Rightarrow> bytes" where
  "qjson_string v = (case v of JStr s \<Rightarrow> s | _ \<Rightarrow> [])"

definition add_account_to :: "nat \<Rightarrow> acc_id \<Rightarrow> store \<Rightarrow> store res" where
  "add_account_to p a s =
     bind_res (server_add_account (st_world s) p (Some a) (st_servers s)) (\<lambda>g. Inr (s\<lparr>st_servers := g\<rparr>))"

text \<open>\<open>server_add_member\<close>, then \<open>server->add_account\<close>.\<close>

definition join_server :: "sql_env \<Rightarrow> nat \<Rightarrow> acc_id \<Rightarrow> store \<Rightarrow> store res" where
  "join_server S p a s =
     bind_res (server_add_member S (a_uid (w_accs (st_world s) a)) (sv_uid (g_heap (st_servers s) p)) s)
       (\<lambda>(_, s1). add_account_to p a s1)"

type_synonym servers_by_name = "bytes \<rightharpoonup> nat"
type_synonym accounts_by_name = "bytes \<rightharpoonup> acc_id"

definition preload_server ::
    "sql_env \<Rightarrow> acc_id \<Rightarrow> json \<Rightarrow> servers_by_name \<times> store \<Rightarrow> (servers_by_name \<times> store) res" where
  "preload_server S admin obj = (\<lambda>(servers, s).
     let name = qjson_string (qjson_field obj ''name'') in
     bind_res (server_get_or_create S name (Some admin) s) (\<lambda>(server, s1).
       case server of
         None \<Rightarrow> Inr (servers, s1)
       | Some p \<Rightarrow> bind_res (join_server S p admin s1) (\<lambda>s2. Inr (servers(name \<mapsto> p), s2))))"

definition preload_user ::
    "sql_env \<Rightarrow> servers_by_name \<Rightarrow> json \<Rightarrow> accounts_by_name \<times> store \<Rightarrow> (accounts_by_name \<times> store) res" where
  "preload_user S servers obj = (\<lambda>(accounts, s).
     let name = qjson_string (qjson_field obj ''name'') in
     bind_res (sql_account_get_or_create S name (qjson_string (qjson_field obj ''password'')) s) (\<lambda>(acc, s1).
       case acc of
         None \<Rightarrow> Inr (accounts, s1)
       | Some a \<Rightarrow>
           (case servers (qjson_string (qjson_field obj ''server'')) of
              None \<Rightarrow> Inr (accounts(name \<mapsto> a), s1)
            | Some p \<Rightarrow> bind_res (join_server S p a s1) (\<lambda>s2. Inr (accounts(name \<mapsto> a), s2)))))"

definition preload_member ::
    "sql_env \<Rightarrow> accounts_by_name \<Rightarrow> nat option \<Rightarrow> chan_id \<Rightarrow> json \<Rightarrow> store \<Rightarrow> store res" where
  "preload_member S accounts server x v s =
     (case accounts (qjson_string v) of
        None \<Rightarrow> Inr s
      | Some m \<Rightarrow>
          let s1 = s\<lparr>st_db := snd (sql_channel_add_member S (a_uid (w_accs (st_world s) m))
                (ch_uid (w_chans (st_world s) x)) (st_db s))\<rparr>
          in (case server of None \<Rightarrow> Inr s1 | Some p \<Rightarrow> add_account_to p m s1))"

definition preload_channel ::
    "sql_env \<Rightarrow> servers_by_name \<Rightarrow> accounts_by_name \<Rightarrow> json \<Rightarrow> store \<Rightarrow> store res" where
  "preload_channel S servers accounts obj s =
     (let server = servers (qjson_string (qjson_field obj ''server'')) in
      bind_res (sql_channel_get_or_create S (qjson_string (qjson_field obj ''name'')) (qjson_string (qjson_field obj ''topic''))
          (accounts (qjson_string (qjson_field obj ''owner''))) server s) (\<lambda>(channel, s1).
        case channel of
          None \<Rightarrow> Inr s1
        | Some x \<Rightarrow>
            bind_res
              (case server of
                 None \<Rightarrow> Inr s1
               | Some p \<Rightarrow> bind_res (server_add_channel (st_world s1) p x (st_servers s1)) (\<lambda>g. Inr (s1\<lparr>st_servers := g\<rparr>)))
              (fold_res (preload_member S accounts server x) (qjson_array (qjson_field obj ''members'')))))"

text \<open>\<open>file\<close> is the parsed document, if the file can be read and holds one.\<close>

definition preload_from_file :: "sql_env \<Rightarrow> json option \<Rightarrow> store \<Rightarrow> (bool \<times> store) res" where
  "preload_from_file S file s =
     (case file of
        None \<Rightarrow> Inr (False, s)
      | Some root \<Rightarrow>
          bind_res (sql_account_get_or_create S ''admin'' ''admin'' s) (\<lambda>(acc, s1).
            case acc of
              None \<Rightarrow> Inr (False, s1)
            | Some admin \<Rightarrow>
                bind_res (fold_res (preload_server S admin) (qjson_array (qjson_field root ''servers'')) (Map.empty, s1)) (\<lambda>(servers, s2).
                bind_res (fold_res (preload_user S servers) (qjson_array (qjson_field root ''users'')) ([''admin'' \<mapsto> admin], s2)) (\<lambda>(accounts, s3).
                bind_res (fold_res (preload_channel S servers accounts) (qjson_array (qjson_field root ''channels'')) s3) (\<lambda>s4.
                Inr (True, s4))))))"

section \<open>Loading the database\<close>

text \<open>The body of the loop over the channels in \<open>Ctx::Ctx\<close>.\<close>

definition enter_channel :: "sql_env \<Rightarrow> chan_id option \<Rightarrow> store \<Rightarrow> store res" where
  "enter_channel S channel s =
     bind_res (deref_opt channel) (\<lambda>x.
       let w = st_world s;
           w1 = w\<lparr>w_channels := hash_put (ch_name (w_chans w x)) (Some x) (w_channels w)\<rparr>;
           (members, s2) = sql_channel_get_members S (ch_uid (w_chans w1 x)) (s\<lparr>st_world := w1\<rparr>)
       in Inr (s2\<lparr>st_world := channel_add_members x members (st_world s2)\<rparr>))"

definition load_database :: "sql_env \<Rightarrow> store \<Rightarrow> store res" where
  "load_database S s =
     bind_res (sql_channel_get_all s) (\<lambda>(channels, s1).
     bind_res (fold_res (enter_channel S) channels s1) (\<lambda>s2.
     bind_res (sql_account_get_all S s2) (\<lambda>(_, s3). Inr s3)))"

definition ctx_start :: "sql_env \<Rightarrow> json option \<Rightarrow> store \<Rightarrow> store res" where
  "ctx_start S file s = bind_res (preload_from_file S file s) (\<lambda>(_, s1). load_database S s1)"

section \<open>Accounts under loading\<close>

definition accounts_from :: "row list \<Rightarrow> world \<Rightarrow> bool" where
  "accounts_from rows w \<longleftrightarrow>
     (\<forall>n a. w_lookup_name w n = Some a \<longrightarrow> a < w_next_acc w \<and>
        (\<exists>r \<in> set rows. to_text (r C_username) = n \<and> a_uid (w_accs w a) = to_uuid (r C_id)))"

definition same_accounts :: "world \<Rightarrow> world \<Rightarrow> bool" where
  "same_accounts w w' \<longleftrightarrow>
     w_next_acc w \<le> w_next_acc w' \<and> (\<forall>a < w_next_acc w. a_uid (w_accs w' a) = a_uid (w_accs w a))"

lemma same_accounts_trans: "same_accounts w1 w2 \<Longrightarrow> same_accounts w2 w3 \<Longrightarrow> same_accounts w1 w3"
  by (auto simp: same_accounts_def)

lemma usernames_unique:
  assumes "constraints D" "r \<in> set (D T_accounts)" "r' \<in> set (D T_accounts)"
    and "to_text (r C_username) = to_text (r' C_username)"
  shows "r = r'"
proof (rule keys_unique [OF assms(1) _ assms(2,3)])
  show "[C_username] \<in> set (tb_keys (create_schema T_accounts))" by (simp add: schema_defs)
  have "\<exists>t. q C_username = SText t" if "q \<in> set (D T_accounts)" for q
    using constraints_columns [OF assms(1) that]
    by (cases "q C_username") (auto simp: columns_ok_def schema_defs has_type_def)
  then obtain t t' where "r C_username = SText t" "r' C_username = SText t'" using assms(2,3) by metis
  with assms(4) show "conflict [C_username] r r'" by (simp add: conflict_iff to_text_def)
qed

lemma account_create_from_db_channels:
  "w_chans (snd (account_create_from_db E uid n pw t w)) = w_chans w"
  "w_channels (snd (account_create_from_db E uid n pw t w)) = w_channels w"
  by (auto simp: account_create_from_db_def Let_def account_set_uid_def account_set_name_def
      account_set_password_def account_insert_cache_def irc_nicks_insert_cache_def split: option.split)

lemma load_account:
  assumes rows: "\<And>q. q \<in> set rows \<Longrightarrow> to_text (q C_username) = to_text (r C_username) \<Longrightarrow> q = r"
    and r: "r \<in> set rows" and known: "accounts_from rows w" and run: "account_of_row E r w = (a, w1)"
  shows "accounts_from rows w1" "same_accounts w w1" "a < w_next_acc w1"
    "a_uid (w_accs w1 a) = to_uuid (r C_id)" "w_chans w1 = w_chans w" "w_channels w1 = w_channels w"
proof -
  note run' = run [unfolded account_of_row_def]
  show "w_chans w1 = w_chans w" "w_channels w1 = w_channels w"
    using account_create_from_db_channels run' by (metis snd_conv)+
  have "accounts_from rows w1 \<and> same_accounts w w1 \<and> a < w_next_acc w1 \<and> a_uid (w_accs w1 a) = to_uuid (r C_id)"
  proof (cases "w_lookup_name w (to_text (r C_username))")
    case None
    note new = account_create_from_db_new [OF None run']
    have "a_uid (w_accs w1 a) = to_uuid (r C_id)" by (simp add: new account_object_def)
    moreover have "accounts_from rows w1"
      using known r by (auto simp: accounts_from_def new account_object_def less_Suc_eq)
    ultimately show ?thesis by (simp add: same_accounts_def new)
  next
    case (Some b)
    then have "a = b" "w1 = w" using run' by (simp_all add: account_create_from_db_known)
    moreover obtain q where "q \<in> set rows" "to_text (q C_username) = to_text (r C_username)"
      "a_uid (w_accs w b) = to_uuid (q C_id)" "b < w_next_acc w"
      using known Some unfolding accounts_from_def by blast
    ultimately show ?thesis using rows known by (auto simp: same_accounts_def)
  qed
  then show "accounts_from rows w1" "same_accounts w w1" "a < w_next_acc w1"
    "a_uid (w_accs w1 a) = to_uuid (r C_id)" by simp_all
qed

lemma load_member_step: "account_of_row E r w = (a, w1) \<Longrightarrow> load_member E r (l, w) = (l @ [a], w1)"
  by (simp add: load_member_def)

lemma load_members:
  assumes unique: "\<And>q r. q \<in> set rows \<Longrightarrow> r \<in> set rows \<Longrightarrow> to_text (q C_username) = to_text (r C_username) \<Longrightarrow> q = r"
    and sub: "set rs \<subseteq> set rows" and known: "accounts_from rows w"
  obtains ms w' where "fold (load_member E) rs (l, w) = (l @ ms, w')" "accounts_from rows w'" "same_accounts w w'"
    "\<forall>a \<in> set ms. a < w_next_acc w'" "map (\<lambda>a. a_uid (w_accs w' a)) ms = map (\<lambda>r. to_uuid (r C_id)) rs"
    "w_chans w' = w_chans w" "w_channels w' = w_channels w"
  using sub known
proof (induction rs arbitrary: l w thesis)
  case Nil
  then show ?case by (simp add: same_accounts_def)
next
  case (Cons r rs)
  obtain a w1 where run: "account_of_row E r w = (a, w1)" by fastforce
  have r: "r \<in> set rows" and rs: "set rs \<subseteq> set rows" using Cons.prems(2) by simp_all
  note step = load_account [OF unique [OF _ r] r Cons.prems(3) run]
  obtain ms w' where IH: "fold (load_member E) rs (l @ [a], w1) = ((l @ [a]) @ ms, w')" "accounts_from rows w'"
    "same_accounts w1 w'" "\<forall>a \<in> set ms. a < w_next_acc w'"
    "map (\<lambda>a. a_uid (w_accs w' a)) ms = map (\<lambda>r. to_uuid (r C_id)) rs"
    "w_chans w' = w_chans w1" "w_channels w' = w_channels w1"
    by (rule Cons.IH [OF _ rs step(1)])
  have "a_uid (w_accs w' a) = to_uuid (r C_id)" "a < w_next_acc w'"
    using IH(3) step(3,4) by (simp_all add: same_accounts_def)
  then show ?case
    using IH step(5,6) same_accounts_trans [OF step(2) IH(3)]
    by (intro Cons.prems(1) [of "a # ms" w']) (simp_all add: load_member_step [OF run])
qed

section \<open>Channels under loading\<close>

definition row_channel :: "store \<Rightarrow> row \<Rightarrow> channel" where
  "row_channel s r = (new_channel (to_text (r C_name)))
     \<lparr>ch_uid := to_uuid (r C_id), ch_topic := to_text (r C_topic),
      ch_owner := account_by_uuid s (r C_account_owner_id), ch_server := server_by_uuid s (r C_server_id),
      ch_creation := to_time (r C_creation_date)\<rparr>"

lemma row_channel_simps:
  "ch_uid (row_channel s r) = to_uuid (r C_id)" "ch_name (row_channel s r) = to_text (r C_name)"
  "ch_topic (row_channel s r) = to_text (r C_topic)" "ch_members (row_channel s r) = []"
  "ch_owner (row_channel s r) = account_by_uuid s (r C_account_owner_id)"
  by (simp_all add: row_channel_def new_channel_def)

definition new_channel_world :: "store \<Rightarrow> row \<Rightarrow> world" where
  "new_channel_world s r =
     (let x = w_next_chan (st_world s);
          w1 = upd_chan x (\<lambda>_. row_channel s r) (st_world s\<lparr>w_next_chan := x + 1\<rparr>)
      in w1\<lparr>w_channels := hash_put (to_text (r C_name)) (Some x) (w_channels w1)\<rparr>)"

lemma upd_chan_twice: "upd_chan x f (upd_chan x g w) = upd_chan x (\<lambda>c. f (g c)) w"
  by (simp add: upd_chan_def)

lemma chan_write_upd:
  "\<not> ch_locked (g (w_chans w x)) \<Longrightarrow> chan_write x f (upd_chan x g w) = Inr (upd_chan x (\<lambda>c. f (g c)) w)"
  by (simp add: chan_write_def upd_chan_twice)

lemma channel_create_from_db_new:
  assumes "map_of (w_channels w) name = None"
  shows "channel_create_from_db uid name topic owner server creation w =
    (let x = w_next_chan w;
         w1 = upd_chan x (\<lambda>_. (new_channel name)\<lparr>ch_uid := uid, ch_topic := topic, ch_owner := owner,
                ch_server := server, ch_creation := creation\<rparr>) (w\<lparr>w_next_chan := x + 1\<rparr>)
     in Inr (Some x, w1\<lparr>w_channels := hash_put name (Some x) (w_channels w1)\<rparr>))"
  using assms
  by (cases owner; cases "topic = []")
    (simp_all add: channel_create_from_db_def Let_def channel_set_name_def channel_set_owner_def
      channel_set_server_def channel_set_topic_def chan_write_upd upd_chan_twice new_channel_def)

lemma channel_of_row_new:
  assumes "map_of (w_channels (st_world s)) (to_text (r C_name)) = None"
  shows "channel_of_row r s = Inr (Some (w_next_chan (st_world s)), s\<lparr>st_world := new_channel_world s r\<rparr>)"
  using assms
  by (simp add: channel_of_row_def channel_create_from_db_new new_channel_world_def row_channel_def Let_def)

lemma new_channel_world_simps [simp]:
  "w_accs (new_channel_world s r) = w_accs (st_world s)"
  "w_next_acc (new_channel_world s r) = w_next_acc (st_world s)"
  "w_lookup_name (new_channel_world s r) = w_lookup_name (st_world s)"
  "w_lookup_uuid (new_channel_world s r) = w_lookup_uuid (st_world s)"
  "w_next_chan (new_channel_world s r) = w_next_chan (st_world s) + 1"
  "w_chans (new_channel_world s r) = (w_chans (st_world s))(w_next_chan (st_world s) := row_channel s r)"
  "map_of (w_channels (new_channel_world s r)) =
     (map_of (w_channels (st_world s)))(to_text (r C_name) \<mapsto> Some (w_next_chan (st_world s)))"
  by (simp_all add: new_channel_world_def Let_def)

definition row_name :: "row \<Rightarrow> bytes" where
  "row_name r = to_text (r C_name)"

text \<open>The channels in memory, one for each row.\<close>

definition loaded_channels :: "store \<Rightarrow> row list \<Rightarrow> chan_id list \<Rightarrow> world \<Rightarrow> bool" where
  "loaded_channels s rows xs w \<longleftrightarrow> distinct xs \<and>
     list_all2 (\<lambda>r x. map_of (w_channels w) (row_name r) = Some (Some x) \<and> w_chans w x = row_channel s r) rows xs"

lemma load_channels:
  assumes "distinct (map row_name rows)" "\<forall>r \<in> set rows. map_of (w_channels (st_world s)) (row_name r) = None"
    and "w_lookup_uuid (st_world s) = w_lookup_uuid (st_world s0)" "st_servers s = st_servers s0"
  obtains xs w' where "fold_res load_channel rows (l, s) = Inr (l @ map Some xs, s\<lparr>st_world := w'\<rparr>)"
    "loaded_channels s0 rows xs w'" "\<forall>x \<in> set xs. w_next_chan (st_world s) \<le> x"
    "\<forall>x < w_next_chan (st_world s). w_chans w' x = w_chans (st_world s) x"
    "\<forall>n. n \<notin> row_name ` set rows \<longrightarrow> map_of (w_channels w') n = map_of (w_channels (st_world s)) n"
    "w_accs w' = w_accs (st_world s)" "w_next_acc w' = w_next_acc (st_world s)"
    "w_lookup_name w' = w_lookup_name (st_world s)"
  using assms
proof (induction rows arbitrary: l s thesis)
  case Nil
  show ?case by (rule Nil.prems(1) [of "[]" "st_world s"]) (simp_all add: loaded_channels_def)
next
  case (Cons r rows)
  let ?x = "w_next_chan (st_world s)"
  define s1 where "s1 = s\<lparr>st_world := new_channel_world s r\<rparr>"
  have none: "map_of (w_channels (st_world s)) (to_text (r C_name)) = None"
    using Cons.prems(3) by (simp add: row_name_def)
  have run: "load_channel r (l, s) = Inr (l @ [Some ?x], s1)"
    by (simp add: load_channel_def channel_of_row_new none s1_def)
  have apart: "\<forall>q \<in> set rows. row_name q \<noteq> row_name r"
    using Cons.prems(2) by (metis distinct.simps(2) image_eqI list.set_map list.simps(9))
  have obj: "row_channel s = row_channel s0"
    by (rule ext) (simp add: row_channel_def account_by_uuid_def server_by_uuid_def get_by_uid_def Cons.prems(4,5))
  obtain xs w' where IH: "fold_res load_channel rows (l @ [Some ?x], s1) = Inr ((l @ [Some ?x]) @ map Some xs, s1\<lparr>st_world := w'\<rparr>)"
    "loaded_channels s0 rows xs w'" "\<forall>x \<in> set xs. w_next_chan (st_world s1) \<le> x"
    "\<forall>x < w_next_chan (st_world s1). w_chans w' x = w_chans (st_world s1) x"
    "\<forall>n. n \<notin> row_name ` set rows \<longrightarrow> map_of (w_channels w') n = map_of (w_channels (st_world s1)) n"
    "w_accs w' = w_accs (st_world s1)" "w_next_acc w' = w_next_acc (st_world s1)"
    "w_lookup_name w' = w_lookup_name (st_world s1)"
    by (rule Cons.IH [where l = "l @ [Some ?x]" and s = s1])
      (use apart Cons.prems(2-5) in \<open>simp_all add: s1_def row_name_def\<close>)
  show ?case
  proof (rule Cons.prems(1) [of "?x # xs" w'])
    show "fold_res load_channel (r # rows) (l, s) = Inr (l @ map Some (?x # xs), s\<lparr>st_world := w'\<rparr>)"
      using IH(1) by (simp add: run) (simp add: s1_def)
    show "loaded_channels s0 (r # rows) (?x # xs) w'"
      using IH(2-5) Cons.prems(2) by (auto simp: loaded_channels_def s1_def obj row_name_def)
  qed (use IH(3-8) in \<open>auto simp: s1_def row_name_def\<close>)
qed

section \<open>Members under loading\<close>

lemma add_members_one:
  assumes "map_of (w_channels w) (ch_name (w_chans w x)) = Some (Some x)"
  shows "w_chans (channel_add_members x [m] w) =
      (w_chans w)(x := (w_chans w x)\<lparr>ch_members := ch_members (w_chans w x) @ [m]\<rparr>)"
    "map_of (w_channels (channel_add_members x [m] w)) = map_of (w_channels w)"
    "w_next_acc (channel_add_members x [m] w) = w_next_acc w"
    "w_lookup_name (channel_add_members x [m] w) = w_lookup_name w"
    "a_uid (w_accs (channel_add_members x [m] w) a) = a_uid (w_accs w a)"
  using assms by (simp_all add: channel_add_members_def channel_get_def Let_def fun_upd_idem)

lemma add_members_rec:
  "channel_add_members x [] w = w"
  "channel_add_members x (m # ms) w = channel_add_members x ms (channel_add_members x [m] w)"
  by (simp_all add: channel_add_members_def)

lemma add_members_eq:
  assumes "map_of (w_channels w) (ch_name (w_chans w x)) = Some (Some x)"
  shows "w_chans (channel_add_members x ms w) =
      (w_chans w)(x := (w_chans w x)\<lparr>ch_members := ch_members (w_chans w x) @ ms\<rparr>)"
    "map_of (w_channels (channel_add_members x ms w)) = map_of (w_channels w)"
    "w_next_acc (channel_add_members x ms w) = w_next_acc w"
    "w_lookup_name (channel_add_members x ms w) = w_lookup_name w"
    "a_uid (w_accs (channel_add_members x ms w) a) = a_uid (w_accs w a)"
proof -
  have "w_chans (channel_add_members x ms w) =
      (w_chans w)(x := (w_chans w x)\<lparr>ch_members := ch_members (w_chans w x) @ ms\<rparr>) \<and>
    map_of (w_channels (channel_add_members x ms w)) = map_of (w_channels w) \<and>
    w_next_acc (channel_add_members x ms w) = w_next_acc w \<and>
    w_lookup_name (channel_add_members x ms w) = w_lookup_name w \<and>
    (\<forall>a. a_uid (w_accs (channel_add_members x ms w) a) = a_uid (w_accs w a))"
    using assms
  proof (induction ms arbitrary: w)
    case Nil
    then show ?case by (simp add: add_members_rec(1))
  next
    case (Cons m ms)
    note one = add_members_one [OF Cons.prems, of m]
    have "map_of (w_channels (channel_add_members x [m] w)) (ch_name (w_chans (channel_add_members x [m] w) x)) = Some (Some x)"
      using Cons.prems by (simp add: one)
    from Cons.IH [OF this] show ?case by (auto simp: add_members_rec(2) [of x m ms] one fun_eq_iff)
  qed
  then show "w_chans (channel_add_members x ms w) =
      (w_chans w)(x := (w_chans w x)\<lparr>ch_members := ch_members (w_chans w x) @ ms\<rparr>)"
    "map_of (w_channels (channel_add_members x ms w)) = map_of (w_channels w)"
    "w_next_acc (channel_add_members x ms w) = w_next_acc w"
    "w_lookup_name (channel_add_members x ms w) = w_lookup_name w"
    "a_uid (w_accs (channel_add_members x ms w) a) = a_uid (w_accs w a)" by simp_all
qed

text \<open>One channel: its members are appended, and nothing else of a channel changes.\<close>

lemma enter_channel_step:
  assumes D: "constraints (st_db s)" and x: "map_of (w_channels (st_world s)) (ch_name (w_chans (st_world s) x)) = Some (Some x)"
    and uid: "ch_uid (w_chans (st_world s) x) \<noteq> null_uuid" and known: "accounts_from (st_db s T_accounts) (st_world s)"
  obtains w' ms where "enter_channel S (Some x) s = Inr (s\<lparr>st_world := w'\<rparr>)"
    "w_chans w' = (w_chans (st_world s))(x := (w_chans (st_world s) x)
       \<lparr>ch_members := ch_members (w_chans (st_world s) x) @ ms\<rparr>)"
    "map_of (w_channels w') = map_of (w_channels (st_world s))"
    "accounts_from (st_db s T_accounts) w'" "same_accounts (st_world s) w'" "\<forall>a \<in> set ms. a < w_next_acc w'"
    "map (\<lambda>a. a_uid (w_accs w' a)) ms =
      map (\<lambda>r. to_uuid (r C_id)) (member_rows (st_db s) (ch_uid (w_chans (st_world s) x)) (se_driver S))"
proof -
  let ?w = "st_world s"
  define w1 where "w1 = ?w\<lparr>w_channels := hash_put (ch_name (w_chans ?w x)) (Some x) (w_channels ?w)\<rparr>"
  have w1: "w_chans w1 = w_chans ?w" "map_of (w_channels w1) = map_of (w_channels ?w)" "w_accs w1 = w_accs ?w"
    "w_next_acc w1 = w_next_acc ?w" "w_lookup_name w1 = w_lookup_name ?w"
    using x by (simp_all add: w1_def fun_upd_idem)
  let ?rs = "member_rows (st_db s) (ch_uid (w_chans ?w x)) (se_driver S)"
  have rs: "set ?rs \<subseteq> set (st_db s T_accounts)" by (auto simp: member_rows_def select_def)
  have known1: "accounts_from (st_db s T_accounts) w1" using known by (simp add: accounts_from_def w1)
  obtain ms w2 where ms: "fold (load_member (se_env S)) ?rs ([], w1) = ([] @ ms, w2)"
    "accounts_from (st_db s T_accounts) w2" "same_accounts w1 w2" "\<forall>a \<in> set ms. a < w_next_acc w2"
    "map (\<lambda>a. a_uid (w_accs w2 a)) ms = map (\<lambda>r. to_uuid (r C_id)) ?rs" "w_chans w2 = w_chans w1"
    "w_channels w2 = w_channels w1"
    by (rule load_members [OF usernames_unique [OF D] rs known1])
  have x2: "map_of (w_channels w2) (ch_name (w_chans w2 x)) = Some (Some x)" using x by (simp add: ms(6,7) w1)
  note add = add_members_eq [OF x2, of ms]
  show thesis
  proof (rule that [of "channel_add_members x ms w2" ms])
    show "enter_channel S (Some x) s = Inr (s\<lparr>st_world := channel_add_members x ms w2\<rparr>)"
      using ms(1) uid by (simp add: enter_channel_def Let_def sql_channel_get_members_def w1 flip: w1_def)
    show "accounts_from (st_db s T_accounts) (channel_add_members x ms w2)"
      using ms(2) by (simp add: accounts_from_def add)
    show "same_accounts ?w (channel_add_members x ms w2)" using ms(3) by (simp add: same_accounts_def add w1)
  qed (use ms(4-7) in \<open>simp_all add: add w1\<close>)
qed

definition has_members :: "sql_env \<Rightarrow> store \<Rightarrow> channel \<Rightarrow> world \<Rightarrow> chan_id \<Rightarrow> bool" where
  "has_members S s c w x \<longleftrightarrow>
     (\<exists>ms. w_chans w x = c\<lparr>ch_members := ch_members c @ ms\<rparr> \<and> (\<forall>a \<in> set ms. a < w_next_acc w) \<and>
        map (\<lambda>a. a_uid (w_accs w a)) ms =
          map (\<lambda>r. to_uuid (r C_id)) (member_rows (st_db s) (ch_uid c) (se_driver S)))"

lemma has_members_later:
  assumes "has_members S s c w x" "same_accounts w w'" "w_chans w' x = w_chans w x"
  shows "has_members S s c w' x"
proof -
  obtain ms where ms: "w_chans w x = c\<lparr>ch_members := ch_members c @ ms\<rparr>" "\<forall>a \<in> set ms. a < w_next_acc w"
    "map (\<lambda>a. a_uid (w_accs w a)) ms =
          map (\<lambda>r. to_uuid (r C_id)) (member_rows (st_db s) (ch_uid c) (se_driver S))"
    using assms(1) unfolding has_members_def by blast
  have "map (\<lambda>a. a_uid (w_accs w' a)) ms = map (\<lambda>a. a_uid (w_accs w a)) ms"
    using ms(2) assms(2) by (simp add: same_accounts_def)
  moreover have "\<forall>a \<in> set ms. a < w_next_acc w'" using ms(2) assms(2) by (auto simp: same_accounts_def)
  ultimately show ?thesis using ms(1,3) assms(3) unfolding has_members_def by auto
qed

lemma enter_channels:
  assumes "constraints (st_db s)" "distinct xs" "accounts_from (st_db s T_accounts) (st_world s)"
    and "\<forall>x \<in> set xs. map_of (w_channels (st_world s)) (ch_name (w_chans (st_world s) x)) = Some (Some x) \<and>
      ch_uid (w_chans (st_world s) x) \<noteq> null_uuid"
  shows "\<exists>w'. fold_res (enter_channel S) (map Some xs) s = Inr (s\<lparr>st_world := w'\<rparr>) \<and>
    map_of (w_channels w') = map_of (w_channels (st_world s)) \<and> same_accounts (st_world s) w' \<and>
    accounts_from (st_db s T_accounts) w' \<and>
    (\<forall>x. x \<notin> set xs \<longrightarrow> w_chans w' x = w_chans (st_world s) x) \<and>
    (\<forall>x \<in> set xs. has_members S s (w_chans (st_world s) x) w' x)"
  using assms
proof (induction xs arbitrary: s)
  case Nil
  then show ?case by (intro exI [of _ "st_world s"]) (simp add: same_accounts_def)
next
  case (Cons x xs)
  let ?w = "st_world s"
  have x: "map_of (w_channels ?w) (ch_name (w_chans ?w x)) = Some (Some x)" "ch_uid (w_chans ?w x) \<noteq> null_uuid"
    using Cons.prems(4) by simp_all
  obtain w1 ms where step: "enter_channel S (Some x) s = Inr (s\<lparr>st_world := w1\<rparr>)"
    "w_chans w1 = (w_chans ?w)(x := (w_chans ?w x)\<lparr>ch_members := ch_members (w_chans ?w x) @ ms\<rparr>)"
    "map_of (w_channels w1) = map_of (w_channels ?w)" "accounts_from (st_db s T_accounts) w1" "same_accounts ?w w1"
    "\<forall>a \<in> set ms. a < w_next_acc w1"
    "map (\<lambda>a. a_uid (w_accs w1 a)) ms =
      map (\<lambda>r. to_uuid (r C_id)) (member_rows (st_db s) (ch_uid (w_chans ?w x)) (se_driver S))"
    by (rule enter_channel_step [OF Cons.prems(1) x Cons.prems(3)])
  have apart: "x \<notin> set xs" "distinct xs" using Cons.prems(2) by simp_all
  then have other: "\<forall>y \<in> set xs. w_chans w1 y = w_chans ?w y" by (auto simp: step(2))
  define s1 where "s1 = s\<lparr>st_world := w1\<rparr>"
  have s1: "st_db s1 = st_db s" "st_world s1 = w1" by (simp_all add: s1_def)
  have "\<forall>y \<in> set xs. map_of (w_channels w1) (ch_name (w_chans w1 y)) = Some (Some y) \<and> ch_uid (w_chans w1 y) \<noteq> null_uuid"
    using Cons.prems(4) other by (simp add: step(3))
  then obtain w' where IH: "fold_res (enter_channel S) (map Some xs) s1 = Inr (s1\<lparr>st_world := w'\<rparr>)"
    "map_of (w_channels w') = map_of (w_channels w1)" "same_accounts w1 w'" "accounts_from (st_db s T_accounts) w'"
    "\<forall>y. y \<notin> set xs \<longrightarrow> w_chans w' y = w_chans w1 y"
    "\<forall>y \<in> set xs. has_members S s1 (w_chans w1 y) w' y"
    using Cons.IH [of s1] Cons.prems(1) apart(2) step(4) unfolding s1 by blast
  have "has_members S s (w_chans ?w x) w1 x"
    using step(2,6,7) unfolding has_members_def by (intro exI [of _ ms]) simp
  then have "has_members S s (w_chans ?w x) w' x"
    by (rule has_members_later) (use IH(3,5) apart(1) in simp_all)
  moreover have "\<forall>y \<in> set xs. has_members S s (w_chans ?w y) w' y"
    using IH(6) other by (simp add: has_members_def s1)
  moreover have "fold_res (enter_channel S) (map Some (x # xs)) s = Inr (s\<lparr>st_world := w'\<rparr>)"
    using IH(1) by (simp add: step(1) flip: s1_def) (simp add: s1_def)
  moreover have "\<forall>y. y \<notin> set (x # xs) \<longrightarrow> w_chans w' y = w_chans ?w y" using IH(5) by (simp add: step(2))
  ultimately show ?case
    using IH(2,4) step(3) same_accounts_trans [OF step(5) IH(3)] by (intro exI [of _ w']) simp
qed

section \<open>What a start restores\<close>

lemma load_accounts_keeps:
  assumes "constraints D" "set rs \<subseteq> set (D T_accounts)" "accounts_from (D T_accounts) w"
  shows "same_accounts w (load_accounts E rs w) \<and> w_chans (load_accounts E rs w) = w_chans w \<and>
    w_channels (load_accounts E rs w) = w_channels w"
  using assms(2,3)
proof (induction rs arbitrary: w)
  case Nil
  then show ?case by (simp add: load_accounts_def same_accounts_def)
next
  case (Cons r rs)
  obtain a w1 where run: "account_of_row E r w = (a, w1)" by fastforce
  have r: "r \<in> set (D T_accounts)" "set rs \<subseteq> set (D T_accounts)" using Cons.prems(1) by simp_all
  note step = load_account [OF usernames_unique [OF assms(1) _ r(1)] r(1) Cons.prems(2) run]
  have "load_accounts E (r # rs) w = load_accounts E rs w1" by (simp add: load_accounts_def run)
  then show ?case using Cons.IH [OF r(2) step(1)] step(2,5,6) same_accounts_trans by auto
qed

lemma uuid_cell:
  assumes "constraints D" "r \<in> set (D t)" "d \<in> set (tb_columns (create_schema t))" "co_type d = UUID" "co_not_null d"
  obtains u where "r (co_name d) = SUuid u"
  using constraints_columns [OF assms(1,2)] assms(3-5)
  by (cases "r (co_name d)") (auto simp: columns_ok_def list_all_iff has_type_def)

lemma member_rows_of:
  assumes "constraints D" "c \<noteq> null_uuid"
  shows "u \<in> (\<lambda>r. to_uuid (r C_id)) ` set (member_rows D c Q) \<longleftrightarrow> member_of D u c"
proof
  assume "u \<in> (\<lambda>r. to_uuid (r C_id)) ` set (member_rows D c Q)"
  then obtain ac a where m: "ac \<in> set (D T_account_channels)" "ac C_channel_id = SUuid c" "a \<in> set (D T_accounts)"
    "sql_eq (a C_id) (ac C_account_id)" "u = to_uuid (a C_id)"
    using assms(2) by (auto simp: member_rows_def select_def bind_uuid_def)
  obtain v where "a C_id = SUuid v"
    using uuid_cell [OF assms(1) m(3), of "column C_id UUID True NoDefault"] by (auto simp: schema_defs)
  moreover from this have "ac C_account_id = SUuid v" using m(4) by (simp add: sql_eq_def)
  ultimately have "ac C_account_id = SUuid u" using m(5) by (simp add: to_uuid_def)
  with m show "member_of D u c" by (auto simp: member_of_def list_ex_iff)
next
  assume m: "member_of D u c"
  then obtain ac where ac: "ac \<in> set (D T_account_channels)" "ac C_account_id = SUuid u" "ac C_channel_id = SUuid c"
    by (auto simp: member_of_def list_ex_iff)
  obtain a where "a \<in> set (D T_accounts)" "a C_id = SUuid u"
    using member_exists(1) [OF assms(1) m] by (auto simp: has_row_def list_ex_iff)
  then have "a \<in> set (member_rows D c Q)"
    using ac assms(2) by (auto simp: member_rows_def select_def bind_uuid_def intro!: bexI [of _ ac])
  with \<open>a C_id = SUuid u\<close> show "u \<in> (\<lambda>r. to_uuid (r C_id)) ` set (member_rows D c Q)"
    by (auto simp: to_uuid_def intro!: image_eqI [of _ _ a])
qed

lemma list_all2_sets:
  assumes "list_all2 P xs ys"
  shows "x \<in> set xs \<Longrightarrow> \<exists>y \<in> set ys. P x y" "y \<in> set ys \<Longrightarrow> \<exists>x \<in> set xs. P x y"
  using assms by (induction rule: list_all2_induct) auto

lemma loaded_channel:
  assumes "loaded_channels s rows xs w"
  shows "r \<in> set rows \<Longrightarrow> \<exists>x \<in> set xs. map_of (w_channels w) (row_name r) = Some (Some x) \<and> w_chans w x = row_channel s r"
    and "x \<in> set xs \<Longrightarrow> \<exists>r \<in> set rows. map_of (w_channels w) (row_name r) = Some (Some x) \<and> w_chans w x = row_channel s r"
proof -
  have all2: "list_all2 (\<lambda>r x. map_of (w_channels w) (row_name r) = Some (Some x) \<and> w_chans w x = row_channel s r) rows xs"
    using assms by (simp only: loaded_channels_def)
  show "\<exists>x \<in> set xs. map_of (w_channels w) (row_name r) = Some (Some x) \<and> w_chans w x = row_channel s r"
    if "r \<in> set rows" using list_all2_sets(1) [OF all2 that] .
  show "\<exists>r \<in> set rows. map_of (w_channels w) (row_name r) = Some (Some x) \<and> w_chans w x = row_channel s r"
    if "x \<in> set xs" using list_all2_sets(2) [OF all2 that] .
qed

lemma restored_members:
  assumes "constraints (st_db s)" "has_members S (s\<lparr>st_world := w1\<rparr>) (row_channel s r) w x" "to_uuid (r C_id) \<noteq> null_uuid"
  obtains ms where "w_chans w x = (row_channel s r)\<lparr>ch_members := ms\<rparr>"
    "\<forall>u. u \<in> (\<lambda>a. a_uid (w_accs w a)) ` set ms \<longleftrightarrow> member_of (st_db s) u (to_uuid (r C_id))"
proof -
  let ?rows = "member_rows (st_db s) (to_uuid (r C_id)) (se_driver S)"
  obtain ms where ms: "w_chans w x = (row_channel s r)\<lparr>ch_members := ms\<rparr>"
    "map (\<lambda>a. a_uid (w_accs w a)) ms = map (\<lambda>q. to_uuid (q C_id)) ?rows"
    using assms(2) unfolding has_members_def row_channel_simps by auto
  have "(\<lambda>a. a_uid (w_accs w a)) ` set ms = (\<lambda>q. to_uuid (q C_id)) ` set ?rows"
    using arg_cong [OF ms(2), of set] by simp
  then show thesis using that [OF ms(1)] member_rows_of [OF assms(1,3)] by simp
qed

lemma channel_id_not_null:
  assumes "constraints D" "list_all (\<lambda>r. r C_id \<noteq> SUuid null_uuid) (D T_channels)" "r \<in> set (D T_channels)"
  shows "to_uuid (r C_id) \<noteq> null_uuid"
proof -
  obtain v where "r C_id = SUuid v"
    using uuid_cell [OF assms(1,3), of "column C_id UUID True NoDefault"] by (auto simp: schema_defs)
  then show ?thesis using assms(2,3) by (auto simp: list_all_iff to_uuid_def)
qed



end
