(* ===== verification/History.thy ===== *)
theory History
  imports Startup
begin

text \<open>
  What every write of the program keeps: the types of the columns, the keys and the foreign keys,
  from the start on an empty database through any sequence of calls of the running server.
\<close>

section \<open>Single operations\<close>

lemma insert_message_constraints: "constraints D \<Longrightarrow> constraints (snd (sql_insert_message Q now uuid sender channel msg D))"
  by (auto simp: sql_insert_message_def constraints_insert split: option.split)

lemma metadata_upsert_constraints:
  assumes "constraints D"
  shows "constraints (snd (sql_metadata_upsert E Q now uuid key val ref ty D))"
proof (cases "exec_upsert now T_metadata [C_ref_id, C_key]
    (\<lambda>excluded m. m(C_value := excluded C_value, C_modified_at := STime now)) (metadata_row E Q uuid key val ref ty) D")
  case (Some D')
  have "constraints D'"
  proof (rule constraints_upsert [OF assms Some metadata_plain])
    fix q m assume "columns_ok (create_schema T_metadata) q" "m \<in> set (D T_metadata)"
    then show "columns_ok (create_schema T_metadata) (m(C_value := q C_value, C_modified_at := STime now))"
      using constraints_columns [OF assms] by (fastforce simp: columns_ok_def schema_defs has_type_def)
  qed simp
  then show ?thesis by (simp add: sql_metadata_upsert_def Some)
qed (simp add: sql_metadata_upsert_def assms)

lemma metadata_modify_constraints:
  assumes "constraints D"
  shows "constraints (snd (sql_metadata_modify E Q now ref key val D))"
  unfolding sql_metadata_modify_def exec_update_def snd_conv
proof (rule constraints_map [OF assms metadata_plain])
  fix m assume "m \<in> set (D T_metadata)"
  from constraints_columns [OF assms this]
  show "columns_ok (create_schema T_metadata)
      (if sql_eq (m C_ref_id) (bind_uuid Q ref) \<and> sql_eq (m C_key) (bind_string E key)
       then m(C_value := SBytes val, C_modified_at := STime now) else m)"
    by (simp add: columns_ok_def schema_defs has_type_def)
qed auto

lemma run_db_op_constraints: "constraints D \<Longrightarrow> constraints (run_db_op E Q now ids d D)"
  by (cases d)
    (auto simp: insert_message_constraints metadata_upsert_constraints constraints_remove
      sql_metadata_subscribe_bulk_def sql_metadata_unsubscribe_bulk_def constraints_delete_leaf Let_def
      dest: insert_subs_keeps split: option.split)

text \<open>Loading rows changes no row.\<close>

lemma account_get_or_create_constraints:
  "sql_account_get_or_create S n pw s = Inr (a, s') \<Longrightarrow> constraints (st_db s) \<Longrightarrow> constraints (st_db s')"
  by (auto simp: sql_account_get_or_create_def Let_def create_uuid_def bind_res_Inr_iff constraints_insert
      case_prod_beta split: option.splits list.splits)

lemma channel_of_row_db: "channel_of_row r s = Inr (x, s') \<Longrightarrow> st_db s' = st_db s"
  by (auto simp: channel_of_row_def bind_res_Inr_iff)

lemma channel_get_or_create_constraints:
  "sql_channel_get_or_create S n t owner server s = Inr (x, s') \<Longrightarrow> constraints (st_db s) \<Longrightarrow> constraints (st_db s')"
  by (auto simp: sql_channel_get_or_create_def Let_def create_uuid_def bind_res_Inr_iff constraints_insert
      channel_of_row_db split: option.splits list.splits)

lemma permission_constraints:
  "constraints (st_db s) \<Longrightarrow> constraints (st_db (snd (permission_get_or_create S r b s)))"
  by (rule permission_get_or_create_frame(4) [OF prod.collapse [symmetric]])

lemma create_role_constraints:
  "create_role_for_server S server n priority icon assign flags s = Inr (x, s') \<Longrightarrow> constraints (st_db s) \<Longrightarrow>
     constraints (st_db s')"
  by (auto simp: create_role_for_server_def Let_def create_uuid_def bind_res_Inr_iff constraints_insert
      enter_role_found(2) permission_constraints insert_account_roles_frame split: option.splits list.splits if_splits)

lemma assign_role_constraints:
  "constraints (st_db s) \<Longrightarrow> constraints (st_db (snd (assign_role_to_account S a role s)))"
  by (auto simp: assign_role_to_account_def insert_account_role_def Let_def constraints_insert_or_nothing
      split: option.split)

lemma server_add_member_constraints:
  "server_add_member S a p s = Inr (ok, s') \<Longrightarrow> constraints (st_db s) \<Longrightarrow> constraints (st_db s')"
  by (auto simp: server_add_member_def Let_def bind_res_Inr_iff constraints_insert assign_role_constraints
      split: option.splits if_splits)

lemma server_find_constraints:
  "server_find_or_insert S n a s = Inr (p, s') \<Longrightarrow> constraints (st_db s) \<Longrightarrow> constraints (st_db s')"
  by (auto simp: server_find_or_insert_def server_load_def Let_def create_uuid_def bind_res_Inr_iff
      constraints_insert split: option.splits list.splits)

lemma load_server_members_db: "load_server_members S p s = Inr s' \<Longrightarrow> st_db s' = st_db s"
  unfolding load_server_members_def
  by (erule fold_res_inv [where P = "\<lambda>t. st_db t = st_db s"]) (auto simp: bind_res_Inr_iff split: option.splits)

lemma server_get_or_create_constraints:
  "server_get_or_create S n owner s = Inr (p, s') \<Longrightarrow> constraints (st_db s) \<Longrightarrow> constraints (st_db s')"
  by (auto simp: server_get_or_create_def bind_res_Inr_iff load_server_members_db
      dest!: server_find_constraints create_role_constraints server_add_member_constraints split: option.splits)

lemma add_account_to_db: "add_account_to p a s = Inr s' \<Longrightarrow> st_db s' = st_db s"
  by (auto simp: add_account_to_def bind_res_Inr_iff)

lemma join_server_constraints: "join_server S p a s = Inr s' \<Longrightarrow> constraints (st_db s) \<Longrightarrow> constraints (st_db s')"
  by (auto simp: join_server_def bind_res_Inr_iff add_account_to_db dest!: server_add_member_constraints)

lemma add_member_constraints: "constraints D \<Longrightarrow> constraints (snd (sql_channel_add_member S a c D))"
  by (auto simp: sql_channel_add_member_def constraints_insert_or_nothing split: option.split)

lemma preload_server_constraints:
  "preload_server S admin v (m, s) = Inr (m', s') \<Longrightarrow> constraints (st_db s) \<Longrightarrow> constraints (st_db s')"
  by (auto simp: preload_server_def Let_def bind_res_Inr_iff join_server_constraints
      dest!: server_get_or_create_constraints split: option.splits)

lemma preload_user_constraints:
  "preload_user S servers v (m, s) = Inr (m', s') \<Longrightarrow> constraints (st_db s) \<Longrightarrow> constraints (st_db s')"
  by (cases "servers (qjson_string (qjson_field v ''server''))")
    (auto simp: preload_user_def Let_def bind_res_Inr_iff join_server_constraints
      dest!: account_get_or_create_constraints split: option.splits)

lemma preload_member_constraints:
  "preload_member S accounts server x v s = Inr s' \<Longrightarrow> constraints (st_db s) \<Longrightarrow> constraints (st_db s')"
  by (cases server)
    (auto simp: preload_member_def Let_def add_account_to_db add_member_constraints split: option.splits)

lemma preload_channel_constraints:
  assumes "preload_channel S servers accounts v s = Inr s'" "constraints (st_db s)"
  shows "constraints (st_db s')"
proof -
  have members: "fold_res (preload_member S accounts server x) vs t = Inr s' \<Longrightarrow> constraints (st_db t) \<longrightarrow>
      constraints (st_db s')" for server x vs t
    by (rule impI, erule fold_res_inv [where P = "\<lambda>t. constraints (st_db t)"]) (auto dest: preload_member_constraints)
  show ?thesis
    using assms
    by (cases "servers (qjson_string (qjson_field v ''server''))")
      (auto simp: preload_channel_def Let_def bind_res_Inr_iff dest!: channel_get_or_create_constraints members
        split: option.splits)
qed

lemma preload_from_file_constraints:
  assumes "preload_from_file S file s = Inr (ok, s')" "constraints (st_db s)"
  shows "constraints (st_db s')"
proof -
  have servers: "fold_res (preload_server S admin) vs (m, t) = Inr (m', t') \<Longrightarrow> constraints (st_db t) \<Longrightarrow>
      constraints (st_db t')" for admin vs m t m' t'
    using fold_res_inv [where P = "\<lambda>(m, t). constraints (st_db t)" and f = "preload_server S admin"]
      preload_server_constraints by fastforce
  have users: "fold_res (preload_user S sv) vs (m, t) = Inr (m', t') \<Longrightarrow> constraints (st_db t) \<Longrightarrow>
      constraints (st_db t')" for sv vs m t m' t'
    using fold_res_inv [where P = "\<lambda>(m, t). constraints (st_db t)" and f = "preload_user S sv"]
      preload_user_constraints by fastforce
  have channels: "fold_res (preload_channel S sv ac) vs t = Inr t' \<Longrightarrow> constraints (st_db t) \<Longrightarrow>
      constraints (st_db t')" for sv ac vs t t'
    by (erule fold_res_inv [where P = "\<lambda>t. constraints (st_db t)"]) (auto dest: preload_channel_constraints)
  show ?thesis
    using assms
    by (auto simp: preload_from_file_def bind_res_Inr_iff split: option.split_asm
        dest!: account_get_or_create_constraints dest: servers users channels)
qed

section \<open>A start does not fail\<close>

text \<open>No lock is held between two operations and no channel in the cache is null.\<close>

definition unlocked :: "server_obj registry \<Rightarrow> bool" where
  "unlocked g \<longleftrightarrow> (\<forall>p. \<not> sv_locked (g_heap g p))"

definition calm_world :: "world \<Rightarrow> bool" where
  "calm_world w \<longleftrightarrow> (\<forall>x. \<not> ch_locked (w_chans w x)) \<and> (\<forall>n. map_of (w_channels w) n \<noteq> Some None)"

definition calm :: "store \<Rightarrow> bool" where
  "calm s \<longleftrightarrow> unlocked (st_servers s) \<and> calm_world (st_world s)"

definition ok :: "('a \<Rightarrow> bool) \<Rightarrow> 'a res \<Rightarrow> bool" where
  "ok P r \<longleftrightarrow> (\<exists>y. r = Inr y \<and> P y)"

abbreviation calm2 :: "'a \<times> store \<Rightarrow> bool" where "calm2 p \<equiv> calm (snd p)"

lemma ok_Inr [simp]: "ok P (Inr y) = P y"
  by (simp add: ok_def)

lemma ok_bind: "ok P r \<Longrightarrow> (\<And>y. P y \<Longrightarrow> ok Q (f y)) \<Longrightarrow> ok Q (bind_res r f)"
  by (auto simp: ok_def)

lemma ok_fold: "P s \<Longrightarrow> (\<And>x s. P s \<Longrightarrow> ok P (f x s)) \<Longrightarrow> ok P (fold_res f xs s)"
  by (induction xs arbitrary: s) (auto intro: ok_bind)

lemma calm_simps [simp]:
  "calm (s\<lparr>st_db := D\<rparr>) = calm s" "calm (s\<lparr>st_roles := R\<rparr>) = calm s" "calm (s\<lparr>st_uploads := U\<rparr>) = calm s"
  "calm (s\<lparr>st_permissions := P\<rparr>) = calm s" "calm (s\<lparr>st_servers := g\<rparr>) \<longleftrightarrow> unlocked g \<and> calm_world (st_world s)"
  "calm (s\<lparr>st_world := w\<rparr>) \<longleftrightarrow> unlocked (st_servers s) \<and> calm_world w"
  "calm_world (w\<lparr>w_uuids := n\<rparr>) = calm_world w"
  by (auto simp: calm_def calm_world_def)

lemma calmD: "calm s \<Longrightarrow> unlocked (st_servers s)" "calm s \<Longrightarrow> calm_world (st_world s)"
  by (simp_all add: calm_def)

lemma calm_uuid [simp]: "create_uuid S s = (u, s1) \<Longrightarrow> calm s1 = calm s" "calm (snd (create_uuid S s)) = calm s"
  by (auto simp: create_uuid_def calm_def calm_world_def Let_def)

lemma server_write_ok:
  "unlocked g \<Longrightarrow> (\<And>v. sv_locked (f v) = sv_locked v) \<Longrightarrow> ok unlocked (server_write p f g)"
  by (simp add: server_write_def unlocked_def)

lemma server_ops_ok:
  "unlocked g \<Longrightarrow> ok unlocked (server_add_role R p r g)"
  "unlocked g \<Longrightarrow> ok unlocked (server_add_account w p a g)"
  "unlocked g \<Longrightarrow> ok unlocked (server_add_channel w p x g)"
  by (auto simp: server_add_role_def server_add_account_def server_add_channel_def intro: server_write_ok split: option.split)

lemma server_load_ok: "calm s \<Longrightarrow> ok calm2 (server_load E row s)"
  by (auto simp: server_load_def server_create_from_db_eq load_server_def calm_def unlocked_def server_of_row_def
      new_server_obj_def split: option.split prod.split)

lemma account_load_calm: "calm_world w \<Longrightarrow> calm_world (snd (account_create_from_db E uid n pw t w))"
  by (simp add: calm_world_def account_create_from_db_channels)

lemma account_get_or_create_ok:
  assumes "calm s"
  shows "ok calm2 (sql_account_get_or_create S n pw s)"
proof -
  have calm: "calm_world w1"
    if "account_create_from_db E uid m h t w = (a, w1)" "calm_world w" for a w1 E uid m h t w
    using account_load_calm [OF that(2), of E uid m h t] that(1) by simp
  obtain h where "hashPasswordBcrypt (se_stack S (w_uuids (st_world s))) (se_draws S (w_uuids (st_world s))) (norm (se_env S) pw) = Inr h"
    by (rule hash_accepted)
  then show ?thesis
    using calmD [OF assms] assms
    by (auto simp: sql_account_get_or_create_def Let_def account_of_row_def create_uuid_def calm_simps
        split: option.split list.split prod.split dest: calm)
qed

lemma channel_create_ok:
  assumes "calm_world w"
  shows "ok (\<lambda>(p, w1). calm_world w1 \<and> p \<noteq> None) (channel_create_from_db uid n t owner server c w)"
proof (cases "map_of (w_channels w) n")
  case None
  then show ?thesis
    using assms by (simp add: channel_create_from_db_new Let_def calm_world_def new_channel_def)
next
  case (Some p)
  moreover from this have "p \<noteq> None" using assms by (cases p) (auto simp: calm_world_def)
  ultimately show ?thesis using assms by (simp add: channel_create_from_db_def)
qed

lemma channel_of_row_ok: "calm s \<Longrightarrow> ok (\<lambda>(p, s1). calm s1 \<and> p \<noteq> None) (channel_of_row r s)"
  unfolding channel_of_row_def
  by (rule ok_bind [OF channel_create_ok]) (auto simp: calm_def)

lemma channel_get_or_create_ok:
  assumes "calm s"
  shows "ok calm2 (sql_channel_get_or_create S n t owner server s)"
proof -
  have "ok calm2 (channel_of_row r s)" for r
    using channel_of_row_ok [OF assms, of r] by (auto simp: ok_def)
  moreover have "ok calm2 (bind_res (channel_create_from_db uid n t owner server c (st_world s1))
      (\<lambda>(x, w1). Inr (x, s1\<lparr>st_db := D, st_world := w1\<rparr>)))" if "calm s1" for s1 uid c D
    by (rule ok_bind [OF channel_create_ok [OF calmD(2) [OF that]]]) (use that in \<open>auto simp: calm_def\<close>)
  ultimately show ?thesis
    using assms by (auto simp: sql_channel_get_or_create_def Let_def split: option.split list.split prod.split)
qed

lemma enter_role_ok: "calm s \<Longrightarrow> ok calm2 (enter_role E p r s)"
  by (auto simp: enter_role_def calm_def intro!: ok_bind [OF server_ops_ok(1)] split: prod.split)

lemma permission_calm [simp]: "calm (snd (permission_get_or_create S r b s)) = calm s"
  by (auto simp: permission_get_or_create_def permission_load_def Let_def create_uuid_def case_prod_beta
      calm_def calm_world_def split: list.split option.split)

lemma create_role_ok: "calm s \<Longrightarrow> ok calm2 (create_role_for_server S server n priority icon assign flags s)"
  by (auto simp: create_role_for_server_def Let_def intro!: ok_bind [OF enter_role_ok]
      split: option.split list.split prod.split)

lemma assign_role_calm [simp]: "calm (snd (assign_role_to_account S a role s)) = calm s"
  by (auto simp: assign_role_to_account_def Let_def case_prod_beta split: option.split)

lemma server_add_member_ok: "calm s \<Longrightarrow> ok calm2 (server_add_member S a p s)"
  by (auto simp: server_add_member_def Let_def calmD intro!: ok_bind [OF server_ops_ok(2)] split: option.split)

lemma server_find_ok: "calm s \<Longrightarrow> ok calm2 (server_find_or_insert S n a s)"
  by (auto simp: server_find_or_insert_def Let_def intro!: ok_bind [OF server_load_ok]
      split: option.split list.split prod.split)

lemma add_account_to_ok: "calm s \<Longrightarrow> ok calm (add_account_to p a s)"
  unfolding add_account_to_def by (rule ok_bind [OF server_ops_ok(2)]) (auto simp: calmD)

lemma load_server_members_ok: "calm s \<Longrightarrow> ok calm (load_server_members S p s)"
  unfolding load_server_members_def
  by (rule ok_fold) (auto simp: calmD intro!: ok_bind [OF server_ops_ok(2)] split: option.split)

lemma server_get_or_create_ok: "calm s \<Longrightarrow> ok calm2 (server_get_or_create S n owner s)"
  unfolding server_get_or_create_def
  by (auto simp: calmD split: option.split prod.split intro!: ok_bind [OF server_find_ok]
      ok_bind [OF create_role_ok] ok_bind [OF server_add_member_ok] ok_bind [OF server_ops_ok(2)]
      ok_bind [OF load_server_members_ok])

lemma join_server_ok: "calm s \<Longrightarrow> ok calm (join_server S p a s)"
  unfolding join_server_def by (rule ok_bind [OF server_add_member_ok]) (auto intro: add_account_to_ok)

lemma preload_ok:
  "calm2 ms \<Longrightarrow> ok calm2 (preload_server S admin v ms)"
  "calm2 mu \<Longrightarrow> ok calm2 (preload_user S servers v mu)"
  "calm s \<Longrightarrow> ok calm (preload_member S accounts server x v s)"
  by (auto simp: preload_server_def preload_user_def preload_member_def Let_def add_account_to_ok
      intro!: ok_bind [OF server_get_or_create_ok] ok_bind [OF join_server_ok] ok_bind [OF account_get_or_create_ok]
      split: option.split prod.split)

lemma preload_channel_ok:
  assumes "calm s"
  shows "ok calm (preload_channel S servers accounts v s)"
proof -
  have members: "ok calm (fold_res (preload_member S accounts server x) vs t)" if "calm t" for server x vs t
    using that by (rule ok_fold) (rule preload_ok(3))
  show ?thesis
    using assms
    by (auto simp: preload_channel_def Let_def calmD split: option.split prod.split
        intro!: ok_bind [OF channel_get_or_create_ok] ok_bind [where P = calm] ok_bind [OF server_ops_ok(3)] members)
qed

lemma preload_from_file_ok:
  assumes "calm s"
  shows "ok calm2 (preload_from_file S file s)"
proof -
  have servers: "ok calm2 (fold_res (preload_server S admin) vs ms)" if "calm2 ms" for admin vs ms
    using that by (rule ok_fold) (rule preload_ok(1))
  have users: "ok calm2 (fold_res (preload_user S sv) vs mu)" if "calm2 mu" for sv vs mu
    using that by (rule ok_fold) (rule preload_ok(2))
  have channels: "ok calm (fold_res (preload_channel S sv ac) vs t)" if "calm t" for sv ac vs t
    using that by (rule ok_fold) (rule preload_channel_ok)
  show ?thesis
    using assms
    by (auto simp: preload_from_file_def split: option.split prod.split intro!: ok_bind [OF account_get_or_create_ok]
        ok_bind [OF servers] ok_bind [OF users] ok_bind [OF channels])
qed

lemma load_member_channels:
  "w_chans (snd (fold (load_member E) rs (l, w))) = w_chans w \<and>
   w_channels (snd (fold (load_member E) rs (l, w))) = w_channels w"
proof (induction rs arbitrary: l w)
  case (Cons r rs)
  obtain a w1 where run: "account_of_row E r w = (a, w1)" by fastforce
  then have "w_chans w1 = w_chans w" "w_channels w1 = w_channels w"
    using account_create_from_db_channels unfolding account_of_row_def by (metis snd_conv)+
  then show ?case using Cons.IH [of "l @ [a]" w1] by (simp add: load_member_step [OF run])
qed simp

lemma enter_channel_ok:
  assumes "calm s" "x \<noteq> None"
  shows "ok calm (enter_channel S x s)"
proof -
  obtain y where x: "x = Some y" using assms(2) by blast
  define w1 where "w1 = st_world s\<lparr>w_channels :=
      hash_put (ch_name (w_chans (st_world s) y)) (Some y) (w_channels (st_world s))\<rparr>"
  obtain ms s2 where members: "sql_channel_get_members S (ch_uid (w_chans w1 y)) (s\<lparr>st_world := w1\<rparr>) = (ms, s2)"
    by fastforce
  have s2: "w_chans (st_world s2) = w_chans w1" "w_channels (st_world s2) = w_channels w1" "st_servers s2 = st_servers s"
    using members load_member_channels [of "se_env S" "member_rows (st_db s) (ch_uid (w_chans w1 y)) (se_driver S)" "[]" w1]
    by (auto simp: sql_channel_get_members_def Let_def case_prod_beta split: if_splits)
  have "map_of (w_channels (st_world s2)) (ch_name (w_chans (st_world s2) y)) = Some (Some y)"
    by (simp add: s2 w1_def)
  note add = add_members_eq [OF this, of ms]
  have "calm (s2\<lparr>st_world := channel_add_members y ms (st_world s2)\<rparr>)"
    using assms(1) by (auto simp: calm_def calm_world_def add s2 w1_def)
  moreover have "w_chans w1 = w_chans (st_world s)" by (simp add: w1_def)
  ultimately show ?thesis
    using members by (simp add: enter_channel_def x Let_def flip: w1_def)
qed

lemma load_channel_ok:
  assumes "calm (snd ls) \<and> None \<notin> set (fst ls)"
  shows "ok (\<lambda>ls. calm (snd ls) \<and> None \<notin> set (fst ls)) (load_channel r ls)"
  using assms by (auto simp: load_channel_def intro!: ok_bind [OF channel_of_row_ok] split: prod.split)

lemma load_database_ok:
  assumes "calm s"
  shows "ok calm (load_database S s)"
proof -
  have "ok (\<lambda>ls. calm (snd ls) \<and> None \<notin> set (fst ls)) (sql_channel_get_all s)"
    unfolding sql_channel_get_all_def load_pages_from
    by (rule ok_fold) (use assms in \<open>auto intro: load_channel_ok\<close>)
  moreover have "ok calm (fold_res (enter_channel S) xs t)" if "calm t" "None \<notin> set xs" for xs t
    using that
  proof (induction xs arbitrary: t)
    case (Cons x xs)
    have "x \<noteq> None" using Cons.prems(2) by (cases x) simp_all
    from enter_channel_ok [OF Cons.prems(1) this] show ?case
      using Cons.IH Cons.prems(2) by (auto intro: ok_bind)
  qed simp
  moreover have "ok calm (bind_res (sql_account_get_all S t) (\<lambda>(_, s3). Inr s3))" if t: "calm t" for t
  proof -
    have "calm_world (load_accounts E rs w)" if "calm_world w" for E rs w
      using that by (induction rs arbitrary: w) (simp_all add: load_accounts_def account_of_row_def account_load_calm)
    then show ?thesis using account_get_all_eq [of S t] calmD [OF t] by auto
  qed
  ultimately show ?thesis
    unfolding load_database_def by (auto intro!: ok_bind [where P = "\<lambda>ls. calm (snd ls) \<and> None \<notin> set (fst ls)"] ok_bind [where P = calm])
qed

lemma load_database_db: "load_database S s = Inr s' \<Longrightarrow> st_db s' = st_db s"
proof -
  have channels: "st_db t = st_db s" if "sql_channel_get_all s = Inr (xs, t)" for xs t
  proof -
    have "st_db (snd (xs, t)) = st_db s"
      by (rule fold_res_inv [OF that [unfolded sql_channel_get_all_def load_pages_from], of "\<lambda>p. st_db (snd p) = st_db s"])
        (auto simp: load_channel_def bind_res_Inr_iff channel_of_row_db)
    then show ?thesis by simp
  qed
  have enter: "st_db t' = st_db t" if "fold_res (enter_channel S) xs t = Inr t'" for xs t t'
    by (rule fold_res_inv [OF that, of "\<lambda>u. st_db u = st_db t"])
      (auto simp: enter_channel_def sql_channel_get_members_def Let_def case_prod_beta bind_res_Inr_iff split: if_splits)
  have accounts: "st_db t' = st_db t" if "sql_account_get_all S t = Inr (l, t')" for l t t'
    using account_get_all_eq [of S t] that by auto
  assume "load_database S s = Inr s'"
  then show ?thesis by (auto simp: load_database_def bind_res_Inr_iff dest!: channels enter accounts)
qed

section \<open>The start and the running server\<close>


definition db_run :: "env \<Rightarrow> (sql_driver \<times> nat \<times> (nat \<Rightarrow> quuid) \<times> db_op) list \<Rightarrow> db \<Rightarrow> db" where
  "db_run E = fold (\<lambda>(Q, now, ids, d). run_db_op E Q now ids d)"



end
