(* ===== verification/Snake_Pit.thy ===== *)
theory Snake_Pit
  imports Lifecycle Complex_Main
begin

text \<open>
  \<open>src/python/manager.cpp\<close>: the pool of Python interpreters, the table of modules with the
  events they handle, and the choice of the interpreter a call goes to. What an interpreter
  does with a call is Python's; its answers are parameters. \<open>sp_active\<close> is the value
  \<open>hasEventHandler\<close> tests, the \<open>e_active\<close> of the environment of the IRC layer.
\<close>

section \<open>Modules\<close>

datatype module_type = MODULE | BOT

datatype module_mode = CONCURRENT | EXCLUSIVE

record module_handler =
  h_event :: qirc_event
  h_method :: bytes

record module_class =
  mc_name :: bytes
  mc_author :: bytes
  mc_version :: real
  mc_enabled :: bool
  mc_type :: module_type
  mc_mode :: module_mode
  mc_handlers :: "module_handler list"

record snake_pit =
  sp_modules :: "(bytes \<times> module_class) list"
  sp_exclusive :: flags
  sp_active :: flags
  sp_snakes :: nat
  sp_next :: nat
  sp_started :: nat

definition snake_thread_count :: nat where
  "snake_thread_count = 4"

definition new_snake_pit :: snake_pit where
  "new_snake_pit =
     \<lparr>sp_modules = [], sp_exclusive = 0, sp_active = 0, sp_snakes = snake_thread_count,
      sp_next = 0, sp_started = 0\<rparr>"

section \<open>The events somebody handles\<close>

definition calc_module :: "module_class \<Rightarrow> flags \<times> flags \<Rightarrow> flags \<times> flags" where
  "calc_module mc acc =
     (if \<not> mc_enabled mc then acc
      else fold (\<lambda>h (flags, exclusive).
          (flags_set event_val [h_event h] flags,
           if mc_mode mc = EXCLUSIVE then flags_set event_val [h_event h] exclusive else exclusive))
        (mc_handlers mc) acc)"

definition calc_active_events :: "snake_pit \<Rightarrow> snake_pit" where
  "calc_active_events s =
     (let (flags, exclusive) = fold calc_module (map snd (sp_modules s)) (0, 0)
      in s\<lparr>sp_active := flags, sp_exclusive := exclusive\<rparr>)"

text \<open>
  \<open>modules\<close> is what the first interpreter lists. The signals that are emitted have no
  receiver in the server.
\<close>

definition on_snakes_ready :: "bool \<Rightarrow> (bytes \<times> module_class) list \<Rightarrow> snake_pit \<Rightarrow> snake_pit" where
  "on_snakes_ready ok modules s =
     (if \<not> ok then s
      else
        let s1 = s\<lparr>sp_started := sp_started s + 1\<rparr> in
        if sp_started s1 < snake_thread_count then s1
        else if sp_snakes s1 > 0 then calc_active_events (s1\<lparr>sp_modules := modules\<rparr>)
        else s1)"

definition restart_snakes :: "snake_pit \<Rightarrow> snake_pit" where
  "restart_snakes s = (if sp_snakes s = 0 then s else s\<lparr>sp_started := 0\<rparr>)"

definition refresh_modules_all :: "(bytes \<times> module_class) list \<Rightarrow> snake_pit \<Rightarrow> snake_pit" where
  "refresh_modules_all modules s =
     (if sp_snakes s = 0 then s else calc_active_events (s\<lparr>sp_modules := modules\<rparr>))"

definition switch_module :: "bool \<Rightarrow> bytes \<Rightarrow> snake_pit \<Rightarrow> snake_pit" where
  "switch_module on key s =
     (case map_of (sp_modules s) key of
        None \<Rightarrow> s
      | Some mc \<Rightarrow> s\<lparr>sp_modules := hash_put key (mc\<lparr>mc_enabled := on\<rparr>) (sp_modules s)\<rparr>)"

text \<open>\<open>answers\<close> are the results of the interpreters, in order.\<close>

definition enable_module :: "bool list \<Rightarrow> bytes \<Rightarrow> snake_pit \<Rightarrow> bool \<times> snake_pit" where
  "enable_module answers key s =
     (list_all (\<lambda>ok. ok) answers, calc_active_events (switch_module True key s))"

definition disable_module :: "bool list \<Rightarrow> bytes \<Rightarrow> snake_pit \<Rightarrow> bool \<times> snake_pit" where
  "disable_module answers key s =
     (list_all (\<lambda>ok. ok) answers, calc_active_events (switch_module False key s))"

definition pit_has_event_handler :: "qirc_event \<Rightarrow> snake_pit \<Rightarrow> bool" where
  "pit_has_event_handler ev s = flags_has event_val ev (sp_active s)"

section \<open>The interpreter of a call\<close>

definition take_turn :: "snake_pit \<Rightarrow> nat \<times> snake_pit" where
  "take_turn s = (sp_next s, s\<lparr>sp_next := (sp_next s + 1) mod sp_snakes s\<rparr>)"

text \<open>
  The target of \<open>callFunctionList\<close>: \<open>ev\<close> is the event the first argument converts to, if any;
  \<open>None\<close> in the result says that there is no interpreter.
\<close>

definition call_target :: "qirc_event option \<Rightarrow> snake_pit \<Rightarrow> (nat \<times> snake_pit) option" where
  "call_target ev s =
     (if sp_snakes s = 0 then None
      else
        (case ev of
           Some event \<Rightarrow> if flags_has event_val event (sp_exclusive s) then Some (0, s) else Some (take_turn s)
         | None \<Rightarrow> Some (take_turn s)))"

interpretation snakes: round_robin sp_snakes sp_next "\<lambda>_::unit. snd \<circ> take_turn"
  by unfold_locales (simp_all add: take_turn_def)

section \<open>The flags are the handlers\<close>

definition handles :: "module_class \<Rightarrow> qirc_event \<Rightarrow> bool" where
  "handles mc ev \<longleftrightarrow> mc_enabled mc \<and> ev \<in> h_event ` set (mc_handlers mc)"

lemma calc_handlers:
  "fold (\<lambda>h (flags, exclusive).
      (flags_set event_val [h_event h] flags,
       if e then flags_set event_val [h_event h] exclusive else exclusive)) hs (f, x) =
    (flags_set event_val (map h_event hs) f,
     if e then flags_set event_val (map h_event hs) x else x)"
  by (induction hs arbitrary: f x) auto

lemma calc_modules:
  assumes "fold calc_module mods (f, x) = (f', x')"
  shows "flags_has event_val ev f' \<longleftrightarrow> flags_has event_val ev f \<or> (\<exists>mc \<in> set mods. handles mc ev)"
    and "flags_has event_val ev x' \<longleftrightarrow>
      flags_has event_val ev x \<or> (\<exists>mc \<in> set mods. handles mc ev \<and> mc_mode mc = EXCLUSIVE)"
proof -
  have "(flags_has event_val ev f' \<longleftrightarrow> flags_has event_val ev f \<or> (\<exists>mc \<in> set mods. handles mc ev)) \<and>
    (flags_has event_val ev x' \<longleftrightarrow>
      flags_has event_val ev x \<or> (\<exists>mc \<in> set mods. handles mc ev \<and> mc_mode mc = EXCLUSIVE))"
    using assms
  proof (induction mods arbitrary: f x)
    case (Cons mc mods)
    obtain f1 x1 where m: "calc_module mc (f, x) = (f1, x1)" by force
    then have "(flags_has event_val ev f1 \<longleftrightarrow> flags_has event_val ev f \<or> handles mc ev) \<and>
        (flags_has event_val ev x1 \<longleftrightarrow> flags_has event_val ev x \<or> (handles mc ev \<and> mc_mode mc = EXCLUSIVE))"
      by (auto simp: calc_module_def calc_handlers handles_def events.has_set split: if_splits
          simp del: flags_set.simps)
    with m Cons show ?case by auto
  qed simp
  then show "flags_has event_val ev f' \<longleftrightarrow> flags_has event_val ev f \<or> (\<exists>mc \<in> set mods. handles mc ev)"
    and "flags_has event_val ev x' \<longleftrightarrow>
      flags_has event_val ev x \<or> (\<exists>mc \<in> set mods. handles mc ev \<and> mc_mode mc = EXCLUSIVE)"
    by blast+
qed

lemma no_events: "\<not> flags_has event_val ev 0"
  by (simp add: flags_has_def)

lemma calc_active:
  "flags_has event_val ev (sp_active (calc_active_events s)) \<longleftrightarrow>
     (\<exists>mc \<in> set (map snd (sp_modules s)). handles mc ev)"
  "flags_has event_val ev (sp_exclusive (calc_active_events s)) \<longleftrightarrow>
     (\<exists>mc \<in> set (map snd (sp_modules s)). handles mc ev \<and> mc_mode mc = EXCLUSIVE)"
proof -
  obtain f x where fx: "fold calc_module (map snd (sp_modules s)) (0, 0) = (f, x)" by force
  show "flags_has event_val ev (sp_active (calc_active_events s)) \<longleftrightarrow>
     (\<exists>mc \<in> set (map snd (sp_modules s)). handles mc ev)"
    using calc_modules(1) [OF fx, of ev] by (simp add: calc_active_events_def fx no_events)
  show "flags_has event_val ev (sp_exclusive (calc_active_events s)) \<longleftrightarrow>
     (\<exists>mc \<in> set (map snd (sp_modules s)). handles mc ev \<and> mc_mode mc = EXCLUSIVE)"
    using calc_modules(2) [OF fx, of ev] by (simp add: calc_active_events_def fx no_events)
qed

section \<open>Every run of the pool\<close>

inductive pit_step :: "snake_pit \<Rightarrow> snake_pit \<Rightarrow> bool" where
  ready: "pit_step s (on_snakes_ready ok modules s)"
| restart: "pit_step s (restart_snakes s)"
| refresh: "pit_step s (refresh_modules_all modules s)"
| enable: "pit_step s (snd (enable_module answers key s))"
| disable: "pit_step s (snd (disable_module answers key s))"
| call: "call_target ev s = Some (n, s') \<Longrightarrow> pit_step s s'"

inductive pit_reachable :: "snake_pit \<Rightarrow> bool" where
  start: "pit_reachable new_snake_pit"
| step: "pit_reachable s \<Longrightarrow> pit_step s s' \<Longrightarrow> pit_reachable s'"

text \<open>The flags are those of the module table, and the cursor is an interpreter.\<close>

definition pit_ok :: "snake_pit \<Rightarrow> bool" where
  "pit_ok s \<longleftrightarrow> calc_active_events s = s \<and> sp_next s < sp_snakes s \<and> sp_snakes s = snake_thread_count"

lemma calc_idem [simp]: "calc_active_events (calc_active_events s) = calc_active_events s"
  by (simp add: calc_active_events_def split: prod.split)

lemma calc_simps [simp]:
  "sp_next (calc_active_events s) = sp_next s" "sp_snakes (calc_active_events s) = sp_snakes s"
  "sp_modules (calc_active_events s) = sp_modules s"
  by (simp_all add: calc_active_events_def split: prod.split)

lemma calc_started: "calc_active_events s = s \<Longrightarrow> calc_active_events (s\<lparr>sp_started := n\<rparr>) = s\<lparr>sp_started := n\<rparr>"
  by (cases s) (auto simp: calc_active_events_def split: prod.splits)

lemma calc_next: "calc_active_events s = s \<Longrightarrow> calc_active_events (s\<lparr>sp_next := n\<rparr>) = s\<lparr>sp_next := n\<rparr>"
  by (cases s) (auto simp: calc_active_events_def split: prod.splits)

lemma switch_simps [simp]:
  "sp_next (switch_module on key s) = sp_next s" "sp_snakes (switch_module on key s) = sp_snakes s"
  by (simp_all add: switch_module_def split: option.split)

lemma pit_ok_step: "pit_step s s' \<Longrightarrow> pit_ok s \<Longrightarrow> pit_ok s'"
proof (induction rule: pit_step.induct)
  case (call ev s n s')
  then show ?case
    by (auto simp: call_target_def take_turn_def pit_ok_def calc_next split: option.splits if_splits)
qed (auto simp: pit_ok_def on_snakes_ready_def restart_snakes_def refresh_modules_all_def
      enable_module_def disable_module_def calc_started Let_def)

lemma pit_ok_reachable: "pit_reachable s \<Longrightarrow> pit_ok s"
proof (induction rule: pit_reachable.induct)
  case start
  show ?case by (simp add: pit_ok_def new_snake_pit_def calc_active_events_def snake_thread_count_def)
qed (rule pit_ok_step)

section \<open>What the rest of the server relies on\<close>

text \<open>
  C30: In every reachable state of the interpreter pool, \<open>hasEventHandler\<close> answers yes for an
  event exactly when some enabled module of the table has a handler for it.
\<close>

theorem has_event_handler_exact:
  assumes "pit_reachable s"
  shows "pit_has_event_handler ev s \<longleftrightarrow>
    (\<exists>mc. (\<exists>key. (key, mc) \<in> set (sp_modules s)) \<and> mc_enabled mc \<and> ev \<in> h_event ` set (mc_handlers mc))"
proof -
  have "calc_active_events s = s" using pit_ok_reachable [OF assms] by (simp add: pit_ok_def)
  then show ?thesis
    using calc_active(1) [of ev s] by (force simp: pit_has_event_handler_def handles_def)
qed

definition sample_module :: module_class where
  "sample_module = \<lparr>mc_name = ''m'', mc_author = [], mc_version = 1, mc_enabled = True, mc_type = MODULE,
     mc_mode = EXCLUSIVE, mc_handlers = [\<lparr>h_event = RAW_MSG, h_method = ''raw''\<rparr>]\<rparr>"

definition sample_pit :: snake_pit where
  "sample_pit = refresh_modules_all [(''m'', sample_module)] new_snake_pit"

lemma reachable_sample_pit: "pit_reachable sample_pit"
  unfolding sample_pit_def by (rule pit_reachable.step [OF pit_reachable.start pit_step.refresh])

lemma sample_pit_modules: "sp_modules sample_pit = [(''m'', sample_module)]"
  by (simp add: sample_pit_def refresh_modules_all_def new_snake_pit_def snake_thread_count_def)

theorem has_event_handler_exact_witness:
  "pit_has_event_handler RAW_MSG sample_pit \<and> \<not> pit_has_event_handler TAG_MSG sample_pit"
  unfolding has_event_handler_exact [OF reachable_sample_pit]
  by (simp add: sample_pit_modules sample_module_def)

text \<open>
  Disabling a module takes away exactly the events no other enabled module handles.
\<close>

theorem disable_module_events:
  assumes "distinct (map fst (sp_modules s))"
  shows "pit_has_event_handler ev (snd (disable_module answers key s)) \<longleftrightarrow>
    (\<exists>k mc. (k, mc) \<in> set (sp_modules s) \<and> k \<noteq> key \<and> handles mc ev)"
proof -
  have mem: "(k, mc) \<in> set (sp_modules (switch_module False key s)) \<longleftrightarrow>
      (if k = key then \<exists>m. (key, m) \<in> set (sp_modules s) \<and> mc = m\<lparr>mc_enabled := False\<rparr>
       else (k, mc) \<in> set (sp_modules s))" for k mc
  proof (cases "map_of (sp_modules s) key")
    case None
    then have "(key, m) \<notin> set (sp_modules s)" for m
      by (force simp: map_of_eq_None_iff)
    with None show ?thesis by (auto simp: switch_module_def)
  next
    case (Some m0)
    let ?m = "AList.update key (m0\<lparr>mc_enabled := False\<rparr>) (sp_modules s)"
    have d: "distinct (map fst ?m)" using assms by (rule distinct_update)
    have "(k, mc) \<in> set ?m \<longleftrightarrow> map_of ?m k = Some mc"
      by (simp only: map_of_eq_Some_iff [OF d])
    moreover have "(k', m) \<in> set (sp_modules s) \<longleftrightarrow> map_of (sp_modules s) k' = Some m" for k' m
      using assms by (simp add: map_of_eq_Some_iff)
    ultimately show ?thesis
      using Some by (auto simp: switch_module_def)
  qed
  have "pit_has_event_handler ev (snd (disable_module answers key s)) \<longleftrightarrow>
      (\<exists>k mc. (k, mc) \<in> set (sp_modules (switch_module False key s)) \<and> handles mc ev)"
    by (force simp: pit_has_event_handler_def disable_module_def calc_active(1))
  also have "\<dots> \<longleftrightarrow> (\<exists>k mc. (k, mc) \<in> set (sp_modules s) \<and> k \<noteq> key \<and> handles mc ev)"
    by (auto simp: mem handles_def split: if_splits)
  finally show ?thesis .
qed

theorem disable_module_events_witness:
  "\<not> pit_has_event_handler RAW_MSG (snd (disable_module [] ''m'' sample_pit))"
proof -
  have "distinct (map fst (sp_modules sample_pit))" by (simp add: sample_pit_modules)
  from disable_module_events [OF this] show ?thesis by (simp add: sample_pit_modules)
qed

text \<open>
  An event that an enabled exclusive module handles always goes to the first interpreter,
  and does not take another interpreter's turn.
\<close>

theorem exclusive_event_pinned:
  assumes "pit_reachable s" and "(key, mc) \<in> set (sp_modules s)" and "handles mc ev"
    and "mc_mode mc = EXCLUSIVE"
  shows "call_target (Some ev) s = Some (0, s)"
proof -
  have ok: "calc_active_events s = s" "sp_next s < sp_snakes s"
    using pit_ok_reachable [OF assms(1)] by (simp_all add: pit_ok_def)
  have "flags_has event_val ev (sp_exclusive (calc_active_events s))"
    using assms(2,3,4) by (force simp: calc_active(2))
  then show ?thesis using ok by (simp add: call_target_def)
qed

theorem exclusive_event_pinned_witness: "call_target (Some RAW_MSG) sample_pit = Some (0, sample_pit)"
  by (rule exclusive_event_pinned [OF reachable_sample_pit, of "''m''" sample_module])
    (simp_all add: sample_pit_modules sample_module_def handles_def)

text \<open>The interpreters that \<open>n\<close> calls without a pinned event go to.\<close>

fun call_targets :: "nat \<Rightarrow> snake_pit \<Rightarrow> nat list" where
  "call_targets 0 s = []"
| "call_targets (Suc n) s =
     (case call_target None s of None \<Rightarrow> [] | Some (i, s') \<Rightarrow> i # call_targets n s')"

lemma call_targets_takers:
  "0 < sp_snakes s \<Longrightarrow> call_targets n s = snakes.takers (replicate n ()) s"
  by (induction n arbitrary: s) (simp_all add: call_target_def take_turn_def)

text \<open>
  Calls that are not pinned go round the four interpreters: of \<open>4 m\<close> successive calls each
  interpreter gets \<open>m\<close>.
\<close>

theorem calls_spread_evenly:
  assumes "pit_reachable s" and "i < 4"
  shows "count_list (call_targets (m * 4) s) i = m"
proof -
  have ok: "sp_next s < sp_snakes s" "sp_snakes s = 4"
    using pit_ok_reachable [OF assms(1)] by (simp_all add: pit_ok_def snake_thread_count_def)
  then have "count_list (call_targets (m * 4) s) i = count (mset (snakes.takers (replicate (m * 4) ()) s)) i"
    by (simp add: call_targets_takers count_mset)
  also have "\<dots> = m"
    using ok assms(2) by (intro snakes.takers_rounds) simp_all
  finally show ?thesis .
qed

theorem calls_spread_evenly_witness: "count_list (call_targets 8 sample_pit) 3 = 2"
  using calls_spread_evenly [OF reachable_sample_pit, of 3 2] by simp

end
