(* ===== verification/Python_Values.thy ===== *)
theory Python_Values
  imports Complex_Main Serialize
begin

text \<open>
  Values on both sides of the Python bindings: \<open>QVariant\<close>, Python objects, the dataclasses of
  \<open>src/python/qircd/models.py\<close> and \<open>events.py\<close>, and the conversions of \<open>src/python/utils.cpp\<close>.

  A \<open>str\<close> is its UTF-8 encoding (one with a lone surrogate has none and is left out), and a
  \<open>QString\<close> too. Both cross the C API as a \<open>char*\<close> without a length, so both end at the first
  NUL. \<open>PObj\<close> is an instance of a class of these two files, with its attributes and its
  \<open>_dirty\<close> set; \<open>POther\<close> is an object of any other type (a date, a set, a function).
\<close>

section \<open>Python objects\<close>

datatype pyval =
    PNone | PBool bool | PInt int | PFloat real | PStr bytes | PBytes bytes
  | PList "pyval list" | PDict "(pyval \<times> pyval) list"
  | PObj bytes "(bytes \<times> pyval) list" "bytes list" | POther

text \<open>Annotations: types, classes of the two files, and generics of \<open>typing\<close> with their arguments.\<close>

datatype pytype =
    TyStr | TyBytes | TyBool | TyInt | TyFloat | TyNone | TyClass bytes | TyGeneric bytes "pytype list" | TyOther

datatype py_default = Required | Default pyval | Factory pyval

record py_field =
  pf_name :: bytes
  pf_type :: pytype
  pf_default :: py_default

definition fld :: "bytes \<Rightarrow> pytype \<Rightarrow> py_default \<Rightarrow> py_field" where
  "fld n t d = \<lparr>pf_name = n, pf_type = t, pf_default = d\<rparr>"

abbreviation ty_account :: pytype where "ty_account \<equiv> TyClass ''Account''"
abbreviation ty_channel :: pytype where "ty_channel \<equiv> TyClass ''Channel''"
abbreviation ty_optional :: "pytype \<Rightarrow> pytype" where "ty_optional t \<equiv> TyGeneric ''Optional'' [t, TyNone]"
abbreviation ty_list :: "pytype \<Rightarrow> pytype" where "ty_list t \<equiv> TyGeneric ''List'' [t]"
abbreviation ty_dict :: "pytype \<Rightarrow> pytype" where "ty_dict t \<equiv> TyGeneric ''Dict'' [TyStr, t]"

text \<open>The classes: own annotations in their order. Inherited ones are in \<open>base_fields\<close>.\<close>

definition account_class :: "py_field list" where
  "account_class =
     [fld ''name'' TyStr Required, fld ''nick'' TyStr Required,
      fld ''password'' (ty_optional TyStr) (Default PNone), fld ''host'' (ty_optional TyStr) (Default PNone),
      fld ''uid'' TyBytes (Factory POther), fld ''creation_date'' TyOther (Factory POther),
      fld ''channels'' (ty_list TyBytes) (Factory (PList [])), fld ''connections_count'' TyInt (Default (PInt 0))]"

definition channel_class :: "py_field list" where
  "channel_class =
     [fld ''uid'' TyBytes (Factory POther), fld ''name'' TyStr (Default (PStr [])),
      fld ''topic'' TyStr (Default (PStr [])), fld ''key'' (ty_optional TyStr) (Default PNone),
      fld ''owner'' (ty_optional TyStr) (Default PNone), fld ''date_creation'' TyOther (Factory POther),
      fld ''members'' (ty_list TyBytes) (Factory (PList [])),
      fld ''modes'' (ty_dict (ty_optional TyStr)) (Factory (PDict [])),
      fld ''ban_masks'' (TyGeneric ''Set'' [TyStr]) (Factory POther),
      fld ''limit'' (ty_optional TyInt) (Default PNone)]"

definition message_class :: "py_field list" where
  "message_class =
     [fld ''id'' TyBytes Required, fld ''conn_id'' TyBytes Required, fld ''nick'' TyStr Required,
      fld ''host'' TyStr Required, fld ''text'' TyStr Required, fld ''user'' TyStr Required,
      fld ''raw'' TyBytes Required, fld ''tags'' (ty_dict TyOther) (Factory (PDict [])),
      fld ''targets'' (ty_list TyStr) (Factory (PList [])), fld ''account'' ty_account (Default PNone),
      fld ''dest'' ty_account (Default PNone), fld ''channel'' ty_channel (Default PNone),
      fld ''from_system'' TyBool (Default (PBool False)), fld ''tag_msg'' TyBool (Default (PBool False))]"

definition metadata_class :: "py_field list" where
  "metadata_class =
     [fld ''subcmd'' TyStr Required, fld ''error_code'' TyBytes Required, fld ''error_target'' TyBytes Required,
      fld ''error_key'' TyBytes Required, fld ''account'' ty_account (Default PNone),
      fld ''dest'' ty_account (Default PNone), fld ''channel'' ty_channel (Default PNone),
      fld ''args'' (ty_list TyStr) (Factory (PList [])), fld ''metadata'' (ty_dict TyOther) (Factory (PDict [])),
      fld ''from_system'' TyBool (Default (PBool False)),
      fld ''subscriptions'' (ty_dict ty_account) (Factory (PDict []))]"

definition py_classes :: "(bytes \<times> py_field list) list" where
  "py_classes =
     [(''Account'', account_class), (''Channel'', channel_class), (''Message'', message_class),
      (''Metadata'', metadata_class),
      (''ChannelRename'', [fld ''old_name'' TyStr Required, fld ''new_name'' TyStr Required,
         fld ''message'' TyStr Required, fld ''account'' ty_account Required, fld ''channel'' ty_channel Required]),
      (''PeerMaxConnections'', [fld ''connections'' TyInt Required, fld ''ip'' TyStr Required]),
      (''NickChange'', [fld ''old_nick'' TyStr Required, fld ''new_nick'' TyStr Required,
         fld ''account'' ty_account Required, fld ''from_server'' TyBool (Default (PBool False))]),
      (''RawMessage'', [fld ''raw'' TyBytes Required, fld ''ip'' TyStr Required]),
      (''ChannelJoin'', [fld ''channel'' ty_channel Required, fld ''account'' ty_account Required,
         fld ''password'' TyStr Required, fld ''from_system'' TyBool (Default (PBool False))]),
      (''ChannelPart'', [fld ''channel'' ty_channel Required, fld ''account'' ty_account Required,
         fld ''message'' TyStr (Default (PStr [])), fld ''from_system'' TyBool (Default (PBool False))]),
      (''MessageTags'', [fld ''line'' TyBytes Required, fld ''account'' ty_account (Default PNone),
         fld ''tags'' (ty_dict TyOther) (Factory (PDict [])), fld ''from_system'' TyBool (Default (PBool False))]),
      (''AuthUser'', [fld ''username'' TyStr Required, fld ''password'' TyStr Required, fld ''ip'' TyStr Required,
         fld ''from_system'' TyBool (Default (PBool False))])]"

definition own_fields :: "bytes \<Rightarrow> py_field list" where
  "own_fields cls = (case map_of py_classes cls of None \<Rightarrow> [] | Some fs \<Rightarrow> fs)"

text \<open>
  Events derive from \<open>QEventBase\<close> and \<open>QClass\<close>, in this order, the two models from \<open>QClass\<close>
  alone. \<open>_dirty\<close> and \<open>_initialized\<close>, the fields of \<open>QClass\<close>, are not arguments of the
  constructor and name no property of the server.
\<close>

definition base_fields :: "bytes \<Rightarrow> py_field list" where
  "base_fields cls =
     (if cls = ''Account'' \<or> cls = ''Channel'' then []
      else [fld ''reason'' TyStr (Default PNone), fld ''_cancel'' TyBool (Default (PBool False))])"

text \<open>A call of the class with keyword arguments; \<open>None\<close> is the exception it raises.\<close>

definition py_new :: "bytes \<Rightarrow> (bytes \<times> pyval) list \<Rightarrow> pyval option" where
  "py_new cls kwargs =
     (let fs = base_fields cls @ own_fields cls in
      if list_ex (\<lambda>f. pf_default f = Required \<and> map_of kwargs (pf_name f) = None) fs \<or>
         list_ex (\<lambda>(k, _). k \<notin> set (map pf_name fs)) kwargs then None
      else Some (PObj cls (map (\<lambda>f. (pf_name f,
          case map_of kwargs (pf_name f) of
            Some v \<Rightarrow> v
          | None \<Rightarrow> (case pf_default f of Required \<Rightarrow> PNone | Default v \<Rightarrow> v | Factory v \<Rightarrow> v))) fs) []))"

fun py_attr :: "pyval \<Rightarrow> bytes \<Rightarrow> pyval option" where
  "py_attr (PObj cls fs dirty) k = map_of fs k"
| "py_attr _ k = None"

fun py_dirty :: "pyval \<Rightarrow> bytes list" where
  "py_dirty (PObj cls fs dirty) = dirty"
| "py_dirty _ = []"

fun py_class :: "pyval \<Rightarrow> bytes" where
  "py_class (PObj cls fs dirty) = cls"
| "py_class _ = []"

text \<open>\<open>QClass.__setattr__\<close> of an initialised object. In Python \<open>True\<close> equals \<open>1\<close> and \<open>1.0\<close>.\<close>

fun py_num :: "pyval \<Rightarrow> real option" where
  "py_num (PBool b) = Some (if b then 1 else 0)"
| "py_num (PInt n) = Some (of_int n)"
| "py_num (PFloat r) = Some r"
| "py_num _ = None"

definition py_equal :: "pyval \<Rightarrow> pyval \<Rightarrow> bool" where
  "py_equal a b = (case py_num a of Some x \<Rightarrow> py_num b = Some x | None \<Rightarrow> a = b)"

fun py_setattr :: "bytes \<Rightarrow> pyval \<Rightarrow> pyval \<Rightarrow> pyval" where
  "py_setattr k v (PObj cls fs dirty) =
     PObj cls (AList.update k v fs)
       (if starts_with k ''_'' \<and> k \<noteq> ''_cancel'' then dirty
        else
          let old = (case map_of fs k of None \<Rightarrow> PNone | Some x \<Rightarrow> x)
          in if py_equal old v then dirty else List.insert k dirty)"
| "py_setattr k v obj = obj"

text \<open>\<open>QEventBase.cancel\<close>.\<close>

definition py_cancel :: "bytes \<Rightarrow> pyval \<Rightarrow> pyval" where
  "py_cancel message obj =
     (let obj1 = py_setattr ''_cancel'' (PBool True) obj
      in if message \<noteq> [] then py_setattr ''reason'' (PStr message) obj1 else obj1)"

section \<open>QVariant\<close>

text \<open>The kinds of values that the properties of events, accounts and channels have or are given.\<close>

datatype obj_ref = OAcc acc_id | OChan chan_id

datatype qval =
    QInvalid | QBool bool | QInt int | QLongLong int | QDouble real | QString bytes | QByteArray bytes
  | QStringList "bytes list" | QByteArrayList "bytes list" | QVariantList "qval list"
  | QVariantMap "(bytes \<times> qval) list" | QUuid quuid | QDateTime nat
  | QSharedObject "obj_ref option" | QSubscriptions "(bytes \<times> acc_id list) list"

datatype metatype =
    MInvalid | MBool | MInt | MLongLong | MDouble | MString | MByteArray | MStringList | MByteArrayList
  | MVariantList | MVariantMap | MUuid | MDateTime | MObject | MSubscriptions

fun meta_type :: "qval \<Rightarrow> metatype" where
  "meta_type QInvalid = MInvalid"
| "meta_type (QBool _) = MBool"
| "meta_type (QInt _) = MInt"
| "meta_type (QLongLong _) = MLongLong"
| "meta_type (QDouble _) = MDouble"
| "meta_type (QString _) = MString"
| "meta_type (QByteArray _) = MByteArray"
| "meta_type (QStringList _) = MStringList"
| "meta_type (QByteArrayList _) = MByteArrayList"
| "meta_type (QVariantList _) = MVariantList"
| "meta_type (QVariantMap _) = MVariantMap"
| "meta_type (QUuid _) = MUuid"
| "meta_type (QDateTime _) = MDateTime"
| "meta_type (QSharedObject _) = MObject"
| "meta_type (QSubscriptions _) = MSubscriptions"

text \<open>
  Qt's conversions. What it prints for numbers, dates and UUIDs and how it reads them back are
  parameters: \<open>py_text\<close>, \<open>py_uuid_text\<close>, \<open>py_uuid_parse\<close>, and \<open>py_read t v\<close> for a value \<open>v\<close> that
  has to be parsed or rounded to become a \<open>t\<close>. \<open>py_env\<close> is the environment of the server.
\<close>

record py_conv =
  py_env :: env
  py_text :: "qval \<Rightarrow> bytes"
  py_uuid_text :: "quuid \<Rightarrow> bytes"
  py_uuid_parse :: "bytes \<Rightarrow> quuid"
  py_read :: "metatype \<Rightarrow> qval \<Rightarrow> qval option"

fun can_string :: "qval \<Rightarrow> bool" where
  "can_string v = (meta_type v \<in>
     {MBool, MInt, MLongLong, MDouble, MString, MByteArray, MStringList, MUuid, MDateTime})"

fun can_bytes :: "qval \<Rightarrow> bool" where
  "can_bytes v = (meta_type v \<in> {MBool, MInt, MLongLong, MDouble, MString, MByteArray, MUuid})"

fun to_qstring :: "py_conv \<Rightarrow> qval \<Rightarrow> bytes" where
  "to_qstring P (QString s) = s"
| "to_qstring P (QByteArray b) = norm (py_env P) b"
| "to_qstring P (QBool b) = (if b then ''true'' else ''false'')"
| "to_qstring P (QStringList l) = (case l of [s] \<Rightarrow> s | _ \<Rightarrow> [])"
| "to_qstring P (QUuid u) = py_uuid_text P u"
| "to_qstring P v = (if can_string v then py_text P v else [])"

fun to_qbytes :: "py_conv \<Rightarrow> qval \<Rightarrow> bytes" where
  "to_qbytes P (QByteArray b) = b"
| "to_qbytes P (QString s) = s"
| "to_qbytes P (QBool b) = (if b then ''true'' else ''false'')"
| "to_qbytes P (QUuid u) = py_uuid_text P u"
| "to_qbytes P v = (if can_bytes v then py_text P v else [])"

text \<open>\<open>static_cast<int>\<close> of a 64-bit number keeps its low 32 bits.\<close>

definition to_int32 :: "int \<Rightarrow> int" where
  "to_int32 n = sint (word_of_int n :: 32 word)"

fun truth_text :: "bytes \<Rightarrow> bool" where
  "truth_text s = (to_lower s \<notin> {'''', ''0'', ''false''})"

fun to_qbool :: "qval \<Rightarrow> bool" where
  "to_qbool (QBool b) = b"
| "to_qbool (QInt n) = (n \<noteq> 0)"
| "to_qbool (QLongLong n) = (n \<noteq> 0)"
| "to_qbool (QDouble r) = (r \<noteq> 0)"
| "to_qbool (QString s) = truth_text s"
| "to_qbool (QByteArray s) = truth_text s"
| "to_qbool _ = False"

fun to_qlonglong :: "py_conv \<Rightarrow> qval \<Rightarrow> int" where
  "to_qlonglong P (QBool b) = (if b then 1 else 0)"
| "to_qlonglong P (QInt n) = n"
| "to_qlonglong P (QLongLong n) = n"
| "to_qlonglong P v = (case py_read P MLongLong v of Some (QLongLong n) \<Rightarrow> n | _ \<Rightarrow> 0)"

fun to_qdouble :: "py_conv \<Rightarrow> qval \<Rightarrow> real" where
  "to_qdouble P (QBool b) = (if b then 1 else 0)"
| "to_qdouble P (QInt n) = of_int n"
| "to_qdouble P (QDouble r) = r"
| "to_qdouble P v = (case py_read P MDouble v of Some (QDouble r) \<Rightarrow> r | _ \<Rightarrow> 0)"

section \<open>From a QVariant to Python\<close>

text \<open>\<open>PyDict_SetItem\<close>.\<close>

definition pdict_set :: "pyval \<Rightarrow> pyval \<Rightarrow> (pyval \<times> pyval) list \<Rightarrow> (pyval \<times> pyval) list" where
  "pdict_set k v d = AList.update k v d"

text \<open>A \<open>QVariant\<close> that holds a \<open>QJsonObject\<close> is never passed.\<close>

fun qvariant_to_py :: "qval \<Rightarrow> pyval" where
  "qvariant_to_py (QInt n) = PInt n"
| "qvariant_to_py (QDouble r) = PFloat r"
| "qvariant_to_py (QBool b) = PBool b"
| "qvariant_to_py (QString s) = PStr (c_str s)"
| "qvariant_to_py (QByteArray b) = PBytes b"
| "qvariant_to_py (QVariantList l) = PList (map qvariant_to_py l)"
| "qvariant_to_py (QVariantMap m) =
     PDict (fold (\<lambda>(k, v). pdict_set (PStr (c_str k)) v) (map (\<lambda>(k, v). (k, qvariant_to_py v)) m) [])"
| "qvariant_to_py _ = PNone"

text \<open>
  \<open>convertVariantToPyAccordingToType\<close>. No annotation of the classes is an instance of \<open>list\<close>
  or \<open>dict\<close> (\<open>List[str]\<close> is a generic), so its branches for these never run and neither do
  \<open>convertListToPy\<close> and \<open>convertMapToPy\<close>.
\<close>

definition variant_to_py_type :: "py_conv \<Rightarrow> qval \<Rightarrow> pytype \<Rightarrow> pyval" where
  "variant_to_py_type P value ty =
     (case ty of
        TyStr \<Rightarrow>
          if can_string value then PStr (c_str (to_qstring P value))
          else if can_bytes value then PStr (c_str (to_qbytes P value))
          else PNone
      | TyBytes \<Rightarrow> if can_bytes value then PBytes (to_qbytes P value) else PNone
      | TyBool \<Rightarrow> PBool (to_qbool value)
      | TyInt \<Rightarrow> PInt (to_qlonglong P value)
      | TyFloat \<Rightarrow> PFloat (to_qdouble P value)
      | _ \<Rightarrow> PNone)"

section \<open>From Python to a QVariant\<close>

text \<open>\<open>PyLong_AsLong\<close> and \<open>PyLong_AsLongLong\<close> answer -1 for what does not fit in 64 bits.\<close>

definition py_as_long :: "int \<Rightarrow> int" where
  "py_as_long n = (if - (2 ^ 63) \<le> n \<and> n < 2 ^ 63 then n else - 1)"

fun py_key :: "pyval \<Rightarrow> bytes" where
  "py_key (PStr s) = c_str s"
| "py_key _ = []"

text \<open>\<open>PyObjectToQVariant\<close>. A \<open>bool\<close> is an \<open>int\<close> in Python, which the first test accepts.\<close>

fun py_to_qvariant :: "pyval \<Rightarrow> qval" where
  "py_to_qvariant (PInt n) = QInt (to_int32 (py_as_long n))"
| "py_to_qvariant (PBool b) = QInt (if b then 1 else 0)"
| "py_to_qvariant (PFloat r) = QDouble r"
| "py_to_qvariant (PStr s) = QString (c_str s)"
| "py_to_qvariant (PList l) = QVariantList (map py_to_qvariant l)"
| "py_to_qvariant (PDict d) =
     QVariantMap (fold (\<lambda>(k, v). qmap_put k v) (map (\<lambda>(k, v). (py_key k, py_to_qvariant v)) d) [])"
| "py_to_qvariant PNone = QInvalid"
| "py_to_qvariant _ = QString ''<unsupported type>''"

text \<open>
  \<open>convertPyObjectToVariant\<close>. Of an instance it reads the attributes that its class annotates
  itself; a null pointer, of a missing attribute, becomes an invalid value.
\<close>

fun py_to_variant :: "pyval \<Rightarrow> qval" where
  "py_to_variant PNone = QInvalid"
| "py_to_variant (PBool b) = QBool b"
| "py_to_variant (PInt n) = QLongLong (py_as_long n)"
| "py_to_variant (PFloat r) = QDouble r"
| "py_to_variant (PStr s) = QString (c_str s)"
| "py_to_variant (PBytes b) = QByteArray b"
| "py_to_variant (PList l) = QVariantList (map py_to_variant l)"
| "py_to_variant (PDict d) =
     QVariantMap (fold (\<lambda>(k, v) m. case k of PStr s \<Rightarrow> qmap_put (c_str s) v m | _ \<Rightarrow> m)
       (map (\<lambda>(k, v). (k, py_to_variant v)) d) [])"
| "py_to_variant (PObj cls fs dirty) =
     (let values = map (\<lambda>(k, v). (k, py_to_variant v)) fs in
      QVariantMap (fold (\<lambda>f m. qmap_put (pf_name f)
          (case map_of values (pf_name f) of None \<Rightarrow> QInvalid | Some v \<Rightarrow> v) m) (own_fields cls) []))"
| "py_to_variant POther = QInvalid"


section \<open>Values that cross unchanged\<close>

text \<open>\<open>leaf\<close> says which values that are neither lists nor maps are taken.\<close>

fun crossable :: "(qval \<Rightarrow> bool) \<Rightarrow> qval \<Rightarrow> bool" where
  "crossable leaf (QVariantList l) = list_all (crossable leaf) l"
| "crossable leaf (QVariantMap m) =
     (sorted_wrt (<) (map fst m) \<and> list_all (\<lambda>(k, v). c_str k = k \<and> crossable leaf v) m)"
| "crossable leaf v = leaf v"

definition int_leaf :: "qval \<Rightarrow> bool" where
  "int_leaf v = (case v of
      QInvalid \<Rightarrow> True | QInt n \<Rightarrow> - (2 ^ 31) \<le> n \<and> n < 2 ^ 31 | QDouble _ \<Rightarrow> True | QString s \<Rightarrow> c_str s = s
    | _ \<Rightarrow> False)"

definition bytes_leaf :: "qval \<Rightarrow> bool" where
  "bytes_leaf v = (case v of
      QInvalid \<Rightarrow> True | QBool _ \<Rightarrow> True | QDouble _ \<Rightarrow> True | QString s \<Rightarrow> c_str s = s | QByteArray _ \<Rightarrow> True
    | _ \<Rightarrow> False)"

lemma c_str_c_str [simp]: "c_str (c_str s) = c_str s"
  by (auto simp: c_str_def takeWhile_eq_all_conv dest: set_takeWhileD)

lemma to_int32_id: "- (2 ^ 31) \<le> n \<Longrightarrow> n < 2 ^ 31 \<Longrightarrow> to_int32 n = n"
  by (simp add: to_int32_def signed_take_bit_int_eq_self sint_sbintrunc')

lemma fold_pdict_set:
  "distinct (map fst d @ map fst kvs) \<Longrightarrow> fold (\<lambda>(k, v). pdict_set k v) kvs d = d @ kvs"
proof (induction kvs arbitrary: d)
  case (Cons p kvs)
  obtain k v where p: "p = (k, v)" by force
  have "k \<notin> fst ` set d" using Cons.prems by (auto simp: p)
  then have "pdict_set k v d = d @ [(k, v)]"
    by (induction d) (auto simp: pdict_set_def)
  with Cons show ?case by (simp add: p)
qed simp

lemma fold_qmap_put:
  "sorted_wrt (<) (map fst d @ map fst kvs) \<Longrightarrow> fold (\<lambda>(k, v). qmap_put k v) kvs d = d @ kvs"
proof (induction kvs arbitrary: d)
  case (Cons p kvs)
  obtain k v where p: "p = (k, v)" by force
  have "qmap_put k v d = d @ [(k, v)]"
    using Cons.prems by (intro qmap_put_last) (auto simp: p sorted_wrt_append)
  with Cons show ?case by (simp add: p sorted_wrt_append)
qed simp

lemma py_dict_of_map:
  assumes "sorted_wrt (<) (map fst m)" and "list_all (\<lambda>(k, v). c_str k = k) m"
  shows "fold (\<lambda>(k, v). pdict_set (PStr (c_str k)) v) (map (\<lambda>(k, v). (k, f v)) m) [] =
    map (\<lambda>(k, v). (PStr k, f v)) m"
proof -
  have "distinct (map fst m)" using assms(1) strict_sorted_iff by blast
  then have "distinct (map fst (map (\<lambda>(k, v). (PStr k, f v)) m))"
    by (auto simp: comp_def case_prod_beta distinct_map inj_on_def)
  from fold_pdict_set [of "[]", simplified, OF this]
  have "fold (\<lambda>(k, v). pdict_set k v) (map (\<lambda>(k, v). (PStr k, f v)) m) [] = map (\<lambda>(k, v). (PStr k, f v)) m" .
  moreover have "fold (\<lambda>(k, v). pdict_set (PStr (c_str k)) v) (map (\<lambda>(k, v). (k, f v)) m) d =
      fold (\<lambda>(k, v). pdict_set k v) (map (\<lambda>(k, v). (PStr k, f v)) m) d" for d
    using assms(2) by (induction m arbitrary: d) auto
  ultimately show ?thesis by simp
qed

lemma map_back:
  assumes "sorted_wrt (<) (map fst m)" and "list_all (\<lambda>(k, v). c_str k = k \<and> f v = v) m"
  shows "fold (\<lambda>(k, v). qmap_put k v) (map (\<lambda>(k, v). (c_str k, f v)) m) [] = m"
proof -
  have "map (\<lambda>(k, v). (c_str k, f v)) m = m" using assms(2) by (induction m) auto
  then show ?thesis using fold_qmap_put [of "[]" m] assms(1) by simp
qed

lemma map_crosses:
  assumes "crossable leaf (QVariantMap m)"
  shows "qvariant_to_py (QVariantMap m) = PDict (map (\<lambda>(k, v). (PStr k, qvariant_to_py v)) m)"
  using assms py_dict_of_map [of m qvariant_to_py] by (simp add: list_all_iff case_prod_beta')

lemma int_round_trip: "crossable int_leaf v \<Longrightarrow> py_to_qvariant (qvariant_to_py v) = v"
proof (induction int_leaf v rule: crossable.induct)
  case (1 l)
  then show ?case by (simp add: list_all_iff map_idI)
next
  case (2 m)
  have "list_all (\<lambda>(k, v). c_str k = k \<and> (py_to_qvariant \<circ> qvariant_to_py) v = v) m"
    using 2 by (fastforce simp: list_all_iff)
  from map_back [OF _ this] show ?case
    using 2(2) by (simp only: map_crosses) (simp add: case_prod_beta' comp_def)
qed (simp_all add: int_leaf_def py_as_long_def to_int32_id)

lemma variant_dict:
  "fold (\<lambda>(k, v) m. case k of PStr s \<Rightarrow> qmap_put (c_str s) v m | _ \<Rightarrow> m) (map (\<lambda>(k, v). (PStr k, f v)) m) d =
   fold (\<lambda>(k, v). qmap_put k v) (map (\<lambda>(k, v). (c_str k, f v)) m) d"
  by (induction m arbitrary: d) auto

lemma bytes_round_trip: "crossable bytes_leaf v \<Longrightarrow> py_to_variant (qvariant_to_py v) = v"
proof (induction bytes_leaf v rule: crossable.induct)
  case (1 l)
  then show ?case by (simp add: list_all_iff map_idI)
next
  case (2 m)
  have *: "list_all (\<lambda>(k, v). c_str k = k \<and> (py_to_variant \<circ> qvariant_to_py) v = v) m"
    using 2 by (fastforce simp: list_all_iff)
  have "map (\<lambda>(k, v). (k, py_to_variant v)) (map (\<lambda>(k, v). (PStr k, qvariant_to_py v)) m) =
      map (\<lambda>(k, v). (PStr k, (py_to_variant \<circ> qvariant_to_py) v)) m"
    by auto
  with map_back [OF _ *] show ?case
    using 2(2) by (simp only: map_crosses py_to_variant.simps variant_dict) simp
qed (simp_all add: bytes_leaf_def)

text \<open>A value that crosses into Python and back is the same value: with \<open>PyObjectToQVariant\<close> numbers of
  32 bits, floats, text and null, with \<open>convertPyObjectToVariant\<close> booleans, floats, text, byte arrays
  and null, and lists and maps of them to any depth, when no text and no key has a NUL. The first
  conversion turns a boolean into a number.\<close>

theorem values_round_trip:
  "(crossable int_leaf v \<longrightarrow> py_to_qvariant (qvariant_to_py v) = v) \<and>
   (crossable bytes_leaf v \<longrightarrow> py_to_variant (qvariant_to_py v) = v) \<and>
   py_to_qvariant (qvariant_to_py (QBool b)) = QInt (if b then 1 else 0)"
  by (simp add: int_round_trip bytes_round_trip)

lemma values_round_trip_witness:
  "py_to_qvariant (qvariant_to_py (QVariantMap [(''a'', QInt (- 5)), (''b'', QVariantList [QString ''x''])])) =
     QVariantMap [(''a'', QInt (- 5)), (''b'', QVariantList [QString ''x''])] \<and>
   py_to_variant (qvariant_to_py (QVariantList [QBool True, QByteArray [CHR 0x00]])) =
     QVariantList [QBool True, QByteArray [CHR 0x00]]"
proof -
  have "crossable int_leaf (QVariantMap [(''a'', QInt (- 5)), (''b'', QVariantList [QString ''x''])])"
    by (simp add: int_leaf_def c_str_def)
  moreover have "crossable bytes_leaf (QVariantList [QBool True, QByteArray [CHR 0x00]])"
    by (simp add: bytes_leaf_def)
  ultimately show ?thesis using values_round_trip by blast
qed

end
