(* ===== verification/Python_Events.thy ===== *)
theory Python_Events
  imports Python_Values Sample
begin

text \<open>
  \<open>src/python/interpreter.cpp\<close> and \<open>type_registry.cpp\<close>: how an event of the server becomes an
  instance of a Python dataclass for the handlers of the modules, and how what a handler returns is
  copied back. A property list stands for an object seen through its meta-object: the names of
  its \<open>Q_PROPERTY\<close> declarations with their values.
\<close>

section \<open>Properties of the events (\<open>core/qtypes.h\<close>)\<close>

datatype py_event =
    PyRename rename_ev | PyPeer peer_ev | PyNick nick_ev | PyRaw raw_ev | PyJoin join_ev | PyPart part_ev
  | PyMessage message_ev | PyMetadata metadata_ev | PyTags tags_ev | PyAuth auth_ev

type_synonym properties = "(bytes \<times> qval) list"

definition base_props :: "bytes \<Rightarrow> bool \<Rightarrow> properties" where
  "base_props reason cancel = [(''reason'', QByteArray reason), (''_cancel'', QBool cancel)]"

abbreviation account_prop :: "acc_id \<Rightarrow> qval" where
  "account_prop a \<equiv> QSharedObject (Some (OAcc a))"

definition account_ref :: "acc_id option \<Rightarrow> qval" where
  "account_ref a = QSharedObject (map_option OAcc a)"

definition channel_ref :: "chan_id option \<Rightarrow> qval" where
  "channel_ref x = QSharedObject (map_option OChan x)"

text \<open>The values of a tag map are null or text.\<close>

definition tags_variant :: "tag_map \<Rightarrow> qval" where
  "tags_variant m = QVariantMap (map (\<lambda>(k, v). (k, case v of None \<Rightarrow> QInvalid | Some s \<Rightarrow> QString s)) m)"

fun event_props :: "py_event \<Rightarrow> properties" where
  "event_props (PyRename e) = base_props (ev_reason e) (ev_cancel e) @
     [(''channel'', channel_ref (Some (re_channel e))), (''account'', account_prop (re_account e)),
      (''old_name'', QByteArray (re_old_name e)), (''new_name'', QByteArray (re_new_name e)),
      (''message'', QByteArray (re_message e))]"
| "event_props (PyPeer e) = base_props (ev_reason e) (ev_cancel e) @
     [(''connections'', QInt (pe_connections e)), (''ip'', QString (pe_ip e))]"
| "event_props (PyNick e) = base_props (ev_reason e) (ev_cancel e) @
     [(''old_nick'', QByteArray (ne_old_nick e)), (''new_nick'', QByteArray (ne_new_nick e)),
      (''from_server'', QBool (ne_from_server e)), (''account'', account_prop (ne_account e))]"
| "event_props (PyRaw e) = base_props (ev_reason e) (ev_cancel e) @
     [(''raw'', QByteArray (rw_raw e)), (''ip'', QString (rw_ip e))]"
| "event_props (PyJoin e) = base_props (ev_reason e) (ev_cancel e) @
     [(''channel'', channel_ref (je_channel e)), (''account'', account_prop (je_account e)),
      (''password'', QByteArray (je_password e)), (''from_system'', QBool (je_from_system e))]"
| "event_props (PyPart e) = base_props (ev_reason e) (ev_cancel e) @
     [(''channel'', channel_ref (Some (pa_channel e))), (''account'', account_prop (pa_account e)),
      (''message'', QByteArray (pa_message e)), (''from_system'', QBool (pa_from_system e))]"
| "event_props (PyMessage e) = base_props (ev_reason e) (ev_cancel e) @
     [(''id'', QByteArray (me_id e)), (''tags'', tags_variant (me_tags e)), (''nick'', QByteArray (me_nick e)),
      (''host'', QByteArray (me_host e)), (''text'', QByteArray (me_text e)), (''user'', QByteArray (me_user e)),
      (''conn_id'', QByteArray (me_conn_id e)), (''targets'', QStringList (me_targets e)),
      (''raw'', QByteArray (me_raw e)), (''account'', account_prop (me_account e)),
      (''dest'', account_ref (me_dest e)), (''channel'', channel_ref (me_channel e)),
      (''from_system'', QBool (me_from_system e)), (''tag_msg'', QBool (me_tag_msg e))]"
| "event_props (PyMetadata e) = base_props (ev_reason e) (ev_cancel e) @
     [(''account'', account_prop (md_account e)), (''dest'', account_ref (md_dest e)),
      (''channel'', channel_ref (md_channel e)), (''subcmd'', QByteArray (md_subcmd e)),
      (''args'', QByteArrayList (md_args e)), (''metadata'', tags_variant (md_metadata e)),
      (''from_system'', QBool (md_from_system e)), (''error_code'', QByteArray (md_error_code e)),
      (''error_target'', QByteArray (md_error_target e)), (''error_key'', QByteArray (md_error_key e)),
      (''subscriptions'', QSubscriptions (md_subscriptions e))]"
| "event_props (PyTags e) = base_props (ev_reason e) (ev_cancel e) @
     [(''account'', account_prop (te_account e)), (''tags'', tags_variant (te_tags e)),
      (''from_system'', QBool (te_from_system e))]"
| "event_props (PyAuth e) = base_props (ev_reason e) (ev_cancel e) @
     [(''username'', QByteArray (au_username e)), (''password'', QByteArray (au_password e)),
      (''ip'', QString (au_ip e)), (''from_system'', QBool (au_from_system e))]"

text \<open>
  The event whose members hold these properties; a write keeps the type of a property, and the
  pointers are not written. Later code reads a tag as text.
\<close>

definition get_bytes :: "properties \<Rightarrow> bytes \<Rightarrow> bytes" where
  "get_bytes g k = (case map_of g k of Some (QByteArray b) \<Rightarrow> b | Some (QString b) \<Rightarrow> b | _ \<Rightarrow> [])"

definition get_bool :: "properties \<Rightarrow> bytes \<Rightarrow> bool" where
  "get_bool g k = (case map_of g k of Some (QBool b) \<Rightarrow> b | _ \<Rightarrow> False)"

definition get_int :: "properties \<Rightarrow> bytes \<Rightarrow> int" where
  "get_int g k = (case map_of g k of Some (QInt n) \<Rightarrow> n | _ \<Rightarrow> 0)"

definition get_list :: "properties \<Rightarrow> bytes \<Rightarrow> bytes list" where
  "get_list g k = (case map_of g k of Some (QStringList l) \<Rightarrow> l | Some (QByteArrayList l) \<Rightarrow> l | _ \<Rightarrow> [])"

definition get_tags :: "py_conv \<Rightarrow> properties \<Rightarrow> bytes \<Rightarrow> tag_map" where
  "get_tags P g k =
     (case map_of g k of
        Some (QVariantMap m) \<Rightarrow>
          map (\<lambda>(k, v). (k, if v = QInvalid then None else Some (to_qstring P v))) m
      | _ \<Rightarrow> [])"

definition get_subs :: "properties \<Rightarrow> bytes \<Rightarrow> (bytes \<times> acc_id list) list" where
  "get_subs g k = (case map_of g k of Some (QSubscriptions m) \<Rightarrow> m | _ \<Rightarrow> [])"

fun with_props :: "py_conv \<Rightarrow> properties \<Rightarrow> py_event \<Rightarrow> py_event" where
  "with_props P g (PyRename e) = PyRename (e\<lparr>ev_reason := get_bytes g ''reason'', ev_cancel := get_bool g ''_cancel'',
     re_old_name := get_bytes g ''old_name'', re_new_name := get_bytes g ''new_name'',
     re_message := get_bytes g ''message''\<rparr>)"
| "with_props P g (PyPeer e) = PyPeer (e\<lparr>ev_reason := get_bytes g ''reason'', ev_cancel := get_bool g ''_cancel'',
     pe_connections := get_int g ''connections'', pe_ip := get_bytes g ''ip''\<rparr>)"
| "with_props P g (PyNick e) = PyNick (e\<lparr>ev_reason := get_bytes g ''reason'', ev_cancel := get_bool g ''_cancel'',
     ne_old_nick := get_bytes g ''old_nick'', ne_new_nick := get_bytes g ''new_nick'',
     ne_from_server := get_bool g ''from_server''\<rparr>)"
| "with_props P g (PyRaw e) = PyRaw (e\<lparr>ev_reason := get_bytes g ''reason'', ev_cancel := get_bool g ''_cancel'',
     rw_raw := get_bytes g ''raw'', rw_ip := get_bytes g ''ip''\<rparr>)"
| "with_props P g (PyJoin e) = PyJoin (e\<lparr>ev_reason := get_bytes g ''reason'', ev_cancel := get_bool g ''_cancel'',
     je_password := get_bytes g ''password'', je_from_system := get_bool g ''from_system''\<rparr>)"
| "with_props P g (PyPart e) = PyPart (e\<lparr>ev_reason := get_bytes g ''reason'', ev_cancel := get_bool g ''_cancel'',
     pa_message := get_bytes g ''message'', pa_from_system := get_bool g ''from_system''\<rparr>)"
| "with_props P g (PyMessage e) = PyMessage (e\<lparr>ev_reason := get_bytes g ''reason'', ev_cancel := get_bool g ''_cancel'',
     me_id := get_bytes g ''id'', me_tags := get_tags P g ''tags'', me_nick := get_bytes g ''nick'',
     me_host := get_bytes g ''host'', me_text := get_bytes g ''text'', me_user := get_bytes g ''user'',
     me_conn_id := get_bytes g ''conn_id'', me_targets := get_list g ''targets'', me_raw := get_bytes g ''raw'',
     me_from_system := get_bool g ''from_system'', me_tag_msg := get_bool g ''tag_msg''\<rparr>)"
| "with_props P g (PyMetadata e) = PyMetadata (e\<lparr>ev_reason := get_bytes g ''reason'', ev_cancel := get_bool g ''_cancel'',
     md_subcmd := get_bytes g ''subcmd'', md_args := get_list g ''args'', md_metadata := get_tags P g ''metadata'',
     md_from_system := get_bool g ''from_system'', md_error_code := get_bytes g ''error_code'',
     md_error_target := get_bytes g ''error_target'', md_error_key := get_bytes g ''error_key'',
     md_subscriptions := get_subs g ''subscriptions''\<rparr>)"
| "with_props P g (PyTags e) = PyTags (e\<lparr>ev_reason := get_bytes g ''reason'', ev_cancel := get_bool g ''_cancel'',
     te_tags := get_tags P g ''tags'', te_from_system := get_bool g ''from_system''\<rparr>)"
| "with_props P g (PyAuth e) = PyAuth (e\<lparr>ev_reason := get_bytes g ''reason'', ev_cancel := get_bool g ''_cancel'',
     au_username := get_bytes g ''username'', au_password := get_bytes g ''password'', au_ip := get_bytes g ''ip'',
     au_from_system := get_bool g ''from_system''\<rparr>)"

section \<open>Properties of accounts and channels\<close>

text \<open>Name, type and whether the property has a setter.\<close>

definition account_meta :: "(bytes \<times> metatype \<times> bool) list" where
  "account_meta =
     [(''name'', MByteArray, True), (''uid'', MUuid, True), (''password'', MByteArray, True),
      (''nick'', MByteArray, True), (''host'', MByteArray, True), (''creation_date'', MDateTime, True)]"

definition channel_meta :: "(bytes \<times> metatype \<times> bool) list" where
  "channel_meta =
     [(''name'', MByteArray, True), (''topic'', MByteArray, True), (''key'', MByteArray, True),
      (''limit'', MInt, False), (''date_creation'', MDateTime, True), (''uid'', MUuid, True),
      (''uid_str'', MByteArray, True)]"

definition account_props :: "env \<Rightarrow> account \<Rightarrow> properties" where
  "account_props E a =
     [(''name'', QByteArray (a_name a)), (''uid'', QUuid (a_uid a)), (''password'', QByteArray (a_password a)),
      (''nick'', QByteArray (a_nick a)),
      (''host'', QByteArray (if a_host a = [] then e_default_host E else a_host a)),
      (''creation_date'', QDateTime (a_creation a))]"

definition channel_props :: "env \<Rightarrow> channel \<Rightarrow> properties" where
  "channel_props E c =
     [(''name'', QByteArray (ch_name c)), (''topic'', QByteArray (ch_topic c)), (''key'', QByteArray (ch_key c)),
      (''limit'', QInt (ch_limit c)), (''date_creation'', QDateTime (ch_creation c)), (''uid'', QUuid (ch_uid c)),
      (''uid_str'', QByteArray (uid_string E (ch_uid c)))]"

fun object_props :: "env \<Rightarrow> world \<Rightarrow> obj_ref \<Rightarrow> properties" where
  "object_props E w (OAcc a) = account_props E (w_accs w a)"
| "object_props E w (OChan x) = channel_props E (w_chans w x)"

section \<open>The type registry\<close>

text \<open>A registered type: its Python name, and whether it has a cast from \<open>QEventBase\<close>.\<close>

definition registry :: "(bytes \<times> bool) list" where
  "registry =
     [(''Account'', False), (''Channel'', False), (''AuthUser'', True), (''Message'', True),
      (''ChannelJoin'', True), (''RawMessage'', True), (''PeerMaxConnections'', True), (''ChannelPart'', True),
      (''NickChange'', True), (''ChannelRename'', True), (''Metadata'', True)]"

definition find_by_py_name :: "bytes \<Rightarrow> bool option" where
  "find_by_py_name n = map_of registry n"

definition meta_for_py :: "bytes \<Rightarrow> (bytes \<times> metatype \<times> bool) list option" where
  "meta_for_py n =
     (if find_by_py_name n = None then None
      else if n = ''Account'' then Some account_meta
      else if n = ''Channel'' then Some channel_meta
      else None)"

text \<open>The name under which the class of an event would be registered.\<close>

fun event_name :: "py_event \<Rightarrow> bytes" where
  "event_name (PyRename _) = ''ChannelRename''"
| "event_name (PyPeer _) = ''PeerMaxConnections''"
| "event_name (PyNick _) = ''NickChange''"
| "event_name (PyRaw _) = ''RawMessage''"
| "event_name (PyJoin _) = ''ChannelJoin''"
| "event_name (PyPart _) = ''ChannelPart''"
| "event_name (PyMessage _) = ''Message''"
| "event_name (PyMetadata _) = ''Metadata''"
| "event_name (PyTags _) = ''MessageTags''"
| "event_name (PyAuth _) = ''AuthUser''"

text \<open>The classes that \<open>Snake::start\<close> looks up in \<open>qircd.events\<close>: each registered name is there.\<close>

definition event_classes :: "bytes list" where
  "event_classes = filter (\<lambda>n. map_of py_classes n \<noteq> None) (map fst registry)"

section \<open>From the server to Python\<close>

text \<open>The type an \<open>Optional[T]\<close> or another generic is converted to: its first argument.\<close>

definition unwrap_type :: "pytype \<Rightarrow> pytype" where
  "unwrap_type ty = (case ty of TyGeneric _ (t # _) \<Rightarrow> t | _ \<Rightarrow> ty)"

definition object_to_py :: "py_conv \<Rightarrow> world \<Rightarrow> obj_ref \<Rightarrow> bytes \<Rightarrow> pyval option" where
  "object_to_py P w r cls =
     (if cls \<notin> set event_classes then None
      else
        let props = object_props (py_env P) w r in
        py_new cls (concat (map (\<lambda>f.
          (case map_of props (pf_name f) of
             None \<Rightarrow> []
           | Some value \<Rightarrow> [(pf_name f, variant_to_py_type P value (unwrap_type (pf_type f)))])) (own_fields cls))))"

fun type_name :: "pytype \<Rightarrow> bytes" where
  "type_name TyStr = ''str''"
| "type_name TyBytes = ''bytes''"
| "type_name TyBool = ''bool''"
| "type_name TyInt = ''int''"
| "type_name TyFloat = ''float''"
| "type_name TyNone = ''NoneType''"
| "type_name (TyClass n) = n"
| "type_name (TyGeneric n _) = n"
| "type_name TyOther = []"

text \<open>
  One field of the dataclass. Every field description has the attributes \<open>default\<close> and
  \<open>default_factory\<close>, so a value that is \<open>None\<close> is never passed, whether the field has a
  default or not.
\<close>

definition field_kwarg :: "py_conv \<Rightarrow> world \<Rightarrow> properties \<Rightarrow> py_field \<Rightarrow> (bytes \<times> pyval) list" where
  "field_kwarg P w props f =
     (case map_of props (pf_name f) of
        None \<Rightarrow> []
      | Some value \<Rightarrow>
          let nested = (case value of
                QSharedObject (Some r) \<Rightarrow>
                  if type_name (pf_type f) \<in> set event_classes then object_to_py P w r (type_name (pf_type f)) else None
              | _ \<Rightarrow> None);
              v = (case nested of Some obj \<Rightarrow> obj | None \<Rightarrow> variant_to_py_type P value (pf_type f))
          in if v = PNone then [] else [(pf_name f, v)])"

text \<open>\<open>None\<close> in the result is the null pointer, after the exception of the constructor is printed.\<close>

definition event_to_py :: "py_conv \<Rightarrow> world \<Rightarrow> py_event \<Rightarrow> pyval option" where
  "event_to_py P w ev =
     py_new (event_name ev)
       (concat (map (field_kwarg P w (event_props ev)) (own_fields (event_name ev))))"

section \<open>From Python back to the server\<close>

fun default_value_of :: "metatype \<Rightarrow> qval" where
  "default_value_of MInvalid = QInvalid"
| "default_value_of MBool = QBool False"
| "default_value_of MInt = QInt 0"
| "default_value_of MLongLong = QLongLong 0"
| "default_value_of MDouble = QDouble 0"
| "default_value_of MString = QString []"
| "default_value_of MByteArray = QByteArray []"
| "default_value_of MStringList = QStringList []"
| "default_value_of MByteArrayList = QByteArrayList []"
| "default_value_of MVariantList = QVariantList []"
| "default_value_of MVariantMap = QVariantMap []"
| "default_value_of MUuid = QUuid null_uuid"
| "default_value_of MDateTime = QDateTime 0"
| "default_value_of MObject = QSharedObject None"
| "default_value_of MSubscriptions = QSubscriptions []"

text \<open>
  What \<open>QMetaProperty::write\<close> makes of a value for a property of type \<open>ty\<close>; \<open>None\<close> when Qt has
  no conversion and the property keeps its value.
\<close>

definition convert_for :: "py_conv \<Rightarrow> metatype \<Rightarrow> qval \<Rightarrow> qval option" where
  "convert_for P ty v =
     (if meta_type v = ty then Some v
      else if v = QInvalid then Some (default_value_of ty)
      else
        (case ty of
           MByteArray \<Rightarrow> if can_bytes v then Some (QByteArray (to_qbytes P v)) else None
         | MString \<Rightarrow> if can_string v then Some (QString (to_qstring P v)) else None
         | MBool \<Rightarrow> if can_bytes v then Some (QBool (to_qbool v)) else None
         | MInt \<Rightarrow>
             (case v of
                QBool b \<Rightarrow> Some (QInt (if b then 1 else 0))
              | QLongLong n \<Rightarrow> Some (QInt (to_int32 n))
              | _ \<Rightarrow> py_read P MInt v)
         | MStringList \<Rightarrow>
             (case v of
                QVariantList l \<Rightarrow> Some (QStringList (map (to_qstring P) l))
              | QString s \<Rightarrow> Some (QStringList [s])
              | _ \<Rightarrow> None)
         | MByteArrayList \<Rightarrow>
             (case v of QVariantList l \<Rightarrow> Some (QByteArrayList (map (to_qbytes P) l)) | _ \<Rightarrow> None)
         | MUuid \<Rightarrow>
             (case v of
                QString s \<Rightarrow> Some (QUuid (py_uuid_parse P s))
              | QByteArray s \<Rightarrow> Some (QUuid (py_uuid_parse P s))
              | _ \<Rightarrow> None)
         | MDateTime \<Rightarrow> (case v of QString s \<Rightarrow> py_read P MDateTime v | _ \<Rightarrow> None)
         | _ \<Rightarrow> None))"

text \<open>
  The annotations \<open>updateGadgetFromPyDataclass\<close> gathers, following the first base of each
  class. The fields of \<open>QClass\<close>, which the models inherit, are no properties.
\<close>

definition gathered_fields :: "bytes \<Rightarrow> py_field list" where
  "gathered_fields cls = own_fields cls @ base_fields cls"

text \<open>One property that is not a pointer: the value to write, if it is to be written.\<close>

definition property_write :: "py_conv \<Rightarrow> metatype \<Rightarrow> pyval \<Rightarrow> bytes \<Rightarrow> qval option" where
  "property_write P ty obj name =
     (if name \<notin> set (py_dirty obj) \<and> ty \<noteq> MVariantMap \<and> ty \<noteq> MVariantList then None
      else
        (case py_attr obj name of
           None \<Rightarrow> None
         | Some v \<Rightarrow> convert_for P ty (py_to_variant v)))"

text \<open>
  The recursive call for an account or a channel of the event, which have no properties that are
  pointers: the writes to its properties, in order.
\<close>

definition object_writes ::
    "py_conv \<Rightarrow> (bytes \<times> metatype \<times> bool) list \<Rightarrow> pyval \<Rightarrow> (bytes \<times> qval) list" where
  "object_writes P meta obj =
     concat (map (\<lambda>f.
       (case map_of meta (pf_name f) of
          None \<Rightarrow> []
        | Some (ty, writable) \<Rightarrow>
            (case property_write P ty obj (pf_name f) of
               Some v \<Rightarrow> if writable then [(pf_name f, v)] else []
             | None \<Rightarrow> []))) (gathered_fields (py_class obj)))"

datatype py_write = PyWrite obj_ref bytes qval

text \<open>The pass over one annotation: the event's properties and the writes to other objects so far.\<close>

definition update_field ::
    "py_conv \<Rightarrow> pyval \<Rightarrow> py_field \<Rightarrow> properties \<times> py_write list \<Rightarrow> properties \<times> py_write list" where
  "update_field P obj f acc =
     (case acc of (props, writes) \<Rightarrow>
        (case map_of props (pf_name f) of
           None \<Rightarrow> acc
         | Some (QSharedObject None) \<Rightarrow> acc
         | Some (QSharedObject (Some r)) \<Rightarrow>
             (case py_attr obj (pf_name f) of
                None \<Rightarrow> acc
              | Some nested \<Rightarrow>
                  if nested = PNone then acc
                  else
                    (case meta_for_py (type_name (pf_type f)) of
                       None \<Rightarrow> acc
                     | Some meta \<Rightarrow>
                         (props, writes @ map (\<lambda>(k, v). PyWrite r k v) (object_writes P meta nested))))
         | Some current \<Rightarrow>
             (case property_write P (meta_type current) obj (pf_name f) of
                None \<Rightarrow> acc
              | Some v \<Rightarrow> (AList.update (pf_name f) v props, writes))))"

definition update_gadget ::
    "py_conv \<Rightarrow> pyval \<Rightarrow> properties \<Rightarrow> properties \<times> py_write list" where
  "update_gadget P obj props = fold (update_field P obj) (gathered_fields (py_class obj)) (props, [])"

section \<open>Calling a function\<close>

text \<open>What a Python call does: it raises, returns a value, or returns a coroutine with its outcome.\<close>

datatype call_result = Raises | Returns pyval | Coroutine "pyval option"

datatype py_arg = ArgValue qval | ArgEvent py_event

definition arg_to_py :: "py_conv \<Rightarrow> world \<Rightarrow> py_arg \<Rightarrow> pyval" where
  "arg_to_py P w arg =
     (case arg of
        ArgValue v \<Rightarrow> qvariant_to_py v
      | ArgEvent ev \<Rightarrow>
          if find_by_py_name (event_name ev) = Some True then
            (case event_to_py P w ev of Some obj \<Rightarrow> obj | None \<Rightarrow> PNone)
          else PNone)"

text \<open>Only objects with annotations are copied back.\<close>

definition update_arg :: "py_conv \<Rightarrow> pyval \<Rightarrow> py_arg \<Rightarrow> py_arg \<times> py_write list" where
  "update_arg P result arg =
     (case (result, arg) of
        (PObj _ _ _, ArgEvent ev) \<Rightarrow>
          if find_by_py_name (event_name ev) = Some True then
            let (props, writes) = update_gadget P result (event_props ev)
            in (ArgEvent (with_props P props ev), writes)
          else (arg, [])
      | _ \<Rightarrow> (arg, []))"

text \<open>
  \<open>funcs\<close> are the callables of \<open>__main__\<close>, \<open>None\<close> an interpreter that is not running. The result
  is the second argument with what the call wrote to it, or \<open>None\<close> when the call failed, and
  the writes to accounts and channels.
\<close>

definition execute_function ::
    "py_conv \<Rightarrow> (bytes \<Rightarrow> (pyval list \<Rightarrow> call_result) option) option \<Rightarrow> bytes \<Rightarrow> py_arg list \<Rightarrow> world \<Rightarrow>
      py_arg option \<times> py_write list" where
  "execute_function P interp name args w =
     (case interp of
        None \<Rightarrow> (None, [])
      | Some funcs \<Rightarrow>
          (case funcs name of
             None \<Rightarrow> (None, [])
           | Some f \<Rightarrow>
               (case (case f (map (arg_to_py P w) args) of
                        Raises \<Rightarrow> None | Returns v \<Rightarrow> Some v | Coroutine awaited \<Rightarrow> awaited) of
                  None \<Rightarrow> (None, [])
                | Some result \<Rightarrow>
                    let updated = map (update_arg P result) args
                    in (if length updated > 1 then Some (fst (updated ! 1)) else None,
                        concat (map snd updated)))))"

text \<open>The writes take effect through the setters of the objects.\<close>

definition apply_write :: "env \<Rightarrow> py_write \<Rightarrow> world \<Rightarrow> world res" where
  "apply_write E wr w =
     (case wr of
        PyWrite (OAcc a) k v \<Rightarrow>
          (case v of
             QByteArray b \<Rightarrow>
               if k = ''name'' then Inr (account_set_name a b w)
               else if k = ''password'' then Inr (account_set_password a b w)
               else if k = ''nick'' then bind_res (account_set_nick_py E b a w) (\<lambda>(_, w'). Inr w')
               else if k = ''host'' then Inr (account_set_host a b w)
               else Inr w
           | QUuid u \<Rightarrow> Inr (account_set_uid a u w)
           | QDateTime t \<Rightarrow> Inr (upd_acc a (\<lambda>x. x\<lparr>a_creation := t\<rparr>) w)
           | _ \<Rightarrow> Inr w)
      | PyWrite (OChan x) k v \<Rightarrow>
          (case v of
             QByteArray b \<Rightarrow>
               if k = ''name'' then channel_set_name x b w
               else if k = ''topic'' then channel_set_topic x b w
               else if k = ''key'' then channel_set_key x b w
               else Inr w
           | QUuid u \<Rightarrow> Inr (upd_chan x (\<lambda>c. c\<lparr>ch_uid := u\<rparr>) w)
           | QDateTime t \<Rightarrow> Inr (upd_chan x (\<lambda>c. c\<lparr>ch_creation := t\<rparr>) w)
           | _ \<Rightarrow> Inr w))"

definition apply_writes :: "env \<Rightarrow> py_write list \<Rightarrow> world \<Rightarrow> world res" where
  "apply_writes E ws w = fold_res (apply_write E) ws w"


section \<open>What an update writes\<close>

lemma pf_name_fld [simp]: "pf_name (fld n t d) = n" and pf_type_fld [simp]: "pf_type (fld n t d) = t"
  and pf_default_fld [simp]: "pf_default (fld n t d) = d"
  by (simp_all add: fld_def)

lemmas class_defs = own_fields_def py_classes_def account_class_def channel_class_def message_class_def
  metadata_class_def base_fields_def gathered_fields_def

lemma own_fields_other: "cls \<notin> fst ` set py_classes \<Longrightarrow> own_fields cls = []"
  by (simp add: own_fields_def map_of_eq_None_iff [symmetric])

lemma gathered_distinct: "distinct (map pf_name (gathered_fields cls))"
proof (cases "cls \<in> fst ` set py_classes")
  case True
  then show ?thesis
    by (simp add: py_classes_def) (elim disjE; simp add: class_defs)
next
  case False
  then show ?thesis by (simp add: gathered_fields_def own_fields_other) (simp add: base_fields_def)
qed

definition written :: "py_conv \<Rightarrow> pyval \<Rightarrow> bytes \<Rightarrow> qval \<Rightarrow> qval" where
  "written P obj k v =
     (if meta_type v = MObject then v
      else (case property_write P (meta_type v) obj k of None \<Rightarrow> v | Some v' \<Rightarrow> v'))"

lemma update_field_lookup:
  "map_of (fst (update_field P obj f (props, ws))) =
     (case map_of props (pf_name f) of
        None \<Rightarrow> map_of props
      | Some v \<Rightarrow> (map_of props)(pf_name f \<mapsto> written P obj (pf_name f) v))"
proof (cases "map_of props (pf_name f)")
  case None
  then show ?thesis by (simp add: update_field_def)
next
  case (Some v)
  show ?thesis
  proof (cases "meta_type v = MObject")
    case True
    then obtain r where v: "v = QSharedObject r" by (cases v) auto
    show ?thesis
      using Some by (cases r) (auto simp: v update_field_def written_def split: option.split)
  next
    case False
    then have "update_field P obj f (props, ws) =
        (case property_write P (meta_type v) obj (pf_name f) of
           None \<Rightarrow> (props, ws) | Some v' \<Rightarrow> (AList.update (pf_name f) v' props, ws))"
      using Some by (cases v) (simp_all add: update_field_def)
    then show ?thesis
      using Some False by (auto simp: written_def split: option.split)
  qed
qed

lemma fold_update_lookup:
  "distinct (map pf_name fs) \<Longrightarrow>
   map_of (fst (fold (update_field P obj) fs (props, ws))) k =
     (if k \<in> pf_name ` set fs then map_option (written P obj k) (map_of props k) else map_of props k)"
proof (induction fs arbitrary: props ws)
  case (Cons f fs)
  obtain p1 w1 where u: "update_field P obj f (props, ws) = (p1, w1)" by force
  have "map_of p1 = (case map_of props (pf_name f) of
        None \<Rightarrow> map_of props
      | Some v \<Rightarrow> (map_of props)(pf_name f \<mapsto> written P obj (pf_name f) v))"
    using update_field_lookup [of P obj f props ws] by (simp add: u)
  with Cons show ?case
    by (auto simp: u image_iff split: option.split)
qed simp

lemma update_lookup:
  "map_of (fst (update_gadget P obj props)) k =
     (if k \<in> pf_name ` set (gathered_fields (py_class obj))
      then map_option (written P obj k) (map_of props k) else map_of props k)"
  unfolding update_gadget_def by (rule fold_update_lookup [OF gathered_distinct])

lemma meta_default [simp]: "meta_type (default_value_of ty) = ty"
  by (cases ty) simp_all

lemma convert_for_type:
  assumes "\<And>ty v v'. py_read P ty v = Some v' \<Longrightarrow> meta_type v' = ty" and "convert_for P ty v = Some v'"
  shows "meta_type v' = ty"
  using assms(2) unfolding convert_for_def
  by (cases ty; cases v) (auto dest: assms(1) split: if_splits)


definition sample_conv :: py_conv where
  "sample_conv = \<lparr>py_env = sample_env, py_text = (\<lambda>_. []), py_uuid_text = (\<lambda>_. ''u''), py_uuid_parse = (\<lambda>_. 1),
     py_read = (\<lambda>_ _. None)\<rparr>"


section \<open>An event that comes back as it was sent\<close>

lemma fields_of_new:
  assumes "py_new cls kwargs = Some obj"
  shows "py_class obj = cls" "py_dirty obj = []"
    "py_attr obj k = Some v \<Longrightarrow> map_of kwargs k = Some v \<or>
      (map_of kwargs k = None \<and> (\<exists>f \<in> set (base_fields cls @ own_fields cls). pf_name f = k \<and>
        (pf_default f = Default v \<or> pf_default f = Factory v)))"
proof -
  let ?fs = "base_fields cls @ own_fields cls"
  let ?given = "\<lambda>f. case map_of kwargs (pf_name f) of Some v \<Rightarrow> v
      | None \<Rightarrow> (case pf_default f of Required \<Rightarrow> PNone | Default v \<Rightarrow> v | Factory v \<Rightarrow> v)"
  have obj: "obj = PObj cls (map (\<lambda>f. (pf_name f, ?given f)) ?fs) []"
    and required: "\<forall>f \<in> set ?fs. pf_default f = Required \<longrightarrow> map_of kwargs (pf_name f) \<noteq> None"
    using assms by (auto simp: py_new_def Let_def list_ex_iff split: if_splits)
  show "py_class obj = cls" "py_dirty obj = []" by (simp_all add: obj)
  assume "py_attr obj k = Some v"
  then have "(k, v) \<in> set (map (\<lambda>f. (pf_name f, ?given f)) ?fs)"
    unfolding obj py_attr.simps by (rule map_of_SomeD)
  then obtain f where f: "f \<in> set ?fs" "pf_name f = k" "v = ?given f"
    unfolding set_map image_iff by blast
  show "map_of kwargs k = Some v \<or>
      (map_of kwargs k = None \<and> (\<exists>f \<in> set ?fs. pf_name f = k \<and> (pf_default f = Default v \<or> pf_default f = Factory v)))"
  proof (cases "map_of kwargs k")
    case (Some u)
    then show ?thesis using f by simp
  next
    case None
    then have "pf_default f = Default v \<or> pf_default f = Factory v"
      using f required by (cases "pf_default f") auto
    with None f(1,2) show ?thesis by blast
  qed
qed

lemma defaults_clean:
  assumes "f \<in> set (base_fields cls @ own_fields cls)" "pf_default f = Default v \<or> pf_default f = Factory v"
  shows "py_dirty v = []"
proof (cases "cls \<in> fst ` set py_classes")
  case True
  then show ?thesis
    using assms by (simp add: py_classes_def) (elim disjE; auto simp: class_defs)
next
  case False
  then show ?thesis using assms by (auto simp: own_fields_other base_fields_def split: if_splits)
qed

lemma typed_value_clean: "py_dirty (variant_to_py_type P value ty) = []"
  by (simp add: variant_to_py_type_def split: pytype.split)

lemma object_clean: "object_to_py P w r cls = Some obj \<Longrightarrow> py_dirty obj = []"
  by (auto simp: object_to_py_def Let_def dest: fields_of_new(2) split: if_splits)

lemma kwarg_source:
  assumes "map_of (concat (map (field_kwarg P w props) fs)) k = Some v"
  shows "\<exists>f \<in> set fs. pf_name f = k \<and> (k, v) \<in> set (field_kwarg P w props f)"
proof -
  obtain f where "f \<in> set fs" "(k, v) \<in> set (field_kwarg P w props f)"
    using map_of_SomeD [OF assms] by auto
  moreover have "pf_name f = k"
    using calculation(2) by (auto simp: field_kwarg_def Let_def split: option.splits if_splits)
  ultimately show ?thesis by blast
qed

lemma kwarg_clean: "(k, v) \<in> set (field_kwarg P w props f) \<Longrightarrow> py_dirty v = []"
  by (auto simp: field_kwarg_def Let_def typed_value_clean split: option.splits qval.splits if_splits
      dest: object_clean)

lemma event_clean:
  assumes "event_to_py P w ev = Some obj"
  shows "py_class obj = event_name ev" "py_dirty obj = []" "py_attr obj k = Some v \<Longrightarrow> py_dirty v = []"
proof -
  note new = assms [unfolded event_to_py_def]
  show "py_class obj = event_name ev" "py_dirty obj = []"
    by (rule fields_of_new(1,2) [OF new])+
  show "py_dirty v = []" if "py_attr obj k = Some v"
    using fields_of_new(3) [OF new that]
  proof
    assume "map_of (concat (map (field_kwarg P w (event_props ev)) (own_fields (event_name ev)))) k = Some v"
    then show ?thesis by (blast dest: kwarg_source kwarg_clean)
  qed (blast dest: defaults_clean)
qed

lemma meta_without_maps:
  assumes "meta_for_py n = Some meta" and "map_of meta k = Some (ty, b)"
  shows "ty \<noteq> MVariantMap \<and> ty \<noteq> MVariantList"
  using map_of_SomeD [OF assms(2)] assms(1)
  by (auto simp: meta_for_py_def account_meta_def channel_meta_def split: if_splits)

lemma object_writes_clean:
  assumes "py_dirty obj = []" and "meta_for_py n = Some meta"
  shows "object_writes P meta obj = []"
  using meta_without_maps [OF assms(2)] assms(1)
  by (fastforce simp: object_writes_def property_write_def split: option.split)

lemma update_field_clean:
  assumes "\<And>k v. py_attr obj k = Some v \<Longrightarrow> py_dirty v = []"
  shows "snd (update_field P obj f (props, ws)) = ws"
proof (cases "map_of props (pf_name f)")
  case (Some v)
  show ?thesis
  proof (cases v)
    case (QSharedObject r)
    then show ?thesis
      using Some assms object_writes_clean by (auto simp: update_field_def split: option.split)
  qed (simp_all add: Some update_field_def split: option.split)
qed (simp add: update_field_def)

lemma update_clean:
  assumes "\<And>k v. py_attr obj k = Some v \<Longrightarrow> py_dirty v = []"
  shows "snd (update_gadget P obj props) = []"
proof -
  have "snd (fold (update_field P obj) fs acc) = snd acc" for fs acc
  proof (induction fs arbitrary: acc)
    case (Cons f fs)
    then show ?case using update_field_clean [where props = "fst acc" and ws = "snd acc", OF assms] by simp
  qed simp
  then show ?thesis by (simp add: update_gadget_def)
qed

text \<open>The tags and the metadata of an event are maps, which Python sees empty.\<close>

fun strip_maps :: "py_event \<Rightarrow> py_event" where
  "strip_maps (PyMessage e) = PyMessage (e\<lparr>me_tags := []\<rparr>)"
| "strip_maps (PyMetadata e) = PyMetadata (e\<lparr>md_metadata := []\<rparr>)"
| "strip_maps e = e"

lemma default_attr:
  assumes "py_new cls kwargs = Some obj" and "f \<in> set (base_fields cls @ own_fields cls)"
    and "pf_default f = Default v \<or> pf_default f = Factory v"
    and "map_of kwargs (pf_name f) = None"
  shows "py_attr obj (pf_name f) = Some v"
proof -
  let ?fs = "base_fields cls @ own_fields cls"
  let ?given = "\<lambda>f. case map_of kwargs (pf_name f) of Some v \<Rightarrow> v
      | None \<Rightarrow> (case pf_default f of Required \<Rightarrow> PNone | Default v \<Rightarrow> v | Factory v \<Rightarrow> v)"
  have obj: "obj = PObj cls (map (\<lambda>f. (pf_name f, ?given f)) ?fs) []"
    using assms(1) by (auto simp: py_new_def Let_def split: if_splits)
  have "distinct (map fst (map (\<lambda>f. (pf_name f, ?given f)) ?fs))"
    using gathered_distinct [of cls] by (auto simp: gathered_fields_def comp_def)
  moreover have "(pf_name f, v) \<in> set (map (\<lambda>f. (pf_name f, ?given f)) ?fs)"
    using assms(2-4) by (force simp: image_iff)
  ultimately show ?thesis by (simp only: obj py_attr.simps map_of_is_SomeI)
qed

lemma map_attr:
  assumes "event_to_py P w ev = Some obj" and "map_of (event_props ev) (pf_name f) = Some (QVariantMap m)"
    and "f \<in> set (own_fields (event_name ev))" and "pf_type f = ty_dict t" and "pf_default f = Factory v"
  shows "py_attr obj (pf_name f) = Some v"
proof (rule default_attr [OF assms(1) [unfolded event_to_py_def]])
  show "f \<in> set (base_fields (event_name ev) @ own_fields (event_name ev))" using assms(3) by simp
  show "pf_default f = Default v \<or> pf_default f = Factory v" using assms(5) by simp
  have "f' = f" if "f' \<in> set (own_fields (event_name ev))" "pf_name f' = pf_name f" for f'
    using gathered_distinct [of "event_name ev"] assms(3) that
    by (auto simp: gathered_fields_def distinct_map inj_on_def)
  moreover have "field_kwarg P w (event_props ev) f = []"
    using assms(2,4) by (simp add: field_kwarg_def variant_to_py_type_def)
  ultimately have "map_of (concat (map (field_kwarg P w (event_props ev)) (own_fields (event_name ev)))) (pf_name f) \<noteq> Some u"
    for u using kwarg_source by fastforce
  then show "map_of (concat (map (field_kwarg P w (event_props ev)) (own_fields (event_name ev)))) (pf_name f) = None"
    by blast
qed

lemma map_written:
  assumes "py_attr obj k = Some (PDict [])" and "meta_type v = MVariantMap"
  shows "written P obj k v = QVariantMap []"
  using assms by (simp add: written_def property_write_def convert_for_def)

lemma unwritten: "py_dirty obj = [] \<Longrightarrow> meta_type v \<noteq> MVariantMap \<Longrightarrow> meta_type v \<noteq> MVariantList \<Longrightarrow>
    written P obj k v = v"
  by (simp add: written_def property_write_def)

lemmas get_defs = get_bytes_def get_bool_def get_int_def get_list_def get_tags_def get_subs_def

lemma untouched_props:
  assumes "event_to_py P w ev = Some obj" and "find_by_py_name (event_name ev) = Some True"
  shows "with_props P (fst (update_gadget P obj (event_props ev))) ev = strip_maps ev"
proof -
  note clean = event_clean(1,2) [OF assms(1)]
  show ?thesis
  proof (cases ev)
    case (PyMessage e)
    have "py_attr obj ''tags'' = Some (PDict [])"
      using map_attr [OF assms(1), of "fld ''tags'' (ty_dict TyOther) (Factory (PDict []))"]
      by (simp add: PyMessage base_props_def tags_variant_def class_defs)
    from map_written [OF this] show ?thesis
      using clean by (simp add: PyMessage update_lookup base_props_def unwritten get_defs tags_variant_def
          account_ref_def channel_ref_def class_defs)
  next
    case (PyMetadata e)
    have "py_attr obj ''metadata'' = Some (PDict [])"
      using map_attr [OF assms(1), of "fld ''metadata'' (ty_dict TyOther) (Factory (PDict []))"]
      by (simp add: PyMetadata base_props_def tags_variant_def class_defs)
    from map_written [OF this] show ?thesis
      using clean by (simp add: PyMetadata update_lookup base_props_def unwritten get_defs tags_variant_def
          account_ref_def channel_ref_def class_defs)
  qed (use assms(2) clean in \<open>simp_all add: update_lookup base_props_def unwritten get_defs find_by_py_name_def
          registry_def account_ref_def channel_ref_def class_defs\<close>)
qed

lemma untouched_arg:
  assumes "arg_to_py P w (ArgEvent ev) = obj"
  shows "update_arg P obj (ArgEvent ev) = (ArgEvent (if obj = PNone then ev else strip_maps ev), [])"
proof (cases "find_by_py_name (event_name ev) = Some True \<and> event_to_py P w ev \<noteq> None")
  case True
  then obtain new where new: "event_to_py P w ev = Some new" by blast
  then have obj: "obj = new" using assms True by (simp add: arg_to_py_def)
  obtain cls fs dirty where o: "obj = PObj cls fs dirty"
    using new by (auto simp: obj event_to_py_def py_new_def Let_def split: if_splits)
  have "snd (update_gadget P obj (event_props ev)) = []"
    using event_clean(3) [OF new] by (intro update_clean) (auto simp: obj)
  then show ?thesis
    using True untouched_props [OF new] by (simp add: update_arg_def obj [symmetric] o case_prod_beta' Let_def)
next
  case False
  then have "obj = PNone" using assms by (auto simp: arg_to_py_def split: if_splits)
  then show ?thesis by (simp add: update_arg_def)
qed

section \<open>An event that was cancelled\<close>

lemma base_attr:
  assumes "event_to_py P w ev = Some obj" and "f \<in> set (base_fields (event_name ev))" and "pf_default f = Default v"
  shows "py_attr obj (pf_name f) = Some v"
proof (rule default_attr [OF assms(1) [unfolded event_to_py_def]])
  have "pf_name f' \<noteq> pf_name f" if "f' \<in> set (own_fields (event_name ev))" for f'
    using gathered_distinct [of "event_name ev"] assms(2) that by (auto simp: gathered_fields_def)
  then have "map_of (concat (map (field_kwarg P w (event_props ev)) (own_fields (event_name ev)))) (pf_name f) \<noteq> Some u"
    for u using kwarg_source by fastforce
  then show "map_of (concat (map (field_kwarg P w (event_props ev)) (own_fields (event_name ev)))) (pf_name f) = None"
    by blast
qed (use assms in simp_all)

lemma event_base_attr:
  assumes "event_to_py P w ev = Some obj"
  shows "py_attr obj ''_cancel'' = Some (PBool False)" "py_attr obj ''reason'' = Some PNone"
proof -
  have fields: "set (base_fields (event_name ev)) =
      {fld ''reason'' TyStr (Default PNone), fld ''_cancel'' TyBool (Default (PBool False))}"
    by (cases ev) (auto simp: base_fields_def)
  show "py_attr obj ''_cancel'' = Some (PBool False)"
    using base_attr [OF assms, of "fld ''_cancel'' TyBool (Default (PBool False))"] by (simp add: fields)
  show "py_attr obj ''reason'' = Some PNone"
    using base_attr [OF assms, of "fld ''reason'' TyStr (Default PNone)"] by (simp add: fields)
qed

lemma setattr_attr: "obj = PObj cls fs dirty \<Longrightarrow> py_attr (py_setattr k v obj) = (py_attr obj)(k \<mapsto> v)"
  by auto

lemma py_class_setattr [simp]: "py_class (py_setattr k v obj) = py_class obj"
  by (cases obj) simp_all

lemma cancel_attrs:
  assumes "obj = PObj cls fs []" and "py_attr obj ''_cancel'' = Some (PBool False)" and "py_attr obj ''reason'' = Some PNone"
  shows "set (py_dirty (py_cancel m obj)) = {''_cancel''} \<union> (if m = [] then {} else {''reason''})"
    and "py_attr (py_cancel m obj) =
      (if m = [] then (py_attr obj)(''_cancel'' \<mapsto> PBool True)
       else (py_attr obj)(''_cancel'' \<mapsto> PBool True, ''reason'' \<mapsto> PStr m))"
    and "py_class (py_cancel m obj) = py_class obj"
  using assms by (auto simp: py_cancel_def Let_def py_equal_def)

fun cancelled :: "bytes \<Rightarrow> py_event \<Rightarrow> py_event" where
  "cancelled m (PyRename e) = PyRename (e\<lparr>ev_reason := m, ev_cancel := True\<rparr>)"
| "cancelled m (PyPeer e) = PyPeer (e\<lparr>ev_reason := m, ev_cancel := True\<rparr>)"
| "cancelled m (PyNick e) = PyNick (e\<lparr>ev_reason := m, ev_cancel := True\<rparr>)"
| "cancelled m (PyRaw e) = PyRaw (e\<lparr>ev_reason := m, ev_cancel := True\<rparr>)"
| "cancelled m (PyJoin e) = PyJoin (e\<lparr>ev_reason := m, ev_cancel := True\<rparr>)"
| "cancelled m (PyPart e) = PyPart (e\<lparr>ev_reason := m, ev_cancel := True\<rparr>)"
| "cancelled m (PyMessage e) = PyMessage (e\<lparr>ev_reason := m, ev_cancel := True\<rparr>)"
| "cancelled m (PyMetadata e) = PyMetadata (e\<lparr>ev_reason := m, ev_cancel := True\<rparr>)"
| "cancelled m (PyTags e) = PyTags (e\<lparr>ev_reason := m, ev_cancel := True\<rparr>)"
| "cancelled m (PyAuth e) = PyAuth (e\<lparr>ev_reason := m, ev_cancel := True\<rparr>)"

end
