(* ===== verification/Python_Modules.thy ===== *)
theory Python_Modules
  imports Snake_Pit Metadata_Store Python_Events
begin

text \<open>
  The Python modules seen from the server: the dispatch of an event to their handlers
  (\<open>QIRC.call\<close> of \<open>src/python/qircd/qircd.py\<close>), the hooks of the server that go through it, the
  list of modules (\<open>listModules\<close>, \<open>src/python/module.cpp\<close>) and the functions the modules can
  call (\<open>get_accounts\<close>, \<open>get_channels\<close>). What a handler does is a parameter.
\<close>

section \<open>Handlers\<close>

text \<open>
  A handler leaves the event object in some state and raises, returns that object, returns
  another value, or returns a coroutine, which can look at the object when it is awaited.
\<close>

datatype handler_out = HRaises | HArg | HValue pyval | HCoroutine "pyval \<Rightarrow> pyval option"

record py_handler =
  ph_bound :: bool
  ph_enabled :: bool
  ph_run :: "pyval \<Rightarrow> pyval \<times> handler_out"

fun handler_value :: "pyval \<Rightarrow> handler_out \<Rightarrow> call_result" where
  "handler_value arg HRaises = Raises"
| "handler_value arg HArg = Returns arg"
| "handler_value arg (HValue v) = Returns v"
| "handler_value arg (HCoroutine c) = Coroutine (c arg)"

fun call_handlers :: "py_handler list \<Rightarrow> pyval \<Rightarrow> handler_out \<Rightarrow> call_result" where
  "call_handlers [] arg result = handler_value arg result"
| "call_handlers (h # hs) arg result =
     (if \<not> ph_bound h \<or> \<not> ph_enabled h then call_handlers hs arg result
      else
        let (arg1, out) = ph_run h arg in
        if handler_value arg1 out = Raises \<or> handler_value arg1 out = Returns PNone
        then handler_value arg1 out
        else call_handlers hs arg1 out)"

text \<open>\<open>handlers n\<close> are the handlers registered for the event with the number \<open>n\<close>.\<close>

definition qirc_call :: "(int \<Rightarrow> py_handler list) \<Rightarrow> pyval list \<Rightarrow> call_result" where
  "qirc_call handlers args =
     (case args of
        [PInt ev, arg] \<Rightarrow> call_handlers (handlers ev) arg (HValue PNone)
      | _ \<Rightarrow> Raises)"

definition interpreter :: "(int \<Rightarrow> py_handler list) \<Rightarrow> bytes \<Rightarrow> (pyval list \<Rightarrow> call_result) option" where
  "interpreter handlers name = (if name = ''__qirc_call'' then Some (qirc_call handlers) else None)"

section \<open>The hooks of the server\<close>

text \<open>
  \<open>SnakePit::event\<close> on the interpreter it chose. The C++ caller holds a pointer to the event, so
  it sees what the call wrote to it.
\<close>

definition pit_event ::
    "py_conv \<Rightarrow> (int \<Rightarrow> py_handler list) \<Rightarrow> world \<Rightarrow> qirc_event \<Rightarrow> py_event \<Rightarrow> py_arg option \<times> py_write list" where
  "pit_event P handlers w ev e =
     execute_function P (Some (interpreter handlers)) ''__qirc_call''
       [ArgValue (QInt (uint (event_val ev))), ArgEvent e] w"

definition python_env :: "py_conv \<Rightarrow> (int \<Rightarrow> py_handler list) \<Rightarrow> world \<Rightarrow> env \<Rightarrow> env" where
  "python_env P handlers w E = E
     \<lparr>e_on_rename := (\<lambda>e. case fst (pit_event P handlers w CHANNEL_RENAME (PyRename e)) of
          Some (ArgEvent (PyRename r)) \<Rightarrow> Some r | _ \<Rightarrow> None),
      e_on_nick := (\<lambda>e. case fst (pit_event P handlers w NICK_CHANGE (PyNick e)) of
          Some (ArgEvent (PyNick r)) \<Rightarrow> Some r | _ \<Rightarrow> None),
      e_on_raw := (\<lambda>e. case fst (pit_event P handlers w RAW_MSG (PyRaw e)) of
          Some (ArgEvent (PyRaw r)) \<Rightarrow> Some r | _ \<Rightarrow> None),
      e_on_join := (\<lambda>e. case fst (pit_event P handlers w CHANNEL_JOIN (PyJoin e)) of
          Some (ArgEvent (PyJoin r)) \<Rightarrow> Some r | _ \<Rightarrow> None),
      e_on_part := (\<lambda>e. case fst (pit_event P handlers w CHANNEL_PART (PyPart e)) of
          Some (ArgEvent (PyPart r)) \<Rightarrow> Some r | _ \<Rightarrow> None),
      e_on_message := (\<lambda>ev e. case fst (pit_event P handlers w ev (PyMessage e)) of
          Some (ArgEvent (PyMessage r)) \<Rightarrow> Some r | _ \<Rightarrow> None),
      e_on_auth := (\<lambda>e. case fst (pit_event P handlers w AUTH_SASL_PLAIN (PyAuth e)) of
          Some (ArgEvent (PyAuth r)) \<Rightarrow> Some r | _ \<Rightarrow> None),
      e_on_tags := (\<lambda>e. case fst (pit_event P handlers w VERIFY_MSG_TAGS (PyTags e)) of
          Some (ArgEvent (PyTags r)) \<Rightarrow> Some r | _ \<Rightarrow> None)\<rparr>"

section \<open>The list of modules\<close>

text \<open>A loaded module and \<open>QIRCModule.describe\<close>.\<close>

record py_module =
  pm_name :: bytes
  pm_version :: pyval
  pm_author :: pyval
  pm_type :: int
  pm_mode :: int
  pm_enabled :: bool
  pm_handlers :: "(bytes \<times> int) list"

definition py_describe :: "py_module \<Rightarrow> pyval" where
  "py_describe m = PDict
     [(PStr ''name'', PStr (pm_name m)), (PStr ''version'', pm_version m), (PStr ''author'', pm_author m),
      (PStr ''type'', PInt (pm_type m)), (PStr ''mode'', PInt (pm_mode m)),
      (PStr ''enabled'', PBool (pm_enabled m)),
      (PStr ''handlers'', PList (map (\<lambda>(method, event).
         PDict [(PStr ''method'', PStr method), (PStr ''event'', PInt event)]) (pm_handlers m)))]"

definition py_list_modules :: "py_module list \<Rightarrow> pyval" where
  "py_list_modules ms = PDict (fold (\<lambda>m. pdict_set (PStr (pm_name m)) (py_describe m)) ms [])"

text \<open>
  \<open>QJsonObject\<close>: its values are those of the variants it is made of, each with its kind. A
  number is not a boolean and not text.
\<close>

fun json_map :: "qval \<Rightarrow> (bytes \<times> qval) list" where
  "json_map (QVariantMap m) = m"
| "json_map _ = []"

fun json_list :: "qval \<Rightarrow> qval list" where
  "json_list (QVariantList l) = l"
| "json_list _ = []"

definition json_value :: "(bytes \<times> qval) list \<Rightarrow> bytes \<Rightarrow> qval" where
  "json_value m k = (case map_of m k of None \<Rightarrow> QInvalid | Some v \<Rightarrow> v)"

fun json_bool :: "qval \<Rightarrow> bool" where
  "json_bool (QBool b) = b"
| "json_bool _ = False"

fun json_int :: "qval \<Rightarrow> int" where
  "json_int (QInt n) = n"
| "json_int (QDouble r) = (if of_int (to_int32 \<lfloor>r\<rfloor>) = r then to_int32 \<lfloor>r\<rfloor> else 0)"
| "json_int _ = 0"

fun json_double :: "qval \<Rightarrow> real" where
  "json_double (QInt n) = of_int n"
| "json_double (QDouble r) = r"
| "json_double _ = 0"

fun json_string :: "qval \<Rightarrow> bytes" where
  "json_string (QString s) = s"
| "json_string _ = []"

text \<open>The enumerators with these values; the code casts any other number as well.\<close>

definition module_type_of :: "int \<Rightarrow> module_type option" where
  "module_type_of n = (if n = 1 then Some MODULE else if n = 2 then Some BOT else None)"

definition module_mode_of :: "int \<Rightarrow> module_mode option" where
  "module_mode_of n = (if n = 1 then Some CONCURRENT else if n = 2 then Some EXCLUSIVE else None)"

definition all_events :: "qirc_event list" where
  "all_events =
     [AUTH_SASL_PLAIN, CHANNEL_MSG, PRIVATE_MSG, CHANNEL_JOIN, CHANNEL_PART, RAW_MSG, PEER_MAX_CONNECTIONS,
      NICK_CHANGE, CHANNEL_RENAME, TAG_MSG, VERIFY_MSG_TAGS]"

definition event_of :: "int \<Rightarrow> qirc_event option" where
  "event_of n = List.find (\<lambda>ev. uint (event_val ev) = n) all_events"

fun all_some :: "'a option list \<Rightarrow> 'a list option" where
  "all_some [] = Some []"
| "all_some (x # xs) =
     (case (x, all_some xs) of (Some v, Some vs) \<Rightarrow> Some (v # vs) | _ \<Rightarrow> None)"

text \<open>\<open>create_from_json\<close>; \<open>None\<close> when a number is not the value of an enumerator.\<close>

definition create_from_json :: "(bytes \<times> qval) list \<Rightarrow> module_class option" where
  "create_from_json obj =
     (case (module_type_of (json_int (json_value obj ''type'')),
            module_mode_of (json_int (json_value obj ''mode'')),
            all_some (map (\<lambda>h. map_option
              (\<lambda>ev. \<lparr>h_event = ev, h_method = json_string (json_value (json_map h) ''method'')\<rparr>)
              (event_of (json_int (json_value (json_map h) ''event''))))
              (json_list (json_value obj ''handlers'')))) of
        (Some type, Some mode, Some handlers) \<Rightarrow>
          Some \<lparr>mc_name = json_string (json_value obj ''name''), mc_author = json_string (json_value obj ''author''),
            mc_version = json_double (json_value obj ''version''), mc_enabled = json_bool (json_value obj ''enabled''),
            mc_type = type, mc_mode = mode, mc_handlers = handlers\<rparr>
      | _ \<Rightarrow> None)"

text \<open>
  \<open>Snake::listModules\<close>: \<open>result\<close> is what evaluating \<open>qirc.list_modules()\<close> gives, \<open>None\<close> an
  exception.
\<close>

definition snake_list_modules :: "bool \<Rightarrow> pyval option \<Rightarrow> (bytes \<times> module_class) list option" where
  "snake_list_modules running result =
     (if \<not> running then Some []
      else
        (case result of
           None \<Rightarrow> Some []
         | Some v \<Rightarrow>
             map_option (\<lambda>kms. fold (\<lambda>(k, mc). hash_put k mc) kms [])
               (all_some (map (\<lambda>(k, v). map_option (Pair k) (create_from_json (json_map v)))
                 (json_map (py_to_qvariant v))))))"

text \<open>\<open>Snake::enableModule\<close> and \<open>disableModule\<close>: the text they evaluate; \<open>eval\<close> says whether it raises.\<close>

definition snake_enable_module :: "bool \<Rightarrow> (bytes \<Rightarrow> bool) \<Rightarrow> bytes \<Rightarrow> bool" where
  "snake_enable_module running eval name = (running \<and> eval (''qirc.enable_module('' @ [CHR 0x27] @ name @ [CHR 0x27] @ '')''))"

definition snake_disable_module :: "bool \<Rightarrow> (bytes \<Rightarrow> bool) \<Rightarrow> bytes \<Rightarrow> bool" where
  "snake_disable_module running eval name = (running \<and> eval (''qirc.disable_module('' @ [CHR 0x27] @ name @ [CHR 0x27] @ '')''))"

section \<open>Functions for the modules\<close>

text \<open>The UUIDs of the one argument, a list of strings; \<open>None\<close> is a \<open>TypeError\<close>.\<close>

definition uuid_args :: "py_conv \<Rightarrow> pyval list \<Rightarrow> quuid list option" where
  "uuid_args P args =
     (case args of
        [PList items] \<Rightarrow> all_some (map (\<lambda>v. case v of PStr s \<Rightarrow> Some (py_uuid_parse P (c_str s)) | _ \<Rightarrow> None) items)
      | _ \<Rightarrow> None)"

definition py_get_accounts :: "py_conv \<Rightarrow> world \<Rightarrow> pyval list \<Rightarrow> pyval option" where
  "py_get_accounts P w args =
     map_option (\<lambda>uuids. PList (map (\<lambda>(u, name). PDict
         [(PStr ''name'', PStr (c_str (World.norm (py_env P) name))), (PStr ''uuid'', PStr (c_str (py_uuid_text P u)))])
       (get_accounts_by_uuids uuids w))) (uuid_args P args)"

text \<open>\<open>getChannelsByUUIDs\<close> answers with an empty list; its body is a comment.\<close>

definition get_channels_by_uuids :: "quuid list \<Rightarrow> (bytes \<times> bytes) list list" where
  "get_channels_by_uuids uuids = []"

definition py_get_channels :: "py_conv \<Rightarrow> pyval list \<Rightarrow> pyval option" where
  "py_get_channels P args =
     map_option (\<lambda>uuids. PList (map (\<lambda>m. PDict (fold (\<lambda>(k, v). pdict_set (PStr (c_str k)) (PStr (c_str v))) m []))
       (get_channels_by_uuids uuids))) (uuid_args P args)"

section \<open>Modules are listed as disabled\<close>

lemma fold_values:
  assumes "\<And>k v m. snd ` set (upd k v m) \<subseteq> insert v (snd ` set m)"
  shows "snd ` set (fold (\<lambda>(k, v). upd k v) kvs m) \<subseteq> snd ` set kvs \<union> snd ` set m"
proof (induction kvs arbitrary: m)
  case (Cons p kvs)
  obtain j u where p: "p = (j, u)" by force
  show ?case using Cons.IH [of "upd j u m"] assms [of j u m] by (auto simp: p)
qed simp

lemmas fold_values_Nil = fold_values [where m = "[]", simplified]

lemma qmap_put_values: "snd ` set (qmap_put k v m) \<subseteq> insert v (snd ` set m)"
  by (induction k v m rule: qmap_put.induct) auto

lemma update_values: "snd ` set (AList.update k v m) \<subseteq> insert v (snd ` set m)"
  by (induction m) auto

lemma describe_disabled: "json_value (json_map (py_to_qvariant (py_describe m))) ''enabled'' = QInt (if pm_enabled m then 1 else 0)"
  using qmap.fold_put [of "[]"]
  by (simp add: json_value_def py_describe_def c_str_def)

lemma create_enabled: "create_from_json obj = Some mc \<Longrightarrow> mc_enabled mc = json_bool (json_value obj ''enabled'')"
  by (simp add: create_from_json_def split: option.splits) (clarsimp split: option.splits)

lemma list_modules_values:
  assumes "v \<in> snd ` set (fold (\<lambda>m. pdict_set (PStr (pm_name m)) (py_describe m)) ms [])"
  shows "\<exists>m. v = py_describe m"
proof -
  let ?kvs = "map (\<lambda>m. (PStr (pm_name m), py_describe m)) ms"
  have "fold (\<lambda>(k, v). pdict_set k v) ?kvs [] = fold (\<lambda>m. pdict_set (PStr (pm_name m)) (py_describe m)) ms []"
    by (simp add: fold_map comp_def)
  moreover have "snd ` set (fold (\<lambda>(k, v). pdict_set k v) ?kvs []) \<subseteq> snd ` set ?kvs"
    by (rule fold_values_Nil) (simp add: pdict_set_def update_values)
  ultimately have "v \<in> snd ` set ?kvs" using assms by auto
  then show ?thesis by auto
qed

lemma all_some_elem: "all_some xs = Some ys \<Longrightarrow> y \<in> set ys \<Longrightarrow> Some y \<in> set xs"
  by (induction xs arbitrary: ys) (auto split: option.splits)

lemma listed_disabled:
  assumes "snake_list_modules running (Some (py_list_modules ms)) = Some l" and "(key, mc) \<in> set l"
  shows "\<not> mc_enabled mc"
proof -
  let ?d = "fold (\<lambda>m. pdict_set (PStr (pm_name m)) (py_describe m)) ms []"
  obtain kms where kms: "all_some (map (\<lambda>(k, v). map_option (Pair k) (create_from_json (json_map v)))
      (json_map (py_to_qvariant (PDict ?d)))) = Some kms"
    and l: "l = fold (\<lambda>(k, mc). hash_put k mc) kms []"
    using assms by (auto simp del: py_to_qvariant.simps simp: snake_list_modules_def py_list_modules_def split: if_splits)
  have "mc \<in> snd ` set l" using assms(2) by force
  also have "\<dots> \<subseteq> snd ` set kms"
    unfolding l by (rule fold_values_Nil) (rule update_values)
  finally obtain k where "(k, mc) \<in> set kms" by auto
  then have "Some (k, mc) \<in> set (map (\<lambda>(k, v). map_option (Pair k) (create_from_json (json_map v)))
      (json_map (py_to_qvariant (PDict ?d))))"
    by (rule all_some_elem [OF kms])
  then obtain e where e: "Some (k, mc) = (case e of (k, v) \<Rightarrow> map_option (Pair k) (create_from_json (json_map v)))"
      "e \<in> set (json_map (py_to_qvariant (PDict ?d)))"
    unfolding set_map by (rule imageE)
  define v where "v = snd e"
  have v: "v \<in> snd ` set (json_map (py_to_qvariant (PDict ?d)))" unfolding v_def by (rule imageI [OF e(2)])
  have made: "create_from_json (json_map v) = Some mc"
    using e(1) by (cases "create_from_json (json_map (snd e))") (simp_all add: v_def case_prod_beta)
  let ?kvs = "map (\<lambda>(k, v). (py_key k, py_to_qvariant v)) ?d"
  have "v \<in> snd ` set (fold (\<lambda>(k, v). qmap_put k v) ?kvs [])" using v by simp
  also have "\<dots> \<subseteq> snd ` set ?kvs" by (rule fold_values_Nil) (rule qmap_put_values)
  finally have "v \<in> py_to_qvariant ` snd ` set ?d" by force
  then obtain u where u: "v = py_to_qvariant u" "u \<in> snd ` set ?d" by (rule imageE)
  from list_modules_values [OF u(2)] obtain m where "v = py_to_qvariant (py_describe m)"
    unfolding u(1) by (elim exE) simp
  then show ?thesis using create_enabled [OF made] by (simp add: describe_disabled)
qed

text \<open>The pool as the running server drives it: nothing calls \<open>enableModule\<close> or \<open>disableModule\<close>.\<close>

inductive server_pit :: "snake_pit \<Rightarrow> bool" where
  start: "server_pit new_snake_pit"
| ready: "server_pit s \<Longrightarrow> snake_list_modules running (Some (py_list_modules ms)) = Some l \<Longrightarrow> server_pit (on_snakes_ready ok l s)"
| restart: "server_pit s \<Longrightarrow> server_pit (restart_snakes s)"
| refresh: "server_pit s \<Longrightarrow> snake_list_modules running (Some (py_list_modules ms)) = Some l \<Longrightarrow> server_pit (refresh_modules_all l s)"

lemma calc_disabled:
  assumes "\<And>key mc. (key, mc) \<in> set (sp_modules s) \<Longrightarrow> \<not> mc_enabled mc"
  shows "\<not> pit_has_event_handler ev (calc_active_events s)"
  using assms calc_active(1) [of ev s] by (force simp: pit_has_event_handler_def handles_def)

text \<open>C31: The server never finds a Python module enabled: whatever modules are loaded and whichever of them are
  enabled in Python, no event has a handler, so no hook of the IRC and the web side calls Python.
  (The flag is a Python boolean, which is read as a number, and a number is not true in JSON.)\<close>

theorem no_event_is_ever_handled:
  assumes "server_pit s"
  shows "\<not> pit_has_event_handler ev s \<and> \<not> has_event_handler (E\<lparr>e_active := sp_active s\<rparr>) ev"
proof -
  have "\<not> pit_has_event_handler ev s"
    using assms
  proof induction
    case start
    then show ?case
      by (simp add: pit_has_event_handler_def new_snake_pit_def events.not_has_empty flags_empty_def)
  next
    case (ready s running ms l ok)
    have "\<not> pit_has_event_handler ev (calc_active_events (t\<lparr>sp_modules := l\<rparr>))" for t
      by (rule calc_disabled) (use listed_disabled [OF ready.hyps(2)] in auto)
    then show ?case
      using ready.IH by (auto simp: on_snakes_ready_def Let_def pit_has_event_handler_def)
  next
    case (restart s)
    then show ?case by (auto simp: restart_snakes_def pit_has_event_handler_def)
  next
    case (refresh s running ms l)
    have "\<not> pit_has_event_handler ev (calc_active_events (t\<lparr>sp_modules := l\<rparr>))" for t
      by (rule calc_disabled) (use listed_disabled [OF refresh.hyps(2)] in auto)
    then show ?case using refresh.IH by (auto simp: refresh_modules_all_def)
  qed
  then show ?thesis by (simp add: pit_has_event_handler_def has_event_handler_def)
qed

definition echo_module :: py_module where
  "echo_module = \<lparr>pm_name = ''Echo'', pm_version = PNone, pm_author = PStr ''me'', pm_type = 1, pm_mode = 2, pm_enabled = True,
     pm_handlers = [(''raw'', 32)]\<rparr>"

definition echo_class :: module_class where
  "echo_class = \<lparr>mc_name = ''Echo'', mc_author = ''me'', mc_version = 0, mc_enabled = False, mc_type = MODULE,
     mc_mode = EXCLUSIVE, mc_handlers = [\<lparr>h_event = RAW_MSG, h_method = ''raw''\<rparr>]\<rparr>"

lemma event_of_raw: "event_of 32 = Some RAW_MSG"
  by (simp add: event_of_def all_events_def)

lemma echo_listed: "snake_list_modules True (Some (py_list_modules [echo_module])) = Some [(''Echo'', echo_class)]"
proof -
  have int: "to_int32 (py_as_long 1) = 1" "to_int32 (py_as_long 2) = 2" "to_int32 (py_as_long 32) = 32"
    by (simp_all add: py_as_long_def to_int32_id)
  have "create_from_json (json_map (py_to_qvariant (py_describe echo_module))) = Some echo_class"
    by (simp add: py_describe_def echo_module_def int c_str_def)
      (simp add: create_from_json_def echo_class_def json_value_def module_type_of_def module_mode_of_def event_of_raw)
  then show ?thesis
    by (simp add: snake_list_modules_def py_list_modules_def pdict_set_def c_str_def echo_module_def)
qed

lemma no_event_is_ever_handled_witness:
  "\<not> pit_has_event_handler RAW_MSG (refresh_modules_all [(''Echo'', echo_class)] new_snake_pit)"
  using no_event_is_ever_handled [OF server_pit.refresh [OF server_pit.start echo_listed]] by blast

end
