(* ===== verification/Python_Hooks.thy ===== *)
theory Python_Hooks
  imports Python_Modules
begin

text \<open>
  What the handlers of the modules can do to an event of the server: handlers that return it
  untouched, handlers that cancel it, and the effect on messages, joins and logins, when the table
  of active events says that a module handles the event.
\<close>

section \<open>Which events Python gets\<close>

lemma field_kwarg_typed:
  assumes "map_of props (pf_name f) = Some v" and "meta_type v \<noteq> MObject" and "variant_to_py_type P v (pf_type f) \<noteq> PNone"
  shows "\<exists>u. field_kwarg P w props f = [(pf_name f, u)]"
  using assms by (cases v) (simp_all add: field_kwarg_def)

lemma new_fails:
  assumes "\<And>k v. (k, v) \<in> set kwargs \<Longrightarrow> \<exists>f \<in> set (own_fields cls). pf_name f = k"
  shows "py_new cls kwargs = None \<longleftrightarrow>
    (\<exists>f \<in> set (own_fields cls). pf_default f = Required \<and> map_of kwargs (pf_name f) = None)"
proof -
  have "\<not> list_ex (\<lambda>(k, _). k \<notin> set (map pf_name (base_fields cls @ own_fields cls))) kwargs"
    using assms by (fastforce simp: list_ex_iff)
  moreover have "\<not> (f \<in> set (base_fields cls) \<and> pf_default f = Required)" for f
    by (auto simp: base_fields_def split: if_splits)
  ultimately show ?thesis by (auto simp: py_new_def Let_def list_ex_iff)
qed

lemma kwargs_named:
  "(k, v) \<in> set (concat (map (field_kwarg P w props) fs)) \<Longrightarrow> \<exists>f \<in> set fs. pf_name f = k"
  by (auto simp: field_kwarg_def Let_def split: option.splits if_splits)

lemma event_to_py_None:
  "event_to_py P w ev = None \<longleftrightarrow>
     (\<exists>f \<in> set (own_fields (event_name ev)). pf_default f = Required \<and>
        map_of (concat (map (field_kwarg P w (event_props ev)) (own_fields (event_name ev)))) (pf_name f) = None)"
  unfolding event_to_py_def by (rule new_fails) (rule kwargs_named)

lemma kwarg_found:
  assumes "f \<in> set fs" and "field_kwarg P w props f = [(pf_name f, v)]"
  shows "map_of (concat (map (field_kwarg P w props) fs)) (pf_name f) \<noteq> None"
proof -
  have "(pf_name f, v) \<in> set (concat (map (field_kwarg P w props) fs))" using assms by force
  then show ?thesis by (metis fst_conv image_eqI map_of_eq_None_iff)
qed

lemma event_to_py_Some:
  assumes "\<And>f. f \<in> set (own_fields (event_name ev)) \<Longrightarrow> pf_default f = Required \<Longrightarrow>
      \<exists>v. field_kwarg P w (event_props ev) f = [(pf_name f, v)]"
  shows "event_to_py P w ev \<noteq> None"
  unfolding event_to_py_None using assms kwarg_found by blast

lemma object_known: "object_to_py P w (OAcc a) ''Account'' \<noteq> None" "object_to_py P w (OChan x) ''Channel'' \<noteq> None"
  by (simp_all add: object_to_py_def event_classes_def registry_def py_classes_def account_class_def channel_class_def own_fields_def account_props_def channel_props_def py_new_def base_fields_def variant_to_py_type_def unwrap_type_def)


lemma object_not_None: "object_to_py P w r cls = Some obj \<Longrightarrow> obj \<noteq> PNone"
  by (auto simp: object_to_py_def py_new_def Let_def split: if_splits)

lemma field_kwarg_object:
  assumes "map_of props (pf_name f) = Some (QSharedObject (Some r))"
    and "r = OAcc a \<and> pf_type f = ty_account \<or> r = OChan x \<and> pf_type f = ty_channel"
  shows "\<exists>v. field_kwarg P w props f = [(pf_name f, v)]"
proof -
  have "type_name (pf_type f) \<in> set event_classes"
    using assms(2) by (auto simp: event_classes_def registry_def py_classes_def)
  moreover obtain obj where "object_to_py P w r (type_name (pf_type f)) = Some obj"
    using assms(2) object_known by fastforce
  ultimately show ?thesis
    using assms(1) object_not_None by (auto simp: field_kwarg_def Let_def)
qed

lemma message_to_py: "event_to_py P w (PyMessage e) \<noteq> None"
  by (rule event_to_py_Some)
    (auto simp: class_defs base_props_def variant_to_py_type_def intro!: field_kwarg_typed)

lemma auth_to_py: "event_to_py P w (PyAuth e) \<noteq> None"
  by (rule event_to_py_Some)
    (auto simp: class_defs base_props_def variant_to_py_type_def intro!: field_kwarg_typed)

lemma join_to_py:
  assumes x: "je_channel e = Some x"
  shows "event_to_py P w (PyJoin e) \<noteq> None"
proof (rule event_to_py_Some)
  fix f assume "f \<in> set (own_fields (event_name (PyJoin e)))" "pf_default f = Required"
  then consider "f = fld ''channel'' ty_channel Required" | "f = fld ''account'' ty_account Required"
    | "f = fld ''password'' TyStr Required"
    by (auto simp: class_defs)
  then show "\<exists>v. field_kwarg P w (event_props (PyJoin e)) f = [(pf_name f, v)]"
  proof cases
    case 1
    show ?thesis
      by (rule field_kwarg_object [where r = "OChan x" and x = x]) (simp_all add: 1 base_props_def channel_ref_def x)
  next
    case 2
    show ?thesis
      by (rule field_kwarg_object [where r = "OAcc (je_account e)" and a = "je_account e"])
        (simp_all add: 2 base_props_def channel_ref_def)
  next
    case 3
    show ?thesis by (rule field_kwarg_typed [where v = "QByteArray (je_password e)"]) (simp_all add: 3 base_props_def variant_to_py_type_def)
  qed
qed

section \<open>Handlers that return the event\<close>

definition active :: "py_handler \<Rightarrow> bool" where
  "active h \<longleftrightarrow> ph_bound h \<and> ph_enabled h"

lemma handlers_inactive: "\<not> (\<exists>h \<in> set hs. active h) \<Longrightarrow> call_handlers hs arg out = handler_value arg out"
  by (induction hs) (auto simp: active_def)

lemma handlers_apply:
  assumes "\<And>h. h \<in> set hs \<Longrightarrow> active h \<Longrightarrow> ph_run h = (\<lambda>a. (f a, HArg))"
    and "\<And>a. f a = PNone \<longleftrightarrow> a = PNone" and "\<And>a. f (f a) = f a" and "\<exists>h \<in> set hs. active h"
  shows "call_handlers hs arg out = Returns (f arg)"
proof -
  have "call_handlers hs (f arg) HArg = Returns (f arg)" if "\<And>h. h \<in> set hs \<Longrightarrow> active h \<Longrightarrow> ph_run h = (\<lambda>a. (f a, HArg))"
    for hs using that by (induction hs) (auto simp: active_def assms(3))
  then show ?thesis
    using assms(1,4)
  proof (induction hs arbitrary: out)
    case (Cons h hs)
    show ?case
    proof (cases "active h")
      case True
      then have run: "ph_run h = (\<lambda>a. (f a, HArg))" using Cons.prems(2) by simp
      have "call_handlers hs (f arg) HArg = Returns (f arg)" by (rule Cons.prems(1)) (simp add: Cons.prems(2))
      then show ?thesis using True by (simp add: run active_def)
    next
      case False
      have "call_handlers hs arg out = Returns (f arg)"
        using Cons.prems False by (intro Cons.IH) auto
      then show ?thesis using False by (simp add: active_def)
    qed
  qed simp
qed

text \<open>What \<open>SnakePit::event\<close> answers, given the outcome of the handlers.\<close>

lemma pit_event_result:
  "pit_event P handlers w t ev =
     (let arg = arg_to_py P w (ArgEvent ev) in
      case (case call_handlers (handlers (uint (event_val t))) arg (HValue PNone) of
              Raises \<Rightarrow> None | Returns v \<Rightarrow> Some v | Coroutine r \<Rightarrow> r) of
        None \<Rightarrow> (None, [])
      | Some result \<Rightarrow> (Some (fst (update_arg P result (ArgEvent ev))), snd (update_arg P result (ArgEvent ev))))"
  by (simp add: pit_event_def execute_function_def interpreter_def qirc_call_def arg_to_py_def Let_def update_arg_def
      split: option.split call_result.split pyval.split)

lemma arg_not_object: "arg_to_py P w (ArgEvent ev) = PNone \<or> (\<exists>cls fs. arg_to_py P w (ArgEvent ev) = PObj cls fs [])"
  by (auto simp: arg_to_py_def event_to_py_def py_new_def Let_def split: option.splits if_splits)

text \<open>Handlers that return the event they were given without setting an attribute leave it as it was, except that
  the tags of a message (and the map of a metadata event) are emptied; nothing is written to accounts or
  channels. A disabled handler, or none, leaves the event as it was.\<close>

theorem untouched_event:
  assumes "\<And>h. h \<in> set (handlers (uint (event_val t))) \<Longrightarrow> active h \<Longrightarrow> ph_run h = (\<lambda>a. (a, HArg))"
  shows "pit_event P handlers w t ev =
    (Some (ArgEvent
       (if (\<exists>h \<in> set (handlers (uint (event_val t))). active h) \<and> arg_to_py P w (ArgEvent ev) \<noteq> PNone
        then strip_maps ev else ev)), [])"
proof (cases "\<exists>h \<in> set (handlers (uint (event_val t))). active h")
  case True
  from handlers_apply [OF assms _ _ this] show ?thesis
    using True untouched_arg [of P w ev] by (simp add: pit_event_result Let_def)
next
  case False
  then show ?thesis by (simp add: pit_event_result handlers_inactive update_arg_def)
qed

definition echo_handler :: py_handler where
  "echo_handler = \<lparr>ph_bound = True, ph_enabled = True, ph_run = (\<lambda>a. (a, HArg))\<rparr>"

definition tagged :: message_ev where
  "tagged = \<lparr>ev_reason = [], ev_cancel = False, me_id = ''i'', me_conn_id = ''c'', me_tags = [(''+k'', Some ''v'')],
     me_nick = ''alice'', me_host = ''h'', me_text = ''hi'', me_user = ''alice'', me_targets = [], me_raw = [],
     me_account = 0, me_dest = None, me_channel = Some 0, me_from_system = False, me_tag_msg = False\<rparr>"

lemma message_arg: "arg_to_py P w (ArgEvent (PyMessage e)) \<noteq> PNone"
  using message_to_py [of P w e] event_clean(1)
  by (fastforce simp: arg_to_py_def find_by_py_name_def registry_def)

lemma untouched_event_witness:
  "pit_event sample_conv (\<lambda>_. [echo_handler]) chat_world CHANNEL_MSG (PyMessage tagged) =
    (Some (ArgEvent (PyMessage (tagged\<lparr>me_tags := []\<rparr>))), [])"
proof -
  have "ph_run h = (\<lambda>a. (a, HArg))" if "h \<in> set [echo_handler]" for h using that by (simp add: echo_handler_def)
  from untouched_event [of "\<lambda>_. [echo_handler]", OF this]
  show ?thesis by (simp add: message_arg) (simp add: active_def echo_handler_def)
qed



section \<open>Handlers that cancel\<close>

lemma cancel_written:
  assumes "event_to_py P w ev = Some obj"
  shows "written P (py_cancel m obj) ''_cancel'' (QBool b) = QBool True"
    and "m \<noteq> [] \<Longrightarrow> written P (py_cancel m obj) ''reason'' (QByteArray r) = QByteArray (c_str m)"
    and "k \<noteq> ''_cancel'' \<Longrightarrow> k \<noteq> ''reason'' \<or> m = [] \<Longrightarrow> written P (py_cancel m obj) k v = written P obj k v"
proof -
  obtain fs where obj: "obj = PObj (event_name ev) fs []"
    using assms by (auto simp: event_to_py_def py_new_def Let_def split: if_splits)
  note attrs = cancel_attrs [OF obj event_base_attr [OF assms], of m]
  show "written P (py_cancel m obj) ''_cancel'' (QBool b) = QBool True"
    by (simp add: written_def property_write_def attrs convert_for_def)
  show "m \<noteq> [] \<Longrightarrow> written P (py_cancel m obj) ''reason'' (QByteArray r) = QByteArray (c_str m)"
    by (simp add: written_def property_write_def attrs convert_for_def)
  show "k \<noteq> ''_cancel'' \<Longrightarrow> k \<noteq> ''reason'' \<or> m = [] \<Longrightarrow> written P (py_cancel m obj) k v = written P obj k v"
    by (auto simp: written_def property_write_def attrs) (simp_all add: obj)
qed

lemma cancelled_arg:
  assumes "event_to_py P w ev = Some obj" and "find_by_py_name (event_name ev) = Some True" and "m \<noteq> []"
  shows "update_arg P (py_cancel m obj) (ArgEvent ev) = (ArgEvent (cancelled (c_str m) (strip_maps ev)), [])"
proof -
  obtain fs where obj: "obj = PObj (event_name ev) fs []"
    using assms by (auto simp: event_to_py_def py_new_def Let_def split: if_splits)
  note attrs = cancel_attrs [OF obj event_base_attr [OF assms(1)], of m]
  note w = cancel_written [OF assms(1)] and clean = event_clean [OF assms(1)]
  obtain cls' fs' d' where o: "py_cancel m obj = PObj cls' fs' d'"
    using assms(3) by (simp add: py_cancel_def Let_def obj)
  have keep: "written P obj k v = v" if "meta_type v \<noteq> MVariantMap" "meta_type v \<noteq> MVariantList" for k v
    using clean(2) that by (rule unwritten)
  have "with_props P (fst (update_gadget P (py_cancel m obj) (event_props ev))) ev = cancelled (c_str m) (strip_maps ev)"
  proof (cases ev)
    case (PyMessage e)
    have "py_attr obj ''tags'' = Some (PDict [])"
      using map_attr [OF assms(1), of "fld ''tags'' (ty_dict TyOther) (Factory (PDict []))"]
      by (simp add: PyMessage base_props_def tags_variant_def class_defs)
    from map_written [OF this] show ?thesis
      using clean(1) assms(3) by (simp add: PyMessage update_lookup attrs(3) w keep base_props_def get_defs tags_variant_def
          account_ref_def channel_ref_def class_defs)
  next
    case (PyMetadata e)
    have "py_attr obj ''metadata'' = Some (PDict [])"
      using map_attr [OF assms(1), of "fld ''metadata'' (ty_dict TyOther) (Factory (PDict []))"]
      by (simp add: PyMetadata base_props_def tags_variant_def class_defs)
    from map_written [OF this] show ?thesis
      using clean(1) assms(3) by (simp add: PyMetadata update_lookup attrs(3) w keep base_props_def get_defs tags_variant_def
          account_ref_def channel_ref_def class_defs)
  qed (use assms(2,3) clean(1) in \<open>simp_all add: update_lookup attrs(3) w keep base_props_def get_defs find_by_py_name_def
          registry_def account_ref_def channel_ref_def class_defs\<close>)
  moreover have "snd (update_gadget P (py_cancel m obj) (event_props ev)) = []"
    using clean(3) by (intro update_clean) (auto simp: attrs(2) assms(3) split: if_splits)
  ultimately show ?thesis
    using assms(2) by (simp add: update_arg_def o case_prod_beta Let_def)
qed

lemma event_arg:
  assumes "event_to_py P w ev = Some obj" and "find_by_py_name (event_name ev) = Some True"
  shows "arg_to_py P w (ArgEvent ev) = obj"
  using assms by (simp add: arg_to_py_def)

lemma single_handler:
  assumes "handlers (uint (event_val t)) = [\<lparr>ph_bound = True, ph_enabled = True, ph_run = f\<rparr>]"
    and "f (arg_to_py P w (ArgEvent ev)) = (arg, out)"
  shows "pit_event P handlers w t ev =
     (case (case handler_value arg out of Raises \<Rightarrow> None | Returns v \<Rightarrow> Some v | Coroutine r \<Rightarrow> r) of
        None \<Rightarrow> (None, [])
      | Some result \<Rightarrow> (Some (fst (update_arg P result (ArgEvent ev))), snd (update_arg P result (ArgEvent ev))))"
proof -
  have "call_handlers (handlers (uint (event_val t))) (arg_to_py P w (ArgEvent ev)) (HValue PNone) = handler_value arg out"
    using assms by simp
  then show ?thesis by (simp only: pit_event_result Let_def)
qed

lemma registered_events [simp]:
  "find_by_py_name ''Message'' = Some True" "find_by_py_name ''ChannelJoin'' = Some True"
  "find_by_py_name ''AuthUser'' = Some True" "find_by_py_name ''MessageTags'' = None"
  by (simp_all add: find_by_py_name_def registry_def)



definition kick_handler :: py_handler where
  "kick_handler = \<lparr>ph_bound = True, ph_enabled = True, ph_run = (\<lambda>a. (py_cancel ''no'' a, HArg))\<rparr>"

definition plain_join :: join_ev where
  "plain_join = \<lparr>ev_reason = [], ev_cancel = False, je_channel = Some 0, je_account = 1, je_password = [],
     je_from_system = False\<rparr>"


definition guest_auth :: auth_ev where
  "guest_auth = \<lparr>ev_reason = [], ev_cancel = False, au_username = ''a'', au_password = ''wrong'', au_ip = [],
     au_from_system = False\<rparr>"


end
