(* ===== verification/Search_Client.thy ===== *)
theory Search_Client
  imports Serialize "HOL-Library.Sublist"
begin

text \<open>
  The client of the Meilisearch service (\<open>lib/meilisearch.cpp\<close>): its requests, the replies in flight
  with their timers, the searches that wait for an answer and the signals. The service answers in
  any order or not at all: an answer, and a timer that runs out, is a step of its own. \<open>ms_env\<close> holds
  what Qt decides: the UUIDs it draws, the path of a URL, reading and writing JSON.
\<close>

section \<open>Requests, replies and the client\<close>

record search_result =
  sr_id :: bytes
  sr_message :: bytes
  sr_date :: int
  sr_remote_id :: bytes

datatype verb = Get | Post | Put | Delete

record request =
  rq_verb :: verb
  rq_url :: bytes
  rq_json_header :: bool
  rq_body :: bytes

text \<open>
  A callback is the number of the function given; the one of the constructor sets \<open>online\<close>. A reply
  has the timer its sender hung on it; a timer dies with its reply.
\<close>

datatype online_callback = UpdateOnline | NotifyOnline nat

datatype reply_timer = NoTimer | SearchTimer | HealthTimer "online_callback option"

record reply =
  rp_request :: request
  rp_request_id :: bytes
  rp_timer :: reply_timer

datatype ms_output =
    Sent request
  | SearchAnswer nat "search_result list"
  | OnlineAnswer nat bool
  | OnlinenessChanged bool
  | SetupCompleted
  | RequestFinished

record meilisearch =
  ms_host :: bytes
  ms_index :: bytes
  ms_online :: bool
  ms_pending_requests :: int
  ms_pending_searches :: "bytes \<rightharpoonup> nat"
  ms_replies :: "nat \<rightharpoonup> reply"
  ms_next_reply :: nat
  ms_uuids :: nat
  ms_log :: "ms_output list"

record ms_env =
  me_uuid :: "nat \<Rightarrow> bytes"
  me_uuid_plain :: "nat \<Rightarrow> bytes"
  me_path :: "bytes \<Rightarrow> bytes"
  me_print :: "json \<Rightarrow> bytes"
  me_parse :: "bytes \<Rightarrow> json"
  me_now :: int

definition out :: "ms_output \<Rightarrow> meilisearch \<Rightarrow> meilisearch" where
  "out x s = s\<lparr>ms_log := ms_log s @ [x]\<rparr>"

definition send_request :: "request \<Rightarrow> bytes \<Rightarrow> reply_timer \<Rightarrow> meilisearch \<Rightarrow> meilisearch" where
  "send_request r request_id timer s =
     out (Sent r) (s\<lparr>ms_replies := (ms_replies s)(ms_next_reply s \<mapsto>
         \<lparr>rp_request = r, rp_request_id = request_id, rp_timer = timer\<rparr>),
       ms_next_reply := ms_next_reply s + 1\<rparr>)"

section \<open>What the program asks for\<close>

definition index_url :: "meilisearch \<Rightarrow> bytes \<Rightarrow> bytes" where
  "index_url s path = ms_host s @ ''/indexes/'' @ ms_index s @ path"

definition check_online :: "online_callback option \<Rightarrow> meilisearch \<Rightarrow> meilisearch" where
  "check_online callback s =
     send_request \<lparr>rq_verb = Get, rq_url = ms_host s @ ''/health'', rq_json_header = False, rq_body = []\<rparr> []
       (HealthTimer callback) s"

definition new_meilisearch :: "bytes \<Rightarrow> bytes \<Rightarrow> meilisearch" where
  "new_meilisearch h i =
     check_online (Some UpdateOnline)
       \<lparr>ms_host = h, ms_index = i, ms_online = False, ms_pending_requests = 0, ms_pending_searches = Map.empty,
        ms_replies = Map.empty, ms_next_reply = 0, ms_uuids = 0, ms_log = []\<rparr>"

definition send_put :: "ms_env \<Rightarrow> bytes \<Rightarrow> bytes list \<Rightarrow> meilisearch \<Rightarrow> meilisearch" where
  "send_put M path arr s =
     send_request \<lparr>rq_verb = Put, rq_url = index_url s path, rq_json_header = True,
       rq_body = me_print M (JArr (map JStr arr))\<rparr> [] NoTimer s"

definition setup_index :: "ms_env \<Rightarrow> meilisearch \<Rightarrow> meilisearch" where
  "setup_index M s =
     send_put M ''/settings/ranking-rules'' [''sort'', ''typo'', ''words'', ''proximity'', ''attribute'', ''exactness'']
       (send_put M ''/settings/searchable-attributes'' [''message'']
         (send_put M ''/settings/sortable-attributes'' [''date''] (s\<lparr>ms_pending_requests := 3\<rparr>)))"

text \<open>The keys of a \<open>QJsonObject\<close> are sorted.\<close>

definition search_messages :: "ms_env \<Rightarrow> bytes \<Rightarrow> int \<Rightarrow> int \<Rightarrow> nat option \<Rightarrow> meilisearch \<Rightarrow> meilisearch" where
  "search_messages M msg limit offset callback s =
     (let request_id = me_uuid M (ms_uuids s);
          s1 = s\<lparr>ms_uuids := ms_uuids s + 1\<rparr>;
          s2 = (case callback of
                  Some k \<Rightarrow> s1\<lparr>ms_pending_searches := (ms_pending_searches s1)(request_id \<mapsto> k)\<rparr>
                | None \<Rightarrow> s1);
          body = JObj [(''limit'', JInt limit), (''offset'', JInt offset), (''q'', JStr msg), (''sort'', JArr [JStr ''date:desc''])]
      in send_request \<lparr>rq_verb = Post, rq_url = index_url s2 ''/search'', rq_json_header = True, rq_body = me_print M body\<rparr>
           request_id SearchTimer s2)"

definition clear_db :: "meilisearch \<Rightarrow> meilisearch" where
  "clear_db s =
     send_request \<lparr>rq_verb = Delete, rq_url = index_url s ''/documents'', rq_json_header = False, rq_body = []\<rparr> [] NoTimer s"

definition message_document :: "ms_env \<Rightarrow> bytes \<Rightarrow> nat \<Rightarrow> json" where
  "message_document M msg n =
     JObj [(''date'', JInt (me_now M)), (''id'', JStr (me_uuid_plain M n)), (''message'', JStr msg),
       (''remote_id'', JStr (me_uuid_plain M (n + 1)))]"

definition ms_insert_messages :: "ms_env \<Rightarrow> bytes list \<Rightarrow> meilisearch \<Rightarrow> meilisearch" where
  "ms_insert_messages M messages s =
     (let arr = JArr (map (\<lambda>(i, msg). message_document M msg (ms_uuids s + 2 * i)) (enumerate 0 messages))
      in send_request \<lparr>rq_verb = Post, rq_url = index_url s ''/documents'', rq_json_header = True, rq_body = me_print M arr\<rparr>
           [] NoTimer (s\<lparr>ms_uuids := ms_uuids s + 2 * length messages\<rparr>))"

section \<open>What comes back\<close>

definition json_get :: "json \<Rightarrow> bytes \<Rightarrow> json" where
  "json_get v k = (case v of JObj kvs \<Rightarrow> (case map_of kvs k of Some x \<Rightarrow> x | None \<Rightarrow> JNull) | _ \<Rightarrow> JNull)"

definition json_text :: "json \<Rightarrow> bytes" where
  "json_text v = (case v of JStr s \<Rightarrow> s | _ \<Rightarrow> [])"

definition json_whole :: "json \<Rightarrow> int" where
  "json_whole v = (case v of JInt n \<Rightarrow> n | _ \<Rightarrow> 0)"

definition hit_of :: "json \<Rightarrow> search_result" where
  "hit_of h = \<lparr>sr_id = json_text (json_get h ''id''), sr_message = json_text (json_get h ''message''),
     sr_date = json_whole (json_get h ''date''), sr_remote_id = json_text (json_get h ''remote_id'')\<rparr>"

definition hits_of :: "ms_env \<Rightarrow> bytes \<Rightarrow> search_result list" where
  "hits_of M data = (case json_get (me_parse M data) ''hits'' of JArr hits \<Rightarrow> map hit_of hits | _ \<Rightarrow> [])"

text \<open>The callbacks themselves are taken not to use the client.\<close>

definition answer_search :: "bytes \<Rightarrow> search_result list \<Rightarrow> meilisearch \<Rightarrow> meilisearch" where
  "answer_search request_id results s =
     (case ms_pending_searches s request_id of
        None \<Rightarrow> s
      | Some k \<Rightarrow> (out (SearchAnswer k results) s)\<lparr>ms_pending_searches := (ms_pending_searches s)(request_id := None)\<rparr>)"

definition handle_reply :: "ms_env \<Rightarrow> reply \<Rightarrow> bytes \<Rightarrow> meilisearch \<Rightarrow> meilisearch" where
  "handle_reply M r data s =
     (let s1 = (if suffix ''/search'' (me_path M (rq_url (rp_request r)))
                then answer_search (rp_request_id r) (hits_of M data) s else s);
          s2 = (if ms_pending_requests s1 > 0 then s1\<lparr>ms_pending_requests := ms_pending_requests s1 - 1\<rparr> else s1);
          s3 = (if ms_pending_requests s2 = 0 then out SetupCompleted s2 else s2)
      in out RequestFinished s3)"

definition run_online :: "online_callback option \<Rightarrow> bool \<Rightarrow> meilisearch \<Rightarrow> meilisearch" where
  "run_online callback status s =
     (case callback of
        None \<Rightarrow> s
      | Some UpdateOnline \<Rightarrow> if status \<noteq> ms_online s then out (OnlinenessChanged status) (s\<lparr>ms_online := status\<rparr>) else s
      | Some (NotifyOnline k) \<Rightarrow> out (OnlineAnswer k status) s)"

text \<open>
  A reply finishes once: the manager's signal runs \<open>handleReply\<close> before the reply's own signal.
\<close>

definition reply_finished :: "ms_env \<Rightarrow> nat \<Rightarrow> bool \<Rightarrow> bytes \<Rightarrow> meilisearch \<Rightarrow> meilisearch" where
  "reply_finished M n ok data s =
     (case ms_replies s n of
        None \<Rightarrow> s
      | Some r \<Rightarrow>
          let s1 = handle_reply M r data (s\<lparr>ms_replies := (ms_replies s)(n := None)\<rparr>) in
          (case rp_timer r of HealthTimer callback \<Rightarrow> run_online callback ok s1 | _ \<Rightarrow> s1))"

text \<open>
  A timer runs out: \<open>abort\<close> closes the reply and finishes it, with an error and nothing to read,
  before it returns.
\<close>

definition reply_timeout :: "ms_env \<Rightarrow> nat \<Rightarrow> meilisearch \<Rightarrow> meilisearch" where
  "reply_timeout M n s =
     (case ms_replies s n of
        None \<Rightarrow> s
      | Some r \<Rightarrow>
          (case rp_timer r of
             NoTimer \<Rightarrow> s
           | SearchTimer \<Rightarrow> answer_search (rp_request_id r) [] (reply_finished M n False [] s)
           | HealthTimer callback \<Rightarrow> run_online callback False (reply_finished M n False [] s)))"

section \<open>Runs\<close>

datatype ms_call =
    CallSetup
  | CallSearch bytes int int "nat option"
  | CallClear
  | CallInsert "bytes list"
  | CallCheck "online_callback option"
  | Tick
  | Finished nat bool bytes
  | TimedOut nat

fun ms_step :: "ms_env \<Rightarrow> ms_call \<Rightarrow> meilisearch \<Rightarrow> meilisearch" where
  "ms_step M CallSetup s = setup_index M s"
| "ms_step M (CallSearch msg limit offset callback) s = search_messages M msg limit offset callback s"
| "ms_step M CallClear s = clear_db s"
| "ms_step M (CallInsert messages) s = ms_insert_messages M messages s"
| "ms_step M (CallCheck callback) s = check_online callback s"
| "ms_step M Tick s = check_online (Some UpdateOnline) s"
| "ms_step M (Finished n ok data) s = reply_finished M n ok data s"
| "ms_step M (TimedOut n) s = reply_timeout M n s"

definition ms_run :: "ms_env \<Rightarrow> ms_call list \<Rightarrow> meilisearch \<Rightarrow> meilisearch" where
  "ms_run M = fold (ms_step M)"

section \<open>Every search is answered exactly once\<close>

definition search_env :: "ms_env \<Rightarrow> meilisearch \<Rightarrow> bool" where
  "search_env M s \<longleftrightarrow> inj (me_uuid M) \<and> [] \<notin> range (me_uuid M) \<and> suffix ''/search'' (me_path M (index_url s ''/search''))"

definition answers :: "nat \<Rightarrow> ms_output list \<Rightarrow> search_result list list" where
  "answers k log = concat (map (\<lambda>x. case x of SearchAnswer j rs \<Rightarrow> if j = k then [rs] else [] | _ \<Rightarrow> []) log)"

lemma answers_append [simp]: "answers k (xs @ ys) = answers k xs @ answers k ys"
  by (simp add: answers_def)

lemma answers_simps [simp]:
  "answers k [] = []" "answers k [Sent r] = []" "answers k [SearchAnswer j rs] = (if j = k then [rs] else [])"
  "answers k [OnlineAnswer j b] = []" "answers k [OnlinenessChanged b] = []" "answers k [SetupCompleted] = []"
  "answers k [RequestFinished] = []"
  by (simp_all add: answers_def)

fun searches_for :: "nat \<Rightarrow> ms_call \<Rightarrow> bool" where
  "searches_for k (CallSearch _ _ _ (Some j)) \<longleftrightarrow> j = k"
| "searches_for k _ \<longleftrightarrow> False"

text \<open>What the first event that ends the reply \<open>n\<close> answers.\<close>

fun completions :: "ms_env \<Rightarrow> nat \<Rightarrow> ms_call list \<Rightarrow> search_result list list" where
  "completions M n [] = []"
| "completions M n (Finished m ok data # cs) = (if m = n then [hits_of M data] else completions M n cs)"
| "completions M n (TimedOut m # cs) = (if m = n then [hits_of M []] else completions M n cs)"
| "completions M n (_ # cs) = completions M n cs"

text \<open>The tables of searches, replies and numbers fit together.\<close>

definition drawn :: "ms_env \<Rightarrow> meilisearch \<Rightarrow> bytes set" where
  "drawn M s = me_uuid M ` {..<ms_uuids s}"

definition reply_fits :: "ms_env \<Rightarrow> meilisearch \<Rightarrow> reply \<Rightarrow> bool" where
  "reply_fits M s r \<longleftrightarrow>
     (if rp_timer r = SearchTimer then rp_request_id r \<in> drawn M s \<and> rq_url (rp_request r) = index_url s ''/search''
      else rp_request_id r = [])"

definition fits :: "ms_env \<Rightarrow> meilisearch \<Rightarrow> bool" where
  "fits M s \<longleftrightarrow>
     (\<forall>n r. ms_replies s n = Some r \<longrightarrow> n < ms_next_reply s \<and> reply_fits M s r) \<and>
     (\<forall>n m r q. ms_replies s n = Some r \<longrightarrow> ms_replies s m = Some q \<longrightarrow> rp_request_id q = rp_request_id r \<longrightarrow>
        rp_request_id r \<noteq> [] \<longrightarrow> m = n) \<and>
     dom (ms_pending_searches s) \<subseteq> drawn M s"

text \<open>What each primitive does to the tables; nothing changes the host or the index.\<close>

named_theorems ms_simps

lemma out_fields [ms_simps]:
  "ms_host (out x s) = ms_host s" "ms_index (out x s) = ms_index s" "ms_replies (out x s) = ms_replies s"
  "ms_next_reply (out x s) = ms_next_reply s" "ms_uuids (out x s) = ms_uuids s"
  "ms_pending_searches (out x s) = ms_pending_searches s" "ms_online (out x s) = ms_online s"
  "ms_pending_requests (out x s) = ms_pending_requests s" "ms_log (out x s) = ms_log s @ [x]"
  by (simp_all add: out_def)

lemma index_url_same: "ms_host s = ms_host t \<Longrightarrow> ms_index s = ms_index t \<Longrightarrow> index_url s p = index_url t p"
  by (simp add: index_url_def)

lemma send_fields [ms_simps]:
  "ms_host (send_request r u t s) = ms_host s" "ms_index (send_request r u t s) = ms_index s"
  "ms_replies (send_request r u t s) =
     (ms_replies s)(ms_next_reply s \<mapsto> \<lparr>rp_request = r, rp_request_id = u, rp_timer = t\<rparr>)"
  "ms_next_reply (send_request r u t s) = Suc (ms_next_reply s)" "ms_uuids (send_request r u t s) = ms_uuids s"
  "ms_pending_searches (send_request r u t s) = ms_pending_searches s"
  "answers k (ms_log (send_request r u t s)) = answers k (ms_log s)"
  by (simp_all add: send_request_def ms_simps)

lemma answer_fields [ms_simps]:
  "ms_host (answer_search u rs s) = ms_host s" "ms_index (answer_search u rs s) = ms_index s"
  "ms_replies (answer_search u rs s) = ms_replies s" "ms_next_reply (answer_search u rs s) = ms_next_reply s"
  "ms_uuids (answer_search u rs s) = ms_uuids s"
  "ms_pending_searches (answer_search u rs s) = (ms_pending_searches s)(u := None)"
  "answers k (ms_log (answer_search u rs s)) =
     answers k (ms_log s) @ (if ms_pending_searches s u = Some k then [rs] else [])"
  by (auto simp: answer_search_def ms_simps fun_upd_idem_iff split: option.split)

definition is_search :: "ms_env \<Rightarrow> reply \<Rightarrow> bool" where
  "is_search M r \<longleftrightarrow> suffix ''/search'' (me_path M (rq_url (rp_request r)))"

lemma handle_fields [ms_simps]:
  "ms_host (handle_reply M r d s) = ms_host s" "ms_index (handle_reply M r d s) = ms_index s"
  "ms_replies (handle_reply M r d s) = ms_replies s" "ms_next_reply (handle_reply M r d s) = ms_next_reply s"
  "ms_uuids (handle_reply M r d s) = ms_uuids s"
  "ms_pending_searches (handle_reply M r d s) =
     (if is_search M r then (ms_pending_searches s)(rp_request_id r := None) else ms_pending_searches s)"
  "answers k (ms_log (handle_reply M r d s)) = answers k (ms_log s) @
     (if is_search M r \<and> ms_pending_searches s (rp_request_id r) = Some k then [hits_of M d] else [])"
  by (simp_all add: handle_reply_def Let_def ms_simps is_search_def)

lemma online_fields [ms_simps]:
  "ms_host (run_online c b s) = ms_host s" "ms_index (run_online c b s) = ms_index s"
  "ms_replies (run_online c b s) = ms_replies s" "ms_next_reply (run_online c b s) = ms_next_reply s"
  "ms_uuids (run_online c b s) = ms_uuids s" "ms_pending_searches (run_online c b s) = ms_pending_searches s"
  "answers k (ms_log (run_online c b s)) = answers k (ms_log s)"
  by (simp_all add: run_online_def ms_simps split: option.split online_callback.split)

lemma finished_fields [ms_simps]:
  "ms_host (reply_finished M n ok d s) = ms_host s" "ms_index (reply_finished M n ok d s) = ms_index s"
  "ms_replies (reply_finished M n ok d s) = (ms_replies s)(n := None)"
  "ms_next_reply (reply_finished M n ok d s) = ms_next_reply s" "ms_uuids (reply_finished M n ok d s) = ms_uuids s"
  "ms_pending_searches (reply_finished M n ok d s) =
     (case ms_replies s n of None \<Rightarrow> ms_pending_searches s
      | Some r \<Rightarrow> if is_search M r then (ms_pending_searches s)(rp_request_id r := None) else ms_pending_searches s)"
  "answers k (ms_log (reply_finished M n ok d s)) = answers k (ms_log s) @
     (case ms_replies s n of None \<Rightarrow> []
      | Some r \<Rightarrow> if is_search M r \<and> ms_pending_searches s (rp_request_id r) = Some k then [hits_of M d] else [])"
  by (auto simp: reply_finished_def Let_def ms_simps fun_upd_idem_iff split: option.split reply_timer.split)

text \<open>The table of replies shrinks or gets one reply.\<close>

lemma fits_less:
  assumes "fits M s" and replies: "ms_replies t \<subseteq>\<^sub>m ms_replies s" and "ms_next_reply t = ms_next_reply s"
    and "ms_uuids s \<le> ms_uuids t" and dom: "dom (ms_pending_searches t) \<subseteq> dom (ms_pending_searches s)"
    and "ms_host t = ms_host s" and "ms_index t = ms_index s"
  shows "fits M t"
proof -
  have old: "ms_replies s n = Some r" if "ms_replies t n = Some r" for n r
    using that replies by (auto simp: map_le_def dom_def)
  have url: "index_url t p = index_url s p" for p using assms(6,7) by (rule index_url_same)
  have "{..<ms_uuids s} \<subseteq> {..<ms_uuids t}" using assms(4) by auto
  then have ids: "drawn M s \<subseteq> drawn M t" unfolding drawn_def by (rule image_mono)
  then have ok: "reply_fits M s r \<Longrightarrow> reply_fits M t r" for r by (auto simp: reply_fits_def url split: if_splits)
  show ?thesis
    unfolding fits_def
  proof (intro conjI allI impI)
    fix n r assume "ms_replies t n = Some r"
    with assms(1) old show "n < ms_next_reply t" "reply_fits M t r" unfolding fits_def assms(3) by (blast intro: ok)+
  next
    fix n m r q
    assume "ms_replies t n = Some r" "ms_replies t m = Some q" "rp_request_id q = rp_request_id r" "rp_request_id r \<noteq> []"
    with assms(1) old show "m = n" unfolding fits_def by blast
  next
    from assms(1) have "dom (ms_pending_searches s) \<subseteq> drawn M s" by (simp add: fits_def)
    with ids dom show "dom (ms_pending_searches t) \<subseteq> drawn M t" by blast
  qed
qed

lemma fits_send:
  assumes "fits M s" and "reply_fits M s \<lparr>rp_request = r, rp_request_id = u, rp_timer = t\<rparr>"
    and "u \<noteq> [] \<Longrightarrow> \<forall>n q. ms_replies s n = Some q \<longrightarrow> rp_request_id q \<noteq> u"
  shows "fits M (send_request r u t s)"
proof -
  have same: "drawn M (send_request r u t s) = drawn M s" "reply_fits M (send_request r u t s) = reply_fits M s"
    by (simp_all add: drawn_def reply_fits_def fun_eq_iff index_url_def ms_simps)
  show ?thesis
    using assms unfolding fits_def same by (simp add: ms_simps less_Suc_eq) metis
qed

lemma fits_send_plain: "fits M s \<Longrightarrow> t \<noteq> SearchTimer \<Longrightarrow> fits M (send_request r [] t s)"
  by (rule fits_send) (simp_all add: reply_fits_def)

lemma fits_pending:
  "fits M s \<Longrightarrow> u \<in> drawn M s \<Longrightarrow> fits M (s\<lparr>ms_pending_searches := (ms_pending_searches s)(u \<mapsto> k)\<rparr>)"
proof -
  let ?t = "s\<lparr>ms_pending_searches := (ms_pending_searches s)(u \<mapsto> k)\<rparr>"
  have same: "drawn M ?t = drawn M s" "reply_fits M ?t = reply_fits M s"
    by (simp_all add: drawn_def reply_fits_def fun_eq_iff index_url_def)
  show "fits M s \<Longrightarrow> u \<in> drawn M s \<Longrightarrow> fits M ?t"
    unfolding fits_def same by auto
qed

lemma fits_plain_update:
  "fits M s \<Longrightarrow> fits M (s\<lparr>ms_pending_requests := n\<rparr>)"
  "fits M s \<Longrightarrow> ms_uuids s \<le> m \<Longrightarrow> fits M (s\<lparr>ms_uuids := m\<rparr>)"
  by (auto intro: fits_less)

lemma fresh_uuid: "inj (me_uuid M) \<Longrightarrow> me_uuid M (ms_uuids s) \<notin> drawn M s"
  by (auto simp: drawn_def inj_eq)

lemma fits_id: "fits M s \<Longrightarrow> ms_replies s n = Some r \<Longrightarrow> rp_request_id r = [] \<or> rp_request_id r \<in> drawn M s"
  by (auto simp: fits_def reply_fits_def split: if_splits)

lemma fits_search:
  assumes "fits M s" and "inj (me_uuid M)"
  shows "fits M (search_messages M msg limit offset callback s)"
proof -
  let ?u = "me_uuid M (ms_uuids s)" and ?s1 = "s\<lparr>ms_uuids := Suc (ms_uuids s)\<rparr>"
  let ?s2 = "case callback of None \<Rightarrow> ?s1 | Some k \<Rightarrow> ?s1\<lparr>ms_pending_searches := (ms_pending_searches s)(?u \<mapsto> k)\<rparr>"
  have u: "?u \<in> drawn M ?s1" by (simp add: drawn_def)
  have s1: "fits M ?s1" using assms(1) by (rule fits_plain_update) simp
  have s2: "fits M ?s2" using fits_pending [OF s1 u] s1 by (simp split: option.split)
  have same: "ms_replies ?s2 = ms_replies s" "drawn M ?s2 = drawn M ?s1" by (simp_all add: drawn_def split: option.split)
  have "fits M (send_request \<lparr>rq_verb = Post, rq_url = index_url ?s2 ''/search'', rq_json_header = True, rq_body = b\<rparr> ?u
      SearchTimer ?s2)" for b
  proof (rule fits_send [OF s2])
    show "\<forall>n q. ms_replies ?s2 n = Some q \<longrightarrow> rp_request_id q \<noteq> ?u" if "?u \<noteq> []"
      using fits_id [OF assms(1)] fresh_uuid [OF assms(2), of s] that unfolding same by metis
  qed (use u same in \<open>simp add: reply_fits_def\<close>)
  then show ?thesis by (cases callback) (simp_all add: search_messages_def Let_def)
qed

lemma fits_finished: "fits M s \<Longrightarrow> fits M (reply_finished M n ok d s)"
  by (rule fits_less [of M s]) (auto simp: ms_simps map_le_def split: option.split if_splits)

lemma fits_answer: "fits M s \<Longrightarrow> fits M (answer_search u rs s)"
  by (rule fits_less [of M s]) (auto simp: ms_simps)

lemma fits_online: "fits M s \<Longrightarrow> fits M (run_online c b s)"
  by (rule fits_less [of M s]) (auto simp: ms_simps)

lemma fits_step: "fits M s \<Longrightarrow> inj (me_uuid M) \<Longrightarrow> fits M (ms_step M c s)"
  by (cases c) (auto simp: setup_index_def send_put_def clear_db_def ms_insert_messages_def check_online_def
      reply_timeout_def Let_def split: option.split reply_timer.split
      intro!: fits_search fits_send_plain fits_plain_update fits_finished fits_answer fits_online)

lemma step_keeps_names: "ms_host (ms_step M c s) = ms_host s" "ms_index (ms_step M c s) = ms_index s"
  by (cases c; simp add: setup_index_def send_put_def clear_db_def ms_insert_messages_def check_online_def
      search_messages_def reply_timeout_def Let_def ms_simps split: option.split reply_timer.split)+

lemma env_inj: "search_env M s \<Longrightarrow> inj (me_uuid M)"
  by (simp add: search_env_def)

lemma env_step: "search_env M s \<Longrightarrow> search_env M (ms_step M c s)"
  by (simp add: search_env_def index_url_def step_keeps_names)

text \<open>The search with callback \<open>k\<close> and reply \<open>n\<close> waits; no search has the callback \<open>k\<close>.\<close>

definition waits :: "nat \<Rightarrow> nat \<Rightarrow> meilisearch \<Rightarrow> bool" where
  "waits k n s \<longleftrightarrow> (\<exists>r. ms_replies s n = Some r \<and> rp_timer r = SearchTimer \<and>
     (\<forall>u. ms_pending_searches s u = Some k \<longleftrightarrow> u = rp_request_id r))"

definition unasked :: "nat \<Rightarrow> meilisearch \<Rightarrow> bool" where
  "unasked k s \<longleftrightarrow> (\<forall>u. ms_pending_searches s u \<noteq> Some k)"

lemmas step_defs = setup_index_def send_put_def clear_db_def ms_insert_messages_def check_online_def
  search_messages_def reply_timeout_def Let_def

lemma unasked_step:
  assumes "unasked k s" and "\<not> searches_for k c"
  shows "unasked k (ms_step M c s)" and "answers k (ms_log (ms_step M c s)) = answers k (ms_log s)"
  using assms
  by (cases c; auto simp: unasked_def step_defs ms_simps split: option.splits reply_timer.splits)+

lemma unasked_run:
  "unasked k s \<Longrightarrow> \<forall>c \<in> set cs. \<not> searches_for k c \<Longrightarrow>
    unasked k (ms_run M cs s) \<and> answers k (ms_log (ms_run M cs s)) = answers k (ms_log s)"
proof (induction cs arbitrary: s)
  case (Cons c cs)
  from Cons.prems unasked_step [of k s c M] have "unasked k (ms_step M c s)"
    "answers k (ms_log (ms_step M c s)) = answers k (ms_log s)" by simp_all
  with Cons show ?case by (simp add: ms_run_def)
qed (simp add: ms_run_def)

lemma waiting_reply:
  assumes "fits M s" and "search_env M s" and "waits k n s"
  obtains r where "ms_replies s n = Some r" and "rp_timer r = SearchTimer" and "is_search M r"
    and "n < ms_next_reply s" and "rp_request_id r \<in> drawn M s"
    and "\<forall>u. ms_pending_searches s u = Some k \<longleftrightarrow> u = rp_request_id r"
    and "\<forall>m q. ms_replies s m = Some q \<longrightarrow> m \<noteq> n \<longrightarrow> rp_request_id q \<noteq> rp_request_id r"
proof -
  from assms(3) obtain r where r: "ms_replies s n = Some r" "rp_timer r = SearchTimer"
      "\<And>u. ms_pending_searches s u = Some k \<longleftrightarrow> u = rp_request_id r" by (auto simp: waits_def)
  from assms(1) r(1) have n: "n < ms_next_reply s" and "reply_fits M s r" by (auto simp: fits_def)
  then have id: "rp_request_id r \<in> drawn M s" and url: "rq_url (rp_request r) = index_url s ''/search''"
    using r(2) by (simp_all add: reply_fits_def)
  from id assms(2) have ne: "rp_request_id r \<noteq> []" by (auto simp: search_env_def drawn_def)
  have "rp_request_id q \<noteq> rp_request_id r" if "ms_replies s m = Some q" "m \<noteq> n" for m q
    using assms(1) r(1) that ne unfolding fits_def by metis
  moreover have "is_search M r" using assms(2) by (simp add: is_search_def url search_env_def)
  ultimately show ?thesis using that r n id by blast
qed

fun ends :: "nat \<Rightarrow> ms_call \<Rightarrow> bool" where
  "ends n (Finished m _ _) \<longleftrightarrow> m = n"
| "ends n (TimedOut m) \<longleftrightarrow> m = n"
| "ends n _ \<longleftrightarrow> False"

lemma waits_step:
  assumes "fits M s" and "search_env M s" and "waits k n s" and "\<not> searches_for k c" and "\<not> ends n c"
  shows "waits k n (ms_step M c s)" and "answers k (ms_log (ms_step M c s)) = answers k (ms_log s)"
proof -
  from assms(1-3) obtain r where r: "ms_replies s n = Some r" and timer: "rp_timer r = SearchTimer" and "is_search M r"
    and n: "n < ms_next_reply s" and id: "rp_request_id r \<in> drawn M s"
    and k: "\<forall>u. ms_pending_searches s u = Some k \<longleftrightarrow> u = rp_request_id r"
    and other: "\<forall>m q. ms_replies s m = Some q \<longrightarrow> m \<noteq> n \<longrightarrow> rp_request_id q \<noteq> rp_request_id r"
    by (rule waiting_reply)
  have fresh: "me_uuid M (ms_uuids s) \<noteq> rp_request_id r"
    using fresh_uuid [of M s] assms(2) id by (auto simp: search_env_def)
  have no: "rp_request_id q \<noteq> rp_request_id r \<and> ms_pending_searches s (rp_request_id q) \<noteq> Some k"
    if "ms_replies s m = Some q" "m \<noteq> n" for m q
    using that other k by auto
  let ?t = "ms_step M c s"
  have "ms_replies ?t n = Some r \<and> (\<forall>u. ms_pending_searches ?t u = Some k \<longleftrightarrow> u = rp_request_id r) \<and>
    answers k (ms_log ?t) = answers k (ms_log s)"
  proof (cases c)
    case (CallSearch msg limit offset callback)
    with assms(4) fresh r n k show ?thesis
      by (cases callback) (auto simp: search_messages_def Let_def ms_simps)
  next
    case (Finished m ok d)
    then show ?thesis
      using assms(5) r k no [of m] by (cases "ms_replies s m") (auto simp: ms_simps)
  next
    case (TimedOut m)
    show ?thesis
    proof (cases "ms_replies s m")
      case None
      with TimedOut r k show ?thesis by (simp add: reply_timeout_def)
    next
      case (Some q)
      with TimedOut assms(5) r k no [of m q] show ?thesis
        by (cases "rp_timer q") (auto simp: reply_timeout_def ms_simps)
    qed
  qed (use r n k in \<open>auto simp: setup_index_def send_put_def clear_db_def ms_insert_messages_def check_online_def
      Let_def ms_simps\<close>)
  with timer show "waits k n ?t" and "answers k (ms_log ?t) = answers k (ms_log s)" by (auto simp: waits_def)
qed

lemma waits_end:
  assumes "fits M s" and "search_env M s" and "waits k n s" and "ends n c"
  shows "unasked k (ms_step M c s)"
    and "answers k (ms_log (ms_step M c s)) = answers k (ms_log s) @ completions M n [c]"
proof -
  from assms(1-3) obtain r where r: "ms_replies s n = Some r" "rp_timer r = SearchTimer" "is_search M r" "n < ms_next_reply s"
    and "rp_request_id r \<in> drawn M s"
    and k: "\<forall>u. ms_pending_searches s u = Some k \<longleftrightarrow> u = rp_request_id r"
    and "\<forall>m q. ms_replies s m = Some q \<longrightarrow> m \<noteq> n \<longrightarrow> rp_request_id q \<noteq> rp_request_id r"
    by (rule waiting_reply)
  have "unasked k (ms_step M c s) \<and> answers k (ms_log (ms_step M c s)) = answers k (ms_log s) @ completions M n [c]"
    using assms(4) r k by (cases c) (auto simp: unasked_def reply_timeout_def ms_simps)
  then show "unasked k (ms_step M c s)"
    and "answers k (ms_log (ms_step M c s)) = answers k (ms_log s) @ completions M n [c]" by auto
qed

lemma completions_cons: "completions M n (c # cs) = (if ends n c then completions M n [c] else completions M n cs)"
  by (cases c) auto

lemma waits_run:
  "fits M s \<Longrightarrow> search_env M s \<Longrightarrow> waits k n s \<Longrightarrow> \<forall>c \<in> set cs. \<not> searches_for k c \<Longrightarrow>
    answers k (ms_log (ms_run M cs s)) = answers k (ms_log s) @ completions M n cs"
proof (induction cs arbitrary: s)
  case (Cons c cs)
  have run: "ms_run M (c # cs) s = ms_run M cs (ms_step M c s)" by (simp add: ms_run_def)
  show ?case
  proof (cases "ends n c")
    case True
    with Cons.prems waits_end [of M s k n c] unasked_run [of k "ms_step M c s" cs M] show ?thesis
      by (simp add: run completions_cons [of M n c cs])
  next
    case False
    with Cons.prems waits_step [of M s k n c] have "waits k n (ms_step M c s)"
      "answers k (ms_log (ms_step M c s)) = answers k (ms_log s)" by simp_all
    moreover have "fits M (ms_step M c s)" "search_env M (ms_step M c s)"
      using Cons.prems(1,2) by (simp_all add: fits_step env_step env_inj)
    ultimately show ?thesis using Cons False by (simp add: run completions_cons [of M n c cs])
  qed
qed (simp add: ms_run_def)

lemma new_fits: "fits M (new_meilisearch h i)"
  unfolding new_meilisearch_def check_online_def
  by (rule fits_send_plain) (simp_all add: fits_def)

lemma run_fits:
  "fits M s \<Longrightarrow> search_env M s \<Longrightarrow> fits M (ms_run M cs s) \<and> search_env M (ms_run M cs s)"
proof (induction cs arbitrary: s)
  case (Cons c cs)
  then have "fits M (ms_step M c s)" "search_env M (ms_step M c s)" by (simp_all add: fits_step env_step env_inj)
  then have "fits M (ms_run M cs (ms_step M c s)) \<and> search_env M (ms_run M cs (ms_step M c s))" by (rule Cons.IH)
  then show ?case by (simp add: ms_run_def)
qed (simp add: ms_run_def)

lemma completions_length:
  "length (completions M n cs) = (if \<exists>c \<in> set cs. ends n c then 1 else 0)"
proof (induction cs)
  case (Cons c cs)
  have "ends n c \<Longrightarrow> length (completions M n [c]) = 1" by (cases c) simp_all
  with Cons show ?case by (subst completions_cons) simp
qed simp

lemma search_waits:
  assumes "unasked k s" and "search_env M s"
  shows "waits k (ms_next_reply s) (search_messages M msg limit offset (Some k) s)"
    and "answers k (ms_log (search_messages M msg limit offset (Some k) s)) = answers k (ms_log s)"
  using assms by (auto simp: waits_def unasked_def search_messages_def Let_def ms_simps)


definition sample_ms :: ms_env where
  "sample_ms = \<lparr>me_uuid = (\<lambda>n. replicate (Suc n) CHR ''u''), me_uuid_plain = (\<lambda>n. replicate n CHR ''p''), me_path = (\<lambda>u. u),
     me_print = (\<lambda>_. ''{}''), me_parse = (\<lambda>d. JObj [(''hits'', JArr [JObj [(''message'', JStr d)]])]), me_now = 7\<rparr>"


section \<open>Signals\<close>

definition onlineness :: "ms_output list \<Rightarrow> bool list" where
  "onlineness log = concat (map (\<lambda>x. case x of OnlinenessChanged b \<Rightarrow> [b] | _ \<Rightarrow> []) log)"

text \<open>
  The signals of the connection's state alternate, beginning with True, and the last one is \<open>online\<close>.
\<close>

definition alternates :: "meilisearch \<Rightarrow> bool" where
  "alternates s \<longleftrightarrow> onlineness (ms_log s) = map even [0..<length (onlineness (ms_log s))] \<and>
     ms_online s = odd (length (onlineness (ms_log s)))"

lemma alternates_out: "onlineness [x] = [] \<Longrightarrow> alternates s \<Longrightarrow> alternates (out x s)"
  by (simp add: alternates_def out_def onlineness_def)

lemma alternates_same: "alternates s \<Longrightarrow> ms_log t = ms_log s \<Longrightarrow> ms_online t = ms_online s \<Longrightarrow> alternates t"
  by (simp add: alternates_def)

lemma alternates_send: "alternates s \<Longrightarrow> alternates (send_request r u t s)"
  unfolding send_request_def
  by (rule alternates_out) (auto simp: onlineness_def elim: alternates_same)

lemma alternates_answer: "alternates s \<Longrightarrow> alternates (answer_search u rs s)"
  by (auto simp: answer_search_def onlineness_def split: option.split
      intro!: alternates_same [OF alternates_out [of "SearchAnswer _ rs" s]])

lemma alternates_handle: "alternates s \<Longrightarrow> alternates (handle_reply M r d s)"
  unfolding handle_reply_def Let_def
  by (intro alternates_out) (auto simp: onlineness_def out_def alternates_def answer_search_def split: option.split)

lemma alternates_online: "alternates s \<Longrightarrow> alternates (run_online c b s)"
  by (auto simp: run_online_def alternates_def out_def onlineness_def split: option.split online_callback.split)

lemma alternates_finished: "alternates s \<Longrightarrow> alternates (reply_finished M n ok d s)"
  unfolding reply_finished_def Let_def
  by (auto split: option.split reply_timer.split intro!: alternates_online alternates_handle elim: alternates_same)

lemma onlineness_alternates: "alternates (ms_run M cs (new_meilisearch h i))"
proof -
  have step: "alternates s \<Longrightarrow> alternates (ms_step M c s)" for s c
    by (cases c) (auto simp: step_defs split: option.split reply_timer.split
        intro!: alternates_send alternates_answer alternates_online alternates_finished elim: alternates_same)
  have "alternates (new_meilisearch h i)"
    unfolding new_meilisearch_def check_online_def by (rule alternates_send) (simp add: alternates_def onlineness_def)
  then show ?thesis unfolding ms_run_def using step by (induction cs rule: rev_induct) simp_all
qed

text \<open>
  \<open>setupCompleted\<close> counts every reply: the first health check emits it before any setup was asked for,
  and a health check that ends during a setup stands for one of its three requests.
\<close>

lemma setup_completed_early:
  "SetupCompleted \<in> set (ms_log (ms_run M [Finished 0 ok data] (new_meilisearch h i)))"
  "filter (\<lambda>x. x = SetupCompleted) (ms_log (ms_run sample_ms [CallSetup, Finished 0 True d, Finished 1 True d, Finished 2 True d]
     (new_meilisearch ''h'' ''i''))) = [SetupCompleted]"
  "ms_replies (ms_run sample_ms [CallSetup, Finished 0 True d, Finished 1 True d, Finished 2 True d]
     (new_meilisearch ''h'' ''i'')) 3 \<noteq> None"
  by (simp_all add: ms_run_def new_meilisearch_def step_defs reply_finished_def handle_reply_def run_online_def
      answer_search_def send_request_def out_def sample_ms_def index_url_def suffix_def)

end
