(* ===== verification/Boot.thy ===== *)
theory Boot
  imports Sample
begin

text \<open>
  How the process starts: the options of \<open>main.cpp\<close>, the globals of \<open>lib/globals.cpp\<close>, the paths of
  \<open>Utils::init\<close>, and the constructor of \<open>Ctx\<close>: directories, default files, ports and the two
  servers (what it loads from the database is in \<open>Startup\<close>). A path is the list of its
  components, so a doubled slash makes no difference; the disk maps paths to files and
  directories. \<open>allowed\<close> says where the operating system lets the process create something,
  \<open>resources\<close> are the files compiled into the program.
\<close>

section \<open>Options and globals\<close>

record options =
  op_port :: bytes
  op_password :: bytes
  op_web :: bytes
  op_pg_host :: bytes
  op_pg_port :: bytes
  op_pg_user :: bytes
  op_pg_password :: bytes
  op_pg_database :: bytes
  op_ms_enable :: bool
  op_ms_host :: bytes
  op_ms_port :: bytes
  op_ms_apikey :: bytes

text \<open>The values of the options that are not given.\<close>

definition default_options :: options where
  "default_options =
     \<lparr>op_port = ''6667'', op_password = [], op_web = ''0'', op_pg_host = ''127.0.0.1'', op_pg_port = ''5432'',
      op_pg_user = ''postgres'', op_pg_password = [], op_pg_database = ''chatripper'', op_ms_enable = False,
      op_ms_host = ''127.0.0.1'', op_ms_port = ''7700'', op_ms_apikey = []\<rparr>"

type_synonym path = "bytes list"

record globals =
  g_config_root :: path
  g_home_dir :: path
  g_config_directory :: path
  g_python_modules :: path
  g_uploads :: path
  g_static :: path
  g_cache :: path
  g_motd_path :: path
  g_preload_path :: path
  g_default_host :: bytes
  g_irc_motd :: bytes
  g_motd_modified :: nat
  g_irc_port :: nat
  g_ws_port :: nat
  g_pg_host :: bytes
  g_pg_port :: nat
  g_pg_username :: bytes
  g_pg_password :: bytes
  g_pg_database :: bytes
  g_ms_enabled :: bool
  g_ms_host :: bytes
  g_ms_port :: nat
  g_ms_apikey :: bytes

definition initial_globals :: globals where
  "initial_globals =
     \<lparr>g_config_root = [], g_home_dir = [], g_config_directory = [], g_python_modules = [], g_uploads = [],
      g_static = [], g_cache = [], g_motd_path = [], g_preload_path = [], g_default_host = [], g_irc_motd = [],
      g_motd_modified = 0, g_irc_port = 0, g_ws_port = 0, g_pg_host = [], g_pg_port = 0, g_pg_username = [],
      g_pg_password = [], g_pg_database = [], g_ms_enabled = False, g_ms_host = [], g_ms_port = 0,
      g_ms_apikey = []\<rparr>"

text \<open>\<open>QString::toUShort\<close>: 0 for what is not a number of 16 bits.\<close>

definition to_ushort :: "bytes \<Rightarrow> nat" where
  "to_ushort s = (case to_int s of Some n \<Rightarrow> if 0 \<le> n \<and> n < 65536 then nat n else 0 | None \<Rightarrow> 0)"

definition main_globals :: "options \<Rightarrow> globals" where
  "main_globals opts = initial_globals
     \<lparr>g_irc_port := to_ushort (op_port opts), g_irc_motd := op_password opts, g_ws_port := to_ushort (op_web opts),
      g_pg_host := op_pg_host opts, g_pg_port := to_ushort (op_pg_port opts), g_pg_username := op_pg_user opts,
      g_pg_password := op_pg_password opts, g_pg_database := op_pg_database opts,
      g_ms_enabled := op_ms_enable opts, g_ms_host := op_ms_host opts, g_ms_port := to_ushort (op_ms_port opts),
      g_ms_apikey := op_ms_apikey opts\<rparr>"

definition utils_init :: "path \<Rightarrow> path \<Rightarrow> globals \<Rightarrow> globals" where
  "utils_init home cwd g =
     (let conf = cwd @ [''data''] in
      g\<lparr>g_config_root := home, g_home_dir := home, g_config_directory := conf,
        g_python_modules := conf @ [''modules''], g_uploads := conf @ [''uploads''], g_static := conf @ [''static''],
        g_cache := conf @ [''cache''], g_motd_path := conf @ [''motd.txt''], g_preload_path := conf @ [''preload.json'']\<rparr>)"

section \<open>Directories and default files\<close>

datatype node = Dir | File bytes

type_synonym disk = "path \<Rightarrow> node option"

definition on_disk :: "disk \<Rightarrow> path \<Rightarrow> bool" where
  "on_disk d p \<longleftrightarrow> p = [] \<or> d p \<noteq> None"

definition is_dir :: "disk \<Rightarrow> path \<Rightarrow> bool" where
  "is_dir d p \<longleftrightarrow> p = [] \<or> d p = Some Dir"

text \<open>\<open>QDir::mkpath\<close>: the missing directories from the root down, until one cannot be made.\<close>

fun make_dirs :: "(path \<Rightarrow> bool) \<Rightarrow> path list \<Rightarrow> disk \<Rightarrow> bool \<times> disk" where
  "make_dirs allowed [] d = (True, d)"
| "make_dirs allowed (p # ps) d =
     (if is_dir d p then make_dirs allowed ps d
      else if d p = None \<and> allowed p then make_dirs allowed ps (d(p \<mapsto> Dir))
      else (False, d))"

definition mkpath :: "(path \<Rightarrow> bool) \<Rightarrow> path \<Rightarrow> disk \<Rightarrow> bool \<times> disk" where
  "mkpath allowed p d = make_dirs allowed (map (\<lambda>n. take n p) [1..<Suc (length p)]) d"

text \<open>
  The paths end in a slash, so \<open>std::filesystem::exists\<close> is true of directories only.
\<close>

definition create_config_directory :: "(path \<Rightarrow> bool) \<Rightarrow> path list \<Rightarrow> disk \<Rightarrow> disk res" where
  "create_config_directory allowed lst d =
     fold_res (\<lambda>p d.
       if is_dir d p then Inr d
       else (case mkpath allowed p d of (ok, d1) \<Rightarrow> if ok then Inr d1 else Inl Uncaught)) lst d"

text \<open>\<open>QFile::copy\<close> of a resource: it overwrites nothing and makes no directory.\<close>

definition copy_resource ::
    "(path \<Rightarrow> bool) \<Rightarrow> (bytes \<Rightarrow> bytes option) \<Rightarrow> bytes \<Rightarrow> path \<Rightarrow> disk \<Rightarrow> disk" where
  "copy_resource allowed resources name target d =
     (case resources name of
        None \<Rightarrow> d
      | Some contents \<Rightarrow>
          if on_disk d target \<or> \<not> is_dir d (butlast target) \<or> \<not> allowed target then d
          else d(target \<mapsto> File contents))"

text \<open>\<open>QFile::remove\<close> removes a file, not a directory.\<close>

definition remove_file :: "(path \<Rightarrow> bool) \<Rightarrow> path \<Rightarrow> disk \<Rightarrow> disk" where
  "remove_file allowed p d =
     (case d p of Some (File _) \<Rightarrow> if allowed p then d(p := None) else d | _ \<Rightarrow> d)"

definition python_files :: "(bytes \<times> bytes) list" where
  "python_files = [(''events.py'', ''events.py''), (''models.py'', ''models.py''), (''qircd.py'', ''__init__.py'')]"

definition default_files :: "(bytes \<times> bytes) list" where
  "default_files = [(''motd.txt'', ''motd.txt'')]"

text \<open>The permissions that are set afterwards are not modelled.\<close>

definition create_default_files ::
    "(path \<Rightarrow> bool) \<Rightarrow> (bytes \<Rightarrow> bytes option) \<Rightarrow> globals \<Rightarrow> disk \<Rightarrow> disk" where
  "create_default_files allowed resources g d =
     (let d1 = fold (\<lambda>(fp, dest) d.
            let to_path = g_python_modules g @ [''qircd'', dest];
                d' = (if on_disk d to_path then remove_file allowed to_path d else d)
            in copy_resource allowed resources fp to_path d') python_files d
      in fold (\<lambda>(fp, dest) d.
            let to_path = g_config_directory g @ [dest]
            in if on_disk d to_path then d else copy_resource allowed resources fp to_path d) default_files d1)"

section \<open>The constructor of the context\<close>

text \<open>
  \<open>listens\<close> says which ports can be bound; \<open>qFatal\<close> ends the process. The password of a server is
  a member that nothing assigns.
\<close>

record booted =
  bt_globals :: globals
  bt_disk :: disk
  bt_irc :: server
  bt_ws :: server

definition server_password :: bytes where
  "server_password = []"

definition start_servers :: "(nat \<Rightarrow> bool) \<Rightarrow> globals \<Rightarrow> unit res" where
  "start_servers listens g =
     (if \<not> listens (g_irc_port g) then Inl Uncaught
      else if \<not> listens (g_ws_port g) then Inl Uncaught
      else Inr ())"

definition start_context ::
    "(path \<Rightarrow> bool) \<Rightarrow> (bytes \<Rightarrow> bytes option) \<Rightarrow> (nat \<Rightarrow> bool) \<Rightarrow> path \<Rightarrow> path \<Rightarrow> globals \<Rightarrow> disk \<Rightarrow> booted res" where
  "start_context allowed resources listens home cwd g0 d =
     (let g1 = utils_init home cwd (g0\<lparr>g_ws_port := 8200, g_irc_port := 6667\<rparr>) in
      bind_res (create_config_directory allowed [g_config_directory g1, g_python_modules g1, g_uploads g1] d) (\<lambda>d1.
      let d2 = create_default_files allowed resources g1 d1;
          g2 = g1\<lparr>g_default_host := ''kroket.io''\<rparr>
      in bind_res (new_server 4 10) (\<lambda>irc.
         bind_res (new_server 4 10) (\<lambda>ws.
         bind_res (start_servers listens g2) (\<lambda>_.
         Inr \<lparr>bt_globals = g2, bt_disk = d2, bt_irc = irc, bt_ws = ws\<rparr>)))))"

definition run_main ::
    "(path \<Rightarrow> bool) \<Rightarrow> (bytes \<Rightarrow> bytes option) \<Rightarrow> (nat \<Rightarrow> bool) \<Rightarrow> path \<Rightarrow> path \<Rightarrow> options \<Rightarrow> disk \<Rightarrow> booted res" where
  "run_main allowed resources listens home cwd opts d =
     start_context allowed resources listens home cwd (main_globals opts) d"

text \<open>What of the environment and the world of the server the start decides.\<close>

definition booted_env :: "booted \<Rightarrow> env \<Rightarrow> env" where
  "booted_env b E = E
     \<lparr>e_password := server_password, e_default_host := g_default_host (bt_globals b), e_ws_port := g_ws_port (bt_globals b)\<rparr>"

definition booted_world :: "booted \<Rightarrow> world \<Rightarrow> world" where
  "booted_world b w = w
     \<lparr>w_srv := (\<lambda>k. case k of IrcServer \<Rightarrow> bt_irc b | WsServer \<Rightarrow> bt_ws b),
      w_motd := g_irc_motd (bt_globals b), w_motd_modified := g_motd_modified (bt_globals b)\<rparr>"

section \<open>What a start leaves on the disk\<close>

text \<open>
  Directories are only added, at the paths asked for and their ancestors.
\<close>

definition prefixes_of :: "path \<Rightarrow> path list" where
  "prefixes_of p = map (\<lambda>n. take n p) [1..<Suc (length p)]"

lemma self_prefix: "p \<noteq> [] \<Longrightarrow> p \<in> set (prefixes_of p)"
  unfolding prefixes_of_def set_map by (rule image_eqI [of _ _ "length p"]) (auto simp: Suc_le_eq)

lemma longer_not_prefix: "length p < length q \<Longrightarrow> q \<notin> set (prefixes_of p)"
  by (auto simp: prefixes_of_def)

lemma other_not_prefix: "length q = length p \<Longrightarrow> q \<noteq> p \<Longrightarrow> q \<notin> set (prefixes_of p)"
  by (auto simp: prefixes_of_def)

lemma make_dirs_only: "make_dirs allowed ps d = (ok, d') \<Longrightarrow> q \<notin> set ps \<Longrightarrow> d' q = d q"
  by (induction ps arbitrary: d) (auto split: if_splits)

lemma make_dirs_keeps: "make_dirs allowed ps d = (ok, d') \<Longrightarrow> d q = Some x \<Longrightarrow> d' q = Some x"
proof (induction ps arbitrary: d)
  case (Cons p ps)
  then show ?case by (cases "q = p") (auto split: if_splits)
qed simp

lemma make_dirs_is_dir: "make_dirs allowed ps d = (ok, d') \<Longrightarrow> is_dir d q \<Longrightarrow> is_dir d' q"
  using make_dirs_keeps [of allowed ps d ok d' q Dir] by (auto simp: is_dir_def)

lemma make_dirs_made: "make_dirs allowed ps d = (True, d') \<Longrightarrow> q \<in> set ps \<Longrightarrow> is_dir d' q"
proof (induction ps arbitrary: d)
  case (Cons p ps)
  have "is_dir d' p"
  proof (cases "is_dir d p")
    case True
    with Cons.prems(1) show ?thesis by (auto intro: make_dirs_is_dir)
  next
    case False
    with Cons.prems(1) have "make_dirs allowed ps (d(p \<mapsto> Dir)) = (True, d')" by (auto split: if_splits)
    then show ?thesis by (rule make_dirs_is_dir) (simp add: is_dir_def)
  qed
  with Cons show ?case by (auto split: if_splits)
qed simp

definition config_step :: "(path \<Rightarrow> bool) \<Rightarrow> path \<Rightarrow> disk \<Rightarrow> disk res" where
  "config_step allowed p d =
     (if is_dir d p then Inr d
      else (case mkpath allowed p d of (ok, d1) \<Rightarrow> if ok then Inr d1 else Inl Uncaught))"

lemma create_config_steps: "create_config_directory allowed lst = fold_res (config_step allowed) lst"
  by (rule ext) (simp add: create_config_directory_def config_step_def [abs_def])

lemma config_step_effect:
  assumes "config_step allowed p d = Inr d'"
  shows "d q = Some x \<Longrightarrow> d' q = Some x" and "q \<notin> set (prefixes_of p) \<Longrightarrow> d' q = d q"
    and "is_dir d q \<Longrightarrow> is_dir d' q" and "is_dir d' p"
proof -
  have "d' = d \<and> is_dir d p \<or> make_dirs allowed (prefixes_of p) d = (True, d') \<and> p \<noteq> []"
    using assms by (auto simp: config_step_def mkpath_def prefixes_of_def is_dir_def split: if_splits prod.splits)
  then show "d q = Some x \<Longrightarrow> d' q = Some x" and "q \<notin> set (prefixes_of p) \<Longrightarrow> d' q = d q"
    and "is_dir d q \<Longrightarrow> is_dir d' q" and "is_dir d' p"
    by (auto intro: make_dirs_keeps make_dirs_only make_dirs_is_dir make_dirs_made self_prefix)
qed

lemma create_config_effect:
  assumes "create_config_directory allowed lst d = Inr d'"
  shows "d q = Some x \<Longrightarrow> d' q = Some x"
    and "\<forall>p \<in> set lst. q \<notin> set (prefixes_of p) \<Longrightarrow> d' q = d q"
    and "\<forall>p \<in> set lst. is_dir d' p"
proof -
  have all: "(d q = Some x \<longrightarrow> d' q = Some x) \<and> ((\<forall>p \<in> set lst. q \<notin> set (prefixes_of p)) \<longrightarrow> d' q = d q) \<and>
      (\<forall>p. is_dir d p \<longrightarrow> is_dir d' p) \<and> (\<forall>p \<in> set lst. is_dir d' p)"
    using assms unfolding create_config_steps
  proof (induction lst arbitrary: d)
    case (Cons p lst)
    from Cons.prems obtain d1 where d1: "config_step allowed p d = Inr d1" "fold_res (config_step allowed) lst d1 = Inr d'"
      by (auto simp: bind_res_Inr_iff)
    from Cons.IH [OF d1(2)] config_step_effect [OF d1(1)] show ?case by simp
  qed simp
  then show "d q = Some x \<Longrightarrow> d' q = Some x"
    and "\<forall>p \<in> set lst. q \<notin> set (prefixes_of p) \<Longrightarrow> d' q = d q"
    and "\<forall>p \<in> set lst. is_dir d' p"
    by blast+
qed

lemma create_config_again: "\<forall>p \<in> set lst. is_dir d p \<Longrightarrow> create_config_directory allowed lst d = Inr d"
  unfolding create_config_steps by (induction lst) (simp_all add: config_step_def)

text \<open>A file of the Python package is replaced, a default file is written when it is missing.\<close>

definition fresh_copy :: "(path \<Rightarrow> bool) \<Rightarrow> (bytes \<Rightarrow> bytes option) \<Rightarrow> bytes \<Rightarrow> path \<Rightarrow> disk \<Rightarrow> node option" where
  "fresh_copy allowed resources fp p d =
     (if is_dir d (butlast p) \<and> allowed p then map_option File (resources fp) else None)"

definition replaced :: "(path \<Rightarrow> bool) \<Rightarrow> (bytes \<Rightarrow> bytes option) \<Rightarrow> bytes \<Rightarrow> path \<Rightarrow> disk \<Rightarrow> node option" where
  "replaced allowed resources fp p d =
     (if d p = None \<or> d p \<noteq> Some Dir \<and> allowed p then fresh_copy allowed resources fp p d else d p)"

definition completed :: "(path \<Rightarrow> bool) \<Rightarrow> (bytes \<Rightarrow> bytes option) \<Rightarrow> bytes \<Rightarrow> path \<Rightarrow> disk \<Rightarrow> node option" where
  "completed allowed resources fp p d = (if d p = None then fresh_copy allowed resources fp p d else d p)"

lemma butlast_shorter: "p \<noteq> [] \<Longrightarrow> butlast p \<noteq> p"
  by (metis append_butlast_last_id append_self_conv not_Cons_self2)

lemma replace_step:
  assumes "p \<noteq> []"
  shows "copy_resource allowed resources fp p (if on_disk d p then remove_file allowed p d else d) =
    d(p := replaced allowed resources fp p d)"
  using assms butlast_shorter [OF assms]
  by (cases "d p"; cases "resources fp"; cases "the (d p)")
    (auto simp: copy_resource_def remove_file_def replaced_def fresh_copy_def on_disk_def is_dir_def fun_upd_idem_iff)

lemma complete_step:
  assumes "p \<noteq> []"
  shows "(if on_disk d p then d else copy_resource allowed resources fp p d) =
    d(p := completed allowed resources fp p d)"
  using assms
  by (cases "d p"; cases "resources fp")
    (auto simp: copy_resource_def completed_def fresh_copy_def on_disk_def fun_upd_idem_iff)

lemma copies_local:
  assumes "d p = e p" and "is_dir d (butlast p) = is_dir e (butlast p)"
  shows "replaced allowed resources fp p d = replaced allowed resources fp p e"
    and "completed allowed resources fp p d = completed allowed resources fp p e"
  using assms by (simp_all add: replaced_def completed_def fresh_copy_def)

lemma default_files_written:
  fixes m c :: path
  assumes m: "m = g_python_modules g @ [''qircd'']" and c: "c = g_config_directory g" and len: "length c < length m"
    and d': "d' = create_default_files allowed resources g d"
  shows "(fp, f) \<in> set python_files \<Longrightarrow> d' (m @ [f]) = replaced allowed resources fp (m @ [f]) d"
    and "d' (c @ [''motd.txt'']) = completed allowed resources ''motd.txt'' (c @ [''motd.txt'']) d"
    and "q \<noteq> c @ [''motd.txt''] \<Longrightarrow> q \<notin> (\<lambda>(fp, f). m @ [f]) ` set python_files \<Longrightarrow> d' q = d q"
proof -
  have ne: "m @ [f] \<noteq> c @ [''motd.txt'']" "m \<noteq> m @ [f]" "c \<noteq> m @ [f]" for f
    using len by (auto dest: arg_cong [where f = length])
  let ?R = "\<lambda>fp p d. d(p := replaced allowed resources fp p d)"
  let ?C = "\<lambda>fp p d. d(p := completed allowed resources fp p d)"
  have files: "create_default_files allowed resources g d =
      fold (\<lambda>(fp, f). ?C fp (c @ [f])) default_files (fold (\<lambda>(fp, f). ?R fp (m @ [f])) python_files d)"
    unfolding create_default_files_def Let_def m c
    by (rule arg_cong2 [where f = "\<lambda>F G. fold F default_files (fold G python_files d)"])
      (simp_all add: replace_step complete_step fun_eq_iff split del: if_split)
  define d1 where "d1 = ?R ''events.py'' (m @ [''events.py'']) d"
  define d2 where "d2 = ?R ''models.py'' (m @ [''models.py'']) d1"
  define d3 where "d3 = ?R ''qircd.py'' (m @ [''__init__.py'']) d2"
  have d': "d' = ?C ''motd.txt'' (c @ [''motd.txt'']) d3"
    unfolding d' files by (simp add: python_files_def default_files_def d1_def d2_def d3_def)
  have at: "d1 q = (if q = m @ [''events.py''] then replaced allowed resources ''events.py'' q d else d q)"
    "d2 q = (if q = m @ [''models.py''] then replaced allowed resources ''models.py'' q d1 else d1 q)"
    "d3 q = (if q = m @ [''__init__.py''] then replaced allowed resources ''qircd.py'' q d2 else d2 q)"
    "d' q = (if q = c @ [''motd.txt''] then completed allowed resources ''motd.txt'' q d3 else d3 q)" for q
    subgoal unfolding d1_def fun_upd_apply by (rule if_cong) simp_all
    subgoal unfolding d2_def fun_upd_apply by (rule if_cong) simp_all
    subgoal unfolding d3_def fun_upd_apply by (rule if_cong) simp_all
    subgoal unfolding d' fun_upd_apply by (rule if_cong) simp_all
    done
  have same: "is_dir d1 m = is_dir d m" "is_dir d2 m = is_dir d m" "is_dir d3 c = is_dir d c"
    using ne by (simp_all add: is_dir_def at)
  have 2: "replaced allowed resources ''models.py'' (m @ [''models.py'']) d1 =
      replaced allowed resources ''models.py'' (m @ [''models.py'']) d"
    by (rule copies_local(1)) (simp_all add: at(1) same)
  have 3: "replaced allowed resources ''qircd.py'' (m @ [''__init__.py'']) d2 =
      replaced allowed resources ''qircd.py'' (m @ [''__init__.py'']) d"
    by (rule copies_local(1)) (simp_all add: at(1,2) same)
  have 4: "completed allowed resources ''motd.txt'' (c @ [''motd.txt'']) d3 =
      completed allowed resources ''motd.txt'' (c @ [''motd.txt'']) d"
    using ne(1) [symmetric] by (intro copies_local(2)) (simp_all add: at(1,2,3) same)
  show "(fp, f) \<in> set python_files \<Longrightarrow> d' (m @ [f]) = replaced allowed resources fp (m @ [f]) d"
    using ne(1) 2 3 by (auto simp: python_files_def at)
  show "d' (c @ [''motd.txt'']) = completed allowed resources ''motd.txt'' (c @ [''motd.txt'']) d"
    using 4 by (simp add: at(4))
  show "q \<noteq> c @ [''motd.txt''] \<Longrightarrow> q \<notin> (\<lambda>(fp, f). m @ [f]) ` set python_files \<Longrightarrow> d' q = d q"
    by (simp add: at python_files_def)
qed

lemma copied_again:
  assumes "is_dir e (butlast p) = is_dir d (butlast p)"
  shows "e p = replaced allowed resources fp p d \<Longrightarrow> replaced allowed resources fp p e = e p"
    and "e p = completed allowed resources fp p d \<Longrightarrow> completed allowed resources fp p e = e p"
  using assms by (auto simp: replaced_def completed_def fresh_copy_def split: if_splits)

lemma default_files_again:
  assumes "length (g_config_directory g) < length (g_python_modules g)"
  shows "create_default_files allowed resources g (create_default_files allowed resources g d) =
    create_default_files allowed resources g d"
proof
  fix q
  let ?m = "g_python_modules g @ [''qircd'']" and ?c = "g_config_directory g"
  let ?d1 = "create_default_files allowed resources g d"
  let ?d2 = "create_default_files allowed resources g ?d1"
  have ne: "?m @ [f] \<noteq> ?c @ [''motd.txt'']" "?m \<noteq> ?m @ [f]" "?c \<noteq> ?m @ [f]" "?m \<noteq> ?c @ [''motd.txt'']" for f
    using assms by (auto dest: arg_cong [where f = length])
  have len: "length ?c < length ?m" using assms by simp
  note w1 = default_files_written [of ?m g ?c ?d1 allowed resources d, OF refl refl len refl]
    and w2 = default_files_written [of ?m g ?c ?d2 allowed resources ?d1, OF refl refl len refl]
  consider "q = ?c @ [''motd.txt'']" | fp f where "q = ?m @ [f]" "(fp, f) \<in> set python_files"
    | "q \<noteq> ?c @ [''motd.txt'']" "q \<notin> (\<lambda>(fp, f). ?m @ [f]) ` set python_files"
    by (cases "q \<in> (\<lambda>(fp, f). ?m @ [f]) ` set python_files") (auto simp del: append_assoc)
  then show "?d2 q = ?d1 q"
  proof cases
    case 1
    have c: "?d1 ?c = d ?c" using ne assms by (intro w1(3)) auto
    show ?thesis using w1(2) w2(2) assms c unfolding 1 by (simp add: completed_def fresh_copy_def is_dir_def)
  next
    case 2
    have m: "?d1 ?m = d ?m" using ne assms by (intro w1(3)) auto
    have bl: "butlast (?m @ [f]) = ?m" by (simp only: butlast_snoc)
    show ?thesis
      unfolding 2(1) w2(1) [OF 2(2)]
      by (rule copied_again(1) [where e = ?d1 and p = "?m @ [f]" and d = d, OF _ w1(1) [OF 2(2)]])
        (simp only: bl is_dir_def m)
  next
    case 3
    then show ?thesis using assms by (intro w2(3)) auto
  qed
qed

section \<open>A whole start\<close>

definition boot_globals :: "path \<Rightarrow> path \<Rightarrow> options \<Rightarrow> globals" where
  "boot_globals home cwd opts = utils_init home cwd ((main_globals opts)\<lparr>g_ws_port := 8200, g_irc_port := 6667\<rparr>)"

lemma boot_paths:
  "g_config_directory (boot_globals home cwd opts) = cwd @ [''data'']"
  "g_python_modules (boot_globals home cwd opts) = cwd @ [''data'', ''modules'']"
  "g_uploads (boot_globals home cwd opts) = cwd @ [''data'', ''uploads'']"
  "g_irc_port (boot_globals home cwd opts) = 6667" "g_ws_port (boot_globals home cwd opts) = 8200"
  by (simp_all add: boot_globals_def utils_init_def Let_def)

definition boot_dirs :: "path \<Rightarrow> path list" where
  "boot_dirs cwd = [cwd @ [''data''], cwd @ [''data'', ''modules''], cwd @ [''data'', ''uploads'']]"

lemma pool_created: "new_server 4 10 = Inr pool_server"
  by (simp add: new_server_def pool_server_def eval_nat_numeral)

lemma run_main_steps:
  "run_main allowed resources listens home cwd opts d =
    bind_res (create_config_directory allowed (boot_dirs cwd) d) (\<lambda>d1.
      if \<not> listens 6667 \<or> \<not> listens 8200 then Inl Uncaught
      else Inr \<lparr>bt_globals = (boot_globals home cwd opts)\<lparr>g_default_host := ''kroket.io''\<rparr>,
        bt_disk = create_default_files allowed resources (boot_globals home cwd opts) d1,
        bt_irc = pool_server, bt_ws = pool_server\<rparr>)"
  unfolding run_main_def start_context_def boot_globals_def [symmetric] Let_def boot_dirs_def pool_created
  by (simp add: boot_paths start_servers_def)

lemma run_main_parts:
  assumes "run_main allowed resources listens home cwd opts d = Inr b"
  obtains d1 where "create_config_directory allowed (boot_dirs cwd) d = Inr d1"
    and "bt_globals b = (boot_globals home cwd opts)\<lparr>g_default_host := ''kroket.io''\<rparr>"
    and "bt_disk b = create_default_files allowed resources (boot_globals home cwd opts) d1"
    and "bt_irc b = pool_server" and "bt_ws b = pool_server" and "listens 6667" and "listens 8200"
  using assms by (auto simp: run_main_steps bind_res_Inr_iff split: if_splits)

lemmas boot_globals_simps = boot_globals_def utils_init_def main_globals_def initial_globals_def Let_def


definition boot_motd :: "path \<Rightarrow> path" where
  "boot_motd cwd = cwd @ [''data'', ''motd.txt'']"

definition boot_python :: "path \<Rightarrow> path set" where
  "boot_python cwd = (\<lambda>(fp, f). cwd @ [''data'', ''modules'', ''qircd'', f]) ` set python_files"

lemma disk_after_start:
  fixes r :: "bytes \<Rightarrow> bytes"
  assumes made: "create_config_directory (\<lambda>_. True) (boot_dirs cwd) d = Inr d1"
    and disk: "d' = create_default_files (\<lambda>_. True) (\<lambda>fp. Some (r fp)) (boot_globals home cwd opts) d1"
  shows "\<forall>p \<in> set (boot_dirs cwd). is_dir d' p"
    and "d' (boot_motd cwd) = (case d (boot_motd cwd) of None \<Rightarrow> Some (File (r ''motd.txt'')) | Some x \<Rightarrow> Some x)"
    and "(fp, f) \<in> set python_files \<Longrightarrow> d' (cwd @ [''data'', ''modules'', ''qircd'', f]) =
      (if d (cwd @ [''data'', ''modules'', ''qircd'', f]) = Some Dir then Some Dir
       else if d (cwd @ [''data'', ''modules'', ''qircd'']) = Some Dir then Some (File (r fp)) else None)"
    and "q \<notin> boot_python cwd \<Longrightarrow> q \<noteq> boot_motd cwd \<Longrightarrow> d' q \<noteq> d q \<Longrightarrow>
      d q = None \<and> (\<exists>p \<in> set (boot_dirs cwd). q \<in> set (prefixes_of p))"
proof -
  let ?g = "boot_globals home cwd opts" and ?m = "cwd @ [''data'', ''modules'', ''qircd'']"
  let ?py = "boot_python cwd" and ?motd = "boot_motd cwd"
  note dirs = create_config_effect [OF made]
  have old: "d1 q = d q" if "q = ?m \<or> q = ?m @ [f] \<or> q = ?motd" for q f
    using that by (intro dirs(2)) (auto simp: boot_dirs_def boot_motd_def longer_not_prefix other_not_prefix)
  have len: "length (cwd @ [''data'']) < length ?m" by simp
  have "?m = g_python_modules ?g @ [''qircd'']" "cwd @ [''data''] = g_config_directory ?g" by (simp_all add: boot_paths)
  note files = default_files_written [OF this len disk]
  have new: "d' q = d1 q" if "q \<noteq> ?motd" "q \<notin> ?py" for q
    using files(3) [of q] that by (auto simp: image_iff boot_python_def boot_motd_def)
  show "\<forall>p \<in> set (boot_dirs cwd). is_dir d' p"
  proof
    fix p assume p: "p \<in> set (boot_dirs cwd)"
    then have "p \<noteq> ?motd" "p \<notin> ?py" by (auto simp: boot_dirs_def boot_motd_def boot_python_def)
    with p dirs(3) show "is_dir d' p" by (auto simp: is_dir_def new)
  qed
  have "is_dir d1 (cwd @ [''data''])" using dirs(3) by (simp add: boot_dirs_def)
  then show "d' ?motd = (case d ?motd of None \<Rightarrow> Some (File (r ''motd.txt'')) | Some x \<Rightarrow> Some x)"
    using files(2) old [of ?motd]
    by (simp add: boot_motd_def completed_def fresh_copy_def butlast_append split: option.split)
  have bl: "butlast (?m @ [f]) = ?m" by (simp only: butlast_snoc)
  show "d' (cwd @ [''data'', ''modules'', ''qircd'', f]) =
      (if d (cwd @ [''data'', ''modules'', ''qircd'', f]) = Some Dir then Some Dir
       else if d (cwd @ [''data'', ''modules'', ''qircd'']) = Some Dir then Some (File (r fp)) else None)"
    if "(fp, f) \<in> set python_files"
    using files(1) [OF that] old [of "?m @ [f]" f] old [of ?m]
    unfolding replaced_def fresh_copy_def bl by (simp add: is_dir_def)
  show "d q = None \<and> (\<exists>p \<in> set (boot_dirs cwd). q \<in> set (prefixes_of p))"
    if "q \<notin> ?py" "q \<noteq> ?motd" "d' q \<noteq> d q"
  proof -
    have changed: "d1 q \<noteq> d q" using that new [of q] by simp
    then have "d q = None" using dirs(1) [of q] by (cases "d q") auto
    moreover have "\<not> (\<forall>p \<in> set (boot_dirs cwd). q \<notin> set (prefixes_of p))" using dirs(2) [of q] changed by blast
    ultimately show ?thesis by blast
  qed
qed


text \<open>A start from an empty directory, with a port and a password on the command line.\<close>

definition sample_options :: options where
  "sample_options = default_options\<lparr>op_port := ''7000'', op_password := ''sesame''\<rparr>"

definition sample_disk :: disk where
  "sample_disk = [[''srv''] \<mapsto> Dir]"

lemma sample_start:
  "\<exists>b. run_main (\<lambda>_. True) (\<lambda>fp. Some (fp @ ''!'')) (\<lambda>_. True) [''root''] [''srv''] sample_options sample_disk = Inr b"
  by (simp add: run_main_steps boot_dirs_def create_config_steps config_step_def mkpath_def sample_disk_def is_dir_def
      upt_rec)



end
