(* ===== verification/Toolbox.thy ===== *)
theory Toolbox
  imports Complex_Main Boot
begin

text \<open>
  The utilities of \<open>lib/utils.cpp\<close>, the configuration of \<open>lib/config.cpp\<close> and the debounced and
  throttled functions of \<open>lib/debounce.h\<close>. The server calls none of them but \<open>Utils::init\<close>, which is in
  \<open>Boot\<close>. Not here: what only asks the operating system (ports, temporary names, the clock, text mode).
\<close>

section \<open>Files\<close>

definition file_exists :: "disk \<Rightarrow> path \<Rightarrow> bool" where
  "file_exists d p \<longleftrightarrow> (case d p of Some (File _) \<Rightarrow> True | _ \<Rightarrow> False)"

definition dir_exists :: "disk \<Rightarrow> path \<Rightarrow> bool" where
  "dir_exists d p \<longleftrightarrow> is_dir d p"

definition file_open :: "(path \<Rightarrow> bool) \<Rightarrow> disk \<Rightarrow> path \<Rightarrow> bytes" where
  "file_open readable d p = (case d p of Some (File x) \<Rightarrow> if readable p then x else [] | _ \<Rightarrow> [])"

definition file_write :: "(path \<Rightarrow> bool) \<Rightarrow> path \<Rightarrow> bytes \<Rightarrow> disk \<Rightarrow> bool \<times> disk" where
  "file_write allowed p data d =
     (if p \<noteq> [] \<and> d p \<noteq> Some Dir \<and> is_dir d (butlast p) \<and> allowed p then (True, d(p \<mapsto> File data)) else (False, d))"

text \<open>
  A directory as \<open>entryInfoList\<close> lists it: names, whether they may be read, and what a directory holds.
\<close>

datatype entry = DirEntry bytes bool "entry list" | FileEntry bytes bool

fun file_find :: "(bytes \<Rightarrow> bool) \<Rightarrow> path \<Rightarrow> int \<Rightarrow> int \<Rightarrow> int \<Rightarrow> int \<Rightarrow> entry list \<Rightarrow> path list" where
  "file_find pattern base level depth max_per_dir file_count [] = []"
| "file_find pattern base level depth max_per_dir file_count (FileEntry fn readable # es) =
     (if file_count + 1 > max_per_dir then []
      else (if readable \<and> pattern fn then [base @ [fn]] else []) @
        file_find pattern base level depth max_per_dir (file_count + 1) es)"
| "file_find pattern base level depth max_per_dir file_count (DirEntry fn readable sub # es) =
     (if file_count + 1 > max_per_dir then []
      else (if readable \<and> level + 1 \<le> depth then file_find pattern (base @ [fn]) (level + 1) depth max_per_dir 0 sub else []) @
        file_find pattern base level depth max_per_dir (file_count + 1) es)"

definition is_cyrillic :: "nat list \<Rightarrow> bool" where
  "is_cyrillic code_points \<longleftrightarrow> (\<exists>c \<in> set code_points. 0x410 \<le> c \<and> c \<le> 0x44F \<or> c = 0x401 \<or> c = 0x451)"

fun next_unit :: "bytes list \<Rightarrow> bytes \<Rightarrow> real \<Rightarrow> real \<times> bytes" where
  "next_unit [] unit n = (n, unit)"
| "next_unit (u # us) unit n = (if n \<ge> 1024 then next_unit us u (n / 1024) else (n, unit))"

definition human_file_size :: "(real \<Rightarrow> bytes) \<Rightarrow> real \<Rightarrow> bytes" where
  "human_file_size number num_bytes =
     (case next_unit [''KB'', ''MB'', ''GB'', ''TB''] ''bytes'' num_bytes of (n, unit) \<Rightarrow> number n @ '' '' @ unit)"

definition cpu_count :: "int \<Rightarrow> int" where
  "cpu_count online = (if online < 1 then 1 else online)"

section \<open>The configuration\<close>

datatype config_key = Test | CacheDir | DefaultIdleTimeout

datatype setting = TextSetting bytes | NumberSetting int

fun config_directive :: "config_key \<Rightarrow> bytes \<times> setting" where
  "config_directive Test = (''Test'', TextSetting ''test'')"
| "config_directive CacheDir = (''CacheDir'', TextSetting [])"
| "config_directive DefaultIdleTimeout = (''DefaultIdleTimeout'', NumberSetting 40)"

text \<open>\<open>QSettings\<close> keeps the values in memory and writes them to its file when it is synchronised.\<close>

record config =
  cf_settings :: "bytes \<rightharpoonup> setting"
  cf_file :: "bytes \<rightharpoonup> setting"
  cf_changed :: "config_key list"

definition config_get :: "config_key \<Rightarrow> config \<Rightarrow> setting" where
  "config_get key c =
     (case config_directive key of (name, default_value) \<Rightarrow>
        (case cf_settings c name of Some v \<Rightarrow> v | None \<Rightarrow> default_value))"

definition config_sync :: "config \<Rightarrow> config" where
  "config_sync c = c\<lparr>cf_file := cf_settings c\<rparr>"

definition config_set :: "config_key \<Rightarrow> setting \<Rightarrow> config \<Rightarrow> config" where
  "config_set key v c =
     (if config_get key c = v then c
      else (let c1 = config_sync (c\<lparr>cf_settings := (cf_settings c)(fst (config_directive key) \<mapsto> v)\<rparr>)
            in c1\<lparr>cf_changed := cf_changed c1 @ [key]\<rparr>))"

definition reset_to_defaults :: "config \<Rightarrow> config" where
  "reset_to_defaults c = c\<lparr>cf_settings := Map.empty\<rparr>"

section \<open>Debounced and throttled functions\<close>

text \<open>
  A timer with the time of its next timeout, and what the timeout runs. Times are in milliseconds; a
  timeout that is due comes before a call at the same time. The result of a run is the list of
  executions of the callback with their times and arguments. The callback is taken not to call the
  function again.
\<close>

datatype 'a connected = Disconnected | StopOnly | RunCached 'a

record 'a delayed =
  dl_delay :: nat
  dl_timer :: "nat option"
  dl_connected :: "'a connected"

definition new_delayed :: "nat \<Rightarrow> 'a delayed" where
  "new_delayed delay = \<lparr>dl_delay = delay, dl_timer = None, dl_connected = Disconnected\<rparr>"

definition debounce_call :: "nat \<Rightarrow> 'a \<Rightarrow> 'a delayed \<Rightarrow> 'a delayed \<times> (nat \<times> 'a) list" where
  "debounce_call now x s = (s\<lparr>dl_timer := Some (now + dl_delay s), dl_connected := RunCached x\<rparr>, [])"

definition throttle_call :: "nat \<Rightarrow> 'a \<Rightarrow> 'a delayed \<Rightarrow> 'a delayed \<times> (nat \<times> 'a) list" where
  "throttle_call now x s =
     (if dl_timer s = None then (s\<lparr>dl_timer := Some (now + dl_delay s), dl_connected := StopOnly\<rparr>, [(now, x)])
      else (s\<lparr>dl_connected := RunCached x\<rparr>, []))"

definition delayed_timeout :: "'a delayed \<Rightarrow> 'a delayed \<times> (nat \<times> 'a) list" where
  "delayed_timeout s =
     (case dl_timer s of
        None \<Rightarrow> (s, [])
      | Some due \<Rightarrow>
          (case dl_connected s of
             Disconnected \<Rightarrow> (s\<lparr>dl_timer := Some (due + dl_delay s)\<rparr>, [])
           | StopOnly \<Rightarrow> (s\<lparr>dl_timer := None\<rparr>, [])
           | RunCached x \<Rightarrow> (s\<lparr>dl_timer := None\<rparr>, [(due, x)])))"

definition until :: "nat \<Rightarrow> 'a delayed \<Rightarrow> 'a delayed \<times> (nat \<times> 'a) list" where
  "until now s = (case dl_timer s of Some due \<Rightarrow> if due \<le> now then delayed_timeout s else (s, []) | None \<Rightarrow> (s, []))"

fun delayed_run :: "(nat \<Rightarrow> 'a \<Rightarrow> 'a delayed \<Rightarrow> 'a delayed \<times> (nat \<times> 'a) list) \<Rightarrow> (nat \<times> 'a) list \<Rightarrow> 'a delayed \<Rightarrow> (nat \<times> 'a) list" where
  "delayed_run call [] s = snd (delayed_timeout s)"
| "delayed_run call ((now, x) # calls) s =
     (case until now s of (s1, out1) \<Rightarrow>
        (case call now x s1 of (s2, out2) \<Rightarrow> out1 @ out2 @ delayed_run call calls s2))"

text \<open>The reference: of a burst of calls only the last one is executed, when no other follows in time.\<close>

fun last_of_bursts :: "nat \<Rightarrow> (nat \<times> 'a) list \<Rightarrow> (nat \<times> 'a) list" where
  "last_of_bursts d [] = []"
| "last_of_bursts d [(t, x)] = [(t + d, x)]"
| "last_of_bursts d ((t, x) # (u, y) # calls) = (if t + d \<le> u then [(t + d, x)] else []) @ last_of_bursts d ((u, y) # calls)"

text \<open>
  The reference: a call outside a window is executed at once and opens one; of the calls within it
  the last one is executed at its end. The end opens no new window.
\<close>

function windows :: "nat \<Rightarrow> (nat \<times> 'a) list \<Rightarrow> (nat \<times> 'a) list" where
  "windows d [] = []"
| "windows d ((t, x) # calls) =
     (let inside = takeWhile (\<lambda>(u, _). u < t + d) calls in
      (t, x) # (if inside = [] then [] else [(t + d, snd (last inside))]) @ windows d (dropWhile (\<lambda>(u, _). u < t + d) calls))"
  by pat_completeness auto
termination
  by (relation "measure (\<lambda>(d, calls). length calls)") (auto simp: less_Suc_eq_le length_dropWhile_le)

lemma debounce_burst:
  "delayed_run debounce_call calls \<lparr>dl_delay = d, dl_timer = Some (t + d), dl_connected = RunCached x\<rparr> =
    last_of_bursts d ((t, x) # calls)"
  by (induction calls arbitrary: t x) (auto simp: delayed_timeout_def until_def debounce_call_def)

theorem debounce_is_last_of_bursts: "delayed_run debounce_call calls (new_delayed d) = last_of_bursts d calls"
proof (cases calls)
  case (Cons c cs)
  then show ?thesis
    by (cases c) (simp add: new_delayed_def until_def debounce_call_def debounce_burst)
qed (simp add: new_delayed_def delayed_timeout_def)

lemma throttle_idle:
  "delayed_run throttle_call calls \<lparr>dl_delay = d, dl_timer = None, dl_connected = c\<rparr> =
    delayed_run throttle_call calls \<lparr>dl_delay = d, dl_timer = None, dl_connected = Disconnected\<rparr>"
  by (cases calls) (auto simp: delayed_timeout_def until_def throttle_call_def split: prod.splits)

lemma throttle_window:
  "c \<noteq> Disconnected \<Longrightarrow> delayed_run throttle_call calls \<lparr>dl_delay = d, dl_timer = Some e, dl_connected = c\<rparr> =
    (let inside = takeWhile (\<lambda>(u, _). u < e) calls in
      (if inside = [] then (case c of RunCached x \<Rightarrow> [(e, x)] | _ \<Rightarrow> []) else [(e, snd (last inside))]) @
      delayed_run throttle_call (dropWhile (\<lambda>(u, _). u < e) calls) \<lparr>dl_delay = d, dl_timer = None, dl_connected = Disconnected\<rparr>)"
proof (induction calls arbitrary: c)
  case Nil
  then show ?case by (cases c) (simp_all add: delayed_timeout_def)
next
  case (Cons a calls)
  obtain u x where a: "a = (u, x)" by (cases a)
  show ?case
  proof (cases "u < e")
    case True
    then show ?thesis
      using Cons.IH [of "RunCached x"] by (simp add: a until_def throttle_call_def Let_def)
  next
    case False
    from Cons.prems consider "c = StopOnly" | y where "c = RunCached y" by (cases c) auto
    then show ?thesis
      using False by cases (simp_all add: a until_def throttle_call_def delayed_timeout_def Let_def)
  qed
qed

theorem throttle_is_windows: "delayed_run throttle_call calls (new_delayed d) = windows d calls"
proof (induction d calls rule: windows.induct)
  case (2 d t x calls)
  then show ?case
    by (simp add: new_delayed_def until_def throttle_call_def [of t x] throttle_window Let_def)
qed (simp add: new_delayed_def delayed_timeout_def)

section \<open>Properties of the utilities\<close>

text \<open>What is found lies at most \<open>depth - level + 1\<close> names below the base, matches, and is a file.\<close>

lemma file_find_sound:
  "p \<in> set (file_find pattern base level depth max_per_dir file_count es) \<Longrightarrow> level \<le> depth \<Longrightarrow>
    \<exists>rel. p = base @ rel \<and> rel \<noteq> [] \<and> pattern (last rel) \<and> int (length rel) \<le> depth - level + 1"
proof (induction pattern base level depth max_per_dir file_count es arbitrary: p rule: file_find.induct)
  case (3 pattern base level depth max_per_dir file_count fn readable sub es)
  show ?case
  proof (cases "p \<in> set (file_find pattern base level depth max_per_dir (file_count + 1) es) \<and> \<not> file_count + 1 > max_per_dir")
    case True
    with 3 show ?thesis by simp
  next
    case False
    with "3.prems" have *: "\<not> file_count + 1 > max_per_dir" "readable \<and> level + 1 \<le> depth"
      "p \<in> set (file_find pattern (base @ [fn]) (level + 1) depth max_per_dir 0 sub)" by (auto split: if_splits)
    then obtain rel where "p = (base @ [fn]) @ rel" "rel \<noteq> []" "pattern (last rel)" "int (length rel) \<le> depth - (level + 1) + 1"
      using "3.IH"(1) [OF * (1) *(2) *(3)] by auto
    then show ?thesis by (intro exI [of _ "fn # rel"]) auto
  qed
qed (auto split: if_splits)

text \<open>The unit is the largest one below the number, up to terabytes.\<close>

lemma next_unit_scale:
  assumes "next_unit us unit n = (m, u)" and "0 \<le> n"
  shows "\<exists>k \<le> length us. n = m * 1024 ^ k \<and> u = (unit # us) ! k \<and> (k < length us \<longrightarrow> m < 1024) \<and> (0 < k \<longrightarrow> 1 \<le> m)"
  using assms
proof (induction us unit n rule: next_unit.induct)
  case (2 v us unit n)
  show ?case
  proof (cases "n \<ge> 1024")
    case True
    with 2 obtain k where k: "k \<le> length us" "n / 1024 = m * 1024 ^ k" "u = (v # us) ! k" "k < length us \<longrightarrow> m < 1024" "0 < k \<longrightarrow> 1 \<le> m"
      by auto
    with True have "1 \<le> m" by (cases k) auto
    with k show ?thesis by (intro exI [of _ "Suc k"]) (auto simp: field_simps)
  qed (use 2 in auto)
qed auto

text \<open>Setting a value is read back, saved, and announced unless it is the value already there.\<close>

lemma config_round_trip:
  "config_get key (config_set key v c) = v"
  "key' \<noteq> key \<Longrightarrow> config_get key' (config_set key v c) = config_get key' c"
  "cf_changed (config_set key v c) = (if config_get key c = v then cf_changed c else cf_changed c @ [key])"
  "cf_file c = cf_settings c \<Longrightarrow> cf_file (config_set key v c) = cf_settings (config_set key v c)"
  "config_get key (reset_to_defaults c) = snd (config_directive key)"
  by (cases key; cases key'; simp add: config_set_def config_get_def config_sync_def Let_def reset_to_defaults_def)+

lemma file_round_trip:
  "file_write allowed p x d = (True, d') \<Longrightarrow> file_open (\<lambda>_. True) d' p = x \<and> file_exists d' p"
  by (auto simp: file_write_def file_open_def file_exists_def split: if_splits)

end
