(* ===== verification/Spec2Isabelle.thy ===== *)
theory Spec2Isabelle
  imports Peer_Limits Faults Wire Web_Safety Framing Access History Python_Hooks Search_Client Toolbox
begin

text \<open>
  A verification development of chatripper, an IRC server in C++ on Qt (\<open>src/src/\<close>).

  \<^bold>\<open>The program.\<close> A pool of threads accepts TCP and web-socket connections
  (\<open>irc/threaded_server.cpp\<close>, \<open>irc/worker.cpp\<close>); each connection
  (\<open>irc/client_connection.cpp\<close>) cuts its bytes into lines and runs a handler per command.
  Handlers act on accounts, channels and their metadata (\<open>core/\<close>), which the context
  (\<open>ctx.cpp\<close>) finds by nick, name and UUID, and post calls to other connections. Python
  modules may look at an event before it takes effect (\<open>python/manager.cpp\<close>). A web server
  (\<open>web/\<close>) offers login, lists and uploads to the same accounts; PostgreSQL keeps them
  (\<open>lib/sql.cpp\<close>), with passwords hashed by bcrypt (\<open>lib/bcrypt/\<close>).

  \<^bold>\<open>The theories.\<close>
  \<^item> \<open>Prelude\<close>: byte arrays, the Qt containers, faults and results, shared lemmas.
  \<^item> \<open>Bitflags\<close>, \<open>Modes\<close>: \<open>Flags<E>\<close> (\<open>lib/bitflags.h\<close>) and the enumerations of
    \<open>irc/modes.h\<close>, \<open>irc/caps.h\<close>. \<open>Irc_Utils\<close>: \<open>irc/utils.cpp\<close>, nicks, lines, tags.
  \<^item> \<open>World\<close>: the objects and the whole state as records, the parameters of the model (\<open>env\<close>)
    and the primitives of a connection. \<open>Caches\<close>: the tables of \<open>ctx.cpp\<close>. \<open>Delivery\<close>:
    sending to a connection. \<open>Account\<close>, \<open>Channel\<close>, \<open>Metadata_Store\<close>: \<open>core/account.cpp\<close>,
    \<open>channel.cpp\<close>, \<open>metadata.cpp\<close>. \<open>Registration\<close>, \<open>Commands\<close>, \<open>Dispatcher\<close>: the handlers
    of \<open>client_connection.cpp\<close>, the parser of a line and the read loop.
  \<^item> \<open>Threaded_Server\<close>: the pool. \<open>Snake_Pit\<close>: the manager of the Python modules.
  \<^item> \<open>Serialize\<close>, \<open>Objects\<close>, \<open>Servers\<close>: JSON and variant maps, servers, roles, uploads and
    permissions. \<open>Rate_Limiter\<close>, \<open>Sessions\<close>, \<open>Web_Routes\<close>: the web server.
  \<^item> \<open>Blowfish\<close>, \<open>Cipher_Modes\<close>, \<open>Bcrypt\<close>: \<open>lib/bcrypt/\<close>.
  \<^item> \<open>Database\<close>: the schema of \<open>lib/sql.cpp\<close> (\<open>create_schema\<close>) as records, the constraints of
    PostgreSQL it declares, and the statements the code prepares as functions on them: a statement
    fails exactly when its result would break a constraint. \<open>Sql_Metadata\<close>, \<open>Sql_Accounts\<close>,
    \<open>Sql_Channels\<close>, \<open>Sql_Servers\<close>: the functions of \<open>lib/sql.cpp\<close> over these statements, next to
    the operations of \<open>core/\<close> that call them. \<open>Startup\<close>: the preload file and the loading of the
    database in \<open>Ctx::Ctx\<close>.
  \<^item> \<open>Python_Values\<close>, \<open>Python_Events\<close>, \<open>Python_Modules\<close>, \<open>Python_Hooks\<close>: the bridge to Python
    (\<open>python/interpreter.cpp\<close>, \<open>utils.cpp\<close>, \<open>type_registry.cpp\<close>, \<open>module.cpp\<close>) and the Python side
    of it (\<open>python/qircd/\<close>): values of Qt and of Python and their conversions, the properties of events
    and the dataclasses made of them, the write-back of what a handler changed, the listing, enabling
    and disabling of modules, and a call of the handlers as the result of an event.
  \<^item> \<open>Boot\<close>: \<open>main.cpp\<close>, \<open>lib/globals.cpp\<close> and the first part of \<open>Ctx::Ctx\<close>: options, paths,
    directories, default files, ports. \<open>Search_Client\<close>: \<open>lib/meilisearch.cpp\<close>, its requests in flight
    and their timers. \<open>Toolbox\<close>: \<open>lib/utils.cpp\<close>, \<open>config.cpp\<close>, \<open>debounce.h\<close>.
  \<^item> \<open>Sample\<close>: a concrete world for the witnesses.

  \<^bold>\<open>What is shown.\<close>
  \<^item> \<open>Invariants\<close>, \<open>Safety\<close>: \<open>server_step\<close> is the step relation of the whole IRC side; in every
    reachable world accounts and connections are linked both ways and parsing a line follows no
    pointer to a destroyed connection and ends in no uncaught exception, unless it authenticates a
    connection whose account is anonymous (the case where it does is in \<open>Faults\<close>).
  \<^item> \<open>Lifecycle\<close>, \<open>Access\<close>: registration completes; who may run which command; the password of the
    server; AUTHENTICATE, CAP REQ and METADATA.
  \<^item> \<open>Messaging\<close>, \<open>Nicks\<close>, \<open>Membership\<close>: who receives what, and what changes with it.
  \<^item> \<open>Wire\<close>, \<open>Framing\<close>: round trips of lines and tags, bounds of replies, the read loop against a
    reference that splits at line feeds.
  \<^item> \<open>Peer_Limits\<close>, \<open>Round_Robin\<close>, \<open>Snake_Pit\<close>: the limit per address, the spread over workers, the
    set of active events.
  \<^item> \<open>Servers\<close>: loading rows refines a map from UUIDs. \<open>Rate_Limiter\<close>, \<open>Sessions\<close>,
    \<open>Web_Safety\<close>: limits, life of a session, login, uploads confined to one directory.
  \<^item> \<open>Cipher_Modes\<close>, \<open>Bcrypt\<close>: decryption undoes encryption, a hash accepts its password.
  \<^item> \<open>Sql_Metadata\<close>, \<open>Sql_Accounts\<close>, \<open>Sql_Channels\<close>, \<open>Sql_Servers\<close>: what a write leaves in the
    tables and what it cannot store; a created account logs in; reading in pages reads every row.
  \<^item> \<open>Startup\<close>: the tables of the context after loading refine the rows of the database.
    \<open>History\<close>: every sequence of writes keeps the schema's invariant, and starting on such a
    database never fails.
  \<^item> \<open>Python_Values\<close>, \<open>Python_Events\<close>: the values that survive the way to Python and back; after a
    handler the event has exactly the assignments the handler made. \<open>Python_Modules\<close>: what the program
    learns about the modules, and that no event is ever given to one. \<open>Python_Hooks\<close>: what a handler can
    decide about a join, a message and a login.
  \<^item> \<open>Boot\<close>: what of the command line has an effect, and the disk after a start.
    \<open>Search_Client\<close>: every search is answered exactly once. \<open>Toolbox\<close>: a debounced and a throttled
    function against references that cut the calls into bursts and windows.
  \<^item> \<open>Faults\<close>: the runs that end in a fault.

  \<^bold>\<open>Interfaces.\<close> \<open>flag_enum\<close> (bit sets), \<open>object_cache\<close> and \<open>named_cache\<close> (the tables of the
  context), \<open>kv_store\<close> (sorted maps), \<open>row_loader\<close> (objects made of rows), \<open>block_cipher\<close> and the
  others are locales; each is interpreted on the definitions of the component that provides it.

  \<^bold>\<open>Conventions.\<close> A function that can fault returns \<open>fault + 'a\<close>. Threads are steps of one
  sequence: the code runs handlers under locks and posts calls to other threads, which \<open>w_queue\<close>
  holds until \<open>run_queue\<close> runs them. Qt's iteration order of a hash is the order of an association
  list, of which nothing is assumed. \<open>drain_buffer\<close> has the length of the buffer as fuel, of which
  each round takes a byte; \<open>Framing\<close> shows that it is enough. 32- and 64-bit arithmetic that can
  wrap is on words; counters that the code cannot bring near a bound are \<open>nat\<close> or \<open>int\<close>.

  \<^bold>\<open>Parameters.\<close> \<open>env\<close> holds what is outside the sources: Unicode tables and decoding of Qt, results of
  Python handlers, \<open>createUuid\<close>, the clock, the message of the day. \<open>web_env\<close> holds the JSON parser,
  the file system and the random generator of the web server. \<open>sql_env\<close> and \<open>sql_driver\<close> hold
  what the Qt driver and PostgreSQL decide: how a byte array is bound as text, what a null UUID is
  bound as, the JSON of a list of tags, the clock and the UUIDs of the database. \<open>py_conv\<close> holds Qt's
  conversions of numbers, dates and UUIDs to text and back; \<open>python_env\<close> gives the parameters of
  \<open>env\<close> that stand for Python handlers the values the bridge computes from a set of modules.
  \<open>ms_env\<close> holds Qt's JSON, URLs and UUIDs for the search client.

  \<^bold>\<open>Not modelled.\<close> Of the Python bridge what belongs to CPython: reference counts, the interpreter
  lock, the error indicator after a failed conversion, the start and restart of interpreters and the
  execution of module files (a module is a record of its handlers); text with lone surrogates;
  dataclasses that modules declare themselves. Of \<open>lib/utils.cpp\<close> the functions that only ask the
  operating system (ports, clock, temporary names, text mode). The timing log of \<open>logger_std\<close>.
  \<open>lib/nameof.hpp\<close> is a third-party header. Of \<open>ctx.cpp\<close> the start of the web server's thread
  and the queue of messages that nothing reads. Of \<open>lib/sql.cpp\<close> the connection per thread, which
  is taken to be up, and the log of failed statements. Data races: two handlers of different threads
  inside one method at a time.
\<close>

end
